(* ===== verification/Lifecycle_Prelude.thy ===== *)
theory Lifecycle_Prelude
  imports Main "HOL-Library.AList"
begin

text \<open>
  Shared material of the development: the error type and the result type every partial
  function of the program returns, the two combinators the models are written with,
  JavaScript's insertion-ordered \<open>Map\<close>, and the locale of a state machine that replays
  a list of events and stops at the first exception.
\<close>

section \<open>Errors and results\<close>

text \<open>
  A constructor per module that throws (\<open>fail\<close> of that module in the source); its
  argument is the part of the error code that follows the module's own prefix, so
  \<open>DeliveryReducer ''order''\<close> is the \<open>FoundationError\<close> whose code is
  \<open>lifecycle.delivery-reducer.order\<close>. Messages are not modelled.
  \<open>JsTypeError\<close> is the exception of reading a member of \<open>undefined\<close> or \<open>null\<close>.
\<close>

datatype error =
    DeliveryReducer string
  | DeliveryEvent string
  | DeliveryOperation string
  | DeliveryRecovery string
  | ControlRecordStore string
  | WorkDelegation string
  | WorkDelegationStop
  | WorkDelegationExecution string
  | TransactionFacts string
  | IntegrationInvalid
  | FoundationValue string
  | CanonicalJson string
  | SchemaInvalid string
  | ControlPolicy string
  | StrictJson string
  | EvidencePacket string
  | JsTypeError

type_synonym 'a res = "error + 'a"

definition bindE :: "'a res \<Rightarrow> ('a \<Rightarrow> 'b res) \<Rightarrow> 'b res" where
  "bindE m f = (case m of Inl e \<Rightarrow> Inl e | Inr x \<Rightarrow> f x)"

text \<open>\<open>failIf c e k\<close> is the statement \<open>if (c) fail(e);\<close> followed by \<open>k\<close>.\<close>

definition failIf :: "bool \<Rightarrow> error \<Rightarrow> 'a res \<Rightarrow> 'a res" where
  "failIf c e k = (if c then Inl e else k)"

fun mapE :: "('a \<Rightarrow> 'b res) \<Rightarrow> 'a list \<Rightarrow> 'b list res" where
  "mapE f [] = Inr []"
| "mapE f (x # xs) = bindE (f x) (\<lambda>y. bindE (mapE f xs) (\<lambda>ys. Inr (y # ys)))"

fun foldE :: "('s \<Rightarrow> 'a \<Rightarrow> 's res) \<Rightarrow> 's \<Rightarrow> 'a list \<Rightarrow> 's res" where
  "foldE f s [] = Inr s"
| "foldE f s (x # xs) = bindE (f s x) (\<lambda>s'. foldE f s' xs)"

named_theorems res_simps \<open>inversion of successful results\<close>
named_theorems handler_defs \<open>definitions of the event handlers\<close>

lemma bindE_simps [simp]:
  "bindE (Inl e) f = Inl e"
  "bindE (Inr x) f = f x"
  by (simp_all add: bindE_def)

lemma failIf_simps [simp]:
  "failIf True e k = Inl e"
  "failIf False e k = k"
  by (simp_all add: failIf_def)

lemma bindE_eq_Inr [res_simps]:
  "bindE m f = Inr y \<longleftrightarrow> (\<exists>x. m = Inr x \<and> f x = Inr y)"
  by (simp add: bindE_def split: sum.splits)

lemma failIf_eq_Inr [res_simps]: "failIf c e k = Inr y \<longleftrightarrow> \<not> c \<and> k = Inr y"
  by (simp add: failIf_def)

lemma bindE_cong [fundef_cong]:
  "m = m' \<Longrightarrow> (\<And>x. m' = Inr x \<Longrightarrow> f x = g x) \<Longrightarrow> bindE m f = bindE m' g"
  by (simp add: bindE_def split: sum.splits)

lemma failIf_cong [fundef_cong]:
  "c = c' \<Longrightarrow> e = e' \<Longrightarrow> (\<not> c' \<Longrightarrow> k = k') \<Longrightarrow> failIf c e k = failIf c' e' k'"
  by (simp add: failIf_def)

lemma mapE_cong [fundef_cong]:
  "xs = ys \<Longrightarrow> (\<And>x. x \<in> set ys \<Longrightarrow> f x = g x) \<Longrightarrow> mapE f xs = mapE g ys"
  by (induction ys arbitrary: xs) auto

lemma if_Inl_eq_Inr [res_simps]:
  "(if c then Inl e else k) = Inr y \<longleftrightarrow> \<not> c \<and> k = Inr y"
  "(if c then k else Inl e) = Inr y \<longleftrightarrow> c \<and> k = Inr y"
  by simp_all

lemma mapE_Inr_length: "mapE f xs = Inr ys \<Longrightarrow> length ys = length xs"
  by (induction xs arbitrary: ys) (auto simp: res_simps)

lemma mapE_Inr_all: "mapE f xs = Inr ys \<Longrightarrow> y \<in> set ys \<Longrightarrow> \<exists>x \<in> set xs. f x = Inr y"
  by (induction xs arbitrary: ys) (auto simp: res_simps)

lemma foldE_append: "foldE f s (xs @ ys) = bindE (foldE f s xs) (\<lambda>s'. foldE f s' ys)"
  by (induction xs arbitrary: s) (auto simp: bindE_def split: sum.splits)

section \<open>JavaScript's insertion-ordered Map\<close>

text \<open>
  A \<open>Map\<close> iterates in the order its keys were first set; setting an existing key
  keeps its place. That is the association list with \<open>AList.update\<close>. The locale states
  what the clients rely on; the interpretation below proves it of the association list.
\<close>

locale js_map =
  fixes get :: "'m \<Rightarrow> 'k \<Rightarrow> 'v option"
    and put :: "'k \<Rightarrow> 'v \<Rightarrow> 'm \<Rightarrow> 'm"
    and entries :: "'m \<Rightarrow> ('k \<times> 'v) list"
    and wf :: "'m \<Rightarrow> bool"
  assumes get_put: "get (put k v m) = (get m)(k \<mapsto> v)"
    and wf_put: "wf m \<Longrightarrow> wf (put k v m)"
    and keys_put: "map fst (entries (put k v m)) =
          (if get m k = None then map fst (entries m) @ [k] else map fst (entries m))"
    and get_entries: "wf m \<Longrightarrow> get m k = Some v \<longleftrightarrow> (k, v) \<in> set (entries m)"
begin

lemma get_put_same: "get (put k v m) k = Some v"
  by (simp add: get_put)

lemma get_put_other: "k' \<noteq> k \<Longrightarrow> get (put k v m) k' = get m k'"
  by (simp add: get_put)

lemma values_put:
  assumes "wf m"
  shows "(k', v') \<in> set (entries (put k v m)) \<longleftrightarrow>
    (if k' = k then v' = v else (k', v') \<in> set (entries m))"
  using assms by (auto simp: get_entries [symmetric] wf_put get_put split: if_splits)

lemma all_values_put:
  assumes "wf m" and "\<forall>(k', v') \<in> set (entries m). k' \<noteq> k \<longrightarrow> P k' v'" and "P k v"
  shows "\<forall>(k', v') \<in> set (entries (put k v m)). P k' v'"
  using assms(2,3) values_put [OF assms(1)] by (auto split: if_splits)

end

type_synonym 'v jsmap = "(string \<times> 'v) list"

definition jsmap_wf :: "'v jsmap \<Rightarrow> bool" where
  "jsmap_wf m \<longleftrightarrow> distinct (map fst m)"

lemma keys_AList_update:
  "map fst (AList.update k v m) = (if map_of m k = None then map fst m @ [k] else map fst m)"
  by (induction m) auto

interpretation activity_map: js_map map_of AList.update "\<lambda>m :: 'v jsmap. m" jsmap_wf
proof (unfold_locales, goal_cases)
  case (1 k v m)
  show ?case by (rule update_conv')
next
  case (2 m k v)
  then show ?case by (simp add: jsmap_wf_def distinct_update)
next
  case (3 k v m)
  show ?case by (rule keys_AList_update)
next
  case (4 m k v)
  then show ?case by (simp add: jsmap_wf_def map_of_eq_Some_iff)
qed

section \<open>Replaying a list of events\<close>

text \<open>
  A machine that consumes events one by one, stopping at the first exception, and an
  invariant that each successful step keeps.
\<close>

locale event_replay =
  fixes step :: "'s \<Rightarrow> 'e \<Rightarrow> 's res"
    and inv :: "'s \<Rightarrow> bool"
  assumes step_inv: "inv s \<Longrightarrow> step s e = Inr s' \<Longrightarrow> inv s'"
begin

lemma run_inv: "inv s \<Longrightarrow> foldE step s es = Inr s' \<Longrightarrow> inv s'"
  by (induction es arbitrary: s) (auto simp: res_simps intro: step_inv)

lemma prefix_inv:
  assumes "inv s" and "foldE step s (es @ es') = Inr s'"
  shows "\<exists>t. foldE step s es = Inr t \<and> inv t \<and> foldE step t es' = Inr s'"
  using assms by (auto simp: foldE_append res_simps intro: run_inv)

end

text \<open>A machine whose steps are moreover related by a preorder, under the invariant.\<close>

locale monotone_replay = event_replay +
  fixes le :: "'a \<Rightarrow> 'a \<Rightarrow> bool"
  assumes le_refl: "le s s"
    and le_trans: "le s t \<Longrightarrow> le t u \<Longrightarrow> le s u"
    and step_le: "inv s \<Longrightarrow> step s e = Inr s' \<Longrightarrow> le s s'"
begin

lemma run_le: "inv s \<Longrightarrow> foldE step s es = Inr s' \<Longrightarrow> le s s'"
proof (induction es arbitrary: s)
  case Nil
  then show ?case by (simp add: le_refl)
next
  case (Cons e es)
  then obtain t where "step s e = Inr t" "foldE step t es = Inr s'"
    by (auto simp: res_simps)
  with Cons show ?case by (blast intro: le_trans step_le step_inv)
qed

end

end
