(* ===== verification/Js_Values.thy ===== *)
theory Js_Values
  imports Lifecycle_Prelude
begin

text \<open>
  JavaScript values the program computes with: JSON values, the string patterns and
  bounds of identifiers, digests and Git names, integers in the safe range, and the
  timestamps of \<open>Date\<close>. A string is its UTF-8 encoding, a list of bytes (\<open>char\<close>), so
  \<open>length\<close> is \<open>Buffer.byteLength\<close> and equality is the program's. An object lists its
  members in insertion order; keys are distinct (\<open>wf_json\<close>), as in every JavaScript object.
  A number is integral (\<open>JInt\<close>, of any size, \<open>-0\<close> being \<open>0\<close> as for \<open>===\<close>) or a finite
  non-integral one (\<open>JFrac\<close>), carried by its ECMAScript decimal text.
\<close>

section \<open>JSON values\<close>

datatype json =
    JNull
  | JBool bool
  | JInt int
  | JFrac string
  | JStr string
  | JArr "json list"
  | JObj "(string \<times> json) list"

type_synonym jobject = "(string \<times> json) list"

fun wf_json :: "json \<Rightarrow> bool" where
  "wf_json (JArr vs) \<longleftrightarrow> (\<forall>v \<in> set vs. wf_json v)"
| "wf_json (JObj ms) \<longleftrightarrow> distinct (map fst ms) \<and> (\<forall>m \<in> set ms. wf_json (snd m))"
| "wf_json _ \<longleftrightarrow> True"

text \<open>\<open>Object.hasOwn(o, k)\<close> and \<open>o[k]\<close>, where \<open>None\<close> is \<open>undefined\<close>.\<close>

definition hasOwn :: "jobject \<Rightarrow> string \<Rightarrow> bool" where
  "hasOwn ms k \<longleftrightarrow> map_of ms k \<noteq> None"

definition member :: "json option \<Rightarrow> string \<Rightarrow> json option res" where
  "member v k = (case v of
       None \<Rightarrow> Inl JsTypeError
     | Some JNull \<Rightarrow> Inl JsTypeError
     | Some (JObj ms) \<Rightarrow> Inr (map_of ms k)
     | Some _ \<Rightarrow> Inr None)"

text \<open>
  \<open>===\<close> of two values taken from different records: objects and arrays have their own
  identity there, so two of them are never strictly equal.
\<close>

fun js_strict_eq :: "json option \<Rightarrow> json option \<Rightarrow> bool" where
  "js_strict_eq (Some (JArr _)) _ = False"
| "js_strict_eq (Some (JObj _)) _ = False"
| "js_strict_eq a b = (a = b)"

text \<open>\<open>Number.isSafeInteger\<close> of a number that is integral.\<close>

definition safe_integer :: "int \<Rightarrow> bool" where
  "safe_integer n \<longleftrightarrow> \<bar>n\<bar> \<le> 9007199254740991"

text \<open>
  \<open>Object.keys(o).sort()\<close> equals the sorted expected keys: the same keys, as keys are
  distinct on both sides.
\<close>

definition exact_keys :: "jobject \<Rightarrow> string list \<Rightarrow> bool" where
  "exact_keys ms keys \<longleftrightarrow>
     length ms = length keys \<and> (\<forall>k \<in> set keys. k \<in> set (map fst ms)) \<and>
     (\<forall>k \<in> set (map fst ms). k \<in> set keys)"

lemma hasOwn_iff: "hasOwn ms k \<longleftrightarrow> k \<in> fst ` set ms"
  by (simp add: hasOwn_def map_of_eq_None_iff)

lemma exact_keys_hasOwn: "exact_keys ms keys \<Longrightarrow> k \<in> set keys \<Longrightarrow> \<exists>v. map_of ms k = Some v"
  by (metis exact_keys_def hasOwn_def hasOwn_iff list.set_map option.exhaust)

lemma js_strict_eq_Some_JStr [simp]: "js_strict_eq v (Some (JStr s)) \<longleftrightarrow> v = Some (JStr s)"
  by (cases "(v, Some (JStr s))" rule: js_strict_eq.cases) auto

lemma js_strict_eq_imp_eq: "js_strict_eq a b \<Longrightarrow> a = b"
  by (induction a b rule: js_strict_eq.induct) auto

section \<open>Characters and patterns\<close>

abbreviation code :: "char \<Rightarrow> nat" where
  "code c \<equiv> of_char c"

definition is_digit :: "char \<Rightarrow> bool" where
  "is_digit c \<longleftrightarrow> 48 \<le> code c \<and> code c \<le> 57"

definition is_lower :: "char \<Rightarrow> bool" where
  "is_lower c \<longleftrightarrow> 97 \<le> code c \<and> code c \<le> 122"

definition is_upper :: "char \<Rightarrow> bool" where
  "is_upper c \<longleftrightarrow> 65 \<le> code c \<and> code c \<le> 90"

definition is_alnum :: "char \<Rightarrow> bool" where
  "is_alnum c \<longleftrightarrow> is_digit c \<or> is_lower c \<or> is_upper c"

definition is_hex_lower :: "char \<Rightarrow> bool" where
  "is_hex_lower c \<longleftrightarrow> is_digit c \<or> 97 \<le> code c \<and> code c \<le> 102"

text \<open>\<open>/^[A-Za-z0-9][A-Za-z0-9._:-]*$/\<close>\<close>

definition id_char :: "char \<Rightarrow> bool" where
  "id_char c \<longleftrightarrow> is_alnum c \<or> c = CHR ''.'' \<or> c = CHR ''_'' \<or> c = CHR '':'' \<or> c = CHR ''-''"

fun id_pattern :: "string \<Rightarrow> bool" where
  "id_pattern [] = False"
| "id_pattern (c # cs) = (is_alnum c \<and> list_all id_char cs)"

text \<open>\<open>/^sha256:[a-f0-9]{64}$/\<close>\<close>

definition sha256_pattern :: "string \<Rightarrow> bool" where
  "sha256_pattern s \<longleftrightarrow>
     take 7 s = ''sha256:'' \<and> length s = 71 \<and> list_all is_hex_lower (drop 7 s)"

text \<open>\<open>/^[a-z][a-z0-9]*(?:-[a-z0-9]+)*$/\<close>\<close>

fun kebab_tail :: "bool \<Rightarrow> string \<Rightarrow> bool" where
  "kebab_tail after_hyphen [] = (\<not> after_hyphen)"
| "kebab_tail after_hyphen (c # cs) =
     (if is_lower c \<or> is_digit c then kebab_tail False cs
      else c = CHR ''-'' \<and> \<not> after_hyphen \<and> kebab_tail True cs)"

fun relation_pattern :: "string \<Rightarrow> bool" where
  "relation_pattern [] = False"
| "relation_pattern (c # cs) = (is_lower c \<and> kebab_tail False cs)"

text \<open>
  \<open>/^(?:behavior|assurance|blueprint|description|check|discipline)(?:\.[a-z0-9]+(?:-[a-z0-9]+)*)+$/\<close>:
  after the family, runs of lower-case letters and digits, the first introduced by a dot
  and each other one by a dot or a hyphen.
\<close>

fun knowledge_tail :: "bool \<Rightarrow> string \<Rightarrow> bool" where
  "knowledge_tail after_sep [] = (\<not> after_sep)"
| "knowledge_tail after_sep (c # cs) =
     (if is_lower c \<or> is_digit c then knowledge_tail False cs
      else (c = CHR ''.'' \<or> c = CHR ''-'') \<and> \<not> after_sep \<and> knowledge_tail True cs)"

definition knowledge_pattern :: "string \<Rightarrow> bool" where
  "knowledge_pattern s \<longleftrightarrow>
     list_ex (\<lambda>family. take (Suc (length family)) s = family @ ''.'' \<and>
         knowledge_tail True (drop (Suc (length family)) s))
       [''behavior'', ''assurance'', ''blueprint'', ''description'', ''check'', ''discipline'']"

text \<open>\<open>/^[a-f0-9]{40}(?:[a-f0-9]{24})?$/\<close> and \<open>/^refs\/heads\/[A-Za-z0-9][A-Za-z0-9._\/-]*$/\<close>\<close>

definition git_object_pattern :: "string \<Rightarrow> bool" where
  "git_object_pattern s \<longleftrightarrow> (length s = 40 \<or> length s = 64) \<and> list_all is_hex_lower s"

definition ref_char :: "char \<Rightarrow> bool" where
  "ref_char c \<longleftrightarrow> is_alnum c \<or> c = CHR ''.'' \<or> c = CHR ''_'' \<or> c = CHR ''/'' \<or> c = CHR ''-''"

definition git_ref_pattern :: "string \<Rightarrow> bool" where
  "git_ref_pattern s \<longleftrightarrow> take 11 s = ''refs/heads/'' \<and>
     (case drop 11 s of [] \<Rightarrow> False | c # cs \<Rightarrow> is_alnum c \<and> list_all ref_char cs)"

section \<open>Timestamps\<close>

text \<open>
  \<open>date_parse\<close> is \<open>Date.parse\<close> on the two spellings \<open>controlTimestamp\<close> admits,
  \<open>toISOString()\<close> and the same without its zero milliseconds: the milliseconds since
  1970 in UTC, \<open>None\<close> for \<open>NaN\<close>. Years outside 0 to 9999 are written with a sign and six
  digits, and the time value is at most 8.64e15 in size, as ECMAScript prescribes.
\<close>

fun digits_value :: "nat \<Rightarrow> string \<Rightarrow> nat option" where
  "digits_value n [] = Some n"
| "digits_value n (c # cs) =
     (if is_digit c then digits_value (10 * n + (code c - 48)) cs else None)"

definition leap_year :: "int \<Rightarrow> bool" where
  "leap_year y \<longleftrightarrow> y mod 4 = 0 \<and> (y mod 100 \<noteq> 0 \<or> y mod 400 = 0)"

definition days_in_month :: "int \<Rightarrow> nat \<Rightarrow> nat" where
  "days_in_month y m =
     (if m = 2 then (if leap_year y then 29 else 28)
      else if m = 4 \<or> m = 6 \<or> m = 9 \<or> m = 11 then 30 else 31)"

definition days_from_civil :: "int \<Rightarrow> nat \<Rightarrow> nat \<Rightarrow> int" where
  "days_from_civil y m d =
     (let y' = (if m \<le> 2 then y - 1 else y);
          era = y' div 400;
          yoe = y' - era * 400;
          mp = (if m > 2 then int m - 3 else int m + 9);
          doy = (153 * mp + 2) div 5 + int d - 1;
          doe = yoe * 365 + yoe div 4 - yoe div 100 + doy
      in era * 146097 + doe - 719468)"

definition iso_year :: "string \<Rightarrow> (int \<times> string) option" where
  "iso_year s = (case s of
       [] \<Rightarrow> None
     | c # cs \<Rightarrow>
         if c = CHR ''+'' \<or> c = CHR ''-'' then
           (if length cs < 6 then None else
            case digits_value 0 (take 6 cs) of
              None \<Rightarrow> None
            | Some n \<Rightarrow>
                let y = (if c = CHR ''-'' then - int n else int n)
                in if 0 \<le> y \<and> y \<le> 9999 then None else Some (y, drop 6 cs))
         else if length s < 4 then None else
            map_option (\<lambda>n. (int n, drop 4 s)) (digits_value 0 (take 4 s)))"

definition two_digits :: "string \<Rightarrow> nat option" where
  "two_digits s = (if length s < 2 then None else digits_value 0 (take 2 s))"

definition iso_time_ms :: "int \<Rightarrow> nat \<Rightarrow> nat \<Rightarrow> nat \<Rightarrow> nat \<Rightarrow> nat \<Rightarrow> nat \<Rightarrow> int option" where
  "iso_time_ms y mo d h mi s ms =
     (if 1 \<le> mo \<and> mo \<le> 12 \<and> 1 \<le> d \<and> d \<le> days_in_month y mo \<and> h < 24 \<and> mi < 60 \<and> s < 60
      then let t = days_from_civil y mo d * 86400000 + int (h * 3600000 + mi * 60000 + s * 1000 + ms)
           in if \<bar>t\<bar> \<le> 8640000000000000 then Some t else None
      else None)"

definition iso_milliseconds :: "string \<Rightarrow> nat option" where
  "iso_milliseconds s =
     (if s = ''Z'' then Some 0
      else if length s = 5 \<and> take 1 s = ''.'' \<and> drop 4 s = ''Z''
        then digits_value 0 (take 3 (drop 1 s))
      else None)"

definition date_parse :: "string \<Rightarrow> int option" where
  "date_parse s = (case iso_year s of
       None \<Rightarrow> None
     | Some (y, r) \<Rightarrow>
         if length r < 15 \<or> take 1 r \<noteq> ''-'' \<or> take 1 (drop 3 r) \<noteq> ''-'' \<or> take 1 (drop 6 r) \<noteq> ''T'' \<or>
            take 1 (drop 9 r) \<noteq> '':'' \<or> take 1 (drop 12 r) \<noteq> '':''
         then None
         else case (two_digits (drop 1 r), two_digits (drop 4 r), two_digits (drop 7 r),
                    two_digits (drop 10 r), two_digits (drop 13 r), iso_milliseconds (drop 15 r)) of
             (Some mo, Some d, Some h, Some mi, Some sec, Some ms) \<Rightarrow> iso_time_ms y mo d h mi sec ms
           | _ \<Rightarrow> None)"

text \<open>Comparisons with \<open>NaN\<close> are false.\<close>

fun js_less :: "int option \<Rightarrow> int option \<Rightarrow> bool" where
  "js_less (Some a) (Some b) = (a < b)"
| "js_less _ _ = False"

fun js_less_eq :: "int option \<Rightarrow> int option \<Rightarrow> bool" where
  "js_less_eq (Some a) (Some b) = (a \<le> b)"
| "js_less_eq _ _ = False"

section \<open>Ordering\<close>

text \<open>
  \<open>compareCodePoints\<close>: the order of Unicode scalar values, which is the order of the
  UTF-8 bytes.
\<close>

fun compareCodePoints :: "string \<Rightarrow> string \<Rightarrow> int" where
  "compareCodePoints [] [] = 0"
| "compareCodePoints [] (_ # _) = -1"
| "compareCodePoints (_ # _) [] = 1"
| "compareCodePoints (a # as) (b # bs) =
     (if code a < code b then -1 else if code b < code a then 1 else compareCodePoints as bs)"

text \<open>\<open>Array.prototype.sort\<close> is stable; the model inserts from the right.\<close>

fun insert_by :: "('a \<Rightarrow> 'a \<Rightarrow> bool) \<Rightarrow> 'a \<Rightarrow> 'a list \<Rightarrow> 'a list" where
  "insert_by le x [] = [x]"
| "insert_by le x (y # ys) = (if le x y then x # y # ys else y # insert_by le x ys)"

definition sort_by :: "('a \<Rightarrow> 'a \<Rightarrow> bool) \<Rightarrow> 'a list \<Rightarrow> 'a list" where
  "sort_by le xs = foldr (insert_by le) xs []"

definition sortUniqueCodePoints :: "string list \<Rightarrow> string list" where
  "sortUniqueCodePoints values =
     sort_by (\<lambda>a b. compareCodePoints a b \<le> 0) (rev (remdups (rev values)))"

lemma set_insert_by [simp]: "set (insert_by le x xs) = insert x (set xs)"
  by (induction xs) auto

lemma set_sort_by [simp]: "set (sort_by le xs) = set xs"
  by (induction xs) (auto simp: sort_by_def)

lemma length_insert_by [simp]: "length (insert_by le x xs) = Suc (length xs)"
  by (induction xs) auto

lemma length_sort_by [simp]: "length (sort_by le xs) = length xs"
  by (induction xs) (auto simp: sort_by_def)

lemma compareCodePoints_eq_0 [simp]: "compareCodePoints a b = 0 \<longleftrightarrow> a = b"
  by (induction a b rule: compareCodePoints.induct) auto

lemma compareCodePoints_antisym: "compareCodePoints a b + compareCodePoints b a = 0"
  by (induction a b rule: compareCodePoints.induct) auto

lemma compareCodePoints_trans:
  "compareCodePoints a b \<le> 0 \<Longrightarrow> compareCodePoints b c \<le> 0 \<Longrightarrow> compareCodePoints a c \<le> 0"
proof (induction a b arbitrary: c rule: compareCodePoints.induct)
  case 1
  then show ?case by simp
next
  case (2 b bs)
  then show ?case by (cases c) auto
next
  case (3 a as)
  then show ?case by simp
next
  case (4 a as b bs)
  show ?case
  proof (cases c)
    case Nil
    with 4 show ?thesis by simp
  next
    case (Cons d ds)
    show ?thesis
    proof (cases "code a < code d")
      case True
      with Cons show ?thesis by simp
    next
      case False
      with "4.prems" Cons have *: "code a = code b" "code b = code d"
        by (simp_all split: if_splits)
      with "4.prems" Cons have "compareCodePoints as bs \<le> 0" "compareCodePoints bs ds \<le> 0"
        by simp_all
      with "4.IH" * Cons show ?thesis by simp
    qed
  qed
qed

end
