(* ===== verification/Canonical_Json.thy ===== *)
theory Canonical_Json
  imports Js_Values
begin

text \<open>
  RFC 8785 canonical JSON (\<open>canonicalJson\<close>, \<open>digestCanonical\<close>, \<open>selfDigest\<close> of
  \<open>runtime/src/foundation/validation/canonical.ts\<close>) on the values of \<open>Js_Values\<close>, and
  the parameters that stand for code outside the repository: Node's SHA-256 and the Ajv
  validators of the generated schemas.
\<close>

section \<open>Code outside the repository\<close>

text \<open>
  \<open>createHash\<close> is \<open>createHash("sha256").update(text).digest("hex")\<close> of \<open>node:crypto\<close>;
  \<open>ajvValidate id v\<close> is the compiled Ajv validator of the generated schema \<open>id\<close> on \<open>v\<close>.
\<close>

record platform =
  createHash :: "string \<Rightarrow> string"
  ajvValidate :: "string \<Rightarrow> json \<Rightarrow> bool"

section \<open>Text of a value\<close>

definition digit_char :: "nat \<Rightarrow> char" where
  "digit_char d = char_of (48 + d)"

fun show_nat :: "nat \<Rightarrow> string" where
  "show_nat n = (if n < 10 then [digit_char n] else show_nat (n div 10) @ [digit_char (n mod 10)])"

declare show_nat.simps [simp del]

definition show_int :: "int \<Rightarrow> string" where
  "show_int i = (if i < 0 then ''-'' @ show_nat (nat (- i)) else show_nat (nat i))"

definition hex_char :: "nat \<Rightarrow> char" where
  "hex_char d = (if d < 10 then char_of (48 + d) else char_of (87 + d))"

text \<open>\<open>JSON.stringify\<close> of one character of a well-formed string.\<close>

definition escape_char :: "char \<Rightarrow> string" where
  "escape_char c =
     (if c = CHR 0x22 then [CHR 0x5C, CHR 0x22]
      else if c = CHR 0x5C then [CHR 0x5C, CHR 0x5C]
      else if c = CHR 0x08 then [CHR 0x5C, CHR ''b'']
      else if c = CHR 0x09 then [CHR 0x5C, CHR ''t'']
      else if c = CHR 0x0A then [CHR 0x5C, CHR ''n'']
      else if c = CHR 0x0C then [CHR 0x5C, CHR ''f'']
      else if c = CHR 0x0D then [CHR 0x5C, CHR ''r'']
      else if code c < 32 then CHR 0x5C # ''u00'' @ [hex_char (code c div 16), hex_char (code c mod 16)]
      else [c])"

definition quote :: "string \<Rightarrow> string" where
  "quote s = CHR 0x22 # concat (map escape_char s) @ [CHR 0x22]"

text \<open>
  The order of UTF-16 code units, by which \<open>Object.keys(value).sort()\<close> sorts, on UTF-8
  bytes: the scalar values above U+FFFF (lead bytes F0 to F4) are surrogate pairs and come
  before U+E000 to U+FFFF (lead bytes EE and EF); all else is in byte order.
\<close>

definition utf16_rank :: "char \<Rightarrow> nat" where
  "utf16_rank c =
     (if code c = 238 \<or> code c = 239 then code c + 5
      else if 240 \<le> code c \<and> code c \<le> 244 then code c - 2
      else code c)"

fun utf16_le :: "string \<Rightarrow> string \<Rightarrow> bool" where
  "utf16_le [] _ = True"
| "utf16_le (_ # _) [] = False"
| "utf16_le (a # as) (b # bs) =
     (if utf16_rank a = utf16_rank b then utf16_le as bs else utf16_rank a < utf16_rank b)"

fun join_commas :: "string list \<Rightarrow> string" where
  "join_commas [] = []"
| "join_commas [t] = t"
| "join_commas (t # ts) = t @ '','' @ join_commas ts"

fun canonicalize :: "json \<Rightarrow> string" where
  "canonicalize JNull = ''null''"
| "canonicalize (JBool b) = (if b then ''true'' else ''false'')"
| "canonicalize (JStr s) = quote s"
| "canonicalize (JInt i) = show_int i"
| "canonicalize (JFrac t) = t"
| "canonicalize (JArr vs) = ''['' @ join_commas (map canonicalize vs) @ '']''"
| "canonicalize (JObj ms) =
     ''{'' @ join_commas (map (\<lambda>(k, t). quote k @ '':'' @ t)
       (sort_by (\<lambda>m m'. utf16_le (fst m) (fst m')) (map (\<lambda>(k, v). (k, canonicalize v)) ms))) @ ''}''"

text \<open>The only exception a JSON value can raise: an integer outside the safe range.\<close>

fun safe_numbers :: "json \<Rightarrow> bool" where
  "safe_numbers (JInt i) = safe_integer i"
| "safe_numbers (JArr vs) = (\<forall>v \<in> set vs. safe_numbers v)"
| "safe_numbers (JObj ms) = (\<forall>m \<in> set ms. safe_numbers (snd m))"
| "safe_numbers _ = True"

definition canonicalJson :: "json \<Rightarrow> string res" where
  "canonicalJson v = failIf (\<not> safe_numbers v) (CanonicalJson ''number'') (Inr (canonicalize v))"

text \<open>\<open>canonicalJson(undefined)\<close> raises.\<close>

definition canonicalJsonOf :: "json option \<Rightarrow> string res" where
  "canonicalJsonOf v = (case v of None \<Rightarrow> Inl (CanonicalJson ''type'') | Some w \<Rightarrow> canonicalJson w)"

definition sha256Bytes :: "platform \<Rightarrow> string \<Rightarrow> string" where
  "sha256Bytes P t = ''sha256:'' @ createHash P t"

definition digestCanonical :: "platform \<Rightarrow> json \<Rightarrow> string res" where
  "digestCanonical P v = bindE (canonicalJson v) (\<lambda>t. Inr (sha256Bytes P t))"

definition selfDigest :: "platform \<Rightarrow> jobject \<Rightarrow> string res" where
  "selfDigest P ms = digestCanonical P (JObj (filter (\<lambda>m. fst m \<noteq> ''digest'') ms))"

section \<open>Canonical form\<close>

text \<open>The value that parsing the canonical text gives back: members sorted throughout.\<close>

fun canonical_form :: "json \<Rightarrow> json" where
  "canonical_form (JArr vs) = JArr (map canonical_form vs)"
| "canonical_form (JObj ms) =
     JObj (sort_by (\<lambda>m m'. utf16_le (fst m) (fst m')) (map (\<lambda>(k, v). (k, canonical_form v)) ms))"
| "canonical_form v = v"

text \<open>
  \<open>assertFoundationSchema\<close>: the value is normalised through canonical JSON and checked by
  the validator of the schema.
\<close>

definition assertFoundationSchema :: "platform \<Rightarrow> string \<Rightarrow> json \<Rightarrow> unit res" where
  "assertFoundationSchema P schemaId v =
     bindE (canonicalJson v) (\<lambda>_. failIf (\<not> ajvValidate P schemaId (canonical_form v)) (SchemaInvalid schemaId) (Inr ()))"

lemma insert_by_map:
  "(\<And>x y. le' (f x) (f y) = le x y) \<Longrightarrow> insert_by le' (f x) (map f xs) = map f (insert_by le x xs)"
  by (induction xs) auto

lemma sort_by_map:
  "(\<And>x y. le' (f x) (f y) = le x y) \<Longrightarrow> sort_by le' (map f xs) = map f (sort_by le xs)"
  by (induction xs) (simp_all add: sort_by_def insert_by_map)

fun rendered :: "json \<Rightarrow> string" where
  "rendered (JArr vs) = ''['' @ join_commas (map rendered vs) @ '']''"
| "rendered (JObj ms) = ''{'' @ join_commas (map (\<lambda>(k, v). quote k @ '':'' @ rendered v) ms) @ ''}''"
| "rendered v = canonicalize v"

lemma canonicalize_form: "canonicalize v = rendered (canonical_form v)"
proof (induction v)
  case (JArr vs)
  then show ?case by (simp cong: map_cong)
next
  case (JObj ms)
  have "map (\<lambda>(k, v). (k, canonicalize v)) ms
      = map (\<lambda>(k, w). (k, rendered w)) (map (\<lambda>(k, v). (k, canonical_form v)) ms)"
    using JObj by (auto simp: snds.simps)
  then have "sort_by (\<lambda>m m'. utf16_le (fst m) (fst m')) (map (\<lambda>(k, v). (k, canonicalize v)) ms)
      = map (\<lambda>(k, w). (k, rendered w))
          (sort_by (\<lambda>m m'. utf16_le (fst m) (fst m')) (map (\<lambda>(k, v). (k, canonical_form v)) ms))"
    by (simp only:) (rule sort_by_map, auto)
  then show ?case by (simp add: comp_def case_prod_unfold)
qed simp_all

end
