(* ===== verification/Control_Model.thy ===== *)
theory Control_Model
  imports Canonical_Json
begin

text \<open>
  Control records: the data of \<open>runtime/src/foundation/control/types.ts\<close> and the
  compilation of revisions and Journal events of \<open>runtime/src/foundation/control/model.ts\<close>,
  with the bounds on payloads, identities, kinds, times and semantic Markdown.
\<close>

section \<open>Data\<close>

record actor =
  actor_kind :: string
  actor_id :: string

record subject =
  sub_recordId :: string
  sub_revision :: int
  sub_digest :: string

record target =
  tgt_kind :: string
  tgt_id :: string
  tgt_revision :: int
  tgt_digest :: string

record relationship =
  rel_relation :: string
  rel_target :: target

record revision_input =
  ri_recordId :: string
  ri_recordKind :: string
  ri_revision :: int
  ri_producer :: actor
  ri_semanticAuthor :: actor
  ri_semanticAuthority :: string
  ri_createdAt :: string
  ri_semanticMarkdown :: string
  ri_payload :: jobject
  ri_relationships :: "relationship list"

record revision =
  rv_schema :: string
  rv_processId :: string
  rv_recordId :: string
  rv_recordKind :: string
  rv_revision :: int
  rv_producer :: actor
  rv_semanticAuthor :: actor
  rv_semanticAuthority :: string
  rv_createdAt :: string
  rv_semanticMarkdown :: string
  rv_payload :: jobject
  rv_relationships :: "relationship list"
  rv_digest :: string

record event_input =
  ei_eventId :: string
  ei_eventKind :: string
  ei_occurredAt :: string
  ei_actor :: actor
  ei_subject :: "subject option"
  ei_payload :: jobject

record event =
  ev_schema :: string
  ev_storeId :: string
  ev_processId :: string
  ev_sequence :: int
  ev_eventId :: string
  ev_eventKind :: string
  ev_occurredAt :: string
  ev_actor :: actor
  ev_subject :: "subject option"
  ev_payload :: jobject
  ev_predecessorDigest :: "string option"
  ev_digest :: string

definition CONTROL_RECORD_REVISION_SCHEMA :: string where
  "CONTROL_RECORD_REVISION_SCHEMA = ''lifecycle.control-record-revision.v2''"

definition CONTROL_RECORD_EVENT_SCHEMA :: string where
  "CONTROL_RECORD_EVENT_SCHEMA = ''lifecycle.control-record-event.v6''"

section \<open>Identities, kinds, times\<close>

definition controlIdentifier :: "string \<Rightarrow> string res" where
  "controlIdentifier value =
     failIf (\<not> id_pattern value \<or> length value > 512) (ControlRecordStore ''identity'') (Inr value)"

definition controlRecordKind :: "string \<Rightarrow> string res" where
  "controlRecordKind value =
     failIf (\<not> relation_pattern value \<or> length value > 160) (ControlRecordStore ''kind'') (Inr value)"

definition controlTimestamp :: "string \<Rightarrow> string res" where
  "controlTimestamp value = failIf (date_parse value = None) (ControlRecordStore ''time'') (Inr value)"

definition normalizedActor :: "actor \<Rightarrow> actor res" where
  "normalizedActor a =
     failIf (actor_kind a \<notin> {''agent'', ''director'', ''runtime''}) (ControlRecordStore ''actor'')
      (bindE (controlIdentifier (actor_id a)) (\<lambda>i. Inr \<lparr>actor_kind = actor_kind a, actor_id = i\<rparr>))"

section \<open>Semantic Markdown\<close>

fun replace_crlf :: "string \<Rightarrow> string" where
  "replace_crlf (a # b # s) =
     (if a = CHR 0x0D \<and> b = CHR 0x0A then CHR 0x0A # replace_crlf s else a # replace_crlf (b # s))"
| "replace_crlf s = s"

definition strip_newlines :: "string \<Rightarrow> string" where
  "strip_newlines s = rev (dropWhile (\<lambda>c. c = CHR 0x0A) (rev s))"

text \<open>
  \<open>text.trim().length === 0\<close>: only ECMAScript white space and line terminators, here as
  their UTF-8 sequences.
\<close>

fun only_whitespace :: "nat list \<Rightarrow> bool" where
  "only_whitespace [] = True"
| "only_whitespace (a # s) =
     (if 9 \<le> a \<and> a \<le> 13 \<or> a = 32 then only_whitespace s
      else case s of
        [] \<Rightarrow> False
      | b # s' \<Rightarrow>
          if a = 194 \<and> b = 160 then only_whitespace s'
          else case s' of
            [] \<Rightarrow> False
          | c # s'' \<Rightarrow>
              ((a = 225 \<and> b = 154 \<and> c = 128) \<or>
               (a = 226 \<and> b = 128 \<and> (128 \<le> c \<and> c \<le> 138 \<or> c = 168 \<or> c = 169 \<or> c = 175)) \<or>
               (a = 226 \<and> b = 129 \<and> c = 159) \<or> (a = 227 \<and> b = 128 \<and> c = 128) \<or>
               (a = 239 \<and> b = 187 \<and> c = 191)) \<and> only_whitespace s'')"

definition normalizeSemanticMarkdown :: "string \<Rightarrow> string res" where
  "normalizeSemanticMarkdown value =
     failIf (CHR 0x00 \<in> set value \<or> take 3 value = [CHR 0xEF, CHR 0xBB, CHR 0xBF])
       (ControlRecordStore ''semantic-markdown'')
      (let normalized = replace_crlf value in
       failIf (CHR 0x0D \<in> set normalized) (ControlRecordStore ''semantic-markdown'')
        (let canonical = strip_newlines normalized @ [CHR 0x0A] in
         failIf (only_whitespace (map code canonical)) (ControlRecordStore ''semantic-markdown'')
          (failIf (length canonical > 1024 * 1024) (ControlRecordStore ''semantic-markdown'')
            (Inr canonical))))"

section \<open>Bounded JSON\<close>

definition MAXIMUM_REVISION_PAYLOAD_BYTES :: nat where
  "MAXIMUM_REVISION_PAYLOAD_BYTES = 2 * 1024 * 1024"
definition MAXIMUM_EVENT_PAYLOAD_BYTES :: nat where
  "MAXIMUM_EVENT_PAYLOAD_BYTES = 64 * 1024"
definition MAXIMUM_JSON_DEPTH :: nat where
  "MAXIMUM_JSON_DEPTH = 64"
definition MAXIMUM_JSON_MEMBERS :: nat where
  "MAXIMUM_JSON_MEMBERS = 16384"
definition MAXIMUM_JSON_VALUES :: nat where
  "MAXIMUM_JSON_VALUES = 262144"

fun json_nodes :: "json \<Rightarrow> nat" where
  "json_nodes (JArr vs) = Suc (sum_list (map json_nodes vs))"
| "json_nodes (JObj ms) = Suc (sum_list (map (\<lambda>m. json_nodes (snd m)) ms))"
| "json_nodes _ = 1"

lemma json_nodes_pos [simp]: "0 < json_nodes v"
  by (cases v) auto

text \<open>
  The work list of \<open>boundedControlJson\<close>: a stack of values with their depth, popped
  from the end where the members of a collection are pushed. Values here are trees, so the
  guard against an object met a second time has no counterpart.
\<close>

function (sequential) bounded_scan :: "nat \<Rightarrow> (json \<times> nat) list \<Rightarrow> nat \<Rightarrow> unit res" where
  "bounded_scan maximumBytes [] valueCount = Inr ()"
| "bounded_scan maximumBytes ((v, depth) # pending) valueCount =
     failIf (valueCount + 1 > MAXIMUM_JSON_VALUES) (ControlRecordStore ''json-bounds'')
      (failIf (depth > MAXIMUM_JSON_DEPTH) (ControlRecordStore ''json-bounds'')
        (case v of
           JStr s \<Rightarrow> failIf (length s > maximumBytes) (ControlRecordStore ''json-bounds'')
             (bounded_scan maximumBytes pending (valueCount + 1))
         | JArr vs \<Rightarrow> failIf (length vs > MAXIMUM_JSON_MEMBERS) (ControlRecordStore ''json-bounds'')
             (bounded_scan maximumBytes (rev (map (\<lambda>w. (w, depth + 1)) vs) @ pending) (valueCount + 1))
         | JObj ms \<Rightarrow> failIf (length ms > MAXIMUM_JSON_MEMBERS) (ControlRecordStore ''json-bounds'')
             (bounded_scan maximumBytes (rev (map (\<lambda>m. (snd m, depth + 1)) ms) @ pending) (valueCount + 1))
         | _ \<Rightarrow> bounded_scan maximumBytes pending (valueCount + 1)))"
  by pat_completeness auto
termination
  by (relation "measure (\<lambda>(m, pending, n). sum_list (map (\<lambda>p. json_nodes (fst p)) pending))")
    (auto simp: comp_def rev_map [symmetric] sum_list_rev)

definition boundedControlJson :: "jobject \<Rightarrow> nat \<Rightarrow> string res" where
  "boundedControlJson value maximumBytes =
     bindE (bounded_scan maximumBytes [(JObj value, 1)] 0) (\<lambda>_.
       case canonicalJson (JObj value) of
         Inl _ \<Rightarrow> Inl (ControlRecordStore ''json'')
       | Inr canonical \<Rightarrow>
           failIf (length canonical > maximumBytes) (ControlRecordStore ''json-bounds'') (Inr canonical))"

definition canonicalControlJsonObject :: "jobject \<Rightarrow> string res" where
  "canonicalControlJsonObject value = boundedControlJson value MAXIMUM_REVISION_PAYLOAD_BYTES"

definition canonicalControlEventJsonObject :: "jobject \<Rightarrow> string res" where
  "canonicalControlEventJsonObject value = boundedControlJson value MAXIMUM_EVENT_PAYLOAD_BYTES"

definition canonical_object :: "jobject \<Rightarrow> jobject" where
  "canonical_object ms = (case canonical_form (JObj ms) of JObj ms' \<Rightarrow> ms' | _ \<Rightarrow> [])"

definition normalizedControlJsonObject :: "jobject \<Rightarrow> nat \<Rightarrow> jobject res" where
  "normalizedControlJsonObject value maximumBytes =
     bindE (boundedControlJson value maximumBytes) (\<lambda>_. Inr (canonical_object value))"

section \<open>Relationships\<close>

definition relationship_key :: "relationship \<Rightarrow> string" where
  "relationship_key r =
     rel_relation r @ [CHR 0x00] @ tgt_kind (rel_target r) @ [CHR 0x00] @ tgt_id (rel_target r) @
     [CHR 0x00] @ show_int (tgt_revision (rel_target r)) @ [CHR 0x00] @ tgt_digest (rel_target r)"

definition relationshipOrder :: "relationship \<Rightarrow> relationship \<Rightarrow> int" where
  "relationshipOrder l r = compareCodePoints (relationship_key l) (relationship_key r)"

definition normalizedRelationship :: "relationship \<Rightarrow> relationship res" where
  "normalizedRelationship v =
     bindE (controlRecordKind (rel_relation v)) (\<lambda>relation.
      let t = rel_target v in
      failIf (\<not> safe_integer (tgt_revision t) \<or> tgt_revision t < 1) (ControlRecordStore ''relationship'')
       (failIf (\<not> sha256_pattern (tgt_digest t)) (ControlRecordStore ''relationship'')
         (bindE (controlRecordKind (tgt_kind t)) (\<lambda>k.
          bindE (controlIdentifier (tgt_id t)) (\<lambda>i.
            Inr \<lparr>rel_relation = relation,
                 rel_target = \<lparr>tgt_kind = k, tgt_id = i, tgt_revision = tgt_revision t,
                               tgt_digest = tgt_digest t\<rparr>\<rparr>)))))"

fun adjacent_equal :: "('a \<Rightarrow> 'a \<Rightarrow> bool) \<Rightarrow> 'a list \<Rightarrow> bool" where
  "adjacent_equal eq (x # y # zs) = (eq x y \<or> adjacent_equal eq (y # zs))"
| "adjacent_equal eq _ = False"

definition normalizedRelationships :: "relationship list \<Rightarrow> relationship list res" where
  "normalizedRelationships values =
     failIf (length values > 4096) (ControlRecordStore ''relationship'')
      (bindE (mapE normalizedRelationship values) (\<lambda>mapped.
        let normalized = sort_by (\<lambda>l r. relationshipOrder l r \<le> 0) mapped in
        failIf (adjacent_equal (\<lambda>l r. relationshipOrder l r = 0) normalized)
          (ControlRecordStore ''relationship'') (Inr normalized)))"

section \<open>Compilation\<close>

definition actor_json :: "actor \<Rightarrow> json" where
  "actor_json a = JObj [(''kind'', JStr (actor_kind a)), (''id'', JStr (actor_id a))]"

definition relationship_json :: "relationship \<Rightarrow> json" where
  "relationship_json r = JObj [(''relation'', JStr (rel_relation r)),
     (''target'', JObj [(''kind'', JStr (tgt_kind (rel_target r))), (''id'', JStr (tgt_id (rel_target r))),
        (''revision'', JInt (tgt_revision (rel_target r))), (''digest'', JStr (tgt_digest (rel_target r)))])]"

definition revision_body :: "revision \<Rightarrow> json" where
  "revision_body r = JObj [(''schema'', JStr (rv_schema r)), (''processId'', JStr (rv_processId r)),
     (''recordId'', JStr (rv_recordId r)), (''recordKind'', JStr (rv_recordKind r)),
     (''revision'', JInt (rv_revision r)), (''producer'', actor_json (rv_producer r)),
     (''semanticAuthor'', actor_json (rv_semanticAuthor r)),
     (''semanticAuthority'', JStr (rv_semanticAuthority r)), (''createdAt'', JStr (rv_createdAt r)),
     (''semanticMarkdown'', JStr (rv_semanticMarkdown r)), (''payload'', JObj (rv_payload r)),
     (''relationships'', JArr (map relationship_json (rv_relationships r)))]"

definition SEMANTIC_AUTHORITIES :: "string list" where
  "SEMANTIC_AUTHORITIES = [''agent-proposed'', ''director-supplied'', ''director-authenticated'',
     ''runtime-observed'', ''runtime-derived'']"

definition compileControlRecordRevision :: "platform \<Rightarrow> string \<Rightarrow> revision_input \<Rightarrow> revision res" where
  "compileControlRecordRevision P processId input =
     bindE (controlIdentifier (ri_recordId input)) (\<lambda>recordId.
     bindE (controlRecordKind (ri_recordKind input)) (\<lambda>recordKind.
     failIf (\<not> safe_integer (ri_revision input) \<or> ri_revision input < 1) (ControlRecordStore ''revision'')
     (bindE (normalizedActor (ri_producer input)) (\<lambda>producer.
     bindE (normalizedActor (ri_semanticAuthor input)) (\<lambda>semanticAuthor.
     failIf (ri_semanticAuthority input \<notin> set SEMANTIC_AUTHORITIES) (ControlRecordStore ''semantic-authority'')
     (bindE (normalizeSemanticMarkdown (ri_semanticMarkdown input)) (\<lambda>semanticMarkdown.
     bindE (normalizedRelationships (ri_relationships input)) (\<lambda>relationships.
     bindE (normalizedControlJsonObject (ri_payload input) MAXIMUM_REVISION_PAYLOAD_BYTES) (\<lambda>payload.
     bindE (controlIdentifier processId) (\<lambda>process.
     bindE (controlTimestamp (ri_createdAt input)) (\<lambda>createdAt.
     let r = \<lparr>rv_schema = CONTROL_RECORD_REVISION_SCHEMA, rv_processId = process,
              rv_recordId = recordId, rv_recordKind = recordKind, rv_revision = ri_revision input,
              rv_producer = producer, rv_semanticAuthor = semanticAuthor,
              rv_semanticAuthority = ri_semanticAuthority input, rv_createdAt = createdAt,
              rv_semanticMarkdown = semanticMarkdown, rv_payload = payload,
              rv_relationships = relationships, rv_digest = []\<rparr>
     in bindE (digestCanonical P (revision_body r)) (\<lambda>d. Inr (r\<lparr>rv_digest := d\<rparr>)))))))))))))"

definition subject_json :: "subject option \<Rightarrow> json" where
  "subject_json s = (case s of None \<Rightarrow> JNull
     | Some s \<Rightarrow> JObj [(''recordId'', JStr (sub_recordId s)), (''revision'', JInt (sub_revision s)),
         (''digest'', JStr (sub_digest s))])"

definition nullable_string :: "string option \<Rightarrow> json" where
  "nullable_string s = (case s of None \<Rightarrow> JNull | Some t \<Rightarrow> JStr t)"

definition event_body :: "event \<Rightarrow> json" where
  "event_body e = JObj [(''schema'', JStr (ev_schema e)), (''storeId'', JStr (ev_storeId e)),
     (''processId'', JStr (ev_processId e)), (''sequence'', JInt (ev_sequence e)),
     (''eventId'', JStr (ev_eventId e)), (''eventKind'', JStr (ev_eventKind e)),
     (''occurredAt'', JStr (ev_occurredAt e)), (''actor'', actor_json (ev_actor e)),
     (''subject'', subject_json (ev_subject e)), (''payload'', JObj (ev_payload e)),
     (''predecessorDigest'', nullable_string (ev_predecessorDigest e))]"

definition normalizedSubject :: "subject option \<Rightarrow> subject option res" where
  "normalizedSubject s = (case s of None \<Rightarrow> Inr None
     | Some s \<Rightarrow>
         bindE (controlIdentifier (sub_recordId s)) (\<lambda>_.
         failIf (\<not> safe_integer (sub_revision s) \<or> sub_revision s < 1) (ControlRecordStore ''event-subject'')
          (failIf (\<not> sha256_pattern (sub_digest s)) (ControlRecordStore ''event-subject'')
            (Inr (Some s)))))"

definition compileControlRecordEvent ::
  "platform \<Rightarrow> string \<Rightarrow> string \<Rightarrow> int \<Rightarrow> string option \<Rightarrow> event_input \<Rightarrow> event res" where
  "compileControlRecordEvent P storeId processId sequence predecessorDigest input =
     failIf (\<not> safe_integer sequence \<or> sequence < 1) (ControlRecordStore ''event-sequence'')
     (failIf ((sequence = 1) \<noteq> (predecessorDigest = None)) (ControlRecordStore ''event-predecessor'')
     (bindE (normalizedControlJsonObject (ei_payload input) MAXIMUM_EVENT_PAYLOAD_BYTES) (\<lambda>payload.
     bindE (normalizedSubject (ei_subject input)) (\<lambda>subj.
     bindE (controlIdentifier storeId) (\<lambda>store.
     bindE (controlIdentifier processId) (\<lambda>process.
     bindE (controlIdentifier (ei_eventId input)) (\<lambda>eventId.
     bindE (controlRecordKind (ei_eventKind input)) (\<lambda>eventKind.
     bindE (controlTimestamp (ei_occurredAt input)) (\<lambda>occurredAt.
     bindE (normalizedActor (ei_actor input)) (\<lambda>act.
     let e = \<lparr>ev_schema = CONTROL_RECORD_EVENT_SCHEMA, ev_storeId = store, ev_processId = process,
              ev_sequence = sequence, ev_eventId = eventId, ev_eventKind = eventKind,
              ev_occurredAt = occurredAt, ev_actor = act, ev_subject = subj, ev_payload = payload,
              ev_predecessorDigest = predecessorDigest, ev_digest = []\<rparr>
     in bindE (digestCanonical P (event_body e)) (\<lambda>d. Inr (e\<lparr>ev_digest := d\<rparr>))))))))))))"

end
