(* ===== verification/Delivery_Types.thy ===== *)
theory Delivery_Types
  imports Control_Model
begin

text \<open>
  The closed vocabularies of the Delivery Process: standings, Candidate conditions,
  operations, activity families and stages, recovery obligations and steps
  (\<open>process/delivery-state.ts\<close>, \<open>process/recovery-registry.ts\<close>) and the outcome types of
  \<open>process/delivery-reducer.ts\<close>. The source writes them as string literals; the tables
  here give each constructor its literal, and \<open>parse_name\<close> is \<open>values.includes(value)\<close>.
\<close>

definition parse_name :: "(string \<times> 'a) list \<Rightarrow> string \<Rightarrow> 'a option" where
  "parse_name table s = map_of table s"

definition name_table :: "('a \<Rightarrow> string) \<Rightarrow> 'a list \<Rightarrow> (string \<times> 'a) list" where
  "name_table name xs = map (\<lambda>x. (name x, x)) xs"

lemma parse_name_table: "parse_name (name_table name xs) s = Some x \<Longrightarrow> name x = s \<and> x \<in> set xs"
  by (auto simp: parse_name_def name_table_def dest: map_of_SomeD)

section \<open>Standing and Candidate condition\<close>

datatype standing =
    Framing
  | AwaitingAdmission
  | Active
  | BoundaryPaused
  | AwaitingReadmission
  | DecisionReady
  | Closed

fun standing_name :: "standing \<Rightarrow> string" where
  "standing_name Framing = ''framing''"
| "standing_name AwaitingAdmission = ''awaiting-admission''"
| "standing_name Active = ''active''"
| "standing_name BoundaryPaused = ''boundary-paused''"
| "standing_name AwaitingReadmission = ''awaiting-readmission''"
| "standing_name DecisionReady = ''decision-ready''"
| "standing_name Closed = ''closed''"

datatype candidate_condition =
    CandidateAbsent
  | ReadyForWork
  | InProgress
  | NeedsCorrection
  | PausedForBoundary
  | SealedUnderEvaluation
  | ReadyForDecision
  | TerminalRecovery
  | CandidateAccepted
  | CandidateAbandoned

fun condition_name :: "candidate_condition \<Rightarrow> string" where
  "condition_name CandidateAbsent = ''absent''"
| "condition_name ReadyForWork = ''ready-for-work''"
| "condition_name InProgress = ''in-progress''"
| "condition_name NeedsCorrection = ''needs-correction''"
| "condition_name PausedForBoundary = ''paused-for-boundary''"
| "condition_name SealedUnderEvaluation = ''sealed-under-evaluation''"
| "condition_name ReadyForDecision = ''ready-for-decision''"
| "condition_name TerminalRecovery = ''terminal-recovery''"
| "condition_name CandidateAccepted = ''accepted''"
| "condition_name CandidateAbandoned = ''abandoned''"

section \<open>Operations, families, stages\<close>

datatype operation =
    Prepare
  | Admit
  | Continue
  | Integrate
  | Evaluate
  | Revise
  | Reaffirm
  | Accept
  | NoShip
  | Recover

fun operation_name :: "operation \<Rightarrow> string" where
  "operation_name Prepare = ''delivery.prepare''"
| "operation_name Admit = ''delivery.admit''"
| "operation_name Continue = ''delivery.continue''"
| "operation_name Integrate = ''delivery.integrate''"
| "operation_name Evaluate = ''delivery.evaluate''"
| "operation_name Revise = ''delivery.revise''"
| "operation_name Reaffirm = ''delivery.reaffirm''"
| "operation_name Accept = ''delivery.accept''"
| "operation_name NoShip = ''delivery.no-ship''"
| "operation_name Recover = ''delivery.recover''"

definition DELIVERY_OPERATIONS :: "operation list" where
  "DELIVERY_OPERATIONS =
     [Prepare, Admit, Continue, Integrate, Evaluate, Revise, Reaffirm, Accept, NoShip, Recover]"

definition parse_operation :: "string \<Rightarrow> operation option" where
  "parse_operation s = parse_name (name_table operation_name DELIVERY_OPERATIONS) s"

datatype family = AgentFamily | IntegrationFamily | TransactionFamily

datatype stage =
    Started
  | Prepared
  | EffectIntended
  | EffectObserved
  | Submitted
  | Finalizing
  | Completed

section \<open>Recovery obligations\<close>

datatype recovery_kind =
    ProviderRecovery
  | CandidateObservationRecovery
  | TransactionRecovery
  | FinalizationRecovery

fun recovery_kind_name :: "recovery_kind \<Rightarrow> string" where
  "recovery_kind_name ProviderRecovery = ''provider''"
| "recovery_kind_name CandidateObservationRecovery = ''candidate-observation''"
| "recovery_kind_name TransactionRecovery = ''transaction''"
| "recovery_kind_name FinalizationRecovery = ''finalization''"

definition RECOVERY_KINDS :: "recovery_kind list" where
  "RECOVERY_KINDS =
     [ProviderRecovery, CandidateObservationRecovery, TransactionRecovery, FinalizationRecovery]"

datatype recovery_step =
    StepCandidateSealed
  | StepIntegrationAssessed
  | StepAgentAttemptPrepared
  | StepProviderEffectIntended
  | StepProviderEffectObserved
  | StepWorkProductObservation
  | StepCandidateRevisionObserved
  | StepExecutionReceiptRecorded
  | StepWorkBoundaryFinalized
  | StepBaselineChecks
  | StepEvaluationChecks
  | StepActivityFinalization
  | StepActivityCompleted
  | StepDirectorDecisionAuthenticated
  | StepTransactionEffectIntended
  | StepTransactionEffectObserved
  | StepTransactionFinalization
  | StepStoreSeal
  | StepStoreArchive

fun step_name :: "recovery_step \<Rightarrow> string" where
  "step_name StepCandidateSealed = ''candidate-sealed''"
| "step_name StepIntegrationAssessed = ''integration-assessed''"
| "step_name StepAgentAttemptPrepared = ''agent-attempt-prepared''"
| "step_name StepProviderEffectIntended = ''provider-effect-intended''"
| "step_name StepProviderEffectObserved = ''provider-effect-observed''"
| "step_name StepWorkProductObservation = ''work-product-observation''"
| "step_name StepCandidateRevisionObserved = ''candidate-revision-observed''"
| "step_name StepExecutionReceiptRecorded = ''execution-receipt-recorded''"
| "step_name StepWorkBoundaryFinalized = ''work-boundary-finalized''"
| "step_name StepBaselineChecks = ''baseline-checks''"
| "step_name StepEvaluationChecks = ''evaluation-checks''"
| "step_name StepActivityFinalization = ''activity-finalization''"
| "step_name StepActivityCompleted = ''activity-completed''"
| "step_name StepDirectorDecisionAuthenticated = ''director-decision-authenticated''"
| "step_name StepTransactionEffectIntended = ''transaction-effect-intended''"
| "step_name StepTransactionEffectObserved = ''transaction-effect-observed''"
| "step_name StepTransactionFinalization = ''transaction-finalization''"
| "step_name StepStoreSeal = ''store-seal''"
| "step_name StepStoreArchive = ''store-archive''"

definition DELIVERY_RECOVERY_STEPS :: "recovery_step list" where
  "DELIVERY_RECOVERY_STEPS =
     [StepCandidateSealed, StepIntegrationAssessed, StepAgentAttemptPrepared,
      StepProviderEffectIntended, StepProviderEffectObserved, StepWorkProductObservation,
      StepCandidateRevisionObserved, StepExecutionReceiptRecorded, StepWorkBoundaryFinalized,
      StepBaselineChecks, StepEvaluationChecks, StepActivityFinalization, StepActivityCompleted,
      StepDirectorDecisionAuthenticated, StepTransactionEffectIntended,
      StepTransactionEffectObserved, StepTransactionFinalization, StepStoreSeal, StepStoreArchive]"

section \<open>Outcomes\<close>

datatype provider_outcome = ProviderCompleted | ProviderFailed | ProviderNotStarted

datatype transaction_outcome = Applied | NotApplied | Indeterminate

fun transaction_outcome_name :: "transaction_outcome \<Rightarrow> string" where
  "transaction_outcome_name Applied = ''applied''"
| "transaction_outcome_name NotApplied = ''not-applied''"
| "transaction_outcome_name Indeterminate = ''indeterminate''"

datatype completion_outcome = OutcomeCompleted | OutcomeFailed | OutcomeAbandoned

datatype readiness =
    AcceptanceReady
  | Correctable
  | RevisionRequired
  | NoShipRecommended

datatype decision_kind = DecisionAdmit | DecisionReadmit | DecisionAccept | DecisionNoShip

datatype closure_disposition = ClosureAccepted | ClosureNoShip

datatype check_phase = Baseline | Final

datatype check_modality =
    Precondition
  | RepairTarget
  | RegressionGuard
  | Postcondition
  | Diagnostic

datatype check_disposition =
    CheckPass
  | CheckFail
  | CheckIndeterminate
  | CheckNotRun
  | CheckUnsupported
  | CheckOperationalError

text \<open>One retained Control record revision: \<open>SubjectReference\<close>.\<close>

record reference =
  ref_id :: string
  ref_revision :: int
  ref_digest :: string

definition sameReference :: "reference \<Rightarrow> reference \<Rightarrow> bool" where
  "sameReference l r \<longleftrightarrow> ref_id l = ref_id r \<and> ref_revision l = ref_revision r \<and>
     ref_digest l = ref_digest r"

lemma sameReference_eq [simp]: "sameReference l r \<longleftrightarrow> l = r"
  by (cases l, cases r) (auto simp: sameReference_def)

definition reference_json :: "reference \<Rightarrow> json" where
  "reference_json r = JObj [(''id'', JStr (ref_id r)), (''revision'', JInt (ref_revision r)),
     (''digest'', JStr (ref_digest r))]"

definition reference_option_json :: "reference option \<Rightarrow> json" where
  "reference_option_json r = (case r of None \<Rightarrow> JNull | Some r \<Rightarrow> reference_json r)"

definition target_json :: "target \<Rightarrow> json" where
  "target_json t = JObj [(''kind'', JStr (tgt_kind t)), (''id'', JStr (tgt_id t)),
     (''revision'', JInt (tgt_revision t)), (''digest'', JStr (tgt_digest t))]"

definition target_reference :: "target \<Rightarrow> reference" where
  "target_reference t = \<lparr>ref_id = tgt_id t, ref_revision = tgt_revision t, ref_digest = tgt_digest t\<rparr>"

definition kinded_target :: "string \<Rightarrow> reference \<Rightarrow> target" where
  "kinded_target k r = \<lparr>tgt_kind = k, tgt_id = ref_id r, tgt_revision = ref_revision r,
     tgt_digest = ref_digest r\<rparr>"

lemma target_reference_kinded [simp]: "target_reference (kinded_target k r) = r"
  by (cases r) (simp add: target_reference_def kinded_target_def)

end
