(* ===== verification/Work_Delegation.thy ===== *)
theory Work_Delegation
  imports Delivery_Types
begin

text \<open>
  Resource permission for delegated work: parsing of the grant and of a reservation,
  accounting and the assessment of one reservation against its grant
  (\<open>control/work-delegation.ts\<close>), the stop request (\<open>control/work-delegation-stop.ts\<close>).
\<close>

section \<open>Data\<close>

record resource_reference =
  rr_id :: string
  rr_digest :: string

record backend_profile =
  bp_profileId :: string
  bp_profileDigest :: string
  bp_implementationDigest :: string

record image_reference =
  im_imageId :: string
  im_imageDigest :: string

record agent_limits =
  al_tokens :: "int option"
  al_events :: "int option"
  al_outputBytes :: "int option"
  al_toolCalls :: "int option"
  al_processes :: "int option"
  al_storageBytes :: "int option"

record agent_selection =
  as_providerDescriptor :: resource_reference
  as_backendProfile :: backend_profile
  as_image :: image_reference
  as_model :: string
  as_reasoning :: string
  as_wallTimeMs :: int
  as_limits :: agent_limits

record execution_limits =
  el_wallTimeMilliseconds :: int
  el_processes :: int
  el_storageBytes :: int
  el_outputEntries :: int
  el_outputBytes :: int
  el_outputEntryBytes :: int
  el_events :: int

record accounting =
  acc_operations :: int
  acc_agentAttempts :: int
  acc_reservedCellWallTimeMs :: int

record delegation_payload =
  dp_boundary :: target
  dp_admission :: target
  dp_replaces :: "target option"
  dp_policy_digest :: string
  dp_allowedOperations :: "operation list"
  dp_continue_direction :: "target option"
  dp_evaluate_direction :: "target option"
  dp_builder :: "agent_selection option"
  dp_reviewer :: "agent_selection option"
  dp_ceilings :: accounting
  dp_expiresAt :: "string option"

datatype agent_role = Builder | Reviewer

record check_definition =
  cd_id :: string
  cd_revision :: int
  cd_sourceDigest :: string
  cd_semanticDigest :: string

record check_slot =
  cs_slotId :: string
  cs_selectionId :: string
  cs_definition :: check_definition
  cs_binding :: resource_reference
  cs_backendProfile :: backend_profile
  cs_image :: image_reference
  cs_wallTimeMs :: int
  cs_limits :: execution_limits

datatype execution_slot =
    AgentSlot string agent_role agent_selection
  | CheckSlot check_slot

record reservation_parts =
  rp_reservationId :: string
  rp_delegation :: target
  rp_activityId :: string
  rp_operation :: operation
  rp_head_sequence :: int
  rp_head_digest :: string
  rp_basisDigest :: string
  rp_reason :: string
  rp_slots :: "execution_slot list"

record reservation = reservation_parts +
  rp_charges :: accounting

definition WORK_DELEGATION_SCHEMA :: string where
  "WORK_DELEGATION_SCHEMA = ''lifecycle.work-delegation.v2''"
definition WORK_DELEGATION_RESERVATION_SCHEMA :: string where
  "WORK_DELEGATION_RESERVATION_SCHEMA = ''lifecycle.work-delegation-reservation.v1''"
definition WORK_DELEGATION_POLICY_ID :: string where
  "WORK_DELEGATION_POLICY_ID = ''lifecycle.work-delegation.standard-v1''"
definition WORK_DELEGATION_OPERATIONS :: "operation list" where
  "WORK_DELEGATION_OPERATIONS = [Continue, Evaluate, Integrate]"
definition WORK_DELEGATION_MAXIMUM_CELL_WALL_TIME_MS :: int where
  "WORK_DELEGATION_MAXIMUM_CELL_WALL_TIME_MS = 86400000"
definition WORK_DELEGATION_MAXIMUM_SLOTS :: nat where
  "WORK_DELEGATION_MAXIMUM_SLOTS = 4097"

definition WORK_DELEGATION_POLICY_DEFINITION :: json where
  "WORK_DELEGATION_POLICY_DEFINITION = JObj [
     (''id'', JStr WORK_DELEGATION_POLICY_ID),
     (''operations'', JArr (map (\<lambda>operation. JStr (operation_name operation)) WORK_DELEGATION_OPERATIONS)),
     (''accounting'', JStr ''delivery-lifetime-delegated-reservations-no-refunds''),
     (''stop'', JStr ''finish-reserved-operation''),
     (''authority'', JStr ''no-mandate-or-terminal-decision''),
     (''continuation'', JStr ''fresh-eligible-useful-work-after-settlement''),
     (''maximumCellWallTimeMs'', JInt WORK_DELEGATION_MAXIMUM_CELL_WALL_TIME_MS),
     (''maximumSlots'', JInt (int WORK_DELEGATION_MAXIMUM_SLOTS))]"

definition WORK_DELEGATION_POLICY_DIGEST :: "platform \<Rightarrow> string" where
  "WORK_DELEGATION_POLICY_DIGEST P = sha256Bytes P (canonicalize WORK_DELEGATION_POLICY_DEFINITION)"

definition parse_delegation_operation :: "json \<Rightarrow> operation option" where
  "parse_delegation_operation v = (case v of
       JStr s \<Rightarrow> parse_name (name_table operation_name WORK_DELEGATION_OPERATIONS) s
     | _ \<Rightarrow> None)"

section \<open>Leaf parsers\<close>

text \<open>An absent member is \<open>undefined\<close>, which every parser below rejects as it does \<open>JNull\<close>.\<close>

definition wd_object :: "json \<Rightarrow> string list \<Rightarrow> jobject res" where
  "wd_object value keys = (case value of
       JObj ms \<Rightarrow> failIf (\<not> exact_keys ms keys) (WorkDelegation ''members'') (Inr ms)
     | _ \<Rightarrow> Inl (WorkDelegation ''object''))"

definition mem :: "jobject \<Rightarrow> string \<Rightarrow> json" where
  "mem ms k = (case map_of ms k of None \<Rightarrow> JNull | Some v \<Rightarrow> v)"

text \<open>The check for line terminators is subsumed by the identity pattern.\<close>

definition line_terminated :: "string \<Rightarrow> bool" where
  "line_terminated s \<longleftrightarrow> CHR 0x0D \<in> set s \<or> CHR 0x0A \<in> set s \<or>
     list_ex (\<lambda>i. take 3 (drop i s) = [CHR 0xE2, CHR 0x80, CHR 0xA8] \<or>
                  take 3 (drop i s) = [CHR 0xE2, CHR 0x80, CHR 0xA9]) [0..<length s]"

definition wd_identifier :: "json \<Rightarrow> string res" where
  "wd_identifier value = (case value of
       JStr s \<Rightarrow> failIf (line_terminated s) (WorkDelegation ''identity'') (controlIdentifier s)
     | _ \<Rightarrow> Inl (WorkDelegation ''identity''))"

definition wd_opaque :: "json \<Rightarrow> string res" where
  "wd_opaque value = bindE (wd_identifier value) (\<lambda>selected.
     failIf (length selected > 160) (WorkDelegation ''opaque-identity-bound'') (Inr selected))"

definition wd_digest :: "json \<Rightarrow> string res" where
  "wd_digest value = (case value of
       JStr s \<Rightarrow> failIf (length s \<noteq> 71 \<or> \<not> sha256_pattern s) (WorkDelegation ''digest'') (Inr s)
     | _ \<Rightarrow> Inl (WorkDelegation ''digest''))"

definition wd_integer :: "json \<Rightarrow> int \<Rightarrow> int \<Rightarrow> int res" where
  "wd_integer value minimum maximum = (case value of
       JInt n \<Rightarrow> failIf (\<not> safe_integer n \<or> n < minimum \<or> n > maximum)
          (WorkDelegation ''integer-bound'') (Inr n)
     | _ \<Rightarrow> Inl (WorkDelegation ''integer-bound''))"

abbreviation MAX_SAFE :: int where
  "MAX_SAFE \<equiv> 9007199254740991"

definition wd_time :: "json \<Rightarrow> string res" where
  "wd_time value = (case value of JStr s \<Rightarrow> controlTimestamp s | _ \<Rightarrow> Inl (WorkDelegation ''time''))"

definition wd_nullable :: "(json \<Rightarrow> 'a res) \<Rightarrow> json \<Rightarrow> 'a option res" where
  "wd_nullable parse value =
     (if value = JNull then Inr None else bindE (parse value) (\<lambda>x. Inr (Some x)))"

definition wd_array :: "json \<Rightarrow> error \<Rightarrow> json list res" where
  "wd_array value e = (case value of JArr vs \<Rightarrow> Inr vs | _ \<Rightarrow> Inl e)"

definition exactReference :: "json \<Rightarrow> string \<Rightarrow> target res" where
  "exactReference value kind =
     bindE (wd_object value [''kind'', ''id'', ''revision'', ''digest'']) (\<lambda>selected.
     failIf (mem selected ''kind'' \<noteq> JStr kind) (WorkDelegation ''reference-kind'')
     (bindE (wd_identifier (mem selected ''id'')) (\<lambda>i.
     bindE (wd_integer (mem selected ''revision'') 1 MAX_SAFE) (\<lambda>r.
     bindE (wd_digest (mem selected ''digest'')) (\<lambda>d.
     Inr \<lparr>tgt_kind = kind, tgt_id = i, tgt_revision = r, tgt_digest = d\<rparr>)))))"

definition resourceReference :: "json \<Rightarrow> resource_reference res" where
  "resourceReference value =
     bindE (wd_object value [''id'', ''digest'']) (\<lambda>selected.
     bindE (wd_identifier (mem selected ''id'')) (\<lambda>i.
     bindE (wd_digest (mem selected ''digest'')) (\<lambda>d. Inr \<lparr>rr_id = i, rr_digest = d\<rparr>)))"

definition BACKEND_PROFILES :: "string list" where
  "BACKEND_PROFILES = [''lifecycle.execution-backend-profile.docker-local.v1'',
     ''lifecycle.execution-backend-profile.fault-injection.v1'']"

definition backend :: "json \<Rightarrow> backend_profile res" where
  "backend value =
     bindE (wd_object value [''profileId'', ''profileDigest'', ''implementationDigest'']) (\<lambda>selected.
     (case mem selected ''profileId'' of
        JStr s \<Rightarrow> failIf (s \<notin> set BACKEND_PROFILES) (WorkDelegation ''backend-profile'')
          (bindE (wd_digest (mem selected ''profileDigest'')) (\<lambda>p.
           bindE (wd_digest (mem selected ''implementationDigest'')) (\<lambda>d.
           Inr \<lparr>bp_profileId = s, bp_profileDigest = p, bp_implementationDigest = d\<rparr>)))
      | _ \<Rightarrow> Inl (WorkDelegation ''backend-profile'')))"

definition image :: "json \<Rightarrow> image_reference res" where
  "image value =
     bindE (wd_object value [''imageId'', ''imageDigest'']) (\<lambda>selected.
     bindE (wd_identifier (mem selected ''imageId'')) (\<lambda>i.
     bindE (wd_digest (mem selected ''imageDigest'')) (\<lambda>d. Inr \<lparr>im_imageId = i, im_imageDigest = d\<rparr>)))"

definition agentLimits :: "json \<Rightarrow> agent_limits res" where
  "agentLimits value =
     bindE (wd_object value [''tokens'', ''events'', ''outputBytes'', ''toolCalls'', ''processes'',
       ''storageBytes'']) (\<lambda>selected.
     let limit = (\<lambda>key. wd_nullable (\<lambda>v. wd_integer v 1 MAX_SAFE) (mem selected key)) in
     bindE (limit ''tokens'') (\<lambda>a.
     bindE (limit ''events'') (\<lambda>b.
     bindE (limit ''outputBytes'') (\<lambda>c.
     bindE (limit ''toolCalls'') (\<lambda>d.
     bindE (limit ''processes'') (\<lambda>e.
     bindE (limit ''storageBytes'') (\<lambda>f.
     Inr \<lparr>al_tokens = a, al_events = b, al_outputBytes = c, al_toolCalls = d, al_processes = e,
          al_storageBytes = f\<rparr>)))))))"

definition agentSelection :: "json \<Rightarrow> agent_selection res" where
  "agentSelection value =
     bindE (wd_object value [''providerDescriptor'', ''backendProfile'', ''image'', ''model'',
       ''reasoning'', ''wallTimeMs'', ''limits'']) (\<lambda>selected.
     bindE (resourceReference (mem selected ''providerDescriptor'')) (\<lambda>a.
     bindE (backend (mem selected ''backendProfile'')) (\<lambda>b.
     bindE (image (mem selected ''image'')) (\<lambda>c.
     bindE (wd_opaque (mem selected ''model'')) (\<lambda>d.
     bindE (wd_opaque (mem selected ''reasoning'')) (\<lambda>e.
     bindE (wd_integer (mem selected ''wallTimeMs'') 1 WORK_DELEGATION_MAXIMUM_CELL_WALL_TIME_MS) (\<lambda>f.
     bindE (agentLimits (mem selected ''limits'')) (\<lambda>g.
     Inr \<lparr>as_providerDescriptor = a, as_backendProfile = b, as_image = c, as_model = d,
          as_reasoning = e, as_wallTimeMs = f, as_limits = g\<rparr>))))))))"

definition executionLimits :: "json \<Rightarrow> execution_limits res" where
  "executionLimits value =
     bindE (wd_object value [''wallTimeMilliseconds'', ''processes'', ''storageBytes'',
       ''outputEntries'', ''outputBytes'', ''outputEntryBytes'', ''events'']) (\<lambda>selected.
     bindE (wd_integer (mem selected ''wallTimeMilliseconds'') 1
       WORK_DELEGATION_MAXIMUM_CELL_WALL_TIME_MS) (\<lambda>a.
     bindE (wd_integer (mem selected ''processes'') 1 MAX_SAFE) (\<lambda>b.
     bindE (wd_integer (mem selected ''storageBytes'') 1 MAX_SAFE) (\<lambda>c.
     bindE (wd_integer (mem selected ''outputEntries'') 1 MAX_SAFE) (\<lambda>d.
     bindE (wd_integer (mem selected ''outputBytes'') 1 MAX_SAFE) (\<lambda>e.
     bindE (wd_integer (mem selected ''outputEntryBytes'') 1 MAX_SAFE) (\<lambda>f.
     bindE (wd_integer (mem selected ''events'') 1 MAX_SAFE) (\<lambda>g.
     Inr \<lparr>el_wallTimeMilliseconds = a, el_processes = b, el_storageBytes = c, el_outputEntries = d,
          el_outputBytes = e, el_outputEntryBytes = f, el_events = g\<rparr>))))))))"

definition parseWorkDelegationAccounting :: "json \<Rightarrow> accounting res" where
  "parseWorkDelegationAccounting value =
     bindE (wd_object value [''operations'', ''agentAttempts'', ''reservedCellWallTimeMs'']) (\<lambda>selected.
     bindE (wd_integer (mem selected ''operations'') 0 MAX_SAFE) (\<lambda>a.
     bindE (wd_integer (mem selected ''agentAttempts'') 0 MAX_SAFE) (\<lambda>b.
     bindE (wd_integer (mem selected ''reservedCellWallTimeMs'') 0 MAX_SAFE) (\<lambda>c.
     Inr \<lparr>acc_operations = a, acc_agentAttempts = b, acc_reservedCellWallTimeMs = c\<rparr>))))"

section \<open>Values back to JSON\<close>

definition option_json :: "('a \<Rightarrow> json) \<Rightarrow> 'a option \<Rightarrow> json" where
  "option_json f x = (case x of None \<Rightarrow> JNull | Some y \<Rightarrow> f y)"

definition resource_json :: "resource_reference \<Rightarrow> json" where
  "resource_json r = JObj [(''id'', JStr (rr_id r)), (''digest'', JStr (rr_digest r))]"

definition backend_json :: "backend_profile \<Rightarrow> json" where
  "backend_json b = JObj [(''profileId'', JStr (bp_profileId b)),
     (''profileDigest'', JStr (bp_profileDigest b)),
     (''implementationDigest'', JStr (bp_implementationDigest b))]"

definition image_json :: "image_reference \<Rightarrow> json" where
  "image_json i = JObj [(''imageId'', JStr (im_imageId i)), (''imageDigest'', JStr (im_imageDigest i))]"

definition agent_limits_json :: "agent_limits \<Rightarrow> json" where
  "agent_limits_json l = JObj [(''tokens'', option_json JInt (al_tokens l)),
     (''events'', option_json JInt (al_events l)), (''outputBytes'', option_json JInt (al_outputBytes l)),
     (''toolCalls'', option_json JInt (al_toolCalls l)), (''processes'', option_json JInt (al_processes l)),
     (''storageBytes'', option_json JInt (al_storageBytes l))]"

definition agent_selection_json :: "agent_selection \<Rightarrow> json" where
  "agent_selection_json s = JObj [(''providerDescriptor'', resource_json (as_providerDescriptor s)),
     (''backendProfile'', backend_json (as_backendProfile s)), (''image'', image_json (as_image s)),
     (''model'', JStr (as_model s)), (''reasoning'', JStr (as_reasoning s)),
     (''wallTimeMs'', JInt (as_wallTimeMs s)), (''limits'', agent_limits_json (as_limits s))]"

definition execution_limits_json :: "execution_limits \<Rightarrow> json" where
  "execution_limits_json l = JObj [(''wallTimeMilliseconds'', JInt (el_wallTimeMilliseconds l)),
     (''processes'', JInt (el_processes l)), (''storageBytes'', JInt (el_storageBytes l)),
     (''outputEntries'', JInt (el_outputEntries l)), (''outputBytes'', JInt (el_outputBytes l)),
     (''outputEntryBytes'', JInt (el_outputEntryBytes l)), (''events'', JInt (el_events l))]"

definition accounting_json :: "accounting \<Rightarrow> json" where
  "accounting_json a = JObj [(''operations'', JInt (acc_operations a)),
     (''agentAttempts'', JInt (acc_agentAttempts a)),
     (''reservedCellWallTimeMs'', JInt (acc_reservedCellWallTimeMs a))]"

definition delegation_json :: "platform \<Rightarrow> delegation_payload \<Rightarrow> json" where
  "delegation_json P g = JObj [(''schema'', JStr WORK_DELEGATION_SCHEMA),
     (''boundary'', target_json (dp_boundary g)), (''admission'', target_json (dp_admission g)),
     (''replaces'', option_json target_json (dp_replaces g)),
     (''policy'', JObj [(''id'', JStr WORK_DELEGATION_POLICY_ID), (''digest'', JStr (dp_policy_digest g))]),
     (''allowedOperations'', JArr (map (\<lambda>operation. JStr (operation_name operation)) (dp_allowedOperations g))),
     (''directions'', JObj [(''continue'', option_json target_json (dp_continue_direction g)),
        (''evaluate'', option_json target_json (dp_evaluate_direction g))]),
     (''agentSelections'', JObj [(''builder'', option_json agent_selection_json (dp_builder g)),
        (''reviewer'', option_json agent_selection_json (dp_reviewer g))]),
     (''ceilings'', accounting_json (dp_ceilings g)),
     (''expiresAt'', option_json JStr (dp_expiresAt g)),
     (''stopPolicy'', JStr ''finish-reserved-operation'')]"

fun role_name :: "agent_role \<Rightarrow> string" where
  "role_name Builder = ''builder''"
| "role_name Reviewer = ''reviewer''"

definition check_definition_json :: "check_definition \<Rightarrow> json" where
  "check_definition_json d = JObj [(''id'', JStr (cd_id d)), (''revision'', JInt (cd_revision d)),
     (''sourceDigest'', JStr (cd_sourceDigest d)), (''semanticDigest'', JStr (cd_semanticDigest d))]"

fun slot_json :: "execution_slot \<Rightarrow> json" where
  "slot_json (AgentSlot slotId role selection) = JObj [(''slotId'', JStr slotId),
     (''purpose'', JStr ''agent''), (''role'', JStr (role_name role)),
     (''selection'', agent_selection_json selection)]"
| "slot_json (CheckSlot c) = JObj [(''slotId'', JStr (cs_slotId c)), (''purpose'', JStr ''check''),
     (''phase'', JStr ''final''), (''selectionId'', JStr (cs_selectionId c)),
     (''definition'', check_definition_json (cs_definition c)), (''binding'', resource_json (cs_binding c)),
     (''backendProfile'', backend_json (cs_backendProfile c)), (''image'', image_json (cs_image c)),
     (''wallTimeMs'', JInt (cs_wallTimeMs c)), (''limits'', execution_limits_json (cs_limits c))]"

definition reservation_parts_members :: "'z reservation_parts_scheme \<Rightarrow> jobject" where
  "reservation_parts_members r = [(''schema'', JStr WORK_DELEGATION_RESERVATION_SCHEMA),
     (''reservationId'', JStr (rp_reservationId r)), (''delegation'', target_json (rp_delegation r)),
     (''activityId'', JStr (rp_activityId r)), (''operation'', JStr (operation_name (rp_operation r))),
     (''decision'', JObj [(''journalHead'', JObj [(''sequence'', JInt (rp_head_sequence r)),
          (''digest'', JStr (rp_head_digest r))]),
        (''basisDigest'', JStr (rp_basisDigest r)), (''reason'', JStr (rp_reason r))]),
     (''slots'', JArr (map slot_json (rp_slots r)))]"

definition reservation_json :: "reservation \<Rightarrow> json" where
  "reservation_json r = JObj (reservation_parts_members r @ [(''charges'', accounting_json (rp_charges r))])"

section \<open>The grant\<close>

fun parse_operations :: "json option \<Rightarrow> json list \<Rightarrow> operation list res" where
  "parse_operations previous [] = Inr []"
| "parse_operations previous (v # vs) =
     (case parse_delegation_operation v of
        None \<Rightarrow> Inl (WorkDelegation ''operation'')
      | Some operation \<Rightarrow>
          failIf (case previous of Some (JStr p) \<Rightarrow> utf16_le (operation_name operation) p | _ \<Rightarrow> False)
            (WorkDelegation ''operation-order'')
            (bindE (parse_operations (Some v) vs) (\<lambda>rest. Inr (operation # rest))))"

definition parseWorkDelegationPayload :: "platform \<Rightarrow> json \<Rightarrow> delegation_payload res" where
  "parseWorkDelegationPayload P value =
     bindE (wd_object value [''schema'', ''boundary'', ''admission'', ''replaces'', ''policy'',
       ''allowedOperations'', ''directions'', ''agentSelections'', ''ceilings'', ''expiresAt'',
       ''stopPolicy'']) (\<lambda>selected.
     failIf (mem selected ''schema'' \<noteq> JStr WORK_DELEGATION_SCHEMA \<or>
             mem selected ''stopPolicy'' \<noteq> JStr ''finish-reserved-operation'') (WorkDelegation ''profile'')
     (bindE (wd_object (mem selected ''policy'') [''id'', ''digest'']) (\<lambda>policy.
     failIf (mem policy ''id'' \<noteq> JStr WORK_DELEGATION_POLICY_ID \<or>
             mem policy ''digest'' \<noteq> JStr (WORK_DELEGATION_POLICY_DIGEST P)) (WorkDelegation ''policy'')
     (bindE (wd_array (mem selected ''allowedOperations'') (WorkDelegation ''operations'')) (\<lambda>operationInputs.
     failIf (length operationInputs < 1 \<or> length operationInputs > 3) (WorkDelegation ''operations'')
     (bindE (parse_operations None operationInputs) (\<lambda>allowedOperations.
     bindE (wd_object (mem selected ''directions'') [''continue'', ''evaluate'']) (\<lambda>directions.
     bindE (wd_object (mem selected ''agentSelections'') [''builder'', ''reviewer'']) (\<lambda>selections.
     let builder = Continue \<in> set allowedOperations; reviewer = Evaluate \<in> set allowedOperations in
     failIf ((mem directions ''continue'' \<noteq> JNull) \<noteq> builder \<or>
             (mem selections ''builder'' \<noteq> JNull) \<noteq> builder \<or>
             (mem directions ''evaluate'' \<noteq> JNull) \<noteq> reviewer \<or>
             (mem selections ''reviewer'' \<noteq> JNull) \<noteq> reviewer) (WorkDelegation ''operation-inputs'')
     (bindE (parseWorkDelegationAccounting (mem selected ''ceilings'')) (\<lambda>ceilings.
     failIf (acc_operations ceilings < 1 \<or>
             ((builder \<or> reviewer) \<and>
              (acc_agentAttempts ceilings < 1 \<or> acc_reservedCellWallTimeMs ceilings < 1)))
       (WorkDelegation ''empty-allowance'')
     (bindE (exactReference (mem selected ''boundary'') ''work-boundary'') (\<lambda>boundary.
     bindE (exactReference (mem selected ''admission'') ''director-decision'') (\<lambda>admission.
     bindE (wd_nullable (\<lambda>v. exactReference v ''work-delegation'') (mem selected ''replaces'')) (\<lambda>replaces.
     bindE (wd_nullable (\<lambda>v. exactReference v ''director-brief'') (mem directions ''continue'')) (\<lambda>c.
     bindE (wd_nullable (\<lambda>v. exactReference v ''director-brief'') (mem directions ''evaluate'')) (\<lambda>e.
     bindE (wd_nullable agentSelection (mem selections ''builder'')) (\<lambda>b.
     bindE (wd_nullable agentSelection (mem selections ''reviewer'')) (\<lambda>r.
     bindE (wd_nullable wd_time (mem selected ''expiresAt'')) (\<lambda>expires.
     Inr \<lparr>dp_boundary = boundary, dp_admission = admission, dp_replaces = replaces,
          dp_policy_digest = WORK_DELEGATION_POLICY_DIGEST P, dp_allowedOperations = allowedOperations,
          dp_continue_direction = c, dp_evaluate_direction = e, dp_builder = b, dp_reviewer = r,
          dp_ceilings = ceilings, dp_expiresAt = expires\<rparr>))))))))))))))))))))"

section \<open>Reservations\<close>

definition knowledgeId :: "string \<Rightarrow> string res" where
  "knowledgeId value =
     failIf (value = [] \<or> length value > 160 \<or> CHR 0x00 \<in> set value) (FoundationValue ''text'')
      (failIf (\<not> knowledge_pattern value) (FoundationValue ''knowledge_id'') (Inr value))"

definition agentExecutionSlot :: "json \<Rightarrow> execution_slot res" where
  "agentExecutionSlot value =
     bindE (wd_object value [''slotId'', ''purpose'', ''role'', ''selection'']) (\<lambda>selected.
     failIf (mem selected ''role'' \<noteq> JStr ''builder'' \<and> mem selected ''role'' \<noteq> JStr ''reviewer'')
       (WorkDelegation ''agent-role'')
     (bindE (wd_identifier (mem selected ''slotId'')) (\<lambda>slotId.
     bindE (agentSelection (mem selected ''selection'')) (\<lambda>selection.
     Inr (AgentSlot slotId (if mem selected ''role'' = JStr ''builder'' then Builder else Reviewer)
       selection)))))"

definition checkExecutionSlot :: "json \<Rightarrow> execution_slot res" where
  "checkExecutionSlot value =
     bindE (wd_object value [''slotId'', ''purpose'', ''phase'', ''selectionId'', ''definition'',
       ''binding'', ''backendProfile'', ''image'', ''wallTimeMs'', ''limits'']) (\<lambda>selected.
     failIf (mem selected ''purpose'' \<noteq> JStr ''check'' \<or> mem selected ''phase'' \<noteq> JStr ''final'')
       (WorkDelegation ''check-phase'')
     (bindE (wd_integer (mem selected ''wallTimeMs'') 1 WORK_DELEGATION_MAXIMUM_CELL_WALL_TIME_MS)
       (\<lambda>wallTimeMs.
     bindE (executionLimits (mem selected ''limits'')) (\<lambda>limits.
     failIf (el_wallTimeMilliseconds limits \<noteq> wallTimeMs) (WorkDelegation ''check-wall-time'')
     (bindE (wd_object (mem selected ''definition'')
       [''id'', ''revision'', ''sourceDigest'', ''semanticDigest'']) (\<lambda>def.
     bindE (bindE (wd_opaque (mem def ''id'')) knowledgeId) (\<lambda>definitionId.
     failIf (take 6 definitionId \<noteq> ''check.'') (WorkDelegation ''check-definition-kind'')
     (bindE (wd_identifier (mem selected ''slotId'')) (\<lambda>slotId.
     bindE (wd_identifier (mem selected ''selectionId'')) (\<lambda>selectionId.
     bindE (wd_integer (mem def ''revision'') 1 MAX_SAFE) (\<lambda>rev.
     bindE (wd_digest (mem def ''sourceDigest'')) (\<lambda>sourceDigest.
     bindE (wd_digest (mem def ''semanticDigest'')) (\<lambda>semanticDigest.
     bindE (resourceReference (mem selected ''binding'')) (\<lambda>binding.
     bindE (backend (mem selected ''backendProfile'')) (\<lambda>backendProfile.
     bindE (image (mem selected ''image'')) (\<lambda>img.
     Inr (CheckSlot \<lparr>cs_slotId = slotId, cs_selectionId = selectionId,
       cs_definition = \<lparr>cd_id = definitionId, cd_revision = rev, cd_sourceDigest = sourceDigest,
         cd_semanticDigest = semanticDigest\<rparr>,
       cs_binding = binding, cs_backendProfile = backendProfile, cs_image = img,
       cs_wallTimeMs = wallTimeMs, cs_limits = limits\<rparr>)))))))))))))))))"

definition executionSlot :: "json \<Rightarrow> execution_slot res" where
  "executionSlot value = (case value of
     JObj ms \<Rightarrow> if mem ms ''purpose'' = JStr ''agent'' then agentExecutionSlot value
       else checkExecutionSlot value
   | _ \<Rightarrow> Inl (WorkDelegation ''slot''))"

definition addWorkDelegationAccounting :: "accounting \<Rightarrow> accounting \<Rightarrow> accounting res" where
  "addWorkDelegationAccounting l r =
     bindE (parseWorkDelegationAccounting (accounting_json l)) (\<lambda>prior.
     bindE (parseWorkDelegationAccounting (accounting_json r)) (\<lambda>added.
     parseWorkDelegationAccounting (accounting_json
       \<lparr>acc_operations = acc_operations prior + acc_operations added,
        acc_agentAttempts = acc_agentAttempts prior + acc_agentAttempts added,
        acc_reservedCellWallTimeMs =
          acc_reservedCellWallTimeMs prior + acc_reservedCellWallTimeMs added\<rparr>)))"

fun slot_id :: "execution_slot \<Rightarrow> string" where
  "slot_id (AgentSlot slotId _ _) = slotId"
| "slot_id (CheckSlot c) = cs_slotId c"

fun check_selections :: "execution_slot list \<Rightarrow> string list" where
  "check_selections [] = []"
| "check_selections (CheckSlot c # slots) = cs_selectionId c # check_selections slots"
| "check_selections (_ # slots) = check_selections slots"

fun agent_slots :: "execution_slot list \<Rightarrow> (agent_role \<times> agent_selection) list" where
  "agent_slots [] = []"
| "agent_slots (AgentSlot _ role selection # slots) = (role, selection) # agent_slots slots"
| "agent_slots (_ # slots) = agent_slots slots"

text \<open>The loop over the slots: strictly increasing identities, no repeated Check selection.\<close>

fun check_slots :: "string option \<Rightarrow> string set \<Rightarrow> execution_slot list \<Rightarrow> unit res" where
  "check_slots previous checks [] = Inr ()"
| "check_slots previous checks (slot # slots) =
     failIf (case previous of None \<Rightarrow> False | Some p \<Rightarrow> utf16_le (slot_id slot) p)
       (WorkDelegation ''slot-order'')
      (case slot of
         CheckSlot c \<Rightarrow> failIf (cs_selectionId c \<in> checks) (WorkDelegation ''duplicate-check-selection'')
           (check_slots (Some (slot_id slot)) (insert (cs_selectionId c) checks) slots)
       | AgentSlot _ _ _ \<Rightarrow> check_slots (Some (slot_id slot)) checks slots)"

definition decision_reasons :: "operation \<Rightarrow> string list" where
  "decision_reasons operation =
     (if operation = Continue then [''develop-candidate'', ''correct-in-scope-findings'']
      else if operation = Integrate then [''integrate-ready-candidate'']
      else [''evaluate-integrated-candidate''])"

definition slots_fit_operation :: "operation \<Rightarrow> execution_slot list \<Rightarrow> bool" where
  "slots_fit_operation operation slots =
     (if operation = Integrate then slots = []
      else map fst (agent_slots slots) = [if operation = Continue then Builder else Reviewer] \<and>
           (operation = Continue \<longrightarrow> length slots = 1))"

definition reservationParts :: "json \<Rightarrow> reservation_parts res" where
  "reservationParts value =
     bindE (wd_object value [''schema'', ''reservationId'', ''delegation'', ''activityId'', ''operation'',
       ''decision'', ''slots'']) (\<lambda>selected.
     failIf (mem selected ''schema'' \<noteq> JStr WORK_DELEGATION_RESERVATION_SCHEMA \<or>
             parse_delegation_operation (mem selected ''operation'') = None)
       (WorkDelegation ''reservation-operation'')
     (let operation = the (parse_delegation_operation (mem selected ''operation'')) in
     bindE (wd_object (mem selected ''decision'') [''journalHead'', ''basisDigest'', ''reason'']) (\<lambda>decision.
     bindE (wd_object (mem decision ''journalHead'') [''sequence'', ''digest'']) (\<lambda>head.
     failIf (mem decision ''reason'' \<notin> JStr ` set (decision_reasons operation))
       (WorkDelegation ''decision-reason'')
     (bindE (wd_array (mem selected ''slots'') (WorkDelegation ''slot-bound'')) (\<lambda>slotInputs.
     failIf (length slotInputs > WORK_DELEGATION_MAXIMUM_SLOTS) (WorkDelegation ''slot-bound'')
     (bindE (mapE executionSlot slotInputs) (\<lambda>slots.
     bindE (check_slots None {} slots) (\<lambda>_.
     failIf (\<not> slots_fit_operation operation slots) (WorkDelegation ''operation-slots'')
     (bindE (wd_identifier (mem selected ''reservationId'')) (\<lambda>reservationId.
     bindE (exactReference (mem selected ''delegation'') ''work-delegation'') (\<lambda>delegation.
     bindE (wd_identifier (mem selected ''activityId'')) (\<lambda>activityId.
     bindE (wd_integer (mem head ''sequence'') 1 MAX_SAFE) (\<lambda>sequence.
     bindE (wd_digest (mem head ''digest'')) (\<lambda>headDigest.
     bindE (wd_digest (mem decision ''basisDigest'')) (\<lambda>basisDigest.
     Inr \<lparr>rp_reservationId = reservationId, rp_delegation = delegation, rp_activityId = activityId,
          rp_operation = operation, rp_head_sequence = sequence, rp_head_digest = headDigest,
          rp_basisDigest = basisDigest,
          rp_reason = (case mem decision ''reason'' of JStr s \<Rightarrow> s | _ \<Rightarrow> []), rp_slots = slots\<rparr>))))))))))))))))"

fun slot_charges :: "execution_slot \<Rightarrow> accounting" where
  "slot_charges (AgentSlot _ _ selection) =
     \<lparr>acc_operations = 0, acc_agentAttempts = 1, acc_reservedCellWallTimeMs = as_wallTimeMs selection\<rparr>"
| "slot_charges (CheckSlot c) =
     \<lparr>acc_operations = 0, acc_agentAttempts = 0, acc_reservedCellWallTimeMs = cs_wallTimeMs c\<rparr>"

definition with_charges :: "reservation_parts \<Rightarrow> accounting \<Rightarrow> reservation" where
  "with_charges p c = \<lparr>rp_reservationId = rp_reservationId p, rp_delegation = rp_delegation p,
     rp_activityId = rp_activityId p, rp_operation = rp_operation p,
     rp_head_sequence = rp_head_sequence p, rp_head_digest = rp_head_digest p,
     rp_basisDigest = rp_basisDigest p, rp_reason = rp_reason p, rp_slots = rp_slots p, rp_charges = c\<rparr>"

definition compileWorkDelegationReservation :: "json \<Rightarrow> reservation res" where
  "compileWorkDelegationReservation value =
     bindE (reservationParts value) (\<lambda>selected.
     bindE (foldE (\<lambda>charges slot. addWorkDelegationAccounting charges (slot_charges slot))
       \<lparr>acc_operations = 1, acc_agentAttempts = 0, acc_reservedCellWallTimeMs = 0\<rparr>
       (rp_slots selected)) (\<lambda>charges.
     let reservation = with_charges selected charges in
     case canonicalControlEventJsonObject [(''activityId'', JStr (rp_activityId selected)),
        (''operation'', JStr (operation_name (rp_operation selected))),
        (''reservation'', reservation_json reservation)] of
       Inl e \<Rightarrow> Inl (if e = ControlRecordStore ''json-bounds'' then WorkDelegation ''resource-limit'' else e)
     | Inr _ \<Rightarrow> Inr reservation))"

definition parseWorkDelegationReservation :: "platform \<Rightarrow> json \<Rightarrow> reservation res" where
  "parseWorkDelegationReservation P value =
     bindE (wd_object value [''schema'', ''reservationId'', ''delegation'', ''activityId'', ''operation'',
       ''decision'', ''charges'', ''slots'']) (\<lambda>selected.
     bindE (compileWorkDelegationReservation
       (JObj (filter (\<lambda>m. fst m \<noteq> ''charges'') selected))) (\<lambda>compiled.
     bindE (parseWorkDelegationAccounting (mem selected ''charges'')) (\<lambda>charges.
     bindE (digestCanonical P (accounting_json charges)) (\<lambda>stated.
     bindE (digestCanonical P (accounting_json (rp_charges compiled))) (\<lambda>derived.
     failIf (stated \<noteq> derived) (WorkDelegation ''reservation-charges'') (Inr compiled))))))"

section \<open>Allowance\<close>

datatype allowance_reason =
    WithinAllowance
  | AllowanceStopped
  | AllowanceExpired
  | OperationNotDelegated
  | SelectionMismatch
  | OperationsExhausted
  | AgentAttemptsExhausted
  | CellWallTimeExhausted

record allowance =
  aw_allowed :: bool
  aw_reason :: allowance_reason
  aw_charged :: accounting
  aw_prospective :: accounting

definition grant_selection :: "delegation_payload \<Rightarrow> agent_role \<Rightarrow> agent_selection option" where
  "grant_selection g role = (case role of Builder \<Rightarrow> dp_builder g | Reviewer \<Rightarrow> dp_reviewer g)"

text \<open>Whether the reserved Agent's selection has another digest than the granted one.\<close>

definition selection_mismatch :: "platform \<Rightarrow> delegation_payload \<Rightarrow> reservation \<Rightarrow> bool res" where
  "selection_mismatch P grant reservation = (case agent_slots (rp_slots reservation) of
       [] \<Rightarrow> Inr False
     | (role, selection) # _ \<Rightarrow>
         bindE (digestCanonical P (agent_selection_json selection)) (\<lambda>d.
         bindE (digestCanonical P (option_json agent_selection_json (grant_selection grant role)))
           (\<lambda>d'. Inr (d \<noteq> d'))))"

definition assessWorkDelegationAllowance ::
  "platform \<Rightarrow> delegation_payload \<Rightarrow> accounting \<Rightarrow> reservation \<Rightarrow> string \<Rightarrow> bool \<Rightarrow> allowance res" where
  "assessWorkDelegationAllowance P delegation accounting reserved observedAt stopped =
     bindE (parseWorkDelegationPayload P (delegation_json P delegation)) (\<lambda>grant.
     bindE (parseWorkDelegationAccounting (accounting_json accounting)) (\<lambda>charged.
     bindE (parseWorkDelegationReservation P (reservation_json reserved)) (\<lambda>reservation.
     bindE (controlTimestamp observedAt) (\<lambda>observed.
     bindE (addWorkDelegationAccounting charged (rp_charges reservation)) (\<lambda>prospective.
     bindE (selection_mismatch P grant reservation) (\<lambda>mismatch.
     let reason =
       (if stopped then AllowanceStopped
        else if dp_expiresAt grant \<noteq> None \<and>
                js_less_eq (date_parse (the (dp_expiresAt grant))) (date_parse observed) then AllowanceExpired
        else if rp_operation reservation \<notin> set (dp_allowedOperations grant) then OperationNotDelegated
        else if mismatch then SelectionMismatch
        else if acc_operations prospective > acc_operations (dp_ceilings grant) then OperationsExhausted
        else if acc_agentAttempts prospective > acc_agentAttempts (dp_ceilings grant)
          then AgentAttemptsExhausted
        else if acc_reservedCellWallTimeMs prospective > acc_reservedCellWallTimeMs (dp_ceilings grant)
          then CellWallTimeExhausted
        else WithinAllowance)
     in Inr \<lparr>aw_allowed = (reason = WithinAllowance), aw_reason = reason, aw_charged = charged,
             aw_prospective = prospective\<rparr>))))))"

section \<open>Stop requests\<close>

definition WORK_DELEGATION_STOP_REQUEST_SCHEMA :: string where
  "WORK_DELEGATION_STOP_REQUEST_SCHEMA = ''lifecycle.work-delegation-stop-request.v1''"

record stop_request =
  sr_storeId :: string
  sr_processId :: string
  sr_delegation :: target
  sr_requestedBy :: string
  sr_requestedAt :: string
  sr_digest :: string

definition stop_object :: "json option \<Rightarrow> string list \<Rightarrow> jobject res" where
  "stop_object value keys = (case value of
       Some (JObj ms) \<Rightarrow> failIf (\<not> exact_keys ms keys) WorkDelegationStop (Inr ms)
     | _ \<Rightarrow> Inl WorkDelegationStop)"

definition stop_identifier :: "json option \<Rightarrow> string res" where
  "stop_identifier value = (case value of
       Some (JStr s) \<Rightarrow> failIf (line_terminated s) WorkDelegationStop (controlIdentifier s)
     | _ \<Rightarrow> Inl WorkDelegationStop)"

definition stop_digest :: "json option \<Rightarrow> string res" where
  "stop_digest value = (case value of
       Some (JStr s) \<Rightarrow> failIf (length s \<noteq> 71 \<or> \<not> sha256_pattern s) WorkDelegationStop (Inr s)
     | _ \<Rightarrow> Inl WorkDelegationStop)"

definition stop_string :: "json option \<Rightarrow> string res" where
  "stop_string value = (case value of Some (JStr s) \<Rightarrow> Inr s | _ \<Rightarrow> Inl WorkDelegationStop)"

definition stop_revision :: "json option \<Rightarrow> int res" where
  "stop_revision value = (case value of
       Some (JInt n) \<Rightarrow> failIf (\<not> safe_integer n \<or> n < 1) WorkDelegationStop (Inr n)
     | _ \<Rightarrow> Inl WorkDelegationStop)"

definition stop_body :: "stop_request \<Rightarrow> jobject" where
  "stop_body r = [(''schema'', JStr WORK_DELEGATION_STOP_REQUEST_SCHEMA),
     (''storeId'', JStr (sr_storeId r)), (''processId'', JStr (sr_processId r)),
     (''delegation'', target_json (sr_delegation r)), (''requestedBy'', JStr (sr_requestedBy r)),
     (''requestedAt'', JStr (sr_requestedAt r))]"

definition stop_json :: "stop_request \<Rightarrow> json" where
  "stop_json r = JObj (stop_body r @ [(''digest'', JStr (sr_digest r))])"

text \<open>The input is the object of the five members.\<close>

definition compileWorkDelegationStopRequest :: "platform \<Rightarrow> json \<Rightarrow> stop_request res" where
  "compileWorkDelegationStopRequest P input =
     bindE (stop_object (Some input) [''storeId'', ''processId'', ''delegation'', ''requestedBy'',
       ''requestedAt'']) (\<lambda>selected.
     bindE (stop_object (map_of selected ''delegation'') [''kind'', ''id'', ''revision'', ''digest'']) (\<lambda>ref.
     failIf (map_of ref ''kind'' \<noteq> Some (JStr ''work-delegation'')) WorkDelegationStop
     (bindE (stop_revision (map_of ref ''revision'')) (\<lambda>rev.
     bindE (stop_string (map_of selected ''requestedAt'')) (\<lambda>requestedAt.
     bindE (stop_identifier (map_of selected ''storeId'')) (\<lambda>store.
     bindE (stop_identifier (map_of selected ''processId'')) (\<lambda>process.
     bindE (stop_identifier (map_of ref ''id'')) (\<lambda>i.
     bindE (stop_digest (map_of ref ''digest'')) (\<lambda>refDigest.
     bindE (stop_identifier (map_of selected ''requestedBy'')) (\<lambda>by_id.
     bindE (controlTimestamp requestedAt) (\<lambda>at_time.
     let body = \<lparr>sr_storeId = store, sr_processId = process,
           sr_delegation = \<lparr>tgt_kind = ''work-delegation'', tgt_id = i, tgt_revision = rev,
             tgt_digest = refDigest\<rparr>,
           sr_requestedBy = by_id, sr_requestedAt = at_time, sr_digest = []\<rparr> in
     bindE (digestCanonical P (JObj (stop_body body))) (\<lambda>d.
     bindE (canonicalControlEventJsonObject (stop_body body @ [(''digest'', JStr d)])) (\<lambda>_.
     Inr (body\<lparr>sr_digest := d\<rparr>))))))))))))))"

definition stop_input :: "string \<Rightarrow> string \<Rightarrow> target \<Rightarrow> string \<Rightarrow> string \<Rightarrow> json" where
  "stop_input storeId processId delegation requestedBy requestedAt =
     JObj [(''storeId'', JStr storeId), (''processId'', JStr processId),
       (''delegation'', target_json delegation), (''requestedBy'', JStr requestedBy),
       (''requestedAt'', JStr requestedAt)]"

definition parseWorkDelegationStopRequest :: "platform \<Rightarrow> json \<Rightarrow> stop_request res" where
  "parseWorkDelegationStopRequest P value =
     bindE (stop_object (Some value) [''schema'', ''storeId'', ''processId'', ''delegation'',
       ''requestedBy'', ''requestedAt'', ''digest'']) (\<lambda>selected.
     failIf (map_of selected ''schema'' \<noteq> Some (JStr WORK_DELEGATION_STOP_REQUEST_SCHEMA)) WorkDelegationStop
     (bindE (compileWorkDelegationStopRequest P (JObj (map (\<lambda>k. (k, mem selected k))
       [''storeId'', ''processId'', ''delegation'', ''requestedBy'', ''requestedAt'']))) (\<lambda>request.
     bindE (stop_digest (map_of selected ''digest'')) (\<lambda>d.
     failIf (d \<noteq> sr_digest request) WorkDelegationStop (Inr request)))))"

definition compileWorkDelegationStopAppend ::
  "platform \<Rightarrow> stop_request \<Rightarrow> string \<Rightarrow> string \<Rightarrow> event_input res" where
  "compileWorkDelegationStopAppend P retained runtimeId stopped =
     bindE (parseWorkDelegationStopRequest P (stop_json retained)) (\<lambda>request.
     bindE (controlTimestamp stopped) (\<lambda>stoppedAt.
     failIf (js_less (date_parse stoppedAt) (date_parse (sr_requestedAt request))) WorkDelegationStop
     (bindE (stop_identifier (Some (JStr runtimeId))) (\<lambda>actorId.
     Inr \<lparr>ei_eventId = ''event-work-delegation-stopped-'' @ drop 7 (sr_digest request),
          ei_eventKind = ''work-delegation-stopped'', ei_occurredAt = stoppedAt,
          ei_actor = \<lparr>actor_kind = ''runtime'', actor_id = actorId\<rparr>,
          ei_subject = Some \<lparr>sub_recordId = tgt_id (sr_delegation request),
            sub_revision = tgt_revision (sr_delegation request),
            sub_digest = tgt_digest (sr_delegation request)\<rparr>,
          ei_payload = [(''requestDigest'', JStr (sr_digest request)),
            (''requestedAt'', JStr (sr_requestedAt request)),
            (''requestedBy'', JStr (sr_requestedBy request))]\<rparr>))))"

end
