(* ===== verification/Operation_Registry.thy ===== *)
theory Operation_Registry
  imports Work_Delegation
begin

text \<open>
  The public Delivery state (\<open>process/delivery-state.ts\<close>), the registry of Delivery
  operations with their eligibility (\<open>process/operation-registry.ts\<close>) and the registry of
  recovery obligations (\<open>process/recovery-registry.ts\<close>).
\<close>

section \<open>The Delivery state\<close>

record recovery_obligation =
  ro_kind :: recovery_kind
  ro_resumesAt :: recovery_step
  ro_exactEffectDigest :: "string option"

record delivery_activity =
  da_id :: string
  da_operation :: operation
  da_family :: family
  da_stage :: stage
  da_recovery :: "recovery_obligation option"

record subjects =
  su_proposedBoundary :: "reference option"
  su_activeBoundary :: "reference option"
  su_candidate :: "reference option"
  su_integrationAssessment :: "reference option"
  su_materialCondition :: "reference option"
  su_seal :: "reference option"
  su_evidence :: "reference option"
  su_closure :: "reference option"

record delegation_state =
  ds_admission :: "reference option"
  ds_current :: "(reference \<times> bool) option"  \<comment> \<open>reference and stopped\<close>
  ds_charged :: accounting

record delivery_state =
  st_standing :: standing
  st_candidateCondition :: candidate_condition
  st_activities :: "delivery_activity list"
  st_subjects :: subjects
  st_delegation :: delegation_state
  st_eventCount :: int
  st_headDigest :: "string option"

definition no_subjects :: subjects where
  "no_subjects = \<lparr>su_proposedBoundary = None, su_activeBoundary = None, su_candidate = None,
     su_integrationAssessment = None, su_materialCondition = None, su_seal = None,
     su_evidence = None, su_closure = None\<rparr>"

definition no_charges :: accounting where
  "no_charges = \<lparr>acc_operations = 0, acc_agentAttempts = 0, acc_reservedCellWallTimeMs = 0\<rparr>"

definition initialDeliveryState :: delivery_state where
  "initialDeliveryState = \<lparr>st_standing = Framing, st_candidateCondition = CandidateAbsent,
     st_activities = [], st_subjects = no_subjects,
     st_delegation = \<lparr>ds_admission = None, ds_current = None, ds_charged = no_charges\<rparr>,
     st_eventCount = 0, st_headDigest = None\<rparr>"

definition subjects_json :: "subjects \<Rightarrow> json" where
  "subjects_json s = JObj [(''proposedBoundary'', reference_option_json (su_proposedBoundary s)),
     (''activeBoundary'', reference_option_json (su_activeBoundary s)),
     (''candidate'', reference_option_json (su_candidate s)),
     (''integrationAssessment'', reference_option_json (su_integrationAssessment s)),
     (''materialCondition'', reference_option_json (su_materialCondition s)),
     (''seal'', reference_option_json (su_seal s)), (''evidence'', reference_option_json (su_evidence s)),
     (''closure'', reference_option_json (su_closure s))]"

definition delegation_state_json :: "delegation_state \<Rightarrow> json" where
  "delegation_state_json d = JObj [(''admission'', reference_option_json (ds_admission d)),
     (''current'', option_json (\<lambda>(r, stopped).
        JObj [(''reference'', reference_json r), (''stopped'', JBool stopped)]) (ds_current d)),
     (''charged'', accounting_json (ds_charged d))]"

definition deliveryWorkDecisionBasisDigest :: "platform \<Rightarrow> delivery_state \<Rightarrow> string res" where
  "deliveryWorkDecisionBasisDigest P s = digestCanonical P (JObj [
     (''schema'', JStr ''lifecycle.delivery-work-decision-basis.v1''),
     (''journal'', JObj [(''eventCount'', JInt (st_eventCount s)),
        (''headDigest'', nullable_string (st_headDigest s))]),
     (''subjects'', subjects_json (st_subjects s)),
     (''delegation'', delegation_state_json (st_delegation s)),
     (''standing'', JStr (standing_name (st_standing s))),
     (''candidateCondition'', JStr (condition_name (st_candidateCondition s)))])"

section \<open>Operations\<close>

datatype operation_input = NoInput | SemanticMarkdown
datatype operation_authority = NoAuthority | DirectorAuthentication
datatype operation_activity =
    AgentActivity | IntegrationActivity | TransactionActivity | RecoveryActivity
datatype operation_role = ReconnaissanceRole | BuilderRole | ReviewerRole
datatype concurrency = FreshDelivery | ProcessExclusive | ExactRecovery
datatype canonical_publication = NoPublication | ShortTargetLock | RetainedOperation
datatype candidate_requirement = RequiresAbsent | RequiresPresent | SealedAndEvidenced | AnyCandidate

record operation_entry_record =
  od_operation :: operation
  od_input :: operation_input
  od_authority :: operation_authority
  od_activity :: operation_activity
  od_role :: "operation_role option"
  od_legalStandings :: "standing list"
  od_concurrency :: concurrency
  od_canonicalPublication :: canonical_publication
  od_candidateRequirement :: candidate_requirement

definition operation_entry ::
  "operation \<Rightarrow> operation_input \<Rightarrow> operation_authority \<Rightarrow> operation_activity \<Rightarrow> operation_role option \<Rightarrow>
    standing list \<Rightarrow> concurrency \<Rightarrow> canonical_publication \<Rightarrow> candidate_requirement \<Rightarrow>
    operation_entry_record" where
  "operation_entry op inp auth act role stands conc publ req =
     \<lparr>od_operation = op, od_input = inp, od_authority = auth, od_activity = act, od_role = role,
      od_legalStandings = stands, od_concurrency = conc, od_canonicalPublication = publ,
      od_candidateRequirement = req\<rparr>"

fun operation_descriptor :: "operation \<Rightarrow> operation_entry_record" where
  "operation_descriptor Prepare = operation_entry Prepare SemanticMarkdown NoAuthority AgentActivity
     (Some ReconnaissanceRole) [Framing] FreshDelivery NoPublication RequiresAbsent"
| "operation_descriptor Admit = operation_entry Admit NoInput DirectorAuthentication TransactionActivity
     None [AwaitingAdmission, AwaitingReadmission] ProcessExclusive NoPublication AnyCandidate"
| "operation_descriptor Continue = operation_entry Continue SemanticMarkdown NoAuthority AgentActivity
     (Some BuilderRole) [Active] ProcessExclusive NoPublication RequiresPresent"
| "operation_descriptor Integrate = operation_entry Integrate NoInput NoAuthority IntegrationActivity
     None [Active, DecisionReady] ProcessExclusive NoPublication RequiresPresent"
| "operation_descriptor Evaluate = operation_entry Evaluate SemanticMarkdown NoAuthority AgentActivity
     (Some ReviewerRole) [Active] ProcessExclusive NoPublication RequiresPresent"
| "operation_descriptor Revise = operation_entry Revise SemanticMarkdown NoAuthority AgentActivity
     (Some ReconnaissanceRole) [BoundaryPaused] ProcessExclusive NoPublication RequiresPresent"
| "operation_descriptor Reaffirm = operation_entry Reaffirm SemanticMarkdown NoAuthority AgentActivity
     (Some ReconnaissanceRole) [BoundaryPaused] ProcessExclusive NoPublication RequiresPresent"
| "operation_descriptor Accept = operation_entry Accept NoInput DirectorAuthentication
     TransactionActivity None [DecisionReady] ProcessExclusive ShortTargetLock SealedAndEvidenced"
| "operation_descriptor NoShip = operation_entry NoShip SemanticMarkdown DirectorAuthentication
     TransactionActivity None
     [Framing, AwaitingAdmission, Active, BoundaryPaused, AwaitingReadmission, DecisionReady]
     ProcessExclusive NoPublication AnyCandidate"
| "operation_descriptor Recover = operation_entry Recover NoInput NoAuthority RecoveryActivity None
     [Framing, AwaitingAdmission, Active, BoundaryPaused, AwaitingReadmission, DecisionReady, Closed]
     ExactRecovery RetainedOperation AnyCandidate"

definition deliveryOperationDescriptor :: "string \<Rightarrow> operation_entry_record res" where
  "deliveryOperationDescriptor name = (case parse_operation name of
       None \<Rightarrow> Inl (DeliveryOperation ''operation'')
     | Some operation \<Rightarrow> Inr (operation_descriptor operation))"

definition unresolvedActivities :: "delivery_state \<Rightarrow> delivery_activity list" where
  "unresolvedActivities s = filter (\<lambda>a. da_stage a \<noteq> Completed) (st_activities s)"

fun candidateSatisfies :: "candidate_requirement \<Rightarrow> subjects \<Rightarrow> bool" where
  "candidateSatisfies RequiresAbsent s = (su_candidate s = None)"
| "candidateSatisfies RequiresPresent s = (su_candidate s \<noteq> None)"
| "candidateSatisfies SealedAndEvidenced s =
     (su_candidate s \<noteq> None \<and> su_seal s \<noteq> None \<and> su_evidence s \<noteq> None)"
| "candidateSatisfies AnyCandidate s = True"

definition some_recovery :: "delivery_activity list \<Rightarrow> bool" where
  "some_recovery active = list_ex (\<lambda>a. da_recovery a \<noteq> None) active"

definition concurrencyAllows :: "operation_entry_record \<Rightarrow> delivery_activity list \<Rightarrow> bool" where
  "concurrencyAllows descriptor active =
     (if od_concurrency descriptor = ExactRecovery then some_recovery active
      else if some_recovery active then False else active = [])"

definition operation_eligible :: "delivery_state \<Rightarrow> bool \<Rightarrow> operation \<Rightarrow> bool" where
  "operation_eligible state candidateIntegrated operation =
     (let preparation = find (\<lambda>a. da_operation a = Prepare) (st_activities state) in
      if operation = Recover then False
      else if operation = Evaluate \<and> \<not> candidateIntegrated then False
      else if operation = Prepare \<and> preparation \<noteq> None then False
      else if operation = NoShip \<and> st_standing state = Framing \<and>
              map_option da_stage preparation \<noteq> Some Completed then False
      else st_standing state \<in> set (od_legalStandings (operation_descriptor operation)) \<and>
           candidateSatisfies (od_candidateRequirement (operation_descriptor operation)) (st_subjects state) \<and>
           concurrencyAllows (operation_descriptor operation) (unresolvedActivities state))"

definition eligibleDeliveryOperations :: "delivery_state \<Rightarrow> bool \<Rightarrow> operation list" where
  "eligibleDeliveryOperations state candidateIntegrated =
     (if st_standing state = Closed then []
      else if some_recovery (unresolvedActivities state) then [Recover]
      else filter (operation_eligible state candidateIntegrated) DELIVERY_OPERATIONS)"

section \<open>Recovery obligations\<close>

datatype recovery_next = NextEvents "string list" | NextPhysical string

datatype recovery_support =
    AttemptCompiler
  | ProviderPlanner
  | ProviderObservation
  | ExecutionOutput
  | CandidateCarrier
  | AttemptObservation
  | BoundaryCompiler
  | CheckExecution
  | ActivityCompiler
  | AuthorityCompiler
  | TransactionPlanner
  | TransactionObservation
  | TransactionFinalizer
  | StoreCustody

datatype lock_scope = DeliveryLock | CandidateLock | TargetLock

datatype idempotence =
    ExactEffectObservation
  | ExactEffectIntent
  | ExactCandidateRevision
  | ExactRecordFinalization
  | ExactTransactionObservation
  | ExactPhysicalDisposition

record recovery_descriptor =
  rd_kind :: recovery_kind
  rd_resumesAt :: recovery_step
  rd_next :: recovery_next
  rd_support :: recovery_support
  rd_lockScope :: lock_scope
  rd_idempotence :: idempotence

definition recovery_entry ::
  "recovery_kind \<Rightarrow> recovery_step \<Rightarrow> recovery_next \<Rightarrow> recovery_support \<Rightarrow> lock_scope \<Rightarrow> idempotence \<Rightarrow>
    recovery_descriptor" where
  "recovery_entry k s n sp l i = \<lparr>rd_kind = k, rd_resumesAt = s, rd_next = n, rd_support = sp,
     rd_lockScope = l, rd_idempotence = i\<rparr>"

definition RECOVERY_DESCRIPTORS :: "recovery_descriptor list" where
  "RECOVERY_DESCRIPTORS = [
     recovery_entry FinalizationRecovery StepIntegrationAssessed (NextEvents [''integration-assessed''])
       CandidateCarrier DeliveryLock ExactRecordFinalization,
     recovery_entry FinalizationRecovery StepCandidateSealed (NextEvents [''candidate-sealed''])
       CandidateCarrier CandidateLock ExactRecordFinalization,
     recovery_entry FinalizationRecovery StepAgentAttemptPrepared
       (NextEvents [''agent-attempt-prepared'', ''agent-pre-intent-refused''])
       AttemptCompiler DeliveryLock ExactRecordFinalization,
     recovery_entry FinalizationRecovery StepProviderEffectIntended
       (NextEvents [''provider-effect-intended'']) ProviderPlanner DeliveryLock ExactEffectIntent,
     recovery_entry ProviderRecovery StepProviderEffectObserved
       (NextEvents [''provider-effect-observed'']) ProviderObservation DeliveryLock ExactEffectObservation,
     recovery_entry FinalizationRecovery StepWorkProductObservation
       (NextEvents [''agent-work-product-submitted'', ''agent-work-product-abandoned''])
       ExecutionOutput DeliveryLock ExactRecordFinalization,
     recovery_entry CandidateObservationRecovery StepCandidateRevisionObserved
       (NextEvents [''candidate-revision-observed'']) CandidateCarrier CandidateLock ExactCandidateRevision,
     recovery_entry FinalizationRecovery StepExecutionReceiptRecorded
       (NextEvents [''execution-receipt-recorded'']) AttemptObservation DeliveryLock ExactRecordFinalization,
     recovery_entry FinalizationRecovery StepWorkBoundaryFinalized
       (NextEvents [''work-boundary-finalized'', ''activity-completed''])
       BoundaryCompiler DeliveryLock ExactRecordFinalization,
     recovery_entry FinalizationRecovery StepBaselineChecks
       (NextEvents [''check-receipt-recorded'', ''activity-completed''])
       CheckExecution DeliveryLock ExactRecordFinalization,
     recovery_entry FinalizationRecovery StepEvaluationChecks
       (NextEvents [''check-receipt-recorded'', ''agent-attempt-prepared'', ''agent-pre-intent-refused''])
       CheckExecution CandidateLock ExactRecordFinalization,
     recovery_entry FinalizationRecovery StepActivityFinalization
       (NextEvents [''check-receipt-recorded'', ''material-condition-frozen'',
          ''evidence-packet-finalized'', ''activity-completed''])
       ActivityCompiler DeliveryLock ExactRecordFinalization,
     recovery_entry FinalizationRecovery StepActivityCompleted (NextEvents [''activity-completed''])
       ActivityCompiler DeliveryLock ExactRecordFinalization,
     recovery_entry FinalizationRecovery StepDirectorDecisionAuthenticated
       (NextEvents [''director-decision-authenticated'']) AuthorityCompiler TargetLock
       ExactRecordFinalization,
     recovery_entry FinalizationRecovery StepTransactionEffectIntended
       (NextEvents [''transaction-effect-intended'']) TransactionPlanner TargetLock ExactEffectIntent,
     recovery_entry TransactionRecovery StepTransactionEffectObserved
       (NextEvents [''transaction-effect-observed'']) TransactionObservation TargetLock
       ExactTransactionObservation,
     recovery_entry FinalizationRecovery StepTransactionFinalization
       (NextEvents [''candidate-revision-observed'', ''activity-completed'', ''closure-recorded''])
       TransactionFinalizer TargetLock ExactRecordFinalization,
     recovery_entry FinalizationRecovery StepStoreSeal (NextPhysical ''store-seal'')
       StoreCustody TargetLock ExactPhysicalDisposition,
     recovery_entry FinalizationRecovery StepStoreArchive (NextPhysical ''store-archive'')
       StoreCustody TargetLock ExactPhysicalDisposition]"

definition deliveryRecoveryDescriptor :: "recovery_kind \<Rightarrow> string \<Rightarrow> recovery_descriptor res" where
  "deliveryRecoveryDescriptor kind resumesAt =
     (case find (\<lambda>d. rd_kind d = kind \<and> step_name (rd_resumesAt d) = resumesAt) RECOVERY_DESCRIPTORS of
        None \<Rightarrow> Inl (DeliveryRecovery ''step'')
      | Some d \<Rightarrow> Inr d)"

section \<open>Facts about the registries\<close>

lemma od_operation_descriptor [simp]: "od_operation (operation_descriptor operation) = operation"
  by (cases operation) (simp_all add: operation_entry_def)

lemma operation_name_inject [simp]: "operation_name a = operation_name b \<longleftrightarrow> a = b"
  by (cases a; cases b) simp_all

lemma DELIVERY_OPERATIONS_complete [simp]: "operation \<in> set DELIVERY_OPERATIONS"
  by (cases operation) (simp_all add: DELIVERY_OPERATIONS_def)

lemma map_of_name_table:
  assumes "inj_on name (set xs)" and "x \<in> set xs"
  shows "map_of (name_table name xs) (name x) = Some x"
  using assms by (induction xs) (auto simp: name_table_def inj_on_def)

lemma parse_operation_name [simp]: "parse_operation (operation_name operation) = Some operation"
  unfolding parse_operation_def parse_name_def
  by (rule map_of_name_table) (auto simp: inj_on_def)

lemma parse_operation_Some: "parse_operation s = Some operation \<longleftrightarrow> s = operation_name operation"
  unfolding parse_operation_def
  by (metis parse_name_table parse_operation_def parse_operation_name)

lemma deliveryOperationDescriptor_Inr:
  "deliveryOperationDescriptor name = Inr d \<longleftrightarrow>
    (\<exists>operation. name = operation_name operation \<and> d = operation_descriptor operation)"
  by (auto simp: deliveryOperationDescriptor_def parse_operation_Some split: option.splits)

lemma step_name_inject [simp]: "step_name a = step_name b \<longleftrightarrow> a = b"
proof
  assume "step_name a = step_name b"
  then have "map_of (name_table step_name DELIVERY_RECOVERY_STEPS) (step_name a)
      = map_of (name_table step_name DELIVERY_RECOVERY_STEPS) (step_name b)" by simp
  moreover have "map_of (name_table step_name DELIVERY_RECOVERY_STEPS) (step_name x) = Some x" for x
    by (cases x) (simp_all add: name_table_def DELIVERY_RECOVERY_STEPS_def)
  ultimately show "a = b" by simp
qed simp

text \<open>A recovery step belongs to exactly one obligation kind.\<close>

fun step_kind :: "recovery_step \<Rightarrow> recovery_kind" where
  "step_kind StepProviderEffectObserved = ProviderRecovery"
| "step_kind StepCandidateRevisionObserved = CandidateObservationRecovery"
| "step_kind StepTransactionEffectObserved = TransactionRecovery"
| "step_kind _ = FinalizationRecovery"

lemma deliveryRecoveryDescriptor_Inr:
  "deliveryRecoveryDescriptor kind name = Inr d \<Longrightarrow>
    name = step_name (rd_resumesAt d) \<and> kind = rd_kind d \<and> d \<in> set RECOVERY_DESCRIPTORS \<and>
    rd_kind d = step_kind (rd_resumesAt d)"
proof -
  assume "deliveryRecoveryDescriptor kind name = Inr d"
  then have f: "find (\<lambda>d. rd_kind d = kind \<and> step_name (rd_resumesAt d) = name) RECOVERY_DESCRIPTORS = Some d"
    by (simp add: deliveryRecoveryDescriptor_def split: option.splits)
  have all: "\<forall>x \<in> set RECOVERY_DESCRIPTORS. rd_kind x = step_kind (rd_resumesAt x)"
    by (simp add: RECOVERY_DESCRIPTORS_def recovery_entry_def)
  from f have "d \<in> set RECOVERY_DESCRIPTORS" "rd_kind d = kind" "step_name (rd_resumesAt d) = name"
    by (auto simp: find_Some_iff)
  with all show ?thesis by auto
qed

end
