(* ===== verification/Transaction_Facts.thy ===== *)
theory Transaction_Facts
  imports Delivery_Types Work_Delegation
begin

text \<open>
  The observation facts of a transaction effect
  (\<open>process/transaction-observation-facts-v7.ts\<close>): their shapes, and which shape an
  activity, its Director Decision and the observed outcome admit.
\<close>

definition FOUNDATION_ADMISSION_TRANSACTION_OBSERVATION_FACTS_V1 :: string where
  "FOUNDATION_ADMISSION_TRANSACTION_OBSERVATION_FACTS_V1 = ''lifecycle.admission-effect-observation-facts.v2''"
definition FOUNDATION_TERMINAL_REPOSITORY_OBSERVATION_FACTS_V1 :: string where
  "FOUNDATION_TERMINAL_REPOSITORY_OBSERVATION_FACTS_V1 = ''lifecycle.terminal-repository-effect-observation.v1''"
definition FOUNDATION_TERMINAL_ACCEPTANCE_OBSERVATION_FACTS_V1 :: string where
  "FOUNDATION_TERMINAL_ACCEPTANCE_OBSERVATION_FACTS_V1 = ''lifecycle.terminal-acceptance-effect-observation.v2''"
definition FOUNDATION_TERMINAL_DETACHED_OBSERVATION_FACTS_V1 :: string where
  "FOUNDATION_TERMINAL_DETACHED_OBSERVATION_FACTS_V1 = ''lifecycle.terminal-detached-canonical-effect-observation.v1''"
definition FOUNDATION_TERMINAL_FAILURE_OBSERVATION_FACTS_V1 :: string where
  "FOUNDATION_TERMINAL_FAILURE_OBSERVATION_FACTS_V1 = ''lifecycle.terminal-effect-failure.v1''"

lemmas facts_schemas =
  FOUNDATION_ADMISSION_TRANSACTION_OBSERVATION_FACTS_V1_def
  FOUNDATION_TERMINAL_REPOSITORY_OBSERVATION_FACTS_V1_def
  FOUNDATION_TERMINAL_ACCEPTANCE_OBSERVATION_FACTS_V1_def
  FOUNDATION_TERMINAL_DETACHED_OBSERVATION_FACTS_V1_def
  FOUNDATION_TERMINAL_FAILURE_OBSERVATION_FACTS_V1_def

section \<open>Leaf checks\<close>

definition tf_object :: "json option \<Rightarrow> jobject res" where
  "tf_object value = (case value of Some (JObj ms) \<Rightarrow> Inr ms | _ \<Rightarrow> Inl (TransactionFacts ''shape''))"

definition tf_exactKeys :: "jobject \<Rightarrow> string list \<Rightarrow> unit res" where
  "tf_exactKeys ms expected = failIf (\<not> exact_keys ms expected) (TransactionFacts ''shape'') (Inr ())"

definition tf_string :: "json option \<Rightarrow> string res" where
  "tf_string value = (case value of Some (JStr s) \<Rightarrow> Inr s | _ \<Rightarrow> Inl (TransactionFacts ''shape''))"

definition tf_digest :: "json option \<Rightarrow> string res" where
  "tf_digest value = bindE (tf_string value) (\<lambda>selected.
     failIf (\<not> sha256_pattern selected) (TransactionFacts ''digest'') (Inr selected))"

definition tf_nullableDigest :: "json option \<Rightarrow> string option res" where
  "tf_nullableDigest value =
     (if value = Some JNull then Inr None else bindE (tf_digest value) (\<lambda>d. Inr (Some d)))"

definition tf_identifier :: "json option \<Rightarrow> string res" where
  "tf_identifier value = bindE (tf_string value) (\<lambda>selected.
     failIf (\<not> id_pattern selected \<or> length selected > 512) (TransactionFacts ''identity'') (Inr selected))"

definition tf_gitObject :: "json option \<Rightarrow> string res" where
  "tf_gitObject value = bindE (tf_string value) (\<lambda>selected.
     failIf (\<not> git_object_pattern selected) (TransactionFacts ''git-object'') (Inr selected))"

definition tf_gitRef :: "json option \<Rightarrow> string res" where
  "tf_gitRef value = bindE (tf_string value) (\<lambda>selected.
     failIf (\<not> git_ref_pattern selected \<or> length selected > 512) (TransactionFacts ''git-ref'') (Inr selected))"

definition expected_git_length :: "json option \<Rightarrow> nat" where
  "expected_git_length objectFormat = (if objectFormat = Some (JStr ''sha1'') then 40 else 64)"

definition repositoryCoordinate :: "jobject \<Rightarrow> json option res" where
  "repositoryCoordinate value =
     bindE (tf_exactKeys value [''ref'', ''commit'', ''tree'', ''objectFormat'']) (\<lambda>_.
     bindE (tf_gitRef (map_of value ''ref'')) (\<lambda>_.
     let objectFormat = map_of value ''objectFormat'' in
     failIf (objectFormat \<noteq> Some (JStr ''sha1'') \<and> objectFormat \<noteq> Some (JStr ''sha256''))
       (TransactionFacts ''shape'')
     (bindE (tf_gitObject (map_of value ''commit'')) (\<lambda>commit.
     bindE (tf_gitObject (map_of value ''tree'')) (\<lambda>tree.
     failIf (length commit \<noteq> expected_git_length objectFormat \<or> length tree \<noteq> expected_git_length objectFormat)
       (TransactionFacts ''git-object-format'')
     (Inr objectFormat))))))"

definition coordinate_of :: "jobject \<Rightarrow> jobject \<Rightarrow> jobject" where
  "coordinate_of facts source =
     [(''ref'', the (map_of facts ''ref'')), (''commit'', the (map_of source ''commit'')),
      (''tree'', the (map_of source ''tree'')), (''objectFormat'', the (map_of facts ''objectFormat''))]"

section \<open>Shapes\<close>

definition admission_disposition :: "json option \<Rightarrow> unit res" where
  "admission_disposition v =
     (if v = Some JNull then Inr () else
      bindE (tf_object v) (\<lambda>disposition.
      bindE (tf_exactKeys disposition [''outcome'', ''reason'', ''observedFactsDigest'']) (\<lambda>_.
      failIf (map_of disposition ''outcome'' \<noteq> Some (JStr ''not-applied'') \<or>
              (map_of disposition ''reason'' \<noteq> Some (JStr ''repository-basis-mismatch'') \<and>
               map_of disposition ''reason'' \<noteq> Some (JStr ''candidate-continuity-mismatch'')))
        (TransactionFacts ''shape'')
      (bindE (tf_digest (map_of disposition ''observedFactsDigest'')) (\<lambda>_. Inr ())))))"

definition admissionFacts :: "jobject \<Rightarrow> unit res" where
  "admissionFacts value =
     bindE (tf_exactKeys value [''schema'', ''outcome'', ''disposition'', ''repositoryBasisDigest'']) (\<lambda>_.
     failIf (map_of value ''outcome'' \<notin>
         {Some (JStr ''applied''), Some (JStr ''not-applied''), Some (JStr ''indeterminate'')})
       (TransactionFacts ''shape'')
     (bindE (tf_nullableDigest (map_of value ''repositoryBasisDigest'')) (\<lambda>_.
     bindE (admission_disposition (map_of value ''disposition'')) (\<lambda>_.
     failIf ((map_of value ''outcome'' = Some (JStr ''not-applied'')) \<noteq>
             (map_of value ''disposition'' \<noteq> Some JNull)) (TransactionFacts ''outcome'')
     (failIf (map_of value ''outcome'' \<noteq> Some (JStr ''indeterminate'') \<and>
              map_of value ''repositoryBasisDigest'' = Some JNull) (TransactionFacts ''outcome'')
     (failIf (case map_of value ''disposition'' of
          Some (JObj disposition) \<Rightarrow>
            map_of disposition ''reason'' = Some (JStr ''repository-basis-mismatch'') \<and>
            map_of disposition ''observedFactsDigest'' \<noteq> map_of value ''repositoryBasisDigest''
        | _ \<Rightarrow> False) (TransactionFacts ''outcome'')
     (Inr ())))))))"

definition acceptanceFacts :: "jobject \<Rightarrow> unit res" where
  "acceptanceFacts facts =
     bindE (tf_exactKeys facts [''schema'', ''ref'', ''commit'', ''tree'', ''objectFormat'',
       ''canonicalResultDigest'', ''observedTip'', ''recognition'']) (\<lambda>_.
     bindE (repositoryCoordinate (coordinate_of facts facts)) (\<lambda>_.
     bindE (tf_digest (map_of facts ''canonicalResultDigest'')) (\<lambda>_.
     bindE (tf_object (map_of facts ''observedTip'')) (\<lambda>tip.
     bindE (tf_exactKeys tip [''commit'', ''tree'']) (\<lambda>_.
     bindE (repositoryCoordinate (coordinate_of facts tip)) (\<lambda>_.
     failIf (\<not> (map_of facts ''recognition'' = Some (JStr ''at-tip'') \<or>
                map_of facts ''recognition'' = Some (JStr ''ancestor'')) \<or>
             (map_of facts ''recognition'' = Some (JStr ''at-tip'') \<and>
              (map_of tip ''commit'' \<noteq> map_of facts ''commit'' \<or> map_of tip ''tree'' \<noteq> map_of facts ''tree'')) \<or>
             (map_of facts ''recognition'' = Some (JStr ''ancestor'') \<and>
              map_of tip ''commit'' = map_of facts ''commit''))
       (TransactionFacts ''acceptance-recognition'') (Inr ())))))))"

definition detachedFacts :: "jobject \<Rightarrow> unit res" where
  "detachedFacts facts =
     bindE (tf_exactKeys facts [''schema'', ''attached'', ''canonicalRef'', ''canonicalCommit'',
       ''canonicalTree'']) (\<lambda>_.
     bindE (tf_object (map_of facts ''attached'')) (\<lambda>attached.
     bindE (repositoryCoordinate attached) (\<lambda>objectFormat.
     bindE (tf_gitRef (map_of facts ''canonicalRef'')) (\<lambda>_.
     bindE (tf_gitObject (map_of facts ''canonicalCommit'')) (\<lambda>commit.
     bindE (tf_gitObject (map_of facts ''canonicalTree'')) (\<lambda>tree.
     failIf (length commit \<noteq> expected_git_length objectFormat \<or> length tree \<noteq> expected_git_length objectFormat)
       (TransactionFacts ''git-object-format'') (Inr ())))))))"

definition terminalFailureFacts :: "jobject \<Rightarrow> unit res" where
  "terminalFailureFacts value =
     bindE (tf_exactKeys value [''schema'', ''stage'', ''code'']) (\<lambda>_.
     failIf (map_of value ''stage'' \<notin> {Some (JStr ''repository-observation''),
         Some (JStr ''accepted-checkout''), Some (JStr ''acceptance-effect''),
         Some (JStr ''no-ship-non-integration'')}) (TransactionFacts ''shape'')
     (bindE (tf_identifier (map_of value ''code'')) (\<lambda>_. Inr ())))"

definition parseFoundationTransactionObservationFactsV7 :: "json option \<Rightarrow> jobject res" where
  "parseFoundationTransactionObservationFactsV7 value =
     bindE (tf_object value) (\<lambda>facts.
     bindE (tf_string (map_of facts ''schema'')) (\<lambda>schema.
     bindE (if schema = FOUNDATION_ADMISSION_TRANSACTION_OBSERVATION_FACTS_V1 then admissionFacts facts
        else if schema = FOUNDATION_TERMINAL_REPOSITORY_OBSERVATION_FACTS_V1 then
          bindE (tf_exactKeys facts [''schema'', ''ref'', ''commit'', ''tree'', ''objectFormat''])
            (\<lambda>_. bindE (repositoryCoordinate (coordinate_of facts facts)) (\<lambda>_. Inr ()))
        else if schema = FOUNDATION_TERMINAL_ACCEPTANCE_OBSERVATION_FACTS_V1 then acceptanceFacts facts
        else if schema = FOUNDATION_TERMINAL_DETACHED_OBSERVATION_FACTS_V1 then detachedFacts facts
        else if schema = FOUNDATION_TERMINAL_FAILURE_OBSERVATION_FACTS_V1 then terminalFailureFacts facts
        else Inl (TransactionFacts ''schema'')) (\<lambda>_. Inr facts)))"

section \<open>Agreement with the activity\<close>

definition has_schema :: "jobject \<Rightarrow> string \<Rightarrow> bool" where
  "has_schema facts s \<longleftrightarrow> map_of facts ''schema'' = Some (JStr s)"

definition disposition_reason :: "jobject \<Rightarrow> json option" where
  "disposition_reason facts = (case map_of facts ''disposition'' of
       Some (JObj d) \<Rightarrow> map_of d ''reason'' | _ \<Rightarrow> None)"

definition assertAdmissionFacts ::
  "operation \<Rightarrow> decision_kind \<Rightarrow> transaction_outcome \<Rightarrow> jobject \<Rightarrow> jobject res" where
  "assertAdmissionFacts operation decisionKind outcome facts =
     failIf (operation \<noteq> Admit \<or> \<not> (decisionKind = DecisionAdmit \<or> decisionKind = DecisionReadmit) \<or>
             map_of facts ''outcome'' \<noteq> Some (JStr (transaction_outcome_name outcome)))
       (TransactionFacts ''operation'')
     (failIf (decisionKind = DecisionAdmit \<and>
              disposition_reason facts = Some (JStr ''candidate-continuity-mismatch''))
       (TransactionFacts ''decision'') (Inr facts))"

definition assertTerminalFacts ::
  "operation \<Rightarrow> decision_kind \<Rightarrow> transaction_outcome \<Rightarrow> jobject \<Rightarrow> jobject res" where
  "assertTerminalFacts operation decisionKind outcome facts =
     failIf (\<not> (operation = Accept \<or> operation = NoShip)) (TransactionFacts ''operation'')
     (failIf ((operation = Accept \<and> decisionKind \<noteq> DecisionAccept) \<or>
              (operation = NoShip \<and> decisionKind \<noteq> DecisionNoShip)) (TransactionFacts ''operation'')
     (failIf (has_schema facts FOUNDATION_TERMINAL_ACCEPTANCE_OBSERVATION_FACTS_V1 \<and>
              (operation \<noteq> Accept \<or> outcome \<noteq> Applied)) (TransactionFacts ''outcome'')
     (failIf (operation = Accept \<and> outcome = Applied \<and>
              \<not> has_schema facts FOUNDATION_TERMINAL_ACCEPTANCE_OBSERVATION_FACTS_V1)
       (TransactionFacts ''outcome'')
     (failIf (has_schema facts FOUNDATION_TERMINAL_DETACHED_OBSERVATION_FACTS_V1 \<and> operation \<noteq> Accept)
       (TransactionFacts ''operation'')
     (failIf (has_schema facts FOUNDATION_TERMINAL_DETACHED_OBSERVATION_FACTS_V1 \<and> outcome = Applied)
       (TransactionFacts ''outcome'')
     (failIf (has_schema facts FOUNDATION_TERMINAL_FAILURE_OBSERVATION_FACTS_V1 \<and>
              (map_of facts ''stage'' = Some (JStr ''no-ship-non-integration'')) \<noteq> (operation = NoShip))
       (TransactionFacts ''operation'')
     (failIf (has_schema facts FOUNDATION_TERMINAL_FAILURE_OBSERVATION_FACTS_V1 \<and> outcome \<noteq> Indeterminate)
       (TransactionFacts ''outcome'') (Inr facts))))))))"

definition assertFoundationTransactionObservationFactsV7 ::
  "platform \<Rightarrow> operation \<Rightarrow> decision_kind \<Rightarrow> transaction_outcome \<Rightarrow> json option \<Rightarrow> json option \<Rightarrow>
    jobject res" where
  "assertFoundationTransactionObservationFactsV7 P operation decisionKind outcome facts_value factsDigest =
     bindE (parseFoundationTransactionObservationFactsV7 facts_value) (\<lambda>facts.
     bindE (tf_digest factsDigest) (\<lambda>retainedDigest.
     bindE (digestCanonical P (JObj facts)) (\<lambda>d.
     failIf (d \<noteq> retainedDigest) (TransactionFacts ''digest-mismatch'')
     (if has_schema facts FOUNDATION_ADMISSION_TRANSACTION_OBSERVATION_FACTS_V1
      then assertAdmissionFacts operation decisionKind outcome facts
      else assertTerminalFacts operation decisionKind outcome facts))))"

definition foundationTransactionObservationFactsDigestV7 :: "platform \<Rightarrow> jobject \<Rightarrow> string res" where
  "foundationTransactionObservationFactsDigestV7 P facts =
     bindE (parseFoundationTransactionObservationFactsV7 (Some (JObj facts))) (\<lambda>_.
     digestCanonical P (JObj facts))"

section \<open>What an observation establishes\<close>

lemma facts_schemas_distinct:
  "distinct [FOUNDATION_ADMISSION_TRANSACTION_OBSERVATION_FACTS_V1,
     FOUNDATION_TERMINAL_REPOSITORY_OBSERVATION_FACTS_V1,
     FOUNDATION_TERMINAL_ACCEPTANCE_OBSERVATION_FACTS_V1,
     FOUNDATION_TERMINAL_DETACHED_OBSERVATION_FACTS_V1,
     FOUNDATION_TERMINAL_FAILURE_OBSERVATION_FACTS_V1]"
  by (simp add: facts_schemas)

lemma tf_string_Inr [res_simps]: "tf_string v = Inr s \<longleftrightarrow> v = Some (JStr s)"
  by (auto simp: tf_string_def split: option.splits json.splits)

lemma tf_object_Inr [res_simps]: "tf_object v = Inr ms \<longleftrightarrow> v = Some (JObj ms)"
  by (auto simp: tf_object_def split: option.splits json.splits)

lemma parsed_facts:
  assumes "parseFoundationTransactionObservationFactsV7 v = Inr facts"
  shows "v = Some (JObj facts)"
    and "\<exists>s \<in> {FOUNDATION_ADMISSION_TRANSACTION_OBSERVATION_FACTS_V1,
     FOUNDATION_TERMINAL_REPOSITORY_OBSERVATION_FACTS_V1,
     FOUNDATION_TERMINAL_ACCEPTANCE_OBSERVATION_FACTS_V1,
     FOUNDATION_TERMINAL_DETACHED_OBSERVATION_FACTS_V1,
     FOUNDATION_TERMINAL_FAILURE_OBSERVATION_FACTS_V1}. has_schema facts s"
  using assms
  by (auto simp only: parseFoundationTransactionObservationFactsV7_def res_simps has_schema_def
      bindE_simps sum.simps split: if_splits)

lemma assertTerminalFacts_same: "assertTerminalFacts p d t f = Inr facts \<Longrightarrow> facts = f"
  by (simp add: assertTerminalFacts_def res_simps)

lemma assertAdmissionFacts_same: "assertAdmissionFacts p d t f = Inr facts \<Longrightarrow> facts = f"
  by (simp add: assertAdmissionFacts_def res_simps)

lemma asserted_facts_cases:
  assumes "assertFoundationTransactionObservationFactsV7 P operation d t v dg = Inr facts"
  obtains (admission) "parseFoundationTransactionObservationFactsV7 v = Inr facts"
      "has_schema facts FOUNDATION_ADMISSION_TRANSACTION_OBSERVATION_FACTS_V1"
      "assertAdmissionFacts operation d t facts = Inr facts"
    | (terminal) "parseFoundationTransactionObservationFactsV7 v = Inr facts"
      "\<not> has_schema facts FOUNDATION_ADMISSION_TRANSACTION_OBSERVATION_FACTS_V1"
      "assertTerminalFacts operation d t facts = Inr facts"
  using assms
  by (auto simp: assertFoundationTransactionObservationFactsV7_def res_simps
      dest: assertTerminalFacts_same assertAdmissionFacts_same split: if_splits)

lemma observed_facts_digest:
  "assertFoundationTransactionObservationFactsV7 P operation d t v dg = Inr facts \<Longrightarrow>
    v = Some (JObj facts) \<and> (\<exists>h. dg = Some (JStr h) \<and> digestCanonical P (JObj facts) = Inr h)"
  by (auto simp: assertFoundationTransactionObservationFactsV7_def tf_digest_def res_simps
      dest: assertTerminalFacts_same assertAdmissionFacts_same parsed_facts(1) split: if_splits)

end
