(* ===== verification/Delivery_Events.thy ===== *)
theory Delivery_Events
  imports Operation_Registry Transaction_Facts
begin

text \<open>
  The registry of Delivery events (\<open>process/delivery-event-registry.ts\<close>): the event kinds,
  the record each binds, the exact shape of each payload, and the resolution of an event's
  subject to its retained Control record revision.
\<close>

datatype event_kind =
    DeliveryCreated
  | DirectorBriefSubmitted
  | WorkDelegationSet
  | WorkDelegationStopped
  | ActivityStarted
  | ActivityRecoveryRecorded
  | AgentPreIntentRefused
  | AgentAttemptPrepared
  | ProviderEffectIntended
  | ProviderEffectObserved
  | AgentWorkProductSubmitted
  | AgentWorkProductAbandoned
  | CandidateRevisionObserved
  | IntegrationAssessed
  | ExecutionReceiptRecorded
  | WorkBoundaryFinalized
  | MaterialConditionFrozen
  | CandidateSealed
  | CheckReceiptRecorded
  | EvidencePacketFinalized
  | DirectorDecisionAuthenticated
  | TransactionEffectIntended
  | TransactionEffectObserved
  | ActivityCompleted
  | ClosureRecorded

fun event_kind_name :: "event_kind \<Rightarrow> string" where
  "event_kind_name DeliveryCreated = ''delivery-created''"
| "event_kind_name DirectorBriefSubmitted = ''director-brief-submitted''"
| "event_kind_name WorkDelegationSet = ''work-delegation-set''"
| "event_kind_name WorkDelegationStopped = ''work-delegation-stopped''"
| "event_kind_name ActivityStarted = ''activity-started''"
| "event_kind_name ActivityRecoveryRecorded = ''activity-recovery-recorded''"
| "event_kind_name AgentPreIntentRefused = ''agent-pre-intent-refused''"
| "event_kind_name AgentAttemptPrepared = ''agent-attempt-prepared''"
| "event_kind_name ProviderEffectIntended = ''provider-effect-intended''"
| "event_kind_name ProviderEffectObserved = ''provider-effect-observed''"
| "event_kind_name AgentWorkProductSubmitted = ''agent-work-product-submitted''"
| "event_kind_name AgentWorkProductAbandoned = ''agent-work-product-abandoned''"
| "event_kind_name CandidateRevisionObserved = ''candidate-revision-observed''"
| "event_kind_name IntegrationAssessed = ''integration-assessed''"
| "event_kind_name ExecutionReceiptRecorded = ''execution-receipt-recorded''"
| "event_kind_name WorkBoundaryFinalized = ''work-boundary-finalized''"
| "event_kind_name MaterialConditionFrozen = ''material-condition-frozen''"
| "event_kind_name CandidateSealed = ''candidate-sealed''"
| "event_kind_name CheckReceiptRecorded = ''check-receipt-recorded''"
| "event_kind_name EvidencePacketFinalized = ''evidence-packet-finalized''"
| "event_kind_name DirectorDecisionAuthenticated = ''director-decision-authenticated''"
| "event_kind_name TransactionEffectIntended = ''transaction-effect-intended''"
| "event_kind_name TransactionEffectObserved = ''transaction-effect-observed''"
| "event_kind_name ActivityCompleted = ''activity-completed''"
| "event_kind_name ClosureRecorded = ''closure-recorded''"

definition DELIVERY_EVENT_KINDS :: "event_kind list" where
  "DELIVERY_EVENT_KINDS = [DeliveryCreated, DirectorBriefSubmitted, WorkDelegationSet,
     WorkDelegationStopped, ActivityStarted, ActivityRecoveryRecorded, AgentPreIntentRefused,
     AgentAttemptPrepared, ProviderEffectIntended, ProviderEffectObserved,
     AgentWorkProductSubmitted, AgentWorkProductAbandoned, CandidateRevisionObserved,
     IntegrationAssessed, ExecutionReceiptRecorded, WorkBoundaryFinalized, MaterialConditionFrozen,
     CandidateSealed, CheckReceiptRecorded, EvidencePacketFinalized, DirectorDecisionAuthenticated,
     TransactionEffectIntended, TransactionEffectObserved, ActivityCompleted, ClosureRecorded]"

definition parse_event_kind :: "string \<Rightarrow> event_kind option" where
  "parse_event_kind s = parse_name (name_table event_kind_name DELIVERY_EVENT_KINDS) s"

datatype subject_use = SubjectForbidden | SubjectRequired | ExactActivitySubject

text \<open>The record kind an event binds and how (\<open>DESCRIPTORS\<close>).\<close>

fun event_subject :: "event_kind \<Rightarrow> string option \<times> subject_use" where
  "event_subject DeliveryCreated = (None, SubjectForbidden)"
| "event_subject DirectorBriefSubmitted = (Some ''director-brief'', SubjectRequired)"
| "event_subject ActivityStarted = (None, SubjectForbidden)"
| "event_subject WorkDelegationSet = (Some ''work-delegation'', SubjectRequired)"
| "event_subject WorkDelegationStopped = (Some ''work-delegation'', SubjectRequired)"
| "event_subject ActivityRecoveryRecorded = (None, SubjectForbidden)"
| "event_subject AgentPreIntentRefused = (None, SubjectForbidden)"
| "event_subject AgentAttemptPrepared = (Some ''agent-attempt'', SubjectRequired)"
| "event_subject ProviderEffectIntended = (Some ''agent-attempt'', ExactActivitySubject)"
| "event_subject ProviderEffectObserved = (Some ''agent-attempt'', ExactActivitySubject)"
| "event_subject AgentWorkProductSubmitted = (Some ''agent-work-product'', SubjectRequired)"
| "event_subject AgentWorkProductAbandoned = (Some ''agent-attempt'', ExactActivitySubject)"
| "event_subject IntegrationAssessed = (Some ''integration-assessment'', SubjectRequired)"
| "event_subject CandidateRevisionObserved = (Some ''candidate-revision'', SubjectRequired)"
| "event_subject ExecutionReceiptRecorded = (Some ''execution-receipt'', SubjectRequired)"
| "event_subject WorkBoundaryFinalized = (Some ''work-boundary'', SubjectRequired)"
| "event_subject MaterialConditionFrozen = (Some ''material-condition'', SubjectRequired)"
| "event_subject CandidateSealed = (Some ''candidate-seal'', SubjectRequired)"
| "event_subject CheckReceiptRecorded = (Some ''check-receipt'', SubjectRequired)"
| "event_subject EvidencePacketFinalized = (Some ''evidence-packet'', SubjectRequired)"
| "event_subject DirectorDecisionAuthenticated = (Some ''director-decision'', SubjectRequired)"
| "event_subject TransactionEffectIntended = (Some ''director-decision'', ExactActivitySubject)"
| "event_subject TransactionEffectObserved = (Some ''director-decision'', ExactActivitySubject)"
| "event_subject ActivityCompleted = (None, SubjectForbidden)"
| "event_subject ClosureRecorded = (Some ''closure'', SubjectRequired)"

section \<open>Payloads\<close>

datatype payload_field =
    FieldIdentifier
  | FieldSha256
  | FieldNullableSha256
  | FieldTransactionFacts
  | FieldPositiveInteger
  | FieldTimestamp
  | FieldWorkReservation
  | FieldValues "string list"

fun payload_fields :: "event_kind \<Rightarrow> (string \<times> payload_field) list" where
  "payload_fields DeliveryCreated = []"
| "payload_fields DirectorBriefSubmitted = [(''activityId'', FieldIdentifier)]"
| "payload_fields WorkDelegationSet = []"
| "payload_fields WorkDelegationStopped =
     [(''requestDigest'', FieldSha256), (''requestedAt'', FieldTimestamp), (''requestedBy'', FieldIdentifier)]"
| "payload_fields ActivityStarted =
     [(''activityId'', FieldIdentifier),
      (''operation'', FieldValues (map operation_name DELIVERY_OPERATIONS))]"
| "payload_fields ActivityRecoveryRecorded =
     [(''activityId'', FieldIdentifier), (''exactEffectDigest'', FieldNullableSha256),
      (''kind'', FieldValues (map recovery_kind_name RECOVERY_KINDS)), (''resumesAt'', FieldIdentifier)]"
| "payload_fields AgentPreIntentRefused =
     [(''activityId'', FieldIdentifier), (''diagnosticCode'', FieldIdentifier),
      (''refusalFactsDigest'', FieldSha256),
      (''resolution'', FieldValues [''none'', ''projection-condition-required''])]"
| "payload_fields AgentAttemptPrepared = [(''activityId'', FieldIdentifier)]"
| "payload_fields ProviderEffectIntended =
     [(''activityId'', FieldIdentifier), (''effectDigest'', FieldSha256)]"
| "payload_fields ProviderEffectObserved =
     [(''activityId'', FieldIdentifier), (''effectDigest'', FieldSha256),
      (''outcome'', FieldValues [''completed'', ''failed'', ''not-started''])]"
| "payload_fields AgentWorkProductSubmitted = [(''activityId'', FieldIdentifier)]"
| "payload_fields AgentWorkProductAbandoned = [(''activityId'', FieldIdentifier)]"
| "payload_fields CandidateRevisionObserved = [(''activityId'', FieldIdentifier)]"
| "payload_fields IntegrationAssessed = [(''activityId'', FieldIdentifier)]"
| "payload_fields ExecutionReceiptRecorded = [(''activityId'', FieldIdentifier)]"
| "payload_fields WorkBoundaryFinalized = [(''activityId'', FieldIdentifier)]"
| "payload_fields MaterialConditionFrozen =
     [(''sourceKind'', FieldValues [''agent-proposal'', ''integration-assessment'', ''projection-compilation'']),
      (''activityId'', FieldIdentifier), (''observedFactsDigest'', FieldSha256)]"
| "payload_fields CandidateSealed = [(''activityId'', FieldIdentifier)]"
| "payload_fields CheckReceiptRecorded = [(''activityId'', FieldIdentifier)]"
| "payload_fields EvidencePacketFinalized = [(''activityId'', FieldIdentifier)]"
| "payload_fields DirectorDecisionAuthenticated = [(''activityId'', FieldIdentifier)]"
| "payload_fields TransactionEffectIntended =
     [(''activityId'', FieldIdentifier), (''effectDigest'', FieldSha256)]"
| "payload_fields TransactionEffectObserved =
     [(''activityId'', FieldIdentifier), (''effectDigest'', FieldSha256),
      (''facts'', FieldTransactionFacts), (''factsDigest'', FieldSha256),
      (''outcome'', FieldValues [''applied'', ''not-applied'', ''indeterminate''])]"
| "payload_fields ActivityCompleted =
     [(''activityId'', FieldIdentifier), (''outcome'', FieldValues [''completed'', ''failed'', ''abandoned''])]"
| "payload_fields ClosureRecorded = [(''activityId'', FieldIdentifier)]"

definition bounded_identity :: "string \<Rightarrow> bool" where
  "bounded_identity s \<longleftrightarrow> id_pattern s \<and> length s \<le> 512"

definition payload_fail :: "'a res" where
  "payload_fail = Inl (DeliveryEvent ''payload'')"

fun assertPayloadValue :: "platform \<Rightarrow> json \<Rightarrow> payload_field \<Rightarrow> unit res" where
  "assertPayloadValue P value FieldPositiveInteger = (case value of
       JInt n \<Rightarrow> failIf (\<not> safe_integer n \<or> n < 1) (DeliveryEvent ''payload'') (Inr ())
     | _ \<Rightarrow> payload_fail)"
| "assertPayloadValue P value FieldTimestamp = (case value of
       JStr s \<Rightarrow> bindE (controlTimestamp s) (\<lambda>_. Inr ())
     | _ \<Rightarrow> payload_fail)"
| "assertPayloadValue P value FieldWorkReservation =
     bindE (parseWorkDelegationReservation P value) (\<lambda>_. Inr ())"
| "assertPayloadValue P value FieldIdentifier = (case value of
       JStr s \<Rightarrow> failIf (\<not> bounded_identity s) (DeliveryEvent ''payload'') (Inr ())
     | _ \<Rightarrow> payload_fail)"
| "assertPayloadValue P value FieldSha256 = (case value of
       JStr s \<Rightarrow> failIf (\<not> sha256_pattern s) (DeliveryEvent ''payload'') (Inr ())
     | _ \<Rightarrow> payload_fail)"
| "assertPayloadValue P value FieldNullableSha256 = (case value of
       JNull \<Rightarrow> Inr ()
     | JStr s \<Rightarrow> failIf (\<not> sha256_pattern s) (DeliveryEvent ''payload'') (Inr ())
     | _ \<Rightarrow> payload_fail)"
| "assertPayloadValue P value FieldTransactionFacts =
     bindE (parseFoundationTransactionObservationFactsV7 (Some value)) (\<lambda>_. Inr ())"
| "assertPayloadValue P value (FieldValues values) = (case value of
       JStr s \<Rightarrow> failIf (s \<notin> set values) (DeliveryEvent ''payload'') (Inr ())
     | _ \<Rightarrow> payload_fail)"

definition deliveryEventDescriptor :: "string \<Rightarrow> event_kind res" where
  "deliveryEventDescriptor name = (case parse_event_kind name of
       None \<Rightarrow> Inl (DeliveryEvent ''kind'')
     | Some kind \<Rightarrow> Inr kind)"

definition selected_fields :: "event_kind \<Rightarrow> jobject \<Rightarrow> (string \<times> payload_field) list" where
  "selected_fields kind payload =
     (if kind = DirectorBriefSubmitted \<and> hasOwn payload ''delegationId'' then
        [(''delegationId'', FieldIdentifier), (''delegationRevision'', FieldPositiveInteger),
         (''operation'', FieldValues [''delivery.continue'', ''delivery.evaluate''])]
      else if kind = ActivityStarted \<and> hasOwn payload ''reservation'' then
        payload_fields ActivityStarted @ [(''reservation'', FieldWorkReservation)]
      else payload_fields kind)"

definition assertDeliveryEventPayload :: "platform \<Rightarrow> event \<Rightarrow> jobject res" where
  "assertDeliveryEventPayload P e =
     bindE (deliveryEventDescriptor (ev_eventKind e)) (\<lambda>kind.
     let payload = ev_payload e; fields = selected_fields kind payload in
     failIf (\<not> exact_keys payload (map fst fields)) (DeliveryEvent ''payload'')
     (bindE (mapE (\<lambda>f. assertPayloadValue P (the (map_of payload (fst f))) (snd f))
        (sort_by (\<lambda>f g. utf16_le (fst f) (fst g)) fields)) (\<lambda>_.
     if kind = TransactionEffectObserved then
       bindE (parseFoundationTransactionObservationFactsV7 (map_of payload ''facts'')) (\<lambda>facts.
       bindE (digestCanonical P (JObj facts)) (\<lambda>d.
       failIf (map_of payload ''factsDigest'' \<noteq> Some (JStr d)) (DeliveryEvent ''payload'') (Inr payload)))
     else Inr payload)))"

definition assertDeliveryEventEnvelope :: "platform \<Rightarrow> event \<Rightarrow> event_kind res" where
  "assertDeliveryEventEnvelope P e =
     bindE (deliveryEventDescriptor (ev_eventKind e)) (\<lambda>kind.
     failIf (snd (event_subject kind) = SubjectForbidden \<and> ev_subject e \<noteq> None) (DeliveryEvent ''subject'')
     (failIf (snd (event_subject kind) \<noteq> SubjectForbidden \<and> ev_subject e = None) (DeliveryEvent ''subject'')
     (bindE (assertDeliveryEventPayload P e) (\<lambda>_. Inr kind))))"

definition deliveryEventSubject :: "platform \<Rightarrow> event \<Rightarrow> subject res" where
  "deliveryEventSubject P e =
     bindE (assertDeliveryEventEnvelope P e) (\<lambda>_.
     case ev_subject e of None \<Rightarrow> Inl (DeliveryEvent ''subject'') | Some s \<Rightarrow> Inr s)"

type_synonym resolver = "subject \<Rightarrow> revision option"

definition resolveDeliveryEventSubject ::
  "platform \<Rightarrow> event \<Rightarrow> string \<Rightarrow> resolver \<Rightarrow> revision res" where
  "resolveDeliveryEventSubject P e processId resolveRevision =
     bindE (assertDeliveryEventEnvelope P e) (\<lambda>kind.
     case (fst (event_subject kind), ev_subject e) of
       (Some subjectKind, Some s) \<Rightarrow>
         (case resolveRevision s of
            None \<Rightarrow> Inl (DeliveryEvent ''subject'')
          | Some revision \<Rightarrow>
              failIf (rv_processId revision \<noteq> processId \<or> rv_recordId revision \<noteq> sub_recordId s \<or>
                      rv_revision revision \<noteq> sub_revision s \<or> rv_digest revision \<noteq> sub_digest s)
                (DeliveryEvent ''subject'')
              (failIf (rv_recordKind revision \<noteq> subjectKind) (DeliveryEvent ''subject-kind'')
                (Inr revision)))
     | _ \<Rightarrow> Inl (DeliveryEvent ''subject''))"

section \<open>Facts about the registry\<close>

lemma DELIVERY_EVENT_KINDS_complete [simp]: "kind \<in> set DELIVERY_EVENT_KINDS"
  by (cases kind) (simp_all add: DELIVERY_EVENT_KINDS_def)

lemma parse_event_kind_name [simp]: "parse_event_kind (event_kind_name kind) = Some kind"
  by (cases kind)
    (simp_all add: parse_event_kind_def parse_name_def name_table_def DELIVERY_EVENT_KINDS_def)

lemma event_kind_name_inject [simp]: "event_kind_name a = event_kind_name b \<longleftrightarrow> a = b"
  by (metis option.inject parse_event_kind_name)

lemma parse_event_kind_Some: "parse_event_kind s = Some kind \<longleftrightarrow> s = event_kind_name kind"
  unfolding parse_event_kind_def
  by (metis parse_name_table parse_event_kind_def parse_event_kind_name)

lemma deliveryEventDescriptor_Inr [res_simps]:
  "deliveryEventDescriptor name = Inr kind \<longleftrightarrow> name = event_kind_name kind"
  by (auto simp: deliveryEventDescriptor_def parse_event_kind_Some split: option.splits)

lemma assertDeliveryEventEnvelope_Inr:
  "assertDeliveryEventEnvelope P e = Inr kind \<Longrightarrow>
    ev_eventKind e = event_kind_name kind \<and>
    (ev_subject e = None \<longleftrightarrow> snd (event_subject kind) = SubjectForbidden)"
  by (auto simp: assertDeliveryEventEnvelope_def res_simps)

lemma resolveDeliveryEventSubject_Inr:
  assumes "resolveDeliveryEventSubject P e processId resolve = Inr rv"
  shows "\<exists>kind s. ev_eventKind e = event_kind_name kind \<and> ev_subject e = Some s \<and>
    resolve s = Some rv \<and> rv_processId rv = processId \<and> rv_recordId rv = sub_recordId s \<and>
    rv_revision rv = sub_revision s \<and> rv_digest rv = sub_digest s \<and>
    fst (event_subject kind) = Some (rv_recordKind rv)"
  using assms assertDeliveryEventEnvelope_Inr
  by (fastforce simp: resolveDeliveryEventSubject_def res_simps split: option.splits)

end
