(* ===== verification/Integration_Assessment.thy ===== *)
theory Integration_Assessment
  imports Delivery_Types
begin

text \<open>
  The payload of an Integration Assessment (\<open>control/integration-assessment.ts\<close>): its
  schema, digest and ordering checks, the digest of the constructed Candidate's facts, and
  the digest of a Projection Condition's observed facts
  (\<open>control/projection-condition-facts.ts\<close>). The payload's types hold once its schema has
  accepted it; reading a member whose type the schema should have fixed is \<open>JsTypeError\<close>.
\<close>

definition INTEGRATION_CONTEXT_SUBJECTS :: "string list" where
  "INTEGRATION_CONTEXT_SUBJECTS = [''repository-contract'', ''atlas'', ''discipline-registry'',
     ''knowledge-closure'', ''required-sources'']"

record context_change =
  cc_subject :: string
  cc_admittedDigest :: string
  cc_parentDigest :: string

record assessment =
  ia_canonicalParent :: jobject
  ia_outcome :: string
  ia_conflicts :: "json list"
  ia_complete :: bool
  ia_valid :: bool
  ia_diagnosticCodes :: "string list"
  ia_factsDigest :: string
  ia_applicability :: jobject
  ia_disposition :: string
  ia_changes :: "context_change list"

section \<open>Typed reading\<close>

definition js_object :: "json option \<Rightarrow> jobject res" where
  "js_object v = (case v of Some (JObj ms) \<Rightarrow> Inr ms | _ \<Rightarrow> Inl JsTypeError)"

definition js_array :: "json option \<Rightarrow> json list res" where
  "js_array v = (case v of Some (JArr vs) \<Rightarrow> Inr vs | _ \<Rightarrow> Inl JsTypeError)"

definition js_string :: "json option \<Rightarrow> string res" where
  "js_string v = (case v of Some (JStr s) \<Rightarrow> Inr s | _ \<Rightarrow> Inl JsTypeError)"

definition js_boolean :: "json option \<Rightarrow> bool res" where
  "js_boolean v = (case v of Some (JBool b) \<Rightarrow> Inr b | _ \<Rightarrow> Inl JsTypeError)"

definition typed_change :: "json \<Rightarrow> context_change res" where
  "typed_change v =
     bindE (js_object (Some v)) (\<lambda>c.
     bindE (js_string (map_of c ''subject'')) (\<lambda>s.
     bindE (js_string (map_of c ''admittedDigest'')) (\<lambda>a.
     bindE (js_string (map_of c ''parentDigest'')) (\<lambda>p.
     Inr \<lparr>cc_subject = s, cc_admittedDigest = a, cc_parentDigest = p\<rparr>))))"

definition typed_assessment :: "jobject \<Rightarrow> assessment res" where
  "typed_assessment payload =
     bindE (js_object (map_of payload ''canonicalParent'')) (\<lambda>parent.
     bindE (js_string (map_of payload ''outcome'')) (\<lambda>outcome.
     bindE (js_array (map_of payload ''conflicts'')) (\<lambda>conflicts.
     bindE (js_object (map_of payload ''validation'')) (\<lambda>validation.
     bindE (js_boolean (map_of validation ''complete'')) (\<lambda>complete.
     bindE (js_boolean (map_of validation ''valid'')) (\<lambda>valid.
     bindE (js_array (map_of validation ''diagnosticCodes'')) (\<lambda>codes.
     bindE (mapE (\<lambda>v. js_string (Some v)) codes) (\<lambda>diagnosticCodes.
     bindE (js_string (map_of validation ''factsDigest'')) (\<lambda>factsDigest.
     bindE (js_object (map_of payload ''contextualApplicability'')) (\<lambda>applicability.
     bindE (js_string (map_of applicability ''disposition'')) (\<lambda>disposition.
     bindE (js_array (map_of applicability ''changes'')) (\<lambda>changes.
     bindE (mapE typed_change changes) (\<lambda>typed.
     Inr \<lparr>ia_canonicalParent = parent, ia_outcome = outcome, ia_conflicts = conflicts,
          ia_complete = complete, ia_valid = valid, ia_diagnosticCodes = diagnosticCodes,
          ia_factsDigest = factsDigest, ia_applicability = applicability,
          ia_disposition = disposition, ia_changes = typed\<rparr>)))))))))))))"

section \<open>Parsing\<close>

definition string_member :: "json \<Rightarrow> string \<Rightarrow> string" where
  "string_member v k = (case v of
       JObj ms \<Rightarrow> (case map_of ms k of Some (JStr s) \<Rightarrow> s | _ \<Rightarrow> [])
     | _ \<Rightarrow> [])"

definition conflict_le :: "json \<Rightarrow> json \<Rightarrow> bool" where
  "conflict_le l r =
     (let by_path = compareCodePoints (string_member l ''path'') (string_member r ''path'') in
      (if by_path \<noteq> 0 then by_path
       else compareCodePoints (string_member l ''kind'') (string_member r ''kind'')) \<le> 0)"

fun index_of :: "string \<Rightarrow> string list \<Rightarrow> int" where
  "index_of s [] = -1"
| "index_of s (x # xs) =
     (if s = x then 0 else let i = index_of s xs in if i < 0 then -1 else i + 1)"

fun change_order_broken :: "context_change list \<Rightarrow> bool" where
  "change_order_broken (a # b # cs) =
     (index_of (cc_subject a) INTEGRATION_CONTEXT_SUBJECTS \<ge> index_of (cc_subject b) INTEGRATION_CONTEXT_SUBJECTS \<or>
      change_order_broken (b # cs))"
| "change_order_broken _ = False"

definition parseFoundationIntegrationAssessmentPayloadV1 :: "platform \<Rightarrow> jobject \<Rightarrow> assessment res" where
  "parseFoundationIntegrationAssessmentPayloadV1 P value =
     bindE (assertFoundationSchema P ''urn:lifecycle:schema:integration-assessment-payload:v1'' (JObj value)) (\<lambda>_.
     bindE (typed_assessment value) (\<lambda>payload.
     bindE (selfDigest P (ia_canonicalParent payload)) (\<lambda>parentDigest.
     failIf (map_of (ia_canonicalParent payload) ''digest'' \<noteq> Some (JStr parentDigest)) IntegrationInvalid
     (bindE (canonicalJson (JArr (sort_by conflict_le (ia_conflicts payload)))) (\<lambda>sorted_text.
     bindE (canonicalJson (JArr (ia_conflicts payload))) (\<lambda>conflicts_text.
     failIf (sorted_text \<noteq> conflicts_text) IntegrationInvalid
     (failIf (sortUniqueCodePoints (ia_diagnosticCodes payload) \<noteq> ia_diagnosticCodes payload) IntegrationInvalid
     (failIf (list_ex (\<lambda>c. cc_admittedDigest c = cc_parentDigest c) (ia_changes payload) \<or>
              change_order_broken (ia_changes payload)) IntegrationInvalid
     (failIf (ia_outcome payload = ''invalid'' \<and> ia_complete payload \<and> ia_valid payload) IntegrationInvalid
     (Inr payload))))))))))"

section \<open>Digests of facts\<close>

text \<open>An object literal one of whose members may be \<open>undefined\<close> has no canonical text then.\<close>

fun defined_members :: "(string \<times> json option) list \<Rightarrow> jobject res" where
  "defined_members [] = Inr []"
| "defined_members ((k, v) # ms) = (case v of
       None \<Rightarrow> Inl (CanonicalJson ''undefined'')
     | Some w \<Rightarrow> bindE (defined_members ms) (\<lambda>rest. Inr ((k, w) # rest)))"

definition foundationIntegrationValidationFactsDigestV1 ::
  "platform \<Rightarrow> string \<Rightarrow> json option \<Rightarrow> json option \<Rightarrow> string res" where
  "foundationIntegrationValidationFactsDigestV1 P manifestFileDigest state observer =
     bindE (defined_members [(''schema'', Some (JStr ''lifecycle.integration-validation-facts.v1'')),
       (''manifestFileDigest'', Some (JStr manifestFileDigest)), (''state'', state), (''observer'', observer)])
     (\<lambda>ms. digestCanonical P (JObj ms))"

definition foundationIntegratedCandidateFactsDigestV1 :: "platform \<Rightarrow> revision \<Rightarrow> string res" where
  "foundationIntegratedCandidateFactsDigestV1 P candidate =
     (case map_of (rv_payload candidate) ''carrierManifest'' of
        Some (JObj descriptor) \<Rightarrow>
          failIf (rv_recordKind candidate \<noteq> ''candidate-revision'') IntegrationInvalid
          (case map_of descriptor ''digest'' of
             Some (JStr d) \<Rightarrow> failIf (\<not> sha256_pattern d) IntegrationInvalid
               (foundationIntegrationValidationFactsDigestV1 P d
                 (map_of (rv_payload candidate) ''state'') (map_of (rv_payload candidate) ''observer''))
           | _ \<Rightarrow> Inl IntegrationInvalid)
      | _ \<Rightarrow> Inl IntegrationInvalid)"

definition foundationProjectionConditionObservedFactsDigestV1 ::
  "platform \<Rightarrow> string \<Rightarrow> target \<Rightarrow> target \<Rightarrow> target option \<Rightarrow> int \<Rightarrow> string \<Rightarrow> jobject \<Rightarrow> string res" where
  "foundationProjectionConditionObservedFactsDigestV1 P activityId boundary candidate seal
      refusalSequence refusalDigest source =
     digestCanonical P (JObj [(''schema'', JStr ''lifecycle.projection-condition-observed-facts.v1''),
       (''activityId'', JStr activityId), (''boundary'', target_json boundary),
       (''candidate'', target_json candidate),
       (''seal'', (case seal of None \<Rightarrow> JNull | Some s \<Rightarrow> target_json s)),
       (''refusalEvent'', JObj [(''sequence'', JInt refusalSequence), (''digest'', JStr refusalDigest)]),
       (''source'', JObj source)])"

end
