(* ===== verification/Kind_Registry.thy ===== *)
theory Kind_Registry
  imports Delivery_Types
begin

text \<open>
  The registry of Control record kinds (\<open>control/kind-registry.ts\<close>): who produces and
  authors each kind, the event that finalizes it, whether it has successive revisions, and
  how many relationships of each sort it carries to which kinds; the check of a revision
  against its policy, and of its payload against its schema (\<open>control/payload-registry.ts\<close>).
\<close>

record relationship_policy =
  rlp_relation :: string
  rlp_targetKinds :: "string list"
  rlp_minimum :: nat
  rlp_maximum :: "nat option"

record kind_policy =
  kp_kind :: string
  kp_payloadSchemaId :: string
  kp_dossier :: string
  kp_producer :: string
  kp_semanticAuthor :: string
  kp_semanticAuthority :: string
  kp_editor :: string
  kp_editWindow :: string
  kp_single :: bool  \<comment> \<open>\<open>revisionMode\<close> is \<open>single\<close>\<close>
  kp_finalizationEvent :: string
  kp_relationships :: "relationship_policy list"

definition relation_policy ::
  "string \<Rightarrow> string list \<Rightarrow> nat \<Rightarrow> nat option \<Rightarrow> relationship_policy" where
  "relation_policy r ks lo hi = \<lparr>rlp_relation = r, rlp_targetKinds = ks, rlp_minimum = lo, rlp_maximum = hi\<rparr>"

definition policy_entry ::
  "string \<Rightarrow> string \<Rightarrow> string \<Rightarrow> string \<Rightarrow> string \<Rightarrow> string \<Rightarrow> string \<Rightarrow> string \<Rightarrow> bool \<Rightarrow> string \<Rightarrow>
    relationship_policy list \<Rightarrow> kind_policy" where
  "policy_entry k schema dossier prdcr author authority editor win single fin rels =
     \<lparr>kp_kind = k, kp_payloadSchemaId = schema, kp_dossier = dossier, kp_producer = prdcr,
      kp_semanticAuthor = author, kp_semanticAuthority = authority, kp_editor = editor,
      kp_editWindow = win, kp_single = single, kp_finalizationEvent = fin, kp_relationships = rels\<rparr>"

definition CONTROL_RECORD_POLICIES :: "kind_policy list" where
  "CONTROL_RECORD_POLICIES = [
     policy_entry ''director-brief'' ''urn:lifecycle:schema:director-brief-payload:v2'' ''frame'' ''runtime'' ''director'' ''director-supplied'' ''director'' ''before-activity'' True ''director-brief-submitted''
       [],
     policy_entry ''work-delegation'' ''urn:lifecycle:schema:work-delegation-payload:v2'' ''attempt'' ''runtime'' ''director'' ''director-supplied'' ''director'' ''before-activity'' False ''work-delegation-set''
       [relation_policy ''uses-boundary'' [''work-boundary''] 1 (Some 1),
        relation_policy ''uses-admission'' [''director-decision''] 1 (Some 1),
        relation_policy ''uses-brief'' [''director-brief''] 0 (Some 2),
        relation_policy ''revises'' [''work-delegation''] 0 (Some 1)],
     policy_entry ''agent-attempt'' ''urn:lifecycle:schema:agent-attempt-payload:v3'' ''attempt'' ''runtime'' ''runtime'' ''runtime-derived'' ''none'' ''none'' True ''agent-attempt-prepared''
       [relation_policy ''uses-brief'' [''director-brief''] 1 (Some 1),
        relation_policy ''uses-boundary'' [''work-boundary''] 0 (Some 1),
        relation_policy ''uses-candidate'' [''candidate-revision''] 0 (Some 1),
        relation_policy ''uses-seal'' [''candidate-seal''] 0 (Some 1)],
     policy_entry ''agent-work-product'' ''urn:lifecycle:schema:agent-work-product-payload:v5'' ''attempt'' ''runtime'' ''agent'' ''agent-proposed'' ''assigned-agent'' ''provider-active'' True ''agent-work-product-submitted''
       [relation_policy ''result-of'' [''agent-attempt''] 1 (Some 1)],
     policy_entry ''execution-receipt'' ''urn:lifecycle:schema:execution-receipt-payload:v3'' ''attempt'' ''runtime'' ''runtime'' ''runtime-observed'' ''none'' ''none'' True ''execution-receipt-recorded''
       [relation_policy ''observes-attempt'' [''agent-attempt''] 1 (Some 1),
        relation_policy ''observes-work-product'' [''agent-work-product''] 0 (Some 1),
        relation_policy ''observes-candidate'' [''candidate-revision''] 0 (Some 1)],
     policy_entry ''candidate-revision'' ''urn:lifecycle:schema:candidate-revision-payload:v3'' ''candidate'' ''runtime'' ''runtime'' ''runtime-observed'' ''none'' ''none'' False ''candidate-revision-observed''
       [relation_policy ''revises'' [''candidate-revision''] 0 (Some 1),
        relation_policy ''governed-by'' [''work-boundary''] 1 (Some 1),
        relation_policy ''result-of'' [''agent-attempt''] 0 (Some 1),
        relation_policy ''integrated-from'' [''integration-assessment''] 0 (Some 1)],
     policy_entry ''integration-assessment'' ''urn:lifecycle:schema:integration-assessment-payload:v1'' ''candidate'' ''runtime'' ''runtime'' ''runtime-observed'' ''none'' ''none'' True ''integration-assessed''
       [relation_policy ''governed-by'' [''work-boundary''] 1 (Some 1),
        relation_policy ''integrates'' [''candidate-revision''] 1 (Some 1)],
     policy_entry ''work-boundary'' ''urn:lifecycle:schema:work-boundary-payload:v6'' ''boundary'' ''runtime'' ''runtime'' ''runtime-derived'' ''none'' ''none'' False ''work-boundary-finalized''
       [relation_policy ''uses-brief'' [''director-brief''] 1 (Some 1),
        relation_policy ''proposed-from'' [''agent-work-product''] 1 (Some 1),
        relation_policy ''revises'' [''work-boundary''] 0 (Some 1),
        relation_policy ''resolves'' [''material-condition''] 0 (Some 1)],
     policy_entry ''material-condition'' ''urn:lifecycle:schema:material-condition-payload:v4'' ''boundary'' ''runtime'' ''runtime'' ''runtime-derived'' ''none'' ''none'' True ''material-condition-frozen''
       [relation_policy ''reported-by'' [''agent-work-product'', ''integration-assessment''] 0 (Some 1),
        relation_policy ''observed-in'' [''execution-receipt'', ''candidate-seal''] 0 (Some 1),
        relation_policy ''freezes'' [''candidate-revision''] 1 (Some 1),
        relation_policy ''governed-by'' [''work-boundary''] 1 (Some 1)],
     policy_entry ''director-decision'' ''urn:lifecycle:schema:director-decision-payload:v5'' ''decision'' ''runtime'' ''director'' ''director-authenticated'' ''director'' ''before-authentication'' True ''director-decision-authenticated''
       [relation_policy ''selects-boundary'' [''work-boundary''] 0 (Some 1),
        relation_policy ''selects-baseline-receipt'' [''check-receipt''] 0 None,
        relation_policy ''continues-from-boundary'' [''work-boundary''] 0 (Some 1),
        relation_policy ''resolves'' [''material-condition''] 0 (Some 1),
        relation_policy ''selects-candidate'' [''candidate-revision''] 0 (Some 1),
        relation_policy ''selects-seal'' [''candidate-seal''] 0 (Some 1),
        relation_policy ''selects-evidence'' [''evidence-packet''] 0 (Some 1)],
     policy_entry ''candidate-seal'' ''urn:lifecycle:schema:candidate-seal-payload:v2'' ''evidence'' ''runtime'' ''runtime'' ''runtime-observed'' ''none'' ''none'' True ''candidate-sealed''
       [relation_policy ''seals'' [''candidate-revision''] 1 (Some 1),
        relation_policy ''governed-by'' [''work-boundary''] 1 (Some 1)],
     policy_entry ''check-receipt'' ''urn:lifecycle:schema:check-receipt-payload:v3'' ''evidence'' ''runtime'' ''runtime'' ''runtime-observed'' ''none'' ''none'' True ''check-receipt-recorded''
       [relation_policy ''checks-boundary'' [''work-boundary''] 0 (Some 1),
        relation_policy ''checks-seal'' [''candidate-seal''] 0 (Some 1)],
     policy_entry ''evidence-packet'' ''urn:lifecycle:schema:evidence-packet-payload:v2'' ''evidence'' ''runtime'' ''runtime'' ''runtime-derived'' ''none'' ''none'' True ''evidence-packet-finalized''
       [relation_policy ''governed-by'' [''work-boundary''] 1 (Some 1),
        relation_policy ''evaluates'' [''candidate-revision''] 1 (Some 1),
        relation_policy ''uses-seal'' [''candidate-seal''] 1 (Some 1),
        relation_policy ''uses-check'' [''check-receipt''] 0 None,
        relation_policy ''uses-review'' [''agent-work-product''] 1 (Some 1),
        relation_policy ''uses-review-receipt'' [''execution-receipt''] 1 (Some 1)],
     policy_entry ''closure'' ''urn:lifecycle:schema:closure-payload:v6'' ''closure'' ''runtime'' ''runtime'' ''runtime-derived'' ''none'' ''none'' True ''closure-recorded''
       [relation_policy ''closes-with'' [''director-decision''] 1 (Some 1),
        relation_policy ''governed-by'' [''work-boundary''] 0 (Some 1),
        relation_policy ''accepts-candidate'' [''candidate-revision''] 0 (Some 1),
        relation_policy ''accepts-evidence'' [''evidence-packet''] 0 (Some 1),
        relation_policy ''abandons-candidate'' [''candidate-revision''] 0 (Some 1)]]"

definition deliveryControlRecordPolicy :: "string \<Rightarrow> kind_policy res" where
  "deliveryControlRecordPolicy kind =
     (case find (\<lambda>p. kp_kind p = kind) CONTROL_RECORD_POLICIES of
        None \<Rightarrow> Inl (ControlPolicy ''kind'')
      | Some p \<Rightarrow> Inr p)"

definition assertDeliveryControlRecordPayload :: "platform \<Rightarrow> revision \<Rightarrow> unit res" where
  "assertDeliveryControlRecordPayload P rv =
     bindE (deliveryControlRecordPolicy (rv_recordKind rv)) (\<lambda>policy.
     assertFoundationSchema P (kp_payloadSchemaId policy) (JObj (rv_payload rv)))"

definition related :: "revision \<Rightarrow> string \<Rightarrow> relationship list" where
  "related rv relation = filter (\<lambda>r. rel_relation r = relation) (rv_relationships rv)"

definition condition_source_kind :: "revision \<Rightarrow> json option" where
  "condition_source_kind rv = (case map_of (rv_payload rv) ''source'' of
       Some (JObj source) \<Rightarrow> map_of source ''kind'' | _ \<Rightarrow> None)"

definition condition_relationships_valid :: "revision \<Rightarrow> bool" where
  "condition_relationships_valid rv =
     (let sourceKind = condition_source_kind rv;
          reported = related rv ''reported-by''; observed = related rv ''observed-in'' in
      if sourceKind = Some (JStr ''projection-compilation'') then
        reported = [] \<and> length observed \<le> 1 \<and>
        list_all (\<lambda>r. tgt_kind (rel_target r) = ''candidate-seal'') observed
      else if sourceKind = Some (JStr ''integration-assessment'') then
        map (\<lambda>r. tgt_kind (rel_target r)) reported = [''integration-assessment''] \<and> observed = []
      else if sourceKind = Some (JStr ''agent-proposal'') then
        map (\<lambda>r. tgt_kind (rel_target r)) reported = [''agent-work-product''] \<and>
        map (\<lambda>r. tgt_kind (rel_target r)) observed = [''execution-receipt'']
      else True)"

definition assert_relationship :: "kind_policy \<Rightarrow> relationship \<Rightarrow> unit res" where
  "assert_relationship policy r =
     (case find (\<lambda>p. rlp_relation p = rel_relation r) (kp_relationships policy) of
        None \<Rightarrow> Inl (ControlPolicy ''relationship'')
      | Some p \<Rightarrow> failIf (tgt_kind (rel_target r) \<notin> set (rlp_targetKinds p))
          (ControlPolicy ''relationship-target'') (Inr ()))"

definition cardinality_invalid :: "revision \<Rightarrow> relationship_policy \<Rightarrow> bool" where
  "cardinality_invalid rv p =
     (let count = length (related rv (rlp_relation p)) in
      count < rlp_minimum p \<or> (case rlp_maximum p of None \<Rightarrow> False | Some hi \<Rightarrow> count > hi))"

definition assertDeliveryControlRecordPolicy :: "revision \<Rightarrow> unit res" where
  "assertDeliveryControlRecordPolicy rv =
     bindE (deliveryControlRecordPolicy (rv_recordKind rv)) (\<lambda>policy.
     failIf (actor_kind (rv_producer rv) \<noteq> kp_producer policy) (ControlPolicy ''producer'')
     (failIf (rv_semanticAuthority rv \<noteq> kp_semanticAuthority policy) (ControlPolicy ''semantic-authority'')
     (failIf (actor_kind (rv_semanticAuthor rv) \<noteq> kp_semanticAuthor policy) (ControlPolicy ''semantic-author'')
     (failIf (kp_single policy \<and> rv_revision rv \<noteq> 1) (ControlPolicy ''revision'')
     (failIf (rv_recordKind rv = ''material-condition'' \<and> \<not> condition_relationships_valid rv)
       (ControlPolicy ''relationship-cardinality'')
     (bindE (mapE (assert_relationship policy) (rv_relationships rv)) (\<lambda>_.
     failIf (list_ex (cardinality_invalid rv) (kp_relationships policy))
       (ControlPolicy ''relationship-cardinality'') (Inr ()))))))))"

end
