(* ===== verification/Delivery_Replay.thy ===== *)
theory Delivery_Replay
  imports Delivery_Events Integration_Assessment Kind_Registry
begin

text \<open>
  The replay state of the Delivery reducer (\<open>process/delivery-reducer.ts\<close>), the readers of
  event and record payloads, the finalization of a subject, what the state derives
  (standing, Candidate condition, eligible operations), and the verification of an
  event's envelope against the chain so far.
\<close>

section \<open>State\<close>

record check_fact =
  ck_reference :: reference
  ck_selectionId :: string
  ck_phase :: check_phase
  ck_modality :: check_modality
  ck_disposition :: check_disposition

record activity =
  ac_id :: string
  ac_operation :: operation
  ac_family :: family
  ac_originStanding :: standing
  ac_stage :: stage
  ac_recovery :: "recovery_obligation option"
  ac_brief :: "reference option"
  ac_attempt :: "reference option"
  ac_providerEffectDigest :: "string option"
  ac_providerOutcome :: "provider_outcome option"
  ac_preIntentRefusal :: "event option"
  ac_workProduct :: "reference option"
  ac_workProductAbandoned :: bool
  ac_candidate :: "reference option"
  ac_integrationAssessment :: "reference option"
  ac_receipt :: "reference option"
  ac_boundary :: "reference option"
  ac_materialCondition :: "reference option"
  ac_seal :: "reference option"
  ac_checks :: "check_fact list"
  ac_evidence :: "reference option"
  ac_evidenceReadiness :: "readiness option"
  ac_decision :: "reference option"
  ac_decisionKind :: "decision_kind option"
  ac_transactionEffectDigest :: "string option"
  ac_transactionOutcome :: "transaction_outcome option"
  ac_closure :: "reference option"
  ac_completionOutcome :: "completion_outcome option"
  ac_reservation :: "reservation option"

record delegation =
  dl_reference :: reference
  dl_payload :: delegation_payload
  dl_stopped :: bool

record replay =
  re_resolveRevision :: resolver
  re_created :: bool
  re_storeId :: "string option"
  re_processId :: "string option"
  re_lastEvent :: "event option"
  re_lastOccurredAt :: "int option"
  re_eventIds :: "string set"
  re_finalizedSubjects :: "(string \<times> reference) set"
  re_recordKinds :: "string \<rightharpoonup> string"
  re_recordRevisions :: "(string \<times> int) \<rightharpoonup> string"
  re_plannedBriefs :: "string \<rightharpoonup> reference"
  re_activities :: "activity jsmap"
  re_subjects :: subjects
  re_evidenceReadiness :: "readiness option"
  re_closureDisposition :: "closure_disposition option"
  re_candidateIntegrated :: bool
  re_activeAdmission :: "reference option"
  re_delegation :: "delegation option"
  re_delegatedCharges :: accounting
  re_standingBriefs :: "string \<rightharpoonup> reference"

definition freshReplay :: "resolver \<Rightarrow> replay" where
  "freshReplay resolveRevision = \<lparr>re_resolveRevision = resolveRevision, re_created = False,
     re_storeId = None, re_processId = None, re_lastEvent = None, re_lastOccurredAt = None,
     re_eventIds = {}, re_finalizedSubjects = {}, re_recordKinds = Map.empty,
     re_recordRevisions = Map.empty, re_plannedBriefs = Map.empty, re_activities = [],
     re_subjects = no_subjects, re_evidenceReadiness = None, re_closureDisposition = None,
     re_candidateIntegrated = False, re_activeAdmission = None, re_delegation = None,
     re_delegatedCharges = no_charges, re_standingBriefs = Map.empty\<rparr>"

definition activities :: "replay \<Rightarrow> activity list" where
  "activities r = map snd (re_activities r)"

text \<open>An assignment to the activity's fields.\<close>

definition put_activity :: "activity \<Rightarrow> replay \<Rightarrow> replay" where
  "put_activity a r = r\<lparr>re_activities := AList.update (ac_id a) a (re_activities r)\<rparr>"

section \<open>Event payloads\<close>

definition exactPayload :: "event \<Rightarrow> string list \<Rightarrow> jobject res" where
  "exactPayload e keys =
     failIf (\<not> exact_keys (ev_payload e) keys) (DeliveryReducer ''payload'') (Inr (ev_payload e))"

definition payload_field :: "jobject \<Rightarrow> string \<Rightarrow> json res" where
  "payload_field payload name = (case map_of payload name of
       None \<Rightarrow> Inl (DeliveryReducer ''payload'') | Some v \<Rightarrow> Inr v)"

definition stringField :: "jobject \<Rightarrow> string \<Rightarrow> string res" where
  "stringField payload name = bindE (payload_field payload name) (\<lambda>value.
     case value of JStr s \<Rightarrow> Inr s | _ \<Rightarrow> Inl (DeliveryReducer ''payload''))"

definition identifierField :: "jobject \<Rightarrow> string \<Rightarrow> string res" where
  "identifierField payload name = bindE (stringField payload name) (\<lambda>value.
     failIf (\<not> id_pattern value \<or> length value > 512) (DeliveryReducer ''payload'') (Inr value))"

definition digestField :: "jobject \<Rightarrow> string \<Rightarrow> string res" where
  "digestField payload name = bindE (stringField payload name) (\<lambda>value.
     failIf (\<not> sha256_pattern value) (DeliveryReducer ''payload'') (Inr value))"

definition nullableDigestField :: "jobject \<Rightarrow> string \<Rightarrow> string option res" where
  "nullableDigestField payload name = bindE (payload_field payload name) (\<lambda>value.
     case value of
       JNull \<Rightarrow> Inr None
     | JStr s \<Rightarrow> failIf (\<not> sha256_pattern s) (DeliveryReducer ''payload'') (Inr (Some s))
     | _ \<Rightarrow> Inl (DeliveryReducer ''payload''))"

definition enumField :: "jobject \<Rightarrow> string \<Rightarrow> (string \<times> 'a) list \<Rightarrow> 'a res" where
  "enumField payload name values = bindE (stringField payload name) (\<lambda>value.
     case parse_name values value of None \<Rightarrow> Inl (DeliveryReducer ''payload'') | Some x \<Rightarrow> Inr x)"

section \<open>References and record payloads\<close>

definition subject_reference :: "subject \<Rightarrow> reference" where
  "subject_reference s = \<lparr>ref_id = sub_recordId s, ref_revision = sub_revision s, ref_digest = sub_digest s\<rparr>"

definition reference_subject :: "reference \<Rightarrow> subject" where
  "reference_subject r = \<lparr>sub_recordId = ref_id r, sub_revision = ref_revision r, sub_digest = ref_digest r\<rparr>"

definition retainedReference :: "revision \<Rightarrow> reference" where
  "retainedReference rv = \<lparr>ref_id = rv_recordId rv, ref_revision = rv_revision rv, ref_digest = rv_digest rv\<rparr>"

definition assertReference :: "reference option \<Rightarrow> reference option \<Rightarrow> reference res" where
  "assertReference value expected = (case (value, expected) of
       (Some v, Some w) \<Rightarrow> failIf (\<not> sameReference v w) (DeliveryReducer ''reference'') (Inr v)
     | _ \<Rightarrow> Inl (DeliveryReducer ''reference''))"

definition registerFinalizedSubject ::
  "platform \<Rightarrow> replay \<Rightarrow> event \<Rightarrow> string \<Rightarrow> (replay \<times> revision) res" where
  "registerFinalizedSubject P r e kind = (case re_processId r of
       None \<Rightarrow> Inl (DeliveryReducer ''order'')
     | Some processId \<Rightarrow>
         bindE (resolveDeliveryEventSubject P e processId (re_resolveRevision r)) (\<lambda>resolved.
         failIf (rv_recordKind resolved \<noteq> kind) (DeliveryReducer ''reference'')
         (bindE (deliveryEventSubject P e) (\<lambda>s.
         let value = subject_reference s in
         failIf (re_recordKinds r (ref_id value) \<noteq> None \<and> re_recordKinds r (ref_id value) \<noteq> Some kind)
           (DeliveryReducer ''reference'')
         (let revisionKey = (ref_id value, ref_revision value);
              retainedDigest = re_recordRevisions r revisionKey in
         failIf (retainedDigest \<noteq> None \<and> retainedDigest \<noteq> Some (ref_digest value))
           (DeliveryReducer ''corruption'')
         (failIf ((kind, value) \<in> re_finalizedSubjects r) (DeliveryReducer ''duplicate'')
         (Inr (r\<lparr>re_recordKinds := (re_recordKinds r)(ref_id value \<mapsto> kind),
                 re_recordRevisions := (re_recordRevisions r)(revisionKey \<mapsto> ref_digest value),
                 re_finalizedSubjects := insert (kind, value) (re_finalizedSubjects r)\<rparr>, resolved))))))))"

definition recordEnumField :: "revision \<Rightarrow> string \<Rightarrow> (string \<times> 'a) list \<Rightarrow> 'a res" where
  "recordEnumField rv name values = (case map_of (rv_payload rv) name of
       Some (JStr s) \<Rightarrow>
         (case parse_name values s of None \<Rightarrow> Inl (DeliveryReducer ''record-payload'') | Some x \<Rightarrow> Inr x)
     | _ \<Rightarrow> Inl (DeliveryReducer ''record-payload''))"

definition nestedIdentifier :: "json option \<Rightarrow> string res" where
  "nestedIdentifier value = (case value of
       Some (JStr s) \<Rightarrow> failIf (\<not> id_pattern s \<or> length s > 512) (DeliveryReducer ''record-payload'') (Inr s)
     | _ \<Rightarrow> Inl (DeliveryReducer ''record-payload''))"

definition recordIdentifierField :: "revision \<Rightarrow> string \<Rightarrow> string res" where
  "recordIdentifierField rv name = nestedIdentifier (map_of (rv_payload rv) name)"

definition recordObject :: "json option \<Rightarrow> jobject res" where
  "recordObject value = (case value of
       Some (JObj ms) \<Rightarrow> Inr ms | _ \<Rightarrow> Inl (DeliveryReducer ''record-payload''))"

definition recordArray :: "json option \<Rightarrow> json list res" where
  "recordArray value = (case value of
       Some (JArr vs) \<Rightarrow> Inr vs | _ \<Rightarrow> Inl (DeliveryReducer ''record-payload''))"

section \<open>Required Check selections\<close>

text \<open>The loop over the mandate's Checks: the identities seen and those required so far.\<close>

fun collect_selections ::
  "string \<Rightarrow> string set \<Rightarrow> string list \<Rightarrow> json list \<Rightarrow> string list res" where
  "collect_selections requirement seen required [] = Inr required"
| "collect_selections requirement seen required (value # values) =
     bindE (recordObject (Some value)) (\<lambda>check.
     bindE (nestedIdentifier (map_of check ''id'')) (\<lambda>selectionId.
     failIf (selectionId \<in> seen) (DeliveryReducer ''record-payload'')
     (case map_of check requirement of
        Some (JBool b) \<Rightarrow> collect_selections requirement (insert selectionId seen)
          (if b then required @ [selectionId] else required) values
      | _ \<Rightarrow> Inl (DeliveryReducer ''record-payload''))))"

definition exact_revision :: "reference \<Rightarrow> string \<Rightarrow> string \<Rightarrow> revision \<Rightarrow> bool" where
  "exact_revision selected processId kind rv \<longleftrightarrow>
     rv_processId rv = processId \<and> rv_recordKind rv = kind \<and> rv_recordId rv = ref_id selected \<and>
     rv_revision rv = ref_revision selected \<and> rv_digest rv = ref_digest selected"

definition requiredCheckSelectionIds ::
  "replay \<Rightarrow> reference option \<Rightarrow> string \<Rightarrow> string list res" where
  "requiredCheckSelectionIds r selected requirement = (case (selected, re_processId r) of
       (Some boundary, Some processId) \<Rightarrow>
         (case re_resolveRevision r (reference_subject boundary) of
            None \<Rightarrow> Inl (DeliveryReducer ''reference'')
          | Some rv \<Rightarrow>
              failIf (\<not> exact_revision boundary processId ''work-boundary'' rv) (DeliveryReducer ''reference'')
              (bindE (recordObject (map_of (rv_payload rv) ''mandate'')) (\<lambda>mandate.
              bindE (recordArray (map_of mandate ''checks'')) (\<lambda>checks.
              bindE (collect_selections requirement {} [] checks) (\<lambda>required.
              failIf (required = []) (DeliveryReducer ''record-payload'') (Inr required))))))
     | _ \<Rightarrow> Inl (DeliveryReducer ''order''))"

definition baselineSelectionIds :: "replay \<Rightarrow> activity \<Rightarrow> string list res" where
  "baselineSelectionIds r a = requiredCheckSelectionIds r (ac_boundary a) ''baselineRequired''"

definition finalSelectionIds :: "replay \<Rightarrow> activity \<Rightarrow> string list res" where
  "finalSelectionIds r a = requiredCheckSelectionIds r (su_activeBoundary (re_subjects r)) ''finalRequired''"

section \<open>Relationships\<close>

definition assertOnlyRelationships :: "revision \<Rightarrow> string list \<Rightarrow> unit res" where
  "assertOnlyRelationships rv allowed =
     failIf (list_ex (\<lambda>l. rel_relation l \<notin> set allowed) (rv_relationships rv))
       (DeliveryReducer ''record-relationship'') (Inr ())"

definition relationshipReferences :: "revision \<Rightarrow> string \<Rightarrow> string \<Rightarrow> reference list res" where
  "relationshipReferences rv relation targetKind =
     mapE (\<lambda>l. failIf (tgt_kind (rel_target l) \<noteq> targetKind) (DeliveryReducer ''record-relationship'')
        (Inr (target_reference (rel_target l))))
       (filter (\<lambda>l. rel_relation l = relation) (rv_relationships rv))"

definition requiredRelationship :: "revision \<Rightarrow> string \<Rightarrow> string \<Rightarrow> reference res" where
  "requiredRelationship rv relation targetKind =
     bindE (relationshipReferences rv relation targetKind) (\<lambda>matches.
     case matches of [m] \<Rightarrow> Inr m | _ \<Rightarrow> Inl (DeliveryReducer ''record-relationship''))"

definition optionalRelationship :: "revision \<Rightarrow> string \<Rightarrow> string \<Rightarrow> reference option res" where
  "optionalRelationship rv relation targetKind =
     bindE (relationshipReferences rv relation targetKind) (\<lambda>matches.
     case matches of [] \<Rightarrow> Inr None | [m] \<Rightarrow> Inr (Some m)
     | _ \<Rightarrow> Inl (DeliveryReducer ''record-relationship''))"

definition assertAbsentRelationship :: "reference option \<Rightarrow> unit res" where
  "assertAbsentRelationship value =
     failIf (value \<noteq> None) (DeliveryReducer ''record-relationship'') (Inr ())"

section \<open>What the state derives\<close>

definition currentEstablishedBoundary :: "replay \<Rightarrow> reference option" where
  "currentEstablishedBoundary r =
     (case su_activeBoundary (re_subjects r) of
        Some b \<Rightarrow> Some b
      | None \<Rightarrow>
          (case su_proposedBoundary (re_subjects r) of
             Some b \<Rightarrow> Some b
           | None \<Rightarrow>
               (case find (\<lambda>a. ac_boundary a \<noteq> None) (rev (activities r)) of
                  None \<Rightarrow> None | Some a \<Rightarrow> ac_boundary a)))"

fun legalBaselineReceipt :: "check_fact \<Rightarrow> bool" where
  "legalBaselineReceipt c =
     (if ck_phase c \<noteq> Baseline then False
      else case ck_modality c of
          Precondition \<Rightarrow> ck_disposition c = CheckPass
        | RepairTarget \<Rightarrow> ck_disposition c = CheckPass \<or> ck_disposition c = CheckFail
        | RegressionGuard \<Rightarrow> ck_disposition c = CheckPass
        | Postcondition \<Rightarrow> ck_disposition c = CheckNotRun
        | Diagnostic \<Rightarrow> True)"

definition legalAcceptanceReceipt :: "check_fact \<Rightarrow> bool" where
  "legalAcceptanceReceipt c \<longleftrightarrow>
     ck_phase c = Final \<and> (ck_modality c = Diagnostic \<or> ck_disposition c = CheckPass)"

definition phase_checks :: "check_phase \<Rightarrow> activity \<Rightarrow> check_fact list" where
  "phase_checks phase a = filter (\<lambda>c. ck_phase c = phase) (ac_checks a)"

definition baselineChecksForBoundary :: "replay \<Rightarrow> reference option \<Rightarrow> check_fact list" where
  "baselineChecksForBoundary r boundary = (case boundary of
       None \<Rightarrow> []
     | Some b \<Rightarrow>
         (case find (\<lambda>a. case ac_boundary a of None \<Rightarrow> False | Some s \<Rightarrow> sameReference s b) (activities r) of
            None \<Rightarrow> [] | Some owner \<Rightarrow> phase_checks Baseline owner))"

definition assertExactActivitySubject :: "platform \<Rightarrow> event \<Rightarrow> reference option \<Rightarrow> unit res" where
  "assertExactActivitySubject P e expected = (case expected of
       None \<Rightarrow> Inl (DeliveryReducer ''reference'')
     | Some x \<Rightarrow>
         bindE (deliveryEventSubject P e) (\<lambda>s.
         failIf (\<not> sameReference (subject_reference s) x) (DeliveryReducer ''reference'') (Inr ())))"

definition publicActivity :: "activity \<Rightarrow> delivery_activity" where
  "publicActivity a = \<lparr>da_id = ac_id a, da_operation = ac_operation a, da_family = ac_family a,
     da_stage = ac_stage a, da_recovery = ac_recovery a\<rparr>"

definition currentStanding :: "replay \<Rightarrow> standing" where
  "currentStanding r =
     (let s = re_subjects r in
      if su_closure s \<noteq> None then Closed
      else if su_materialCondition s \<noteq> None \<and> su_proposedBoundary s \<noteq> None then AwaitingReadmission
      else if su_materialCondition s \<noteq> None then BoundaryPaused
      else if re_evidenceReadiness r = Some AcceptanceReady then DecisionReady
      else if su_activeBoundary s \<noteq> None then Active
      else if su_proposedBoundary s \<noteq> None then AwaitingAdmission
      else Framing)"

definition incomplete :: "activity \<Rightarrow> bool" where
  "incomplete a \<longleftrightarrow> ac_stage a \<noteq> Completed"

text \<open>Comparison of activities by identity is comparison of their keys.\<close>

definition currentCandidateCondition :: "replay \<Rightarrow> candidate_condition" where
  "currentCandidateCondition r =
     (let s = re_subjects r;
          activeCandidateActivity =
            find (\<lambda>a. incomplete a \<and> ac_operation a \<noteq> Prepare) (activities r);
          active_operation = map_option ac_operation activeCandidateActivity in
      if su_closure s \<noteq> None then
        (if su_candidate s = None then CandidateAbsent
         else if re_closureDisposition r = Some ClosureAccepted then CandidateAccepted
         else CandidateAbandoned)
      else if su_candidate s = None then CandidateAbsent
      else if list_ex (\<lambda>a. incomplete a \<and> ac_recovery a \<noteq> None \<and>
                \<not> (map_option ac_id activeCandidateActivity = Some (ac_id a) \<and>
                   (ac_stage a = Started \<or> ac_stage a = Prepared))) (activities r)
        then TerminalRecovery
      else if su_materialCondition s \<noteq> None then PausedForBoundary
      else if active_operation = Some Integrate then InProgress
      else if re_evidenceReadiness r = Some AcceptanceReady then ReadyForDecision
      else if active_operation = Some Evaluate \<and> su_seal s \<noteq> None then SealedUnderEvaluation
      else if activeCandidateActivity \<noteq> None then InProgress
      else if re_evidenceReadiness r = Some Correctable \<or>
              re_evidenceReadiness r = Some NoShipRecommended then NeedsCorrection
      else if su_seal s \<noteq> None \<and> su_evidence s = None then SealedUnderEvaluation
      else ReadyForWork)"

definition delegation_public :: "replay \<Rightarrow> delegation_state" where
  "delegation_public r = \<lparr>ds_admission = re_activeAdmission r,
     ds_current = map_option (\<lambda>d. (dl_reference d, dl_stopped d)) (re_delegation r),
     ds_charged = re_delegatedCharges r\<rparr>"

definition stateFromReplay :: "replay \<Rightarrow> delivery_state" where
  "stateFromReplay r = \<lparr>st_standing = currentStanding r,
     st_candidateCondition = currentCandidateCondition r,
     st_activities = map publicActivity (activities r), st_subjects = re_subjects r,
     st_delegation = delegation_public r,
     st_eventCount = (case re_lastEvent r of None \<Rightarrow> 0 | Some e \<Rightarrow> ev_sequence e),
     st_headDigest = map_option ev_digest (re_lastEvent r)\<rparr>"

record reduced_state = delivery_state +
  st_eligibleOperations :: "operation list"

definition with_eligible :: "delivery_state \<Rightarrow> operation list \<Rightarrow> reduced_state" where
  "with_eligible s ops = delivery_state.extend s (reduced_state.fields ops)"

definition reducedState :: "replay \<Rightarrow> reduced_state" where
  "reducedState r = (let s = stateFromReplay r in
     with_eligible s (eligibleDeliveryOperations s (re_candidateIntegrated r)))"

section \<open>Guards shared by the handlers\<close>

definition activityFor :: "replay \<Rightarrow> jobject \<Rightarrow> activity res" where
  "activityFor r payload = bindE (identifierField payload ''activityId'') (\<lambda>activityId.
     case map_of (re_activities r) activityId of
       None \<Rightarrow> Inl (DeliveryReducer ''activity'')
     | Some a \<Rightarrow> failIf (ac_stage a = Completed) (DeliveryReducer ''activity'') (Inr a))"

definition recovery :: "recovery_kind \<Rightarrow> recovery_step \<Rightarrow> string option \<Rightarrow> recovery_obligation res" where
  "recovery kind resumesAt exactEffectDigest =
     bindE (deliveryRecoveryDescriptor kind (step_name resumesAt)) (\<lambda>_.
     Inr \<lparr>ro_kind = kind, ro_resumesAt = resumesAt, ro_exactEffectDigest = exactEffectDigest\<rparr>)"

definition assertAgentActivity :: "activity \<Rightarrow> unit res" where
  "assertAgentActivity a = failIf (ac_family a \<noteq> AgentFamily) (DeliveryReducer ''activity'') (Inr ())"

definition assertTransactionActivity :: "activity \<Rightarrow> unit res" where
  "assertTransactionActivity a =
     failIf (ac_family a \<noteq> TransactionFamily) (DeliveryReducer ''activity'') (Inr ())"

definition assertCoreAgentTerminal :: "activity \<Rightarrow> unit res" where
  "assertCoreAgentTerminal a =
     failIf (ac_attempt a = None \<or> ac_providerOutcome a = None) (DeliveryReducer ''order'')
     (failIf (ac_workProduct a = None \<and> \<not> ac_workProductAbandoned a) (DeliveryReducer ''order'') (Inr ()))"

definition assertWorkProductOpen :: "activity \<Rightarrow> unit res" where
  "assertWorkProductOpen a =
     failIf (ac_workProduct a \<noteq> None \<or> ac_workProductAbandoned a) (DeliveryReducer ''duplicate'') (Inr ())"

text \<open>\<open>activity.recovery?.kind\<close>, \<open>?.resumesAt\<close> and \<open>exactEffectDigest === null\<close>.\<close>

definition resumes_at :: "activity \<Rightarrow> recovery_step \<Rightarrow> bool" where
  "resumes_at a s \<longleftrightarrow> map_option ro_resumesAt (ac_recovery a) = Some s"

definition recovery_is :: "activity \<Rightarrow> recovery_kind \<Rightarrow> recovery_step \<Rightarrow> bool" where
  "recovery_is a k s \<longleftrightarrow> map_option ro_kind (ac_recovery a) = Some k \<and> resumes_at a s"

definition effectless :: "activity \<Rightarrow> bool" where
  "effectless a \<longleftrightarrow> (case ac_recovery a of None \<Rightarrow> False | Some o' \<Rightarrow> ro_exactEffectDigest o' = None)"

section \<open>The envelope\<close>

definition event_input_of :: "event \<Rightarrow> event_input" where
  "event_input_of e = \<lparr>ei_eventId = ev_eventId e, ei_eventKind = ev_eventKind e,
     ei_occurredAt = ev_occurredAt e, ei_actor = ev_actor e, ei_subject = ev_subject e,
     ei_payload = ev_payload e\<rparr>"

definition chain_position :: "replay \<Rightarrow> event \<Rightarrow> replay res" where
  "chain_position r e = (case re_lastEvent r of
       None \<Rightarrow> failIf (ev_predecessorDigest e \<noteq> None) (DeliveryReducer ''sequence'')
         (Inr (r\<lparr>re_storeId := Some (ev_storeId e), re_processId := Some (ev_processId e)\<rparr>))
     | Some prior \<Rightarrow>
         failIf (Some (ev_storeId e) \<noteq> re_storeId r \<or> Some (ev_processId e) \<noteq> re_processId r)
           (DeliveryReducer ''scope'')
         (failIf (ev_predecessorDigest e \<noteq> Some (ev_digest prior)) (DeliveryReducer ''sequence'')
         (Inr r)))"

definition verifyEnvelope :: "platform \<Rightarrow> replay \<Rightarrow> event \<Rightarrow> int \<Rightarrow> replay res" where
  "verifyEnvelope P r e expectedSequence =
     bindE (assertDeliveryEventEnvelope P e) (\<lambda>_.
     bindE (compileControlRecordEvent P (ev_storeId e) (ev_processId e) (ev_sequence e)
       (ev_predecessorDigest e) (event_input_of e)) (\<lambda>reproduced.
     failIf (ev_schema reproduced \<noteq> ev_schema e \<or> ev_digest reproduced \<noteq> ev_digest e)
       (DeliveryReducer ''corruption'')
     (failIf (ev_sequence e \<noteq> expectedSequence) (DeliveryReducer ''sequence'')
     (bindE (chain_position r e) (\<lambda>r'.
     failIf (ev_eventId e \<in> re_eventIds r') (DeliveryReducer ''duplicate'')
     (let occurredAt = date_parse (ev_occurredAt e) in
     failIf (re_lastOccurredAt r' \<noteq> None \<and> js_less occurredAt (re_lastOccurredAt r'))
       (DeliveryReducer ''time'')
     (Inr (r'\<lparr>re_eventIds := insert (ev_eventId e) (re_eventIds r'), re_lastOccurredAt := occurredAt\<rparr>))))))))"

section \<open>Facts the handlers share\<close>

text \<open>The one obligation a step can carry.\<close>

definition owed :: "recovery_step \<Rightarrow> string option \<Rightarrow> recovery_obligation" where
  "owed s d = \<lparr>ro_kind = step_kind s, ro_resumesAt = s, ro_exactEffectDigest = d\<rparr>"

lemma recovery_eq [simp]:
  "recovery kind step d =
     (if kind = step_kind step then Inr (owed step d)
      else Inl (DeliveryRecovery ''step''))"
  by (cases step; cases kind)
    (simp_all add: recovery_def deliveryRecoveryDescriptor_def RECOVERY_DESCRIPTORS_def
      recovery_entry_def owed_def del: step_name.simps)

lemma exactPayload_Inr [res_simps]:
  "exactPayload e keys = Inr p \<longleftrightarrow> exact_keys (ev_payload e) keys \<and> p = ev_payload e"
  by (auto simp: exactPayload_def res_simps)

lemma activityFor_Inr [res_simps]:
  "activityFor r p = Inr a \<longleftrightarrow>
    (\<exists>i. identifierField p ''activityId'' = Inr i \<and> map_of (re_activities r) i = Some a \<and>
      ac_stage a \<noteq> Completed)"
  by (auto simp: activityFor_def res_simps split: option.splits)

lemma assertReference_Inr [res_simps]:
  "assertReference v w = Inr x \<longleftrightarrow> v = Some x \<and> w = Some x"
  by (auto simp: assertReference_def res_simps split: option.splits)

lemma guard_Inr [res_simps]:
  "assertAgentActivity a = Inr u \<longleftrightarrow> ac_family a = AgentFamily"
  "assertTransactionActivity a = Inr u \<longleftrightarrow> ac_family a = TransactionFamily"
  "assertCoreAgentTerminal a = Inr u \<longleftrightarrow> ac_attempt a \<noteq> None \<and> ac_providerOutcome a \<noteq> None \<and>
     (ac_workProduct a \<noteq> None \<or> ac_workProductAbandoned a)"
  "assertWorkProductOpen a = Inr u \<longleftrightarrow> ac_workProduct a = None \<and> \<not> ac_workProductAbandoned a"
  "assertAbsentRelationship v = Inr u \<longleftrightarrow> v = None"
  by (auto simp: assertAgentActivity_def assertTransactionActivity_def assertCoreAgentTerminal_def
      assertWorkProductOpen_def assertAbsentRelationship_def res_simps)

lemma enumField_Inr [res_simps]:
  "enumField p name values = Inr x \<longleftrightarrow>
    (\<exists>s. stringField p name = Inr s \<and> parse_name values s = Some x)"
  by (auto simp: enumField_def res_simps split: option.splits)

lemma recordEnumField_Inr [res_simps]:
  "recordEnumField rv name values = Inr x \<longleftrightarrow>
    (\<exists>s. map_of (rv_payload rv) name = Some (JStr s) \<and> parse_name values s = Some x)"
  by (auto simp: recordEnumField_def split: option.splits json.splits)

definition registered :: "replay \<Rightarrow> string \<Rightarrow> revision \<Rightarrow> replay" where
  "registered r kind rv =
     (let value = retainedReference rv in
      r\<lparr>re_recordKinds := (re_recordKinds r)(ref_id value \<mapsto> kind),
        re_recordRevisions := (re_recordRevisions r)((ref_id value, ref_revision value) \<mapsto> ref_digest value),
        re_finalizedSubjects := insert (kind, value) (re_finalizedSubjects r)\<rparr>)"

text \<open>Finalizing a subject touches only the three registers of subjects.\<close>

lemma registered_same [simp]:
  "re_resolveRevision (registered r k rv) = re_resolveRevision r"
  "re_created (registered r k rv) = re_created r"
  "re_storeId (registered r k rv) = re_storeId r"
  "re_processId (registered r k rv) = re_processId r"
  "re_lastEvent (registered r k rv) = re_lastEvent r"
  "re_lastOccurredAt (registered r k rv) = re_lastOccurredAt r"
  "re_eventIds (registered r k rv) = re_eventIds r"
  "re_plannedBriefs (registered r k rv) = re_plannedBriefs r"
  "re_activities (registered r k rv) = re_activities r"
  "re_subjects (registered r k rv) = re_subjects r"
  "re_evidenceReadiness (registered r k rv) = re_evidenceReadiness r"
  "re_closureDisposition (registered r k rv) = re_closureDisposition r"
  "re_candidateIntegrated (registered r k rv) = re_candidateIntegrated r"
  "re_activeAdmission (registered r k rv) = re_activeAdmission r"
  "re_delegation (registered r k rv) = re_delegation r"
  "re_delegatedCharges (registered r k rv) = re_delegatedCharges r"
  "re_standingBriefs (registered r k rv) = re_standingBriefs r"
  by (simp_all add: registered_def Let_def)

lemma deliveryEventSubject_Inr:
  "deliveryEventSubject P e = Inr s \<Longrightarrow> ev_subject e = Some s"
  by (auto simp: deliveryEventSubject_def res_simps split: option.splits)

definition finalizes :: "replay \<Rightarrow> event \<Rightarrow> string \<Rightarrow> revision \<Rightarrow> bool" where
  "finalizes r e kind rv \<longleftrightarrow>
     re_processId r = Some (rv_processId rv) \<and> rv_recordKind rv = kind \<and>
     ev_subject e = Some (reference_subject (retainedReference rv)) \<and>
     re_resolveRevision r (reference_subject (retainedReference rv)) = Some rv \<and>
     (kind, retainedReference rv) \<notin> re_finalizedSubjects r \<and>
     (\<forall>k. re_recordKinds r (rv_recordId rv) = Some k \<longrightarrow> k = kind) \<and>
     (\<forall>d. re_recordRevisions r (rv_recordId rv, rv_revision rv) = Some d \<longrightarrow> d = rv_digest rv)"

lemma registerFinalizedSubject_Inr:
  assumes "registerFinalizedSubject P r e kind = Inr (r', rv)"
  shows "finalizes r e kind rv \<and> r' = registered r kind rv"
proof -
  from assms obtain processId s where p: "re_processId r = Some processId"
    and res: "resolveDeliveryEventSubject P e processId (re_resolveRevision r) = Inr rv"
    and s: "deliveryEventSubject P e = Inr s" and k: "rv_recordKind rv = kind"
    and kinds: "re_recordKinds r (sub_recordId s) = None \<or> re_recordKinds r (sub_recordId s) = Some kind"
    and revs: "re_recordRevisions r (sub_recordId s, sub_revision s) = None \<or>
        re_recordRevisions r (sub_recordId s, sub_revision s) = Some (sub_digest s)"
    and new: "(kind, subject_reference s) \<notin> re_finalizedSubjects r"
    and r': "r' = r\<lparr>re_recordKinds := (re_recordKinds r)(sub_recordId s \<mapsto> kind),
      re_recordRevisions := (re_recordRevisions r)((sub_recordId s, sub_revision s) \<mapsto> sub_digest s),
      re_finalizedSubjects := insert (kind, subject_reference s) (re_finalizedSubjects r)\<rparr>"
    by (auto simp: registerFinalizedSubject_def res_simps Let_def subject_reference_def
        split: option.splits)
  from resolveDeliveryEventSubject_Inr [OF res] deliveryEventSubject_Inr [OF s]
  have f: "re_resolveRevision r s = Some rv" "rv_processId rv = processId" "rv_recordId rv = sub_recordId s"
      "rv_revision rv = sub_revision s" "rv_digest rv = sub_digest s" "ev_subject e = Some s" by auto
  then have q: "reference_subject (retainedReference rv) = s" "subject_reference s = retainedReference rv"
    by (simp_all add: reference_subject_def retainedReference_def subject_reference_def)
  from p k kinds revs new r' f q show ?thesis
    by (auto simp: finalizes_def registered_def Let_def retainedReference_def)
qed

definition registers :: "platform \<Rightarrow> replay \<Rightarrow> event \<Rightarrow> string \<Rightarrow> revision \<Rightarrow> bool" where
  "registers P r e kind rv \<longleftrightarrow>
     registerFinalizedSubject P r e kind = Inr (registered r kind rv, rv)"

lemma registers_Inr [res_simps]:
  "registerFinalizedSubject P r e kind = Inr (r', rv) \<longleftrightarrow>
     r' = registered r kind rv \<and> registers P r e kind rv"
  by (auto simp: registers_def dest: registerFinalizedSubject_Inr)

lemma registers_finalizes: "registers P r e kind rv \<Longrightarrow> finalizes r e kind rv"
  by (auto simp: registers_def dest: registerFinalizedSubject_Inr)

end
