(* ===== verification/Delegation_Execution.thy ===== *)
theory Delegation_Execution
  imports Kind_Registry Integration_Assessment Work_Delegation
begin

text \<open>
  The joins of a delegated reservation with what executes under it
  (\<open>control/work-delegation-execution.ts\<close>): the opening read back from a journal prefix,
  the slot of an Agent or a Check, and the comparison of resource selections.
\<close>

section \<open>Reading one opening\<close>

text \<open>
  The store is an interface of the source (\<open>WorkDelegationExecutionReadStore\<close>): its identity,
  its journal head and the paged reader \<open>listEvents(cursor, count)\<close>.
\<close>

record read_store =
  rs_storeId :: string
  rs_processId :: string
  rs_eventCount :: int
  rs_headDigest :: "string option"
  rs_listEvents :: "int \<Rightarrow> int \<Rightarrow> event list"

record delegated_execution =
  dx_eventId :: string
  dx_sequence :: int
  dx_digest :: string
  dx_activityId :: string
  dx_operation :: string
  dx_reservation :: "reservation option"

definition binding_fail :: "string \<Rightarrow> error" where
  "binding_fail reason = WorkDelegationExecution reason"

fun read_page ::
  "read_store \<Rightarrow> string \<Rightarrow> int \<times> string option \<times> event option \<Rightarrow> event list \<Rightarrow>
    (int \<times> string option \<times> event option) res" where
  "read_page store activityId acc [] = Inr acc"
| "read_page store activityId (cursor, predecessorDigest, opening) (e # es) =
     failIf (ev_sequence e \<noteq> cursor + 1 \<or> ev_storeId e \<noteq> rs_storeId store \<or>
             ev_processId e \<noteq> rs_processId store \<or> ev_predecessorDigest e \<noteq> predecessorDigest)
       (binding_fail ''journal-prefix'')
     (let opens = ev_eventKind e = ''activity-started'' \<and>
            map_of (ev_payload e) ''activityId'' = Some (JStr activityId) in
      failIf (opens \<and> opening \<noteq> None) (binding_fail ''duplicate-opening'')
      (read_page store activityId
        (ev_sequence e, Some (ev_digest e), if opens then Some e else opening) es))"

lemma read_page_cursor:
  "read_page store i (c, d, p) es = Inr (c', d', p') \<Longrightarrow> c' = c + int (length es)"
proof (induction es arbitrary: c d p)
  case Nil
  then show ?case by simp
next
  case (Cons e es)
  from Cons.prems show ?case by (auto simp: res_simps Let_def dest!: Cons.IH)
qed

function (sequential) read_journal ::
  "read_store \<Rightarrow> string \<Rightarrow> int \<times> string option \<times> event option \<Rightarrow>
    (int \<times> string option \<times> event option) res" where
  "read_journal store activityId (cursor, predecessorDigest, opening) =
     (if cursor < rs_eventCount store then
        let count = min 1000 (rs_eventCount store - cursor); page = rs_listEvents store cursor count in
        failIf (int (length page) \<noteq> count) (binding_fail ''journal-prefix'')
        (bindE (read_page store activityId (cursor, predecessorDigest, opening) page)
          (read_journal store activityId))
      else Inr (cursor, predecessorDigest, opening))"
  by pat_completeness auto
termination
proof (relation "measure (\<lambda>(store, _, cursor, _). nat (rs_eventCount store - cursor))", simp, goal_cases)
  case (1 store i c d p x xa y)
  then show ?case by (cases y) (auto dest!: read_page_cursor)
qed

definition opening_execution :: "platform \<Rightarrow> string \<Rightarrow> event \<Rightarrow> delegated_execution res" where
  "opening_execution P activityId opening =
     (let payload = ev_payload opening;
          hasReservation = hasOwn payload ''reservation'';
          keys = (if hasReservation then [''activityId'', ''operation'', ''reservation'']
                  else [''activityId'', ''operation'']) in
      case map_of payload ''operation'' of
        Some (JStr operation) \<Rightarrow>
          failIf (ev_subject opening \<noteq> None \<or> length payload \<noteq> length keys \<or>
                  list_ex (\<lambda>m. fst m \<notin> set keys) payload) (binding_fail ''opening-shape'')
          (bindE (if hasReservation
             then bindE (parseWorkDelegationReservation P (mem payload ''reservation'')) (\<lambda>r. Inr (Some r))
             else Inr None) (\<lambda>reservation.
          failIf (case reservation of None \<Rightarrow> False
             | Some r \<Rightarrow> rp_activityId r \<noteq> activityId \<or> operation_name (rp_operation r) \<noteq> operation \<or>
                 rp_head_sequence r \<noteq> ev_sequence opening - 1 \<or>
                 Some (rp_head_digest r) \<noteq> ev_predecessorDigest opening)
            (binding_fail ''opening-reservation'')
          (Inr \<lparr>dx_eventId = ev_eventId opening, dx_sequence = ev_sequence opening,
             dx_digest = ev_digest opening, dx_activityId = activityId, dx_operation = operation,
             dx_reservation = reservation\<rparr>)))
      | _ \<Rightarrow> Inl (binding_fail ''opening-shape''))"

definition readWorkDelegationExecution ::
  "platform \<Rightarrow> read_store \<Rightarrow> string \<Rightarrow> delegated_execution res" where
  "readWorkDelegationExecution P store activity_id =
     bindE (controlIdentifier activity_id) (\<lambda>activityId.
     failIf (\<not> safe_integer (rs_eventCount store) \<or> rs_eventCount store < 1 \<or>
             rs_headDigest store = None) (binding_fail ''journal'')
     (bindE (read_journal store activityId (0, None, None)) (\<lambda>(cursor, predecessorDigest, opening).
     failIf (predecessorDigest \<noteq> rs_headDigest store) (binding_fail ''journal-prefix'')
     (case opening of
        None \<Rightarrow> Inl (binding_fail ''missing-opening'')
      | Some e \<Rightarrow> opening_execution P activityId e))))"

section \<open>Slots\<close>

definition workDelegationAgentSlot ::
  "delegated_execution \<Rightarrow> agent_role \<Rightarrow> execution_slot option res" where
  "workDelegationAgentSlot binding role = (case dx_reservation binding of
       None \<Rightarrow> Inr None
     | Some reservation \<Rightarrow>
         (case filter (\<lambda>slot. case slot of AgentSlot _ r _ \<Rightarrow> r = role | CheckSlot _ \<Rightarrow> False)
                 (rp_slots reservation) of
            [slot] \<Rightarrow> Inr (Some slot)
          | _ \<Rightarrow> Inl (binding_fail ''agent-slot'')))"

definition workDelegationCheckSlot ::
  "delegated_execution \<Rightarrow> string \<Rightarrow> string \<Rightarrow> execution_slot option res" where
  "workDelegationCheckSlot binding selectionId phase = (case dx_reservation binding of
       None \<Rightarrow> Inr None
     | Some reservation \<Rightarrow>
         (case filter (\<lambda>slot. case slot of AgentSlot _ _ _ \<Rightarrow> False
                   | CheckSlot c \<Rightarrow> cs_selectionId c = selectionId \<and> phase = ''final'')
                 (rp_slots reservation) of
            [slot] \<Rightarrow> Inr (Some slot)
          | _ \<Rightarrow> Inl (binding_fail ''check-slot'')))"

section \<open>Resource selections\<close>

text \<open>\<open>actual\<close> is an object with members \<open>provider\<close>, \<open>execution\<close> and \<open>investment\<close>.\<close>

definition workDelegationAgentSelectionMatches :: "agent_selection \<Rightarrow> jobject \<Rightarrow> bool res" where
  "workDelegationAgentSelectionMatches selection actual =
     bindE (canonicalJson (agent_selection_json selection)) (\<lambda>granted.
     bindE (member (map_of actual ''provider'') ''descriptorId'') (\<lambda>descriptorId.
     bindE (member (map_of actual ''provider'') ''descriptorDigest'') (\<lambda>descriptorDigest.
     bindE (member (map_of actual ''execution'') ''backendProfile'') (\<lambda>backendProfile.
     bindE (member (map_of actual ''execution'') ''image'') (\<lambda>img.
     bindE (member (map_of actual ''investment'') ''model'') (\<lambda>model.
     bindE (member (map_of actual ''investment'') ''reasoning'') (\<lambda>reasoning.
     bindE (member (map_of actual ''investment'') ''wallTimeMs'') (\<lambda>wallTimeMs.
     bindE (member (map_of actual ''investment'') ''limits'') (\<lambda>limits.
     bindE (defined_members [(''id'', descriptorId), (''digest'', descriptorDigest)]) (\<lambda>descriptor.
     bindE (defined_members [(''providerDescriptor'', Some (JObj descriptor)),
       (''backendProfile'', backendProfile), (''image'', img), (''model'', model),
       (''reasoning'', reasoning), (''wallTimeMs'', wallTimeMs), (''limits'', limits)]) (\<lambda>found.
     bindE (canonicalJson (JObj found)) (\<lambda>text. Inr (granted = text)))))))))))))"

definition workDelegationAgentAttemptMatches ::
  "platform \<Rightarrow> agent_role \<Rightarrow> agent_selection \<Rightarrow> revision \<Rightarrow> bool res" where
  "workDelegationAgentAttemptMatches P role selection attempt =
     failIf (rv_recordKind attempt \<noteq> ''agent-attempt'') (binding_fail ''attempt-kind'')
     (bindE (assertDeliveryControlRecordPayload P attempt) (\<lambda>_.
     if map_of (rv_payload attempt) ''role'' = Some (JStr (role_name role))
     then workDelegationAgentSelectionMatches selection (rv_payload attempt) else Inr False))"

record check_request =
  cr_selectionId :: string
  cr_phase :: string
  cr_definition :: check_definition
  cr_bindingId :: string
  cr_binding :: resource_reference

record cell_resources =
  cl_backendProfile :: backend_profile
  cl_image :: image_reference
  cl_limits :: execution_limits

definition check_selection_json ::
  "string \<Rightarrow> string \<Rightarrow> check_definition \<Rightarrow> resource_reference \<Rightarrow> backend_profile \<Rightarrow> image_reference \<Rightarrow>
    int \<Rightarrow> execution_limits \<Rightarrow> json" where
  "check_selection_json phase selectionId def binding bp img wallTimeMs limits =
     JObj [(''phase'', JStr phase), (''selectionId'', JStr selectionId),
       (''definition'', check_definition_json def), (''binding'', resource_json binding),
       (''backendProfile'', backend_json bp), (''image'', image_json img),
       (''wallTimeMs'', JInt wallTimeMs), (''limits'', execution_limits_json limits)]"

definition workDelegationCheckSelectionMatches ::
  "check_slot \<Rightarrow> check_request \<Rightarrow> cell_resources \<Rightarrow> bool res" where
  "workDelegationCheckSelectionMatches slot request resources =
     (if cr_bindingId request \<noteq> rr_id (cr_binding request) then Inr False else
      bindE (canonicalJson (check_selection_json ''final'' (cs_selectionId slot) (cs_definition slot)
        (cs_binding slot) (cs_backendProfile slot) (cs_image slot) (cs_wallTimeMs slot) (cs_limits slot))) (\<lambda>l.
      bindE (canonicalJson (check_selection_json (cr_phase request) (cr_selectionId request)
        (cr_definition request) \<lparr>rr_id = cr_bindingId request, rr_digest = rr_digest (cr_binding request)\<rparr>
        (cl_backendProfile resources) (cl_image resources)
        (el_wallTimeMilliseconds (cl_limits resources)) (cl_limits resources))) (\<lambda>r. Inr (l = r))))"

end
