(* ===== verification/Opening_Handlers.thy ===== *)
theory Opening_Handlers
  imports Delivery_Replay Delegation_Execution
begin

text \<open>
  The reducer's handlers before and at the opening of an activity
  (\<open>process/delivery-reducer.ts\<close>): Director Briefs, the delegation of resources and its
  stop, and the start of an activity with or without a reservation.
\<close>

section \<open>Director Briefs\<close>

definition submitStandingBrief :: "platform \<Rightarrow> replay \<Rightarrow> event \<Rightarrow> replay res" where
  "submitStandingBrief P r e =
     bindE (exactPayload e [''delegationId'', ''delegationRevision'', ''operation'']) (\<lambda>payload.
     bindE (registerFinalizedSubject P r e ''director-brief'') (\<lambda>(r, brief).
     bindE (assertOnlyRelationships brief []) (\<lambda>_.
     bindE (recordObject (map_of (rv_payload brief) ''scope'')) (\<lambda>scope.
     bindE (canonicalJson (JObj scope)) (\<lambda>scope_text.
     bindE (canonicalJson (JObj ((''kind'', JStr ''delegation'') # payload))) (\<lambda>expected_text.
     failIf (scope_text \<noteq> expected_text \<or>
             \<not> js_strict_eq (map_of (rv_payload brief) ''inputProfile'') (map_of payload ''operation''))
       (DeliveryReducer ''delegation-brief'') (
     bindE (canonicalJson (JObj payload)) (\<lambda>key.
     failIf (re_standingBriefs r key \<noteq> None) (DeliveryReducer ''delegation-brief'') (
     Inr (r\<lparr>re_standingBriefs := (re_standingBriefs r)(key \<mapsto> retainedReference brief)\<rparr>))))))))))"

definition submitPlannedBrief :: "platform \<Rightarrow> replay \<Rightarrow> event \<Rightarrow> replay res" where
  "submitPlannedBrief P r e =
     bindE (exactPayload e [''activityId'']) (\<lambda>payload.
     bindE (identifierField payload ''activityId'') (\<lambda>activityId.
     failIf (map_of (re_activities r) activityId \<noteq> None) (DeliveryReducer ''order'') (
     failIf (re_plannedBriefs r activityId \<noteq> None) (DeliveryReducer ''duplicate'') (
     bindE (registerFinalizedSubject P r e ''director-brief'') (\<lambda>(r, brief).
     bindE (assertOnlyRelationships brief []) (\<lambda>_.
     bindE (canonicalJsonOf (map_of (rv_payload brief) ''scope'')) (\<lambda>scope_text.
     bindE (canonicalJson (JObj [(''kind'', JStr ''activity''), (''activityId'', JStr activityId)]))
       (\<lambda>expected_text.
     failIf (scope_text \<noteq> expected_text) (DeliveryReducer ''brief-scope'') (
     Inr (r\<lparr>re_plannedBriefs := (re_plannedBriefs r)(activityId \<mapsto> retainedReference brief)\<rparr>))))))))))"

definition submitDirectorBrief :: "platform \<Rightarrow> replay \<Rightarrow> event \<Rightarrow> replay res" where
  "submitDirectorBrief P r e =
     (if hasOwn (ev_payload e) ''delegationId'' then submitStandingBrief P r e
      else submitPlannedBrief P r e)"

section \<open>Delegation of resources\<close>

definition exactDelegationRevision :: "replay \<Rightarrow> reference \<Rightarrow> string \<Rightarrow> revision res" where
  "exactDelegationRevision r selected kind =
     (case re_resolveRevision r (reference_subject selected) of
        None \<Rightarrow> Inl (DeliveryReducer ''delegation-subject'')
      | Some rv \<Rightarrow>
          failIf (Some (rv_processId rv) \<noteq> re_processId r \<or> rv_recordKind rv \<noteq> kind \<or>
                  rv_recordId rv \<noteq> ref_id selected \<or> rv_revision rv \<noteq> ref_revision selected \<or>
                  rv_digest rv \<noteq> ref_digest selected) (DeliveryReducer ''delegation-subject'') (Inr rv))"

definition some_incomplete :: "replay \<Rightarrow> bool" where
  "some_incomplete r \<longleftrightarrow> list_ex incomplete (activities r)"

text \<open>Whether a replacement names its exact predecessor.\<close>

definition assertDelegationLineage ::
  "reference option \<Rightarrow> delegation_payload \<Rightarrow> reference option \<Rightarrow> unit res" where
  "assertDelegationLineage previous grant previousRelationship = (case previous of
       None \<Rightarrow> failIf (dp_replaces grant \<noteq> None \<or> previousRelationship \<noteq> None)
         (DeliveryReducer ''delegation-revision'') (Inr ())
     | Some p \<Rightarrow>
         bindE (assertReference (map_option target_reference (dp_replaces grant)) (Some p)) (\<lambda>_.
         bindE (assertReference previousRelationship (Some p)) (\<lambda>_. Inr ())))"

definition ceilings_cover :: "accounting \<Rightarrow> accounting \<Rightarrow> bool" where
  "ceilings_cover ceilings charges \<longleftrightarrow>
     \<not> acc_operations ceilings < acc_operations charges \<and>
     \<not> acc_agentAttempts ceilings < acc_agentAttempts charges \<and>
     \<not> acc_reservedCellWallTimeMs ceilings < acc_reservedCellWallTimeMs charges"

text \<open>One iteration over the two directed operations: the standing Brief is bound and consumed.\<close>

definition bindDirection ::
  "revision \<Rightarrow> relationship list \<Rightarrow> replay \<Rightarrow> operation \<times> target option \<Rightarrow> replay res" where
  "bindDirection rv directions r direction = (case snd direction of
       None \<Rightarrow> Inr r
     | Some selected \<Rightarrow>
     bindE (canonicalJson (JObj [(''delegationId'', JStr (rv_recordId rv)),
       (''delegationRevision'', JInt (rv_revision rv)),
       (''operation'', JStr (operation_name (fst direction)))])) (\<lambda>key.
     bindE (assertReference (re_standingBriefs r key) (Some (target_reference selected))) (\<lambda>_.
     bindE (exactDelegationRevision r (target_reference selected) ''director-brief'') (\<lambda>brief.
     failIf (actor_id (rv_semanticAuthor brief) \<noteq> actor_id (rv_semanticAuthor rv) \<or>
             \<not> list_ex (\<lambda>l. sameReference (target_reference (rel_target l)) (target_reference selected)) directions)
       (DeliveryReducer ''delegation-brief'') (
     Inr (r\<lparr>re_standingBriefs := (re_standingBriefs r)(key := None)\<rparr>))))))"

definition setWorkDelegation :: "platform \<Rightarrow> replay \<Rightarrow> event \<Rightarrow> replay res" where
  "setWorkDelegation P r e =
     bindE (exactPayload e []) (\<lambda>_.
     failIf (su_activeBoundary (re_subjects r) = None \<or> re_activeAdmission r = None \<or>
             su_materialCondition (re_subjects r) \<noteq> None \<or> some_incomplete r)
       (DeliveryReducer ''delegation-currentness'') (
     bindE (registerFinalizedSubject P r e ''work-delegation'') (\<lambda>(r, rv).
     bindE (parseWorkDelegationPayload P (JObj (rv_payload rv))) (\<lambda>grant.
     bindE (assertOnlyRelationships rv [''uses-boundary'', ''uses-admission'', ''uses-brief'', ''revises'']) (\<lambda>_.
     bindE (assertReference (Some (target_reference (dp_boundary grant))) (su_activeBoundary (re_subjects r))) (\<lambda>_.
     bindE (assertReference (Some (target_reference (dp_admission grant))) (re_activeAdmission r)) (\<lambda>admissionRef.
     bindE (requiredRelationship rv ''uses-boundary'' ''work-boundary'') (\<lambda>usesBoundary.
     bindE (assertReference (Some usesBoundary) (Some (target_reference (dp_boundary grant)))) (\<lambda>_.
     bindE (requiredRelationship rv ''uses-admission'' ''director-decision'') (\<lambda>usesAdmission.
     bindE (assertReference (Some usesAdmission) (Some (target_reference (dp_admission grant)))) (\<lambda>_.
     bindE (exactDelegationRevision r admissionRef ''director-decision'') (\<lambda>admission.
     failIf (actor_id (rv_semanticAuthor rv) \<noteq> actor_id (rv_semanticAuthor admission))
       (DeliveryReducer ''delegation-author'') (
     bindE (optionalRelationship rv ''revises'' ''work-delegation'') (\<lambda>previousRelationship.
     bindE (assertDelegationLineage (map_option dl_reference (re_delegation r)) grant previousRelationship) (\<lambda>_.
     failIf (case re_delegation r of None \<Rightarrow> False
        | Some previous \<Rightarrow> rv_recordId rv \<noteq> ref_id (dl_reference previous) \<or>
            rv_revision rv \<noteq> ref_revision (dl_reference previous) + 1)
       (DeliveryReducer ''delegation-revision'') (
     failIf (dp_expiresAt grant \<noteq> None \<and>
             js_less_eq (date_parse (the (dp_expiresAt grant))) (date_parse (ev_occurredAt e)))
       (DeliveryReducer ''delegation-expiry'') (
     failIf (\<not> ceilings_cover (dp_ceilings grant) (re_delegatedCharges r))
       (DeliveryReducer ''delegation-accounting'') (
     let directions = filter (\<lambda>l. rel_relation l = ''uses-brief'') (rv_relationships rv);
         selected = [(Continue, dp_continue_direction grant), (Evaluate, dp_evaluate_direction grant)] in
     failIf (length directions \<noteq> length (filter (\<lambda>d. snd d \<noteq> None) selected))
       (DeliveryReducer ''delegation-brief'') (
     bindE (foldE (bindDirection rv directions) r selected) (\<lambda>r.
     Inr (r\<lparr>re_delegation := Some \<lparr>dl_reference = retainedReference rv, dl_payload = grant,
       dl_stopped = False\<rparr>\<rparr>)))))))))))))))))))))"

definition stopWorkDelegation :: "platform \<Rightarrow> replay \<Rightarrow> event \<Rightarrow> replay res" where
  "stopWorkDelegation P r e =
     bindE (exactPayload e [''requestDigest'', ''requestedAt'', ''requestedBy'']) (\<lambda>payload.
     failIf (re_delegation r = None \<or> dl_stopped (the (re_delegation r)) \<or> some_incomplete r)
       (DeliveryReducer ''delegation-stop'') (
     let grant = the (re_delegation r) in
     bindE (deliveryEventSubject P e) (\<lambda>s.
     bindE (assertReference (Some (subject_reference s)) (Some (dl_reference grant))) (\<lambda>_.
     bindE (exactDelegationRevision r (dl_reference grant) ''work-delegation'') (\<lambda>rv.
     failIf (map_of payload ''requestedBy'' \<noteq> Some (JStr (actor_id (rv_semanticAuthor rv))))
       (DeliveryReducer ''delegation-stop'') (
     bindE (stringField payload ''requestedAt'') (\<lambda>requestedAt.
     failIf (js_less (date_parse requestedAt) (date_parse (rv_createdAt rv)) \<or>
             js_less (date_parse (ev_occurredAt e)) (date_parse requestedAt))
       (DeliveryReducer ''delegation-stop'') (
     bindE (stringField payload ''requestedBy'') (\<lambda>requestedBy.
     bindE (compileWorkDelegationStopRequest P (stop_input (ev_storeId e) (ev_processId e)
       (kinded_target ''work-delegation'' (dl_reference grant)) requestedBy requestedAt)) (\<lambda>request.
     failIf (map_of payload ''requestDigest'' \<noteq> Some (JStr (sr_digest request)))
       (DeliveryReducer ''delegation-stop'') (
     Inr (r\<lparr>re_delegation := Some (grant\<lparr>dl_stopped := True\<rparr>)\<rparr>))))))))))))"

section \<open>Reserved Checks\<close>

text \<open>\<open>bindings.some(...)\<close>, which reads the bindings until one matches.\<close>

fun some_binding :: "resource_reference \<Rightarrow> json list \<Rightarrow> bool res" where
  "some_binding bound [] = Inr False"
| "some_binding bound (value # values) =
     bindE (recordObject (Some value)) (\<lambda>binding.
     if map_of binding ''id'' = Some (JStr (rr_id bound)) \<and>
        map_of binding ''digest'' = Some (JStr (rr_digest bound))
     then Inr True else some_binding bound values)"

fun check_slot_list :: "execution_slot list \<Rightarrow> check_slot list" where
  "check_slot_list [] = []"
| "check_slot_list (CheckSlot c # slots) = c # check_slot_list slots"
| "check_slot_list (_ # slots) = check_slot_list slots"

definition assertReservedSelection :: "check_slot list \<Rightarrow> jobject \<Rightarrow> unit res" where
  "assertReservedSelection slots selection =
     (case find (\<lambda>c. Some (JStr (cs_selectionId c)) = map_of selection ''id'') slots of
        None \<Rightarrow> Inl (DeliveryReducer ''delegation-checks'')
      | Some slot \<Rightarrow>
     bindE (canonicalJson (check_definition_json (cs_definition slot))) (\<lambda>reserved.
     bindE (canonicalJsonOf (map_of selection ''definition'')) (\<lambda>admitted.
     failIf (reserved \<noteq> admitted) (DeliveryReducer ''delegation-checks'') (
     bindE (recordArray (map_of selection ''bindings'')) (\<lambda>bindings.
     bindE (some_binding (cs_binding slot) bindings) (\<lambda>found.
     failIf (\<not> found) (DeliveryReducer ''delegation-checks'') (Inr ())))))))"

definition assertReservedChecks :: "replay \<Rightarrow> reservation \<Rightarrow> unit res" where
  "assertReservedChecks r reservation =
     (if rp_operation reservation \<noteq> Evaluate then Inr () else
     failIf (su_activeBoundary (re_subjects r) = None) (DeliveryReducer ''delegation-checks'') (
     bindE (exactDelegationRevision r (the (su_activeBoundary (re_subjects r))) ''work-boundary'') (\<lambda>boundary.
     bindE (recordObject (map_of (rv_payload boundary) ''mandate'')) (\<lambda>mandate.
     bindE (recordArray (map_of mandate ''checks'')) (\<lambda>checks.
     bindE (mapE (\<lambda>v. recordObject (Some v)) checks) (\<lambda>selections.
     let required = filter (\<lambda>s. map_of s ''finalRequired'' = Some (JBool True)) selections;
         slots = check_slot_list (rp_slots reservation) in
     failIf (length slots \<noteq> length required) (DeliveryReducer ''delegation-checks'') (
     bindE (mapE (assertReservedSelection slots) required) (\<lambda>_. Inr ()))))))))"

section \<open>Starting an activity\<close>

definition reservedOpening ::
  "platform \<Rightarrow> replay \<Rightarrow> event \<Rightarrow> string \<Rightarrow> operation \<Rightarrow> reservation \<Rightarrow> reference option \<Rightarrow>
    reference option res" where
  "reservedOpening P r e activityId operation reservation brief =
     failIf (re_delegation r = None \<or> rp_activityId reservation \<noteq> activityId \<or>
             rp_operation reservation \<noteq> operation \<or> su_materialCondition (re_subjects r) \<noteq> None \<or>
             brief \<noteq> None) (DeliveryReducer ''delegation-reservation'') (
     let grant = the (re_delegation r); payload = dl_payload grant in
     bindE (assertReference (Some (target_reference (rp_delegation reservation))) (Some (dl_reference grant))) (\<lambda>_.
     bindE (assertReference (Some (target_reference (dp_boundary payload))) (su_activeBoundary (re_subjects r))) (\<lambda>_.
     bindE (assertReference (Some (target_reference (dp_admission payload))) (re_activeAdmission r)) (\<lambda>_.
     failIf (map_option ev_sequence (re_lastEvent r) \<noteq> Some (rp_head_sequence reservation) \<or>
             map_option ev_digest (re_lastEvent r) \<noteq> Some (rp_head_digest reservation))
       (DeliveryReducer ''delegation-basis'') (
     bindE (deliveryWorkDecisionBasisDigest P (stateFromReplay r)) (\<lambda>basis.
     failIf (rp_basisDigest reservation \<noteq> basis) (DeliveryReducer ''delegation-basis'') (
     failIf (list_ex (\<lambda>a. map_option rp_reservationId (ac_reservation a) =
               Some (rp_reservationId reservation)) (activities r))
       (DeliveryReducer ''delegation-reservation'') (
     bindE (assertReservedChecks r reservation) (\<lambda>_.
     bindE (assessWorkDelegationAllowance P payload (re_delegatedCharges r) reservation
       (ev_occurredAt e) (dl_stopped grant)) (\<lambda>allowance.
     failIf (\<not> aw_allowed allowance) (DeliveryReducer ''delegation-allowance'') (
     Inr (map_option target_reference
       (if rp_operation reservation = Continue then dp_continue_direction payload
        else if rp_operation reservation = Evaluate then dp_evaluate_direction payload else None)))))))))))))"

text \<open>An active allowance cannot be bypassed by an opening that charges nothing.\<close>

definition bypasses_allowance :: "replay \<Rightarrow> operation \<Rightarrow> bool" where
  "bypasses_allowance r operation \<longleftrightarrow> (case re_delegation r of
       None \<Rightarrow> False
     | Some d \<Rightarrow> \<not> dl_stopped d \<and>
         Some (target_reference (dp_boundary (dl_payload d))) = su_activeBoundary (re_subjects r) \<and>
         Some (target_reference (dp_admission (dl_payload d))) = re_activeAdmission r \<and>
         operation \<in> set WORK_DELEGATION_OPERATIONS)"

fun activity_family :: "operation_activity \<Rightarrow> family option" where
  "activity_family AgentActivity = Some AgentFamily"
| "activity_family IntegrationActivity = Some IntegrationFamily"
| "activity_family TransactionActivity = Some TransactionFamily"
| "activity_family RecoveryActivity = None"

definition openingRecovery :: "operation \<Rightarrow> family \<Rightarrow> recovery_obligation res" where
  "openingRecovery operation family =
     (if family = AgentFamily then
        (if operation = Evaluate then recovery FinalizationRecovery StepCandidateSealed None
         else recovery FinalizationRecovery StepAgentAttemptPrepared None)
      else if family = IntegrationFamily then recovery FinalizationRecovery StepIntegrationAssessed None
      else recovery FinalizationRecovery StepDirectorDecisionAuthenticated None)"

definition opened_activity ::
  "string \<Rightarrow> operation \<Rightarrow> family \<Rightarrow> standing \<Rightarrow> recovery_obligation \<Rightarrow> reference option \<Rightarrow>
    reservation option \<Rightarrow> activity" where
  "opened_activity activityId operation family standing obligation brief reservation =
     \<lparr>ac_id = activityId, ac_operation = operation, ac_family = family,
      ac_originStanding = standing, ac_stage = Started, ac_recovery = Some obligation,
      ac_brief = brief, ac_attempt = None, ac_providerEffectDigest = None,
      ac_providerOutcome = None, ac_preIntentRefusal = None, ac_workProduct = None,
      ac_workProductAbandoned = False, ac_candidate = None, ac_integrationAssessment = None,
      ac_receipt = None, ac_boundary = None, ac_materialCondition = None, ac_seal = None,
      ac_checks = [], ac_evidence = None, ac_evidenceReadiness = None, ac_decision = None,
      ac_decisionKind = None, ac_transactionEffectDigest = None, ac_transactionOutcome = None,
      ac_closure = None, ac_completionOutcome = None, ac_reservation = reservation\<rparr>"

definition charged :: "replay \<Rightarrow> reservation option \<Rightarrow> accounting res" where
  "charged r reservation = (case reservation of
       None \<Rightarrow> Inr (re_delegatedCharges r)
     | Some v \<Rightarrow> addWorkDelegationAccounting (re_delegatedCharges r) (rp_charges v))"

definition opening_payload :: "event \<Rightarrow> jobject res" where
  "opening_payload e = exactPayload e (if hasOwn (ev_payload e) ''reservation''
     then [''activityId'', ''operation'', ''reservation''] else [''activityId'', ''operation''])"

definition opening_reservation :: "platform \<Rightarrow> jobject \<Rightarrow> reservation option res" where
  "opening_reservation P payload =
     (if hasOwn payload ''reservation''
      then bindE (parseWorkDelegationReservation P (mem payload ''reservation'')) (\<lambda>v. Inr (Some v))
      else Inr None)"

definition opening_brief ::
  "platform \<Rightarrow> replay \<Rightarrow> event \<Rightarrow> string \<Rightarrow> operation \<Rightarrow> reservation option \<Rightarrow> reference option res" where
  "opening_brief P r e activityId operation reservation =
     (let planned = re_plannedBriefs r activityId in
      case reservation of
        Some v \<Rightarrow> reservedOpening P r e activityId operation v planned
      | None \<Rightarrow> failIf (bypasses_allowance r operation) (DeliveryReducer ''delegation-reservation'')
          (Inr planned))"

definition startActivity :: "platform \<Rightarrow> replay \<Rightarrow> event \<Rightarrow> replay res" where
  "startActivity P r e =
     bindE (opening_payload e) (\<lambda>payload.
     bindE (identifierField payload ''activityId'') (\<lambda>activityId.
     failIf (map_of (re_activities r) activityId \<noteq> None) (DeliveryReducer ''duplicate'') (
     bindE (stringField payload ''operation'') (\<lambda>operation.
     bindE (deliveryOperationDescriptor operation) (\<lambda>descriptor.
     failIf (od_operation descriptor = Recover) (DeliveryReducer ''activity'') (
     bindE (opening_reservation P payload) (\<lambda>reservation.
     let state = stateFromReplay r in
     bindE (opening_brief P r e activityId (od_operation descriptor) reservation) (\<lambda>brief.
     failIf (od_activity descriptor = AgentActivity \<and> brief = None) (DeliveryReducer ''order'') (
     failIf (od_activity descriptor \<noteq> AgentActivity \<and> brief \<noteq> None) (DeliveryReducer ''activity'') (
     failIf (od_operation descriptor \<notin> set (eligibleDeliveryOperations state (re_candidateIntegrated r)))
       (DeliveryReducer ''eligibility'') (
     failIf (activity_family (od_activity descriptor) = None) (DeliveryReducer ''activity'') (
     let family = the (activity_family (od_activity descriptor)) in
     bindE (openingRecovery (od_operation descriptor) family) (\<lambda>obligation.
     let r = put_activity (opened_activity activityId (od_operation descriptor) family
           (st_standing state) obligation brief reservation) r in
     bindE (charged r reservation) (\<lambda>charges.
     Inr (r\<lparr>re_delegatedCharges := charges,
       re_plannedBriefs := (re_plannedBriefs r)(activityId := None)\<rparr>)))))))))))))))"

end
