(* ===== verification/Agent_Handlers.thy ===== *)
theory Agent_Handlers
  imports Delivery_Replay Delegation_Execution
begin

text \<open>
  The reducer's handlers of an agent activity (\<open>process/delivery-reducer.ts\<close>): a recorded
  recovery, the refusal before the provider effect is intended, the Attempt, the provider
  effect, the work product, the Execution Receipt and the Work Boundary.
\<close>

definition set_stage :: "stage \<Rightarrow> recovery_obligation \<Rightarrow> activity \<Rightarrow> activity" where
  "set_stage stage obligation a = a\<lparr>ac_stage := stage, ac_recovery := Some obligation\<rparr>"

section \<open>Recovery and refusal\<close>

definition recovery_kinds :: "(string \<times> recovery_kind) list" where
  "recovery_kinds = name_table recovery_kind_name RECOVERY_KINDS"

definition recordRecovery :: "replay \<Rightarrow> event \<Rightarrow> replay res" where
  "recordRecovery r e =
     bindE (exactPayload e [''activityId'', ''exactEffectDigest'', ''kind'', ''resumesAt'']) (\<lambda>payload.
     bindE (activityFor r payload) (\<lambda>activity.
     failIf (ac_recovery activity = None) (DeliveryReducer ''recovery'') (
     bindE (enumField payload ''kind'' recovery_kinds) (\<lambda>kind.
     bindE (identifierField payload ''resumesAt'') (\<lambda>resumesAt.
     bindE (deliveryRecoveryDescriptor kind resumesAt) (\<lambda>descriptor.
     bindE (nullableDigestField payload ''exactEffectDigest'') (\<lambda>exactEffectDigest.
     failIf (ro_kind (the (ac_recovery activity)) \<noteq> kind \<or>
             ro_resumesAt (the (ac_recovery activity)) \<noteq> rd_resumesAt descriptor \<or>
             ro_exactEffectDigest (the (ac_recovery activity)) \<noteq> exactEffectDigest)
       (DeliveryReducer ''recovery'') (Inr r))))))))"

datatype refusal_resolution = NoResolution | ProjectionConditionRequired

definition refusal_resolutions :: "(string \<times> refusal_resolution) list" where
  "refusal_resolutions = [(''none'', NoResolution),
     (''projection-condition-required'', ProjectionConditionRequired)]"

definition MANDATORY_TOO_LARGE :: string where
  "MANDATORY_TOO_LARGE = ''lifecycle.projection.mandatory-too-large''"

definition nothing_attempted :: "activity \<Rightarrow> bool" where
  "nothing_attempted a \<longleftrightarrow> ac_attempt a = None \<and> ac_providerEffectDigest a = None \<and>
     ac_providerOutcome a = None \<and> ac_workProduct a = None \<and> \<not> ac_workProductAbandoned a \<and>
     ac_receipt a = None"

definition refuseAgentBeforeIntent :: "replay \<Rightarrow> event \<Rightarrow> replay res" where
  "refuseAgentBeforeIntent r e =
     bindE (exactPayload e [''activityId'', ''diagnosticCode'', ''refusalFactsDigest'', ''resolution'']) (\<lambda>payload.
     bindE (activityFor r payload) (\<lambda>activity.
     bindE (assertAgentActivity activity) (\<lambda>_.
     let preAttemptStage = (if ac_operation activity = Evaluate then Finalizing else Started);
         preAttemptStep = (if ac_operation activity = Evaluate then StepEvaluationChecks
           else StepAgentAttemptPrepared) in
     failIf (ev_subject e \<noteq> None \<or> ac_stage activity \<noteq> preAttemptStage \<or>
             \<not> nothing_attempted activity \<or>
             \<not> recovery_is activity FinalizationRecovery preAttemptStep \<or> \<not> effectless activity)
       (DeliveryReducer ''order'') (
     bindE (identifierField payload ''diagnosticCode'') (\<lambda>diagnosticCode.
     bindE (digestField payload ''refusalFactsDigest'') (\<lambda>_.
     bindE (enumField payload ''resolution'' refusal_resolutions) (\<lambda>resolution.
     failIf (resolution = ProjectionConditionRequired \<and>
             ((ac_operation activity \<noteq> Evaluate \<and> ac_operation activity \<noteq> Continue) \<or>
              diagnosticCode \<noteq> MANDATORY_TOO_LARGE)) (DeliveryReducer ''order'') (
     bindE (recovery FinalizationRecovery (if resolution = ProjectionConditionRequired
       then StepActivityFinalization else StepActivityCompleted) None) (\<lambda>obligation.
     Inr (put_activity (set_stage Finalizing obligation (activity\<lparr>ac_preIntentRefusal := Some e\<rparr>)) r))))))))))"

section \<open>The Attempt\<close>

definition assertReservedAttempt :: "platform \<Rightarrow> activity \<Rightarrow> revision \<Rightarrow> unit res" where
  "assertReservedAttempt P activity attempt = (case ac_reservation activity of
       None \<Rightarrow> Inr ()
     | Some reservation \<Rightarrow>
         (case agent_slots (rp_slots reservation) of
            [] \<Rightarrow> Inl (DeliveryReducer ''delegation-attempt'')
          | (role, selection) # _ \<Rightarrow>
              bindE (workDelegationAgentAttemptMatches P role selection attempt) (\<lambda>matches.
              failIf (\<not> matches) (DeliveryReducer ''delegation-attempt'') (Inr ()))))"

definition covers :: "string list \<Rightarrow> check_fact list \<Rightarrow> bool" where
  "covers required checks \<longleftrightarrow> list_all (\<lambda>s. s \<in> ck_selectionId ` set checks) required"

text \<open>What an Attempt other than a preparation's must bind.\<close>

definition assertAttemptSubjects ::
  "replay \<Rightarrow> activity \<Rightarrow> reference option \<Rightarrow> reference option \<Rightarrow> reference option \<Rightarrow> unit res" where
  "assertAttemptSubjects r activity usesBoundary usesCandidate usesSeal =
     bindE (assertReference usesBoundary (su_activeBoundary (re_subjects r))) (\<lambda>_.
     bindE (assertReference usesCandidate (su_candidate (re_subjects r))) (\<lambda>_.
     if ac_operation activity = Evaluate then
       bindE (finalSelectionIds r activity) (\<lambda>required.
       failIf (ac_seal activity = None \<or>
               \<not> recovery_is activity FinalizationRecovery StepEvaluationChecks \<or>
               \<not> covers required (phase_checks Final activity)) (DeliveryReducer ''order'')
       (bindE (assertReference usesSeal (su_seal (re_subjects r))) (\<lambda>_. Inr ())))
     else assertAbsentRelationship usesSeal))"

definition assertPreparationSubjects ::
  "reference option \<Rightarrow> reference option \<Rightarrow> reference option \<Rightarrow> unit res" where
  "assertPreparationSubjects usesBoundary usesCandidate usesSeal =
     bindE (assertAbsentRelationship usesBoundary) (\<lambda>_.
     bindE (assertAbsentRelationship usesCandidate) (\<lambda>_.
     assertAbsentRelationship usesSeal))"

definition prepareAttempt :: "platform \<Rightarrow> replay \<Rightarrow> event \<Rightarrow> replay res" where
  "prepareAttempt P r e =
     bindE (exactPayload e [''activityId'']) (\<lambda>payload.
     bindE (activityFor r payload) (\<lambda>activity.
     bindE (assertAgentActivity activity) (\<lambda>_.
     failIf (ac_preIntentRefusal activity \<noteq> None) (DeliveryReducer ''order'') (
     failIf (ac_attempt activity \<noteq> None \<or> ac_providerEffectDigest activity \<noteq> None)
       (DeliveryReducer ''order'') (
     bindE (registerFinalizedSubject P r e ''agent-attempt'') (\<lambda>(r, attempt).
     bindE (assertReservedAttempt P activity attempt) (\<lambda>_.
     bindE (assertOnlyRelationships attempt [''uses-brief'', ''uses-boundary'', ''uses-candidate'', ''uses-seal'']) (\<lambda>_.
     bindE (requiredRelationship attempt ''uses-brief'' ''director-brief'') (\<lambda>usesBrief.
     bindE (assertReference (Some usesBrief) (ac_brief activity)) (\<lambda>_.
     bindE (optionalRelationship attempt ''uses-boundary'' ''work-boundary'') (\<lambda>usesBoundary.
     bindE (optionalRelationship attempt ''uses-candidate'' ''candidate-revision'') (\<lambda>usesCandidate.
     bindE (optionalRelationship attempt ''uses-seal'' ''candidate-seal'') (\<lambda>usesSeal.
     bindE (if ac_operation activity = Prepare
        then assertPreparationSubjects usesBoundary usesCandidate usesSeal
        else assertAttemptSubjects r activity usesBoundary usesCandidate usesSeal) (\<lambda>_.
     bindE (recovery FinalizationRecovery StepProviderEffectIntended None) (\<lambda>obligation.
     Inr (put_activity (set_stage Prepared obligation
       (activity\<lparr>ac_attempt := Some (retainedReference attempt)\<rparr>)) r))))))))))))))))"

section \<open>The provider effect\<close>

definition intendProviderEffect :: "platform \<Rightarrow> replay \<Rightarrow> event \<Rightarrow> replay res" where
  "intendProviderEffect P r e =
     bindE (exactPayload e [''activityId'', ''effectDigest'']) (\<lambda>payload.
     bindE (activityFor r payload) (\<lambda>activity.
     bindE (assertAgentActivity activity) (\<lambda>_.
     bindE (assertExactActivitySubject P e (ac_attempt activity)) (\<lambda>_.
     failIf (ac_attempt activity = None \<or> ac_providerEffectDigest activity \<noteq> None)
       (DeliveryReducer ''order'') (
     bindE (digestField payload ''effectDigest'') (\<lambda>effectDigest.
     bindE (recovery ProviderRecovery StepProviderEffectObserved (Some effectDigest)) (\<lambda>obligation.
     Inr (put_activity (set_stage EffectIntended obligation
       (activity\<lparr>ac_providerEffectDigest := Some effectDigest\<rparr>)) r))))))))"

definition provider_outcomes :: "(string \<times> provider_outcome) list" where
  "provider_outcomes = [(''completed'', ProviderCompleted), (''failed'', ProviderFailed),
     (''not-started'', ProviderNotStarted)]"

definition observeProviderEffect :: "platform \<Rightarrow> replay \<Rightarrow> event \<Rightarrow> replay res" where
  "observeProviderEffect P r e =
     bindE (exactPayload e [''activityId'', ''effectDigest'', ''outcome'']) (\<lambda>payload.
     bindE (activityFor r payload) (\<lambda>activity.
     bindE (assertAgentActivity activity) (\<lambda>_.
     bindE (assertExactActivitySubject P e (ac_attempt activity)) (\<lambda>_.
     bindE (digestField payload ''effectDigest'') (\<lambda>effectDigest.
     failIf (ac_providerEffectDigest activity \<noteq> Some effectDigest) (DeliveryReducer ''reference'') (
     failIf (ac_providerOutcome activity \<noteq> None) (DeliveryReducer ''duplicate'') (
     bindE (enumField payload ''outcome'' provider_outcomes) (\<lambda>outcome.
     bindE (recovery FinalizationRecovery StepWorkProductObservation (Some effectDigest)) (\<lambda>obligation.
     Inr (put_activity (set_stage EffectObserved obligation
       (activity\<lparr>ac_providerOutcome := Some outcome\<rparr>)) r))))))))))"

section \<open>The work product and its Receipt\<close>

definition afterWorkProduct :: "activity \<Rightarrow> recovery_obligation res" where
  "afterWorkProduct a =
     (if ac_operation a = Continue
      then recovery CandidateObservationRecovery StepCandidateRevisionObserved None
      else recovery FinalizationRecovery StepExecutionReceiptRecorded None)"

definition submitWorkProduct :: "platform \<Rightarrow> replay \<Rightarrow> event \<Rightarrow> replay res" where
  "submitWorkProduct P r e =
     bindE (exactPayload e [''activityId'']) (\<lambda>payload.
     bindE (activityFor r payload) (\<lambda>activity.
     bindE (assertAgentActivity activity) (\<lambda>_.
     failIf (ac_providerOutcome activity \<noteq> Some ProviderCompleted) (DeliveryReducer ''order'') (
     bindE (assertWorkProductOpen activity) (\<lambda>_.
     bindE (registerFinalizedSubject P r e ''agent-work-product'') (\<lambda>(r, product).
     bindE (afterWorkProduct activity) (\<lambda>obligation.
     Inr (put_activity (set_stage Submitted obligation
       (activity\<lparr>ac_workProduct := Some (retainedReference product)\<rparr>)) r))))))))"

definition abandonWorkProduct :: "platform \<Rightarrow> replay \<Rightarrow> event \<Rightarrow> replay res" where
  "abandonWorkProduct P r e =
     bindE (exactPayload e [''activityId'']) (\<lambda>payload.
     bindE (activityFor r payload) (\<lambda>activity.
     bindE (assertAgentActivity activity) (\<lambda>_.
     bindE (assertExactActivitySubject P e (ac_attempt activity)) (\<lambda>_.
     failIf (ac_providerOutcome activity = None) (DeliveryReducer ''order'') (
     bindE (assertWorkProductOpen activity) (\<lambda>_.
     bindE (afterWorkProduct activity) (\<lambda>obligation.
     Inr (put_activity (set_stage Submitted obligation (activity\<lparr>ac_workProductAbandoned := True\<rparr>)) r))))))))"

definition prepares_boundary :: "operation \<Rightarrow> bool" where
  "prepares_boundary operation \<longleftrightarrow> operation = Prepare \<or> operation = Revise \<or> operation = Reaffirm"

definition afterReceipt :: "activity \<Rightarrow> recovery_obligation res" where
  "afterReceipt a =
     (if ac_workProduct a = None then recovery FinalizationRecovery StepActivityCompleted None
      else if prepares_boundary (ac_operation a)
        then recovery FinalizationRecovery StepWorkBoundaryFinalized None
      else recovery FinalizationRecovery StepActivityFinalization None)"

definition recordReceipt :: "platform \<Rightarrow> replay \<Rightarrow> event \<Rightarrow> replay res" where
  "recordReceipt P r e =
     bindE (exactPayload e [''activityId'']) (\<lambda>payload.
     bindE (activityFor r payload) (\<lambda>activity.
     bindE (assertAgentActivity activity) (\<lambda>_.
     bindE (assertCoreAgentTerminal activity) (\<lambda>_.
     failIf (ac_receipt activity \<noteq> None) (DeliveryReducer ''duplicate'') (
     bindE (registerFinalizedSubject P r e ''execution-receipt'') (\<lambda>(r, receipt).
     bindE (afterReceipt activity) (\<lambda>obligation.
     Inr (put_activity (set_stage Finalizing obligation
       (activity\<lparr>ac_receipt := Some (retainedReference receipt)\<rparr>)) r))))))))"

section \<open>The Work Boundary\<close>

definition assertInitialBoundary :: "reference \<Rightarrow> reference option \<Rightarrow> reference option \<Rightarrow> unit res" where
  "assertInitialBoundary boundary revises resolves =
     failIf (ref_revision boundary \<noteq> 1) (DeliveryReducer ''reference'') (
     bindE (assertAbsentRelationship revises) (\<lambda>_.
     assertAbsentRelationship resolves))"

definition assertResolvedBoundary ::
  "replay \<Rightarrow> reference \<Rightarrow> reference option \<Rightarrow> reference option \<Rightarrow> unit res" where
  "assertResolvedBoundary r boundary revises resolves =
     (let active = su_activeBoundary (re_subjects r);
          condition = su_materialCondition (re_subjects r) in
     failIf (active = None \<or> ref_id boundary \<noteq> ref_id (the active) \<or>
             ref_revision boundary \<noteq> ref_revision (the active) + 1) (DeliveryReducer ''reference'') (
     failIf (condition = None) (DeliveryReducer ''order'') (
     bindE (assertReference revises active) (\<lambda>_.
     bindE (assertReference resolves condition) (\<lambda>_. Inr ())))))"

definition finalizeBoundary :: "platform \<Rightarrow> replay \<Rightarrow> event \<Rightarrow> replay res" where
  "finalizeBoundary P r e =
     bindE (exactPayload e [''activityId'']) (\<lambda>payload.
     bindE (activityFor r payload) (\<lambda>activity.
     bindE (assertAgentActivity activity) (\<lambda>_.
     bindE (assertCoreAgentTerminal activity) (\<lambda>_.
     failIf (ac_workProduct activity = None) (DeliveryReducer ''order'') (
     failIf (ac_receipt activity = None) (DeliveryReducer ''order'') (
     failIf (ac_boundary activity \<noteq> None) (DeliveryReducer ''duplicate'') (
     failIf (\<not> prepares_boundary (ac_operation activity)) (DeliveryReducer ''activity'') (
     bindE (registerFinalizedSubject P r e ''work-boundary'') (\<lambda>(r, rv).
     let boundary = retainedReference rv in
     bindE (assertOnlyRelationships rv [''uses-brief'', ''proposed-from'', ''revises'', ''resolves'']) (\<lambda>_.
     bindE (requiredRelationship rv ''uses-brief'' ''director-brief'') (\<lambda>usesBrief.
     bindE (assertReference (Some usesBrief) (ac_brief activity)) (\<lambda>_.
     bindE (requiredRelationship rv ''proposed-from'' ''agent-work-product'') (\<lambda>proposedFrom.
     bindE (assertReference (Some proposedFrom) (ac_workProduct activity)) (\<lambda>_.
     bindE (optionalRelationship rv ''revises'' ''work-boundary'') (\<lambda>revises.
     bindE (optionalRelationship rv ''resolves'' ''material-condition'') (\<lambda>resolves.
     bindE (if ac_operation activity = Prepare then assertInitialBoundary boundary revises resolves
        else assertResolvedBoundary r boundary revises resolves) (\<lambda>_.
     bindE (recovery FinalizationRecovery StepBaselineChecks None) (\<lambda>obligation.
     Inr (put_activity (set_stage Finalizing obligation (activity\<lparr>ac_boundary := Some boundary\<rparr>)) r)))))))))))))))))))"

end
