(* ===== verification/Candidate_Handlers.thy ===== *)
theory Candidate_Handlers
  imports Agent_Handlers
begin

text \<open>
  The reducer's handlers of the Candidate (\<open>process/delivery-reducer.ts\<close>): its integration,
  its observed revisions, the Material Condition that freezes it, its Seal, the Check
  Receipts and the Evidence Packet.
\<close>

definition update_subjects :: "(subjects \<Rightarrow> subjects) \<Rightarrow> replay \<Rightarrow> replay" where
  "update_subjects f r = r\<lparr>re_subjects := f (re_subjects r)\<rparr>"

section \<open>Integration\<close>

definition integrationAssessmentFor :: "platform \<Rightarrow> replay \<Rightarrow> reference \<Rightarrow> assessment res" where
  "integrationAssessmentFor P r selected =
     (case re_resolveRevision r (reference_subject selected) of
        None \<Rightarrow> Inl (DeliveryReducer ''reference'')
      | Some rv \<Rightarrow>
          failIf (rv_recordKind rv \<noteq> ''integration-assessment'' \<or> rv_recordId rv \<noteq> ref_id selected \<or>
                  rv_revision rv \<noteq> ref_revision selected \<or> rv_digest rv \<noteq> ref_digest selected \<or>
                  Some (rv_processId rv) \<noteq> re_processId r) (DeliveryReducer ''reference'')
          (parseFoundationIntegrationAssessmentPayloadV1 P (rv_payload rv)))"

definition assessIntegration :: "platform \<Rightarrow> replay \<Rightarrow> event \<Rightarrow> replay res" where
  "assessIntegration P r e =
     bindE (exactPayload e [''activityId'']) (\<lambda>payload.
     bindE (activityFor r payload) (\<lambda>activity.
     failIf (ac_operation activity \<noteq> Integrate \<or> ac_family activity \<noteq> IntegrationFamily \<or>
             ac_stage activity \<noteq> Started \<or> ac_integrationAssessment activity \<noteq> None \<or>
             \<not> resumes_at activity StepIntegrationAssessed) (DeliveryReducer ''order'') (
     bindE (registerFinalizedSubject P r e ''integration-assessment'') (\<lambda>(r, rv).
     bindE (assertOnlyRelationships rv [''governed-by'', ''integrates'']) (\<lambda>_.
     bindE (requiredRelationship rv ''governed-by'' ''work-boundary'') (\<lambda>governedBy.
     bindE (assertReference (Some governedBy) (su_activeBoundary (re_subjects r))) (\<lambda>_.
     bindE (requiredRelationship rv ''integrates'' ''candidate-revision'') (\<lambda>integrates.
     bindE (assertReference (Some integrates) (su_candidate (re_subjects r))) (\<lambda>_.
     bindE (parseFoundationIntegrationAssessmentPayloadV1 P (rv_payload rv)) (\<lambda>assessment.
     let selected = Some (retainedReference rv) in
     bindE (if ia_outcome assessment = ''constructed''
        then recovery CandidateObservationRecovery StepCandidateRevisionObserved None
        else recovery FinalizationRecovery StepActivityCompleted None) (\<lambda>obligation.
     Inr (update_subjects (\<lambda>s. s\<lparr>su_integrationAssessment := selected\<rparr>)
       (put_activity (set_stage Finalizing obligation
         (activity\<lparr>ac_integrationAssessment := selected\<rparr>)) r)))))))))))))"

section \<open>Candidate revisions\<close>

definition payload_is :: "revision \<Rightarrow> string \<Rightarrow> string \<Rightarrow> bool" where
  "payload_is rv name value \<longleftrightarrow> map_of (rv_payload rv) name = Some (JStr value)"

definition advances :: "reference option \<Rightarrow> reference \<Rightarrow> reference option \<Rightarrow> bool" where
  "advances previous candidate revises \<longleftrightarrow> (case (previous, revises) of
       (Some p, Some v) \<Rightarrow> ref_id candidate = ref_id p \<and>
         ref_revision candidate = ref_revision p + 1 \<and> sameReference v p
     | _ \<Rightarrow> False)"

definition same_member :: "revision \<Rightarrow> revision \<Rightarrow> string \<Rightarrow> bool" where
  "same_member rv rv' name \<longleftrightarrow> js_strict_eq (map_of (rv_payload rv) name) (map_of (rv_payload rv') name)"

text \<open>The relationships a Candidate revision carries, as read by the handler.\<close>

record candidate_links =
  cn_governedBy :: reference
  cn_revises :: "reference option"
  cn_resultOf :: "reference option"
  cn_integratedFrom :: "reference option"

definition observeIntegration ::
  "platform \<Rightarrow> replay \<Rightarrow> activity \<Rightarrow> revision \<Rightarrow> candidate_links \<Rightarrow> unit res" where
  "observeIntegration P r activity rv links =
     (let candidate = retainedReference rv; previous = su_candidate (re_subjects r) in
     failIf (ac_integrationAssessment activity = None \<or>
             \<not> resumes_at activity StepCandidateRevisionObserved) (DeliveryReducer ''order'') (
     bindE (integrationAssessmentFor P r (the (ac_integrationAssessment activity))) (\<lambda>assessment.
     bindE (assertReference (Some (cn_governedBy links)) (su_activeBoundary (re_subjects r))) (\<lambda>_.
     bindE (assertReference (cn_integratedFrom links) (ac_integrationAssessment activity)) (\<lambda>_.
     failIf (\<not> advances previous candidate (cn_revises links) \<or> cn_resultOf links \<noteq> None \<or>
             \<not> payload_is rv ''observation'' ''integration-successor'' \<or>
             \<not> js_strict_eq (map_of (rv_payload rv) ''candidateBaseCommit'')
                 (map_of (ia_canonicalParent assessment) ''commit'') \<or>
             ia_outcome assessment \<noteq> ''constructed'') (DeliveryReducer ''reference'') (
     bindE (foundationIntegratedCandidateFactsDigestV1 P rv) (\<lambda>factsDigest.
     failIf (ia_factsDigest assessment \<noteq> factsDigest) (DeliveryReducer ''reference'') (Inr ()))))))))"

definition observeDevelopment ::
  "replay \<Rightarrow> activity \<Rightarrow> revision \<Rightarrow> candidate_links \<Rightarrow> unit res" where
  "observeDevelopment r activity rv links =
     (let candidate = retainedReference rv; previous = su_candidate (re_subjects r) in
     failIf (ac_providerOutcome activity = None) (DeliveryReducer ''order'') (
     bindE (assertReference (Some (cn_governedBy links)) (su_activeBoundary (re_subjects r))) (\<lambda>_.
     failIf (\<not> advances previous candidate (cn_revises links)) (DeliveryReducer ''reference'') (
     case re_resolveRevision r (reference_subject (the previous)) of
       None \<Rightarrow> Inl (DeliveryReducer ''reference'')
     | Some predecessor \<Rightarrow>
     failIf (\<not> same_member rv predecessor ''candidateBaseCommit'') (DeliveryReducer ''reference'') (
     failIf (\<not> payload_is rv ''observation'' ''builder-successor'' \<or> ac_attempt activity = None \<or>
             cn_resultOf links \<noteq> ac_attempt activity) (DeliveryReducer ''reference'') (Inr ()))))))"

definition observeInitialization ::
  "replay \<Rightarrow> activity \<Rightarrow> revision \<Rightarrow> candidate_links \<Rightarrow> unit res" where
  "observeInitialization r activity rv links =
     failIf (ac_transactionOutcome activity \<noteq> Some Applied) (DeliveryReducer ''order'') (
     bindE (assertReference (Some (cn_governedBy links)) (su_activeBoundary (re_subjects r))) (\<lambda>_.
     failIf (\<not> payload_is rv ''observation'' ''initialization'' \<or> su_candidate (re_subjects r) \<noteq> None \<or>
             rv_revision rv \<noteq> 1 \<or> cn_revises links \<noteq> None \<or> cn_resultOf links \<noteq> None)
       (DeliveryReducer ''reference'') (Inr ())))"

text \<open>\<open>canonicalJson(payload[name] ?? null)\<close> of both revisions, compared.\<close>

definition same_canonical_member :: "revision \<Rightarrow> revision \<Rightarrow> string \<Rightarrow> bool res" where
  "same_canonical_member rv rv' name =
     bindE (canonicalJson (mem (rv_payload rv) name)) (\<lambda>l.
     bindE (canonicalJson (mem (rv_payload rv') name)) (\<lambda>r. Inr (l = r)))"

definition observeRebind :: "replay \<Rightarrow> activity \<Rightarrow> revision \<Rightarrow> candidate_links \<Rightarrow> unit res" where
  "observeRebind r activity rv links =
     (let candidate = retainedReference rv; previous = su_candidate (re_subjects r) in
     failIf (ac_transactionOutcome activity \<noteq> Some Applied) (DeliveryReducer ''order'') (
     bindE (assertReference (Some (cn_governedBy links)) (su_activeBoundary (re_subjects r))) (\<lambda>_.
     failIf (\<not> advances previous candidate (cn_revises links)) (DeliveryReducer ''reference'') (
     case re_resolveRevision r (reference_subject (the previous)) of
       None \<Rightarrow> Inl (DeliveryReducer ''reference'')
     | Some retained \<Rightarrow>
     failIf (rv_recordKind retained \<noteq> ''candidate-revision'' \<or>
             retainedReference retained \<noteq> the previous) (DeliveryReducer ''reference'') (
     failIf (\<not> payload_is rv ''observation'' ''readmission-rebind'' \<or> cn_resultOf links \<noteq> None \<or>
             \<not> same_member rv retained ''candidateBaseCommit'') (DeliveryReducer ''record-payload'') (
     bindE (same_canonical_member rv retained ''state'') (\<lambda>sameState.
     failIf (\<not> sameState) (DeliveryReducer ''record-payload'') (
     bindE (same_canonical_member rv retained ''carrierManifest'') (\<lambda>sameCarrier.
     failIf (\<not> sameCarrier) (DeliveryReducer ''record-payload'') (Inr ()))))))))))"

definition observeVariant ::
  "platform \<Rightarrow> replay \<Rightarrow> activity \<Rightarrow> revision \<Rightarrow> candidate_links \<Rightarrow> unit res" where
  "observeVariant P r activity rv links =
     (if ac_operation activity = Integrate then observeIntegration P r activity rv links
      else if ac_operation activity = Continue then observeDevelopment r activity rv links
      else if ac_operation activity = Admit \<and> ac_decisionKind activity = Some DecisionAdmit
        then observeInitialization r activity rv links
      else if ac_operation activity = Admit \<and> ac_decisionKind activity = Some DecisionReadmit
        then observeRebind r activity rv links
      else Inl (DeliveryReducer ''activity''))"

definition afterCandidate :: "platform \<Rightarrow> replay \<Rightarrow> activity \<Rightarrow> recovery_obligation res" where
  "afterCandidate P r activity =
     (if ac_operation activity = Continue
      then recovery FinalizationRecovery StepExecutionReceiptRecorded None
      else if ac_operation activity = Integrate \<and> ac_integrationAssessment activity \<noteq> None then
        bindE (integrationAssessmentFor P r (the (ac_integrationAssessment activity))) (\<lambda>assessment.
        if ia_disposition assessment = ''requires-readmission''
        then recovery FinalizationRecovery StepActivityFinalization None
        else recovery FinalizationRecovery StepActivityCompleted None)
      else recovery FinalizationRecovery StepActivityCompleted None)"

definition integrated_after :: "revision \<Rightarrow> bool \<Rightarrow> bool" where
  "integrated_after rv integrated =
     (if payload_is rv ''observation'' ''integration-successor'' then True
      else if payload_is rv ''observation'' ''initialization'' then False else integrated)"

definition candidateLinks :: "activity \<Rightarrow> revision \<Rightarrow> candidate_links res" where
  "candidateLinks activity rv =
     bindE (assertOnlyRelationships rv [''revises'', ''governed-by'', ''result-of'', ''integrated-from'']) (\<lambda>_.
     bindE (requiredRelationship rv ''governed-by'' ''work-boundary'') (\<lambda>governedBy.
     bindE (optionalRelationship rv ''revises'' ''candidate-revision'') (\<lambda>revises.
     bindE (optionalRelationship rv ''result-of'' ''agent-attempt'') (\<lambda>resultOf.
     failIf (ac_candidate activity \<noteq> None) (DeliveryReducer ''duplicate'') (
     bindE (optionalRelationship rv ''integrated-from'' ''integration-assessment'') (\<lambda>integratedFrom.
     failIf (ac_operation activity \<noteq> Integrate \<and> integratedFrom \<noteq> None) (DeliveryReducer ''reference'') (
     Inr \<lparr>cn_governedBy = governedBy, cn_revises = revises, cn_resultOf = resultOf,
       cn_integratedFrom = integratedFrom\<rparr>)))))))"

definition observeCandidateRevision :: "platform \<Rightarrow> replay \<Rightarrow> event \<Rightarrow> replay res" where
  "observeCandidateRevision P r e =
     bindE (exactPayload e [''activityId'']) (\<lambda>payload.
     bindE (activityFor r payload) (\<lambda>activity.
     failIf (ac_receipt activity \<noteq> None) (DeliveryReducer ''order'') (
     bindE (registerFinalizedSubject P r e ''candidate-revision'') (\<lambda>(r, rv).
     failIf (\<not> payload_is rv ''schema'' ''lifecycle.candidate-revision-payload.v3'')
       (DeliveryReducer ''candidate-payload'') (
     let candidate = Some (retainedReference rv) in
     bindE (candidateLinks activity rv) (\<lambda>links.
     bindE (observeVariant P r activity rv links) (\<lambda>_.
     bindE (afterCandidate P r activity) (\<lambda>obligation.
     Inr (update_subjects (\<lambda>s. s\<lparr>su_candidate := candidate, su_seal := None, su_evidence := None\<rparr>)
       (put_activity (set_stage Finalizing obligation (activity\<lparr>ac_candidate := candidate\<rparr>))
         (r\<lparr>re_candidateIntegrated := integrated_after rv (re_candidateIntegrated r),
            re_evidenceReadiness := None\<rparr>)))))))))))"

section \<open>Material Conditions\<close>

datatype condition_source = AgentProposal | IntegrationSource | ProjectionCompilation

definition condition_sources :: "(string \<times> condition_source) list" where
  "condition_sources = [(''agent-proposal'', AgentProposal),
     (''integration-assessment'', IntegrationSource), (''projection-compilation'', ProjectionCompilation)]"

fun condition_source_name :: "condition_source \<Rightarrow> string" where
  "condition_source_name AgentProposal = ''agent-proposal''"
| "condition_source_name IntegrationSource = ''integration-assessment''"
| "condition_source_name ProjectionCompilation = ''projection-compilation''"

text \<open>Each source answers with the step the activity resumes at.\<close>

definition conditionFromIntegration ::
  "platform \<Rightarrow> replay \<Rightarrow> activity \<Rightarrow> revision \<Rightarrow> string \<Rightarrow> recovery_step res" where
  "conditionFromIntegration P r activity rv observedFactsDigest =
     failIf (ac_operation activity \<noteq> Integrate \<or> ac_family activity \<noteq> IntegrationFamily \<or>
             ac_candidate activity = None \<or> ac_integrationAssessment activity = None \<or>
             ac_materialCondition activity \<noteq> None \<or>
             \<not> resumes_at activity StepActivityFinalization) (DeliveryReducer ''order'') (
     bindE (integrationAssessmentFor P r (the (ac_integrationAssessment activity))) (\<lambda>assessment.
     failIf (ia_disposition assessment \<noteq> ''requires-readmission'') (DeliveryReducer ''record-payload'') (
     bindE (digestCanonical P (JObj (ia_applicability assessment))) (\<lambda>applicability.
     failIf (observedFactsDigest \<noteq> applicability \<or>
             \<not> payload_is rv ''conditionClass'' ''integration-context-change'')
       (DeliveryReducer ''record-payload'') (
     bindE (assertOnlyRelationships rv [''reported-by'', ''freezes'', ''governed-by'']) (\<lambda>_.
     bindE (requiredRelationship rv ''reported-by'' ''integration-assessment'') (\<lambda>reportedBy.
     bindE (assertReference (Some reportedBy) (ac_integrationAssessment activity)) (\<lambda>_.
     bindE (requiredRelationship rv ''freezes'' ''candidate-revision'') (\<lambda>freezes.
     bindE (assertReference (Some freezes) (ac_candidate activity)) (\<lambda>_.
     bindE (requiredRelationship rv ''governed-by'' ''work-boundary'') (\<lambda>governedBy.
     bindE (assertReference (Some governedBy) (su_activeBoundary (re_subjects r))) (\<lambda>_.
     Inr StepActivityCompleted))))))))))))"

definition measured_refusal :: "activity \<Rightarrow> revision \<Rightarrow> jobject \<Rightarrow> bool" where
  "measured_refusal activity rv source \<longleftrightarrow> (case ac_preIntentRefusal activity of
       None \<Rightarrow> False
     | Some refusal \<Rightarrow>
         map_of (ev_payload refusal) ''resolution'' = Some (JStr ''projection-condition-required'') \<and>
         map_of (ev_payload refusal) ''diagnosticCode'' = Some (JStr MANDATORY_TOO_LARGE) \<and>
         js_strict_eq (map_of source ''refusalFactsDigest'') (map_of (ev_payload refusal) ''refusalFactsDigest'') \<and>
         payload_is rv ''conditionClass'' ''projection-closure-exceeded'')"

definition conditionFromProjection ::
  "platform \<Rightarrow> replay \<Rightarrow> string \<Rightarrow> activity \<Rightarrow> revision \<Rightarrow> jobject \<Rightarrow> string \<Rightarrow>
    recovery_step res" where
  "conditionFromProjection P r activityId activity rv source observedFactsDigest =
     failIf ((ac_operation activity \<noteq> Evaluate \<and> ac_operation activity \<noteq> Continue) \<or>
             ac_family activity \<noteq> AgentFamily \<or> ac_stage activity \<noteq> Finalizing \<or>
             \<not> resumes_at activity StepActivityFinalization \<or> \<not> nothing_attempted activity \<or>
             ac_materialCondition activity \<noteq> None \<or> \<not> measured_refusal activity rv source)
       (DeliveryReducer ''order'') (
     let boundary = su_activeBoundary (re_subjects r); candidate = su_candidate (re_subjects r);
         seal = (if ac_operation activity = Evaluate then ac_seal activity else None);
         refusal = the (ac_preIntentRefusal activity) in
     failIf (boundary = None \<or> candidate = None \<or> (ac_operation activity = Evaluate \<and> seal = None))
       (DeliveryReducer ''reference'') (
     bindE (assertOnlyRelationships rv (if seal = None then [''freezes'', ''governed-by'']
       else [''freezes'', ''governed-by'', ''observed-in''])) (\<lambda>_.
     bindE (requiredRelationship rv ''governed-by'' ''work-boundary'') (\<lambda>boundaryRef.
     bindE (requiredRelationship rv ''freezes'' ''candidate-revision'') (\<lambda>candidateRef.
     bindE (if seal = None then Inr None
        else bindE (requiredRelationship rv ''observed-in'' ''candidate-seal'') (\<lambda>s. Inr (Some s))) (\<lambda>sealRef.
     bindE (assertReference (Some boundaryRef) boundary) (\<lambda>_.
     bindE (assertReference (Some candidateRef) candidate) (\<lambda>_.
     bindE (if sealRef = None then Inr ()
        else bindE (assertReference sealRef seal) (\<lambda>_. Inr ())) (\<lambda>_.
     bindE (foundationProjectionConditionObservedFactsDigestV1 P activityId
       (kinded_target ''work-boundary'' boundaryRef) (kinded_target ''candidate-revision'' candidateRef)
       (map_option (kinded_target ''candidate-seal'') sealRef)
       (ev_sequence refusal) (ev_digest refusal) source) (\<lambda>observed.
     failIf (observedFactsDigest \<noteq> observed) (DeliveryReducer ''record-payload'') (
     Inr StepActivityCompleted)))))))))))"

definition conditionFromAgent :: "replay \<Rightarrow> activity \<Rightarrow> revision \<Rightarrow> recovery_step res" where
  "conditionFromAgent r activity rv =
     bindE (assertAgentActivity activity) (\<lambda>_.
     bindE (assertCoreAgentTerminal activity) (\<lambda>_.
     failIf (\<not> (ac_operation activity = Continue \<or> ac_operation activity = Evaluate))
       (DeliveryReducer ''activity'') (
     failIf (ac_workProduct activity = None \<or> ac_receipt activity = None \<or>
             su_candidate (re_subjects r) = None \<or> su_activeBoundary (re_subjects r) = None)
       (DeliveryReducer ''order'') (
     failIf (ac_materialCondition activity \<noteq> None) (DeliveryReducer ''duplicate'') (
     bindE (assertOnlyRelationships rv [''reported-by'', ''observed-in'', ''freezes'', ''governed-by'']) (\<lambda>_.
     Inr (if ac_operation activity = Evaluate then StepActivityFinalization else StepActivityCompleted)))))))"

definition freezeMaterialCondition :: "platform \<Rightarrow> replay \<Rightarrow> event \<Rightarrow> replay res" where
  "freezeMaterialCondition P r e =
     bindE (exactPayload e [''sourceKind'', ''activityId'', ''observedFactsDigest'']) (\<lambda>payload.
     bindE (enumField payload ''sourceKind'' condition_sources) (\<lambda>sourceKind.
     bindE (digestField payload ''observedFactsDigest'') (\<lambda>observedFactsDigest.
     bindE (registerFinalizedSubject P r e ''material-condition'') (\<lambda>(r, rv).
     failIf (\<not> payload_is rv ''observedFactsDigest'' observedFactsDigest) (DeliveryReducer ''reference'') (
     bindE (recordObject (map_of (rv_payload rv) ''source'')) (\<lambda>source.
     failIf (map_of source ''kind'' \<noteq> Some (JStr (condition_source_name sourceKind)))
       (DeliveryReducer ''record-payload'') (
     failIf (su_materialCondition (re_subjects r) \<noteq> None) (DeliveryReducer ''duplicate'') (
     let condition = Some (retainedReference rv) in
     bindE (stringField payload ''activityId'') (\<lambda>activityId.
     bindE (activityFor r [(''activityId'', JStr activityId)]) (\<lambda>activity.
     bindE (if sourceKind = IntegrationSource then conditionFromIntegration P r activity rv observedFactsDigest
        else if sourceKind = ProjectionCompilation
          then conditionFromProjection P r activityId activity rv source observedFactsDigest
        else conditionFromAgent r activity rv) (\<lambda>resumesAt.
     bindE (recovery FinalizationRecovery resumesAt None) (\<lambda>obligation.
     Inr (update_subjects (\<lambda>s. s\<lparr>su_materialCondition := condition\<rparr>)
       (put_activity (set_stage Finalizing obligation (activity\<lparr>ac_materialCondition := condition\<rparr>)) r))))))))))))))"

section \<open>Seal and Check Receipts\<close>

definition sealCandidate :: "platform \<Rightarrow> replay \<Rightarrow> event \<Rightarrow> replay res" where
  "sealCandidate P r e =
     bindE (exactPayload e [''activityId'']) (\<lambda>payload.
     bindE (activityFor r payload) (\<lambda>activity.
     failIf (ac_operation activity \<noteq> Evaluate) (DeliveryReducer ''activity'') (
     failIf (ac_seal activity \<noteq> None) (DeliveryReducer ''duplicate'') (
     failIf (ac_stage activity \<noteq> Started \<or> ac_attempt activity \<noteq> None \<or> ac_checks activity \<noteq> [] \<or>
             \<not> recovery_is activity FinalizationRecovery StepCandidateSealed) (DeliveryReducer ''order'') (
     bindE (registerFinalizedSubject P r e ''candidate-seal'') (\<lambda>(r, rv).
     bindE (assertOnlyRelationships rv [''seals'', ''governed-by'']) (\<lambda>_.
     bindE (requiredRelationship rv ''seals'' ''candidate-revision'') (\<lambda>seals.
     bindE (assertReference (Some seals) (su_candidate (re_subjects r))) (\<lambda>_.
     bindE (requiredRelationship rv ''governed-by'' ''work-boundary'') (\<lambda>governedBy.
     bindE (assertReference (Some governedBy) (su_activeBoundary (re_subjects r))) (\<lambda>_.
     let seal = Some (retainedReference rv) in
     bindE (recovery FinalizationRecovery StepEvaluationChecks None) (\<lambda>obligation.
     Inr (update_subjects (\<lambda>s. s\<lparr>su_seal := seal, su_evidence := None\<rparr>)
       (put_activity (set_stage Finalizing obligation (activity\<lparr>ac_seal := seal\<rparr>))
         (r\<lparr>re_evidenceReadiness := None\<rparr>)))))))))))))))"

definition check_phases :: "(string \<times> check_phase) list" where
  "check_phases = [(''baseline'', Baseline), (''final'', Final)]"

definition check_modalities :: "(string \<times> check_modality) list" where
  "check_modalities = [(''precondition'', Precondition), (''repair-target'', RepairTarget),
     (''regression-guard'', RegressionGuard), (''postcondition'', Postcondition),
     (''diagnostic'', Diagnostic)]"

definition check_dispositions :: "(string \<times> check_disposition) list" where
  "check_dispositions = [(''pass'', CheckPass), (''fail'', CheckFail),
     (''indeterminate'', CheckIndeterminate), (''not-run'', CheckNotRun),
     (''unsupported'', CheckUnsupported), (''operational-error'', CheckOperationalError)]"

definition already_received :: "check_phase \<Rightarrow> string \<Rightarrow> activity \<Rightarrow> bool" where
  "already_received phase selectionId a \<longleftrightarrow>
     list_ex (\<lambda>c. ck_phase c = phase \<and> ck_selectionId c = selectionId) (ac_checks a)"

definition assertFinalCheck ::
  "replay \<Rightarrow> activity \<Rightarrow> check_phase \<Rightarrow> string \<Rightarrow> reference option \<Rightarrow> reference option \<Rightarrow> unit res" where
  "assertFinalCheck r activity phase selectionId checksBoundary checksSeal =
     failIf (phase \<noteq> Final) (DeliveryReducer ''record-payload'') (
     failIf (checksBoundary \<noteq> None) (DeliveryReducer ''record-relationship'') (
     bindE (assertReference checksSeal (ac_seal activity)) (\<lambda>_.
     failIf (ac_attempt activity \<noteq> None) (DeliveryReducer ''order'') (
     bindE (finalSelectionIds r activity) (\<lambda>requiredSelections.
     failIf (selectionId \<notin> set requiredSelections) (DeliveryReducer ''final-selection'') (
     failIf (already_received Final selectionId activity) (DeliveryReducer ''duplicate'') (Inr ())))))))"

definition assertBaselineCheck ::
  "replay \<Rightarrow> activity \<Rightarrow> check_phase \<Rightarrow> string \<Rightarrow> reference option \<Rightarrow> reference option \<Rightarrow> unit res" where
  "assertBaselineCheck r activity phase selectionId checksBoundary checksSeal =
     failIf (\<not> prepares_boundary (ac_operation activity)) (DeliveryReducer ''activity'') (
     failIf (phase \<noteq> Baseline) (DeliveryReducer ''record-payload'') (
     failIf (checksSeal \<noteq> None) (DeliveryReducer ''record-relationship'') (
     bindE (assertReference checksBoundary (ac_boundary activity)) (\<lambda>_.
     bindE (baselineSelectionIds r activity) (\<lambda>requiredSelections.
     failIf (selectionId \<notin> set requiredSelections) (DeliveryReducer ''baseline-selection'') (
     failIf (already_received Baseline selectionId activity) (DeliveryReducer ''duplicate'') (Inr ())))))))"

definition afterCheck :: "replay \<Rightarrow> activity \<Rightarrow> recovery_obligation res" where
  "afterCheck r activity =
     (if ac_operation activity = Evaluate then recovery FinalizationRecovery StepEvaluationChecks None
      else bindE (baselineSelectionIds r activity) (\<lambda>requiredSelections.
        recovery FinalizationRecovery
          (if covers requiredSelections (phase_checks Baseline activity)
           then StepActivityCompleted else StepBaselineChecks) None))"

definition recordCheckReceipt :: "platform \<Rightarrow> replay \<Rightarrow> event \<Rightarrow> replay res" where
  "recordCheckReceipt P r e =
     bindE (exactPayload e [''activityId'']) (\<lambda>payload.
     bindE (activityFor r payload) (\<lambda>activity.
     bindE (assertAgentActivity activity) (\<lambda>_.
     bindE (registerFinalizedSubject P r e ''check-receipt'') (\<lambda>(r, rv).
     bindE (assertOnlyRelationships rv [''checks-boundary'', ''checks-seal'']) (\<lambda>_.
     bindE (optionalRelationship rv ''checks-boundary'' ''work-boundary'') (\<lambda>checksBoundary.
     bindE (optionalRelationship rv ''checks-seal'' ''candidate-seal'') (\<lambda>checksSeal.
     bindE (recordEnumField rv ''phase'' check_phases) (\<lambda>phase.
     bindE (recordIdentifierField rv ''selectionId'') (\<lambda>selectionId.
     bindE (recordEnumField rv ''modality'' check_modalities) (\<lambda>modality.
     bindE (if ac_operation activity = Evaluate
        then assertFinalCheck r activity phase selectionId checksBoundary checksSeal
        else assertBaselineCheck r activity phase selectionId checksBoundary checksSeal) (\<lambda>_.
     bindE (recordEnumField rv ''disposition'' check_dispositions) (\<lambda>disposition.
     let checked = activity\<lparr>ac_checks := ac_checks activity @
           [\<lparr>ck_reference = retainedReference rv, ck_selectionId = selectionId, ck_phase = phase,
             ck_modality = modality, ck_disposition = disposition\<rparr>]\<rparr> in
     bindE (afterCheck r checked) (\<lambda>obligation.
     Inr (put_activity (checked\<lparr>ac_recovery := Some obligation\<rparr>) r))))))))))))))"

section \<open>Evidence\<close>

definition readinesses :: "(string \<times> readiness) list" where
  "readinesses = [(''acceptance-ready'', AcceptanceReady), (''correctable'', Correctable),
     (''revision-required'', RevisionRequired), (''no-ship-recommended'', NoShipRecommended)]"

text \<open>The two sets of references are the same, the first listed without repetition.\<close>

definition binds_exactly :: "reference list \<Rightarrow> reference list \<Rightarrow> bool" where
  "binds_exactly retained expected \<longleftrightarrow>
     length retained = length (remdups expected) \<and> list_all (\<lambda>c. c \<in> set expected) retained"

definition legalForAcceptance :: "check_fact \<Rightarrow> bool" where
  "legalForAcceptance c =
     (if ck_phase c = Baseline then legalBaselineReceipt c else legalAcceptanceReceipt c)"

definition assertEvidenceLinks :: "replay \<Rightarrow> activity \<Rightarrow> revision \<Rightarrow> unit res" where
  "assertEvidenceLinks r activity rv =
     bindE (assertOnlyRelationships rv [''governed-by'', ''evaluates'', ''uses-seal'', ''uses-check'',
       ''uses-review'', ''uses-review-receipt'']) (\<lambda>_.
     bindE (requiredRelationship rv ''governed-by'' ''work-boundary'') (\<lambda>governedBy.
     bindE (assertReference (Some governedBy) (su_activeBoundary (re_subjects r))) (\<lambda>_.
     bindE (requiredRelationship rv ''evaluates'' ''candidate-revision'') (\<lambda>evaluates.
     bindE (assertReference (Some evaluates) (su_candidate (re_subjects r))) (\<lambda>_.
     bindE (requiredRelationship rv ''uses-seal'' ''candidate-seal'') (\<lambda>usesSeal.
     bindE (assertReference (Some usesSeal) (ac_seal activity)) (\<lambda>_.
     bindE (requiredRelationship rv ''uses-review'' ''agent-work-product'') (\<lambda>usesReview.
     bindE (assertReference (Some usesReview) (ac_workProduct activity)) (\<lambda>_.
     bindE (requiredRelationship rv ''uses-review-receipt'' ''execution-receipt'') (\<lambda>usesReceipt.
     bindE (assertReference (Some usesReceipt) (ac_receipt activity)) (\<lambda>_. Inr ())))))))))))"

definition finalizeEvidence :: "platform \<Rightarrow> replay \<Rightarrow> event \<Rightarrow> replay res" where
  "finalizeEvidence P r e =
     bindE (exactPayload e [''activityId'']) (\<lambda>payload.
     bindE (activityFor r payload) (\<lambda>activity.
     failIf (ac_operation activity \<noteq> Evaluate) (DeliveryReducer ''activity'') (
     bindE (assertCoreAgentTerminal activity) (\<lambda>_.
     failIf (ac_workProduct activity = None \<or> ac_receipt activity = None \<or> ac_seal activity = None)
       (DeliveryReducer ''order'') (
     failIf (ac_checks activity = []) (DeliveryReducer ''order'') (
     failIf (ac_evidence activity \<noteq> None) (DeliveryReducer ''duplicate'') (
     bindE (registerFinalizedSubject P r e ''evidence-packet'') (\<lambda>(r, rv).
     bindE (assertEvidenceLinks r activity rv) (\<lambda>_.
     bindE (relationshipReferences rv ''uses-check'' ''check-receipt'') (\<lambda>retainedChecks.
     let expectedCheckFacts =
           baselineChecksForBoundary r (su_activeBoundary (re_subjects r)) @ ac_checks activity in
     failIf (\<not> binds_exactly retainedChecks (map ck_reference expectedCheckFacts))
       (DeliveryReducer ''record-relationship'') (
     bindE (recordEnumField rv ''readiness'' readinesses) (\<lambda>selected.
     failIf (selected = AcceptanceReady \<and> list_ex (\<lambda>c. \<not> legalForAcceptance c) expectedCheckFacts)
       (DeliveryReducer ''evidence'') (
     failIf (selected = RevisionRequired \<and> su_materialCondition (re_subjects r) = None)
       (DeliveryReducer ''evidence'') (
     let evidence = Some (retainedReference rv) in
     bindE (recovery FinalizationRecovery StepActivityCompleted None) (\<lambda>obligation.
     Inr (update_subjects (\<lambda>s. s\<lparr>su_evidence := evidence\<rparr>)
       (put_activity (set_stage Finalizing obligation
           (activity\<lparr>ac_evidence := evidence, ac_evidenceReadiness := Some selected\<rparr>))
         (r\<lparr>re_evidenceReadiness := Some selected\<rparr>))))))))))))))))))"

end
