(* ===== verification/Transaction_Handlers.thy ===== *)
theory Transaction_Handlers
  imports Candidate_Handlers
begin

text \<open>
  The reducer's handlers of a transaction activity and of completion
  (\<open>process/delivery-reducer.ts\<close>): the authenticated Director Decision, the transaction
  effect, the terminal Closure, and the completion of any activity.
\<close>

section \<open>The Director Decision\<close>

definition decision_kinds :: "(string \<times> decision_kind) list" where
  "decision_kinds = [(''admit'', DecisionAdmit), (''readmit'', DecisionReadmit),
     (''accept'', DecisionAccept), (''no-ship'', DecisionNoShip)]"

definition expectedDecision :: "activity \<Rightarrow> decision_kind" where
  "expectedDecision a =
     (if ac_operation a = Admit
      then (if ac_originStanding a = AwaitingReadmission then DecisionReadmit else DecisionAdmit)
      else if ac_operation a = Accept then DecisionAccept else DecisionNoShip)"

record decision_links =
  dk_selectsBoundary :: "reference option"
  dk_resolves :: "reference option"
  dk_selectsCandidate :: "reference option"
  dk_selectsSeal :: "reference option"
  dk_selectsEvidence :: "reference option"
  dk_continuesFrom :: "reference option"
  dk_baselineReceipts :: "reference list"

definition decisionLinks :: "revision \<Rightarrow> decision_links res" where
  "decisionLinks rv =
     bindE (assertOnlyRelationships rv [''selects-boundary'', ''selects-baseline-receipt'',
       ''continues-from-boundary'', ''resolves'', ''selects-candidate'', ''selects-seal'',
       ''selects-evidence'']) (\<lambda>_.
     bindE (optionalRelationship rv ''selects-boundary'' ''work-boundary'') (\<lambda>selectsBoundary.
     bindE (optionalRelationship rv ''resolves'' ''material-condition'') (\<lambda>resolves.
     bindE (optionalRelationship rv ''selects-candidate'' ''candidate-revision'') (\<lambda>selectsCandidate.
     bindE (optionalRelationship rv ''selects-seal'' ''candidate-seal'') (\<lambda>selectsSeal.
     bindE (optionalRelationship rv ''selects-evidence'' ''evidence-packet'') (\<lambda>selectsEvidence.
     bindE (optionalRelationship rv ''continues-from-boundary'' ''work-boundary'') (\<lambda>continuesFrom.
     bindE (relationshipReferences rv ''selects-baseline-receipt'' ''check-receipt'') (\<lambda>receipts.
     Inr \<lparr>dk_selectsBoundary = selectsBoundary, dk_resolves = resolves,
       dk_selectsCandidate = selectsCandidate, dk_selectsSeal = selectsSeal,
       dk_selectsEvidence = selectsEvidence, dk_continuesFrom = continuesFrom,
       dk_baselineReceipts = receipts\<rparr>))))))))"

definition assertAdmission :: "replay \<Rightarrow> decision_kind \<Rightarrow> decision_links \<Rightarrow> unit res" where
  "assertAdmission r decision links =
     bindE (assertReference (dk_selectsBoundary links) (su_proposedBoundary (re_subjects r))) (\<lambda>_.
     failIf (\<not> binds_exactly (dk_baselineReceipts links)
         (map ck_reference (baselineChecksForBoundary r (su_proposedBoundary (re_subjects r)))))
       (DeliveryReducer ''authority'') (
     bindE (if decision = DecisionReadmit then
          bindE (assertReference (dk_continuesFrom links) (su_activeBoundary (re_subjects r))) (\<lambda>_.
          bindE (assertReference (dk_resolves links) (su_materialCondition (re_subjects r))) (\<lambda>_.
          bindE (assertReference (dk_selectsCandidate links) (su_candidate (re_subjects r))) (\<lambda>_. Inr ())))
        else
          bindE (assertAbsentRelationship (dk_continuesFrom links)) (\<lambda>_.
          bindE (assertAbsentRelationship (dk_resolves links)) (\<lambda>_.
          assertAbsentRelationship (dk_selectsCandidate links)))) (\<lambda>_.
     bindE (assertAbsentRelationship (dk_selectsSeal links)) (\<lambda>_.
     assertAbsentRelationship (dk_selectsEvidence links)))))"

definition assertAcceptance :: "replay \<Rightarrow> decision_links \<Rightarrow> unit res" where
  "assertAcceptance r links =
     failIf (dk_baselineReceipts links \<noteq> []) (DeliveryReducer ''record-relationship'') (
     bindE (assertAbsentRelationship (dk_continuesFrom links)) (\<lambda>_.
     bindE (assertReference (dk_selectsBoundary links) (su_activeBoundary (re_subjects r))) (\<lambda>_.
     bindE (assertAbsentRelationship (dk_resolves links)) (\<lambda>_.
     bindE (assertReference (dk_selectsCandidate links) (su_candidate (re_subjects r))) (\<lambda>_.
     bindE (assertReference (dk_selectsSeal links) (su_seal (re_subjects r))) (\<lambda>_.
     bindE (assertReference (dk_selectsEvidence links) (su_evidence (re_subjects r))) (\<lambda>_. Inr ())))))))"

text \<open>Absent when there is nothing current to bind, the exact current reference otherwise.\<close>

definition assertCurrentOrAbsent :: "reference option \<Rightarrow> reference option \<Rightarrow> unit res" where
  "assertCurrentOrAbsent value current =
     (if current = None then assertAbsentRelationship value
      else bindE (assertReference value current) (\<lambda>_. Inr ()))"

definition assertNoShip :: "replay \<Rightarrow> decision_links \<Rightarrow> unit res" where
  "assertNoShip r links =
     failIf (dk_baselineReceipts links \<noteq> []) (DeliveryReducer ''record-relationship'') (
     bindE (assertAbsentRelationship (dk_continuesFrom links)) (\<lambda>_.
     bindE (assertCurrentOrAbsent (dk_selectsBoundary links) (currentEstablishedBoundary r)) (\<lambda>_.
     bindE (assertCurrentOrAbsent (dk_resolves links) (su_materialCondition (re_subjects r))) (\<lambda>_.
     bindE (assertCurrentOrAbsent (dk_selectsCandidate links) (su_candidate (re_subjects r))) (\<lambda>_.
     bindE (assertAbsentRelationship (dk_selectsSeal links)) (\<lambda>_.
     assertAbsentRelationship (dk_selectsEvidence links)))))))"

definition assertDecision :: "replay \<Rightarrow> decision_kind \<Rightarrow> decision_links \<Rightarrow> unit res" where
  "assertDecision r decision links =
     (if decision = DecisionAdmit \<or> decision = DecisionReadmit then assertAdmission r decision links
      else if decision = DecisionAccept then assertAcceptance r links
      else assertNoShip r links)"

definition authenticateDecision :: "platform \<Rightarrow> replay \<Rightarrow> event \<Rightarrow> replay res" where
  "authenticateDecision P r e =
     bindE (exactPayload e [''activityId'']) (\<lambda>payload.
     bindE (activityFor r payload) (\<lambda>activity.
     bindE (assertTransactionActivity activity) (\<lambda>_.
     failIf (ac_decision activity \<noteq> None) (DeliveryReducer ''duplicate'') (
     bindE (registerFinalizedSubject P r e ''director-decision'') (\<lambda>(r, rv).
     bindE (recordEnumField rv ''decision'' decision_kinds) (\<lambda>decision.
     failIf (decision \<noteq> expectedDecision activity) (DeliveryReducer ''authority'') (
     bindE (decisionLinks rv) (\<lambda>links.
     bindE (assertDecision r decision links) (\<lambda>_.
     bindE (recovery FinalizationRecovery StepTransactionEffectIntended None) (\<lambda>obligation.
     Inr (put_activity (activity\<lparr>ac_decision := Some (retainedReference rv),
       ac_decisionKind := Some decision, ac_recovery := Some obligation\<rparr>) r)))))))))))"

section \<open>The transaction effect\<close>

definition intendTransactionEffect :: "platform \<Rightarrow> replay \<Rightarrow> event \<Rightarrow> replay res" where
  "intendTransactionEffect P r e =
     bindE (exactPayload e [''activityId'', ''effectDigest'']) (\<lambda>payload.
     bindE (activityFor r payload) (\<lambda>activity.
     bindE (assertTransactionActivity activity) (\<lambda>_.
     bindE (assertExactActivitySubject P e (ac_decision activity)) (\<lambda>_.
     failIf (ac_decision activity = None \<or> ac_transactionEffectDigest activity \<noteq> None)
       (DeliveryReducer ''order'') (
     bindE (digestField payload ''effectDigest'') (\<lambda>effectDigest.
     bindE (recovery TransactionRecovery StepTransactionEffectObserved (Some effectDigest)) (\<lambda>obligation.
     Inr (put_activity (set_stage EffectIntended obligation
       (activity\<lparr>ac_transactionEffectDigest := Some effectDigest\<rparr>)) r))))))))"

definition transaction_outcomes :: "(string \<times> transaction_outcome) list" where
  "transaction_outcomes = [(''applied'', Applied), (''not-applied'', NotApplied),
     (''indeterminate'', Indeterminate)]"

text \<open>An applied admission makes the proposed Work Boundary the active one.\<close>

definition activateBoundary :: "activity \<Rightarrow> replay \<Rightarrow> replay res" where
  "activateBoundary activity r =
     failIf (su_proposedBoundary (re_subjects r) = None) (DeliveryReducer ''order'') (
     failIf (ac_decisionKind activity = Some DecisionReadmit \<and> su_candidate (re_subjects r) = None)
       (DeliveryReducer ''order'') (
     Inr (update_subjects (\<lambda>s. s\<lparr>su_activeBoundary := su_proposedBoundary s,
         su_proposedBoundary := None, su_materialCondition := None, su_seal := None,
         su_evidence := None\<rparr>)
       (r\<lparr>re_activeAdmission := ac_decision activity, re_evidenceReadiness := None\<rparr>))))"

definition afterTransaction :: "activity \<Rightarrow> transaction_outcome \<Rightarrow> recovery_obligation res" where
  "afterTransaction activity outcome =
     (if outcome = NotApplied then recovery FinalizationRecovery StepActivityCompleted None
      else if ac_operation activity = Admit
        then recovery CandidateObservationRecovery StepCandidateRevisionObserved None
      else recovery FinalizationRecovery StepTransactionFinalization None)"

definition settleTransaction ::
  "replay \<Rightarrow> activity \<Rightarrow> transaction_outcome \<Rightarrow> replay res" where
  "settleTransaction r activity outcome =
     bindE (afterTransaction activity outcome) (\<lambda>obligation.
     let settled = set_stage EffectObserved obligation (activity\<lparr>ac_transactionOutcome := Some outcome\<rparr>) in
     if outcome = Applied \<and> ac_operation activity = Admit
     then activateBoundary settled (put_activity settled r) else Inr (put_activity settled r))"

definition keepObserving :: "replay \<Rightarrow> activity \<Rightarrow> string \<Rightarrow> replay res" where
  "keepObserving r activity effectDigest =
     bindE (recovery TransactionRecovery StepTransactionEffectObserved (Some effectDigest)) (\<lambda>obligation.
     Inr (put_activity (set_stage EffectIntended obligation activity) r))"

definition observeTransactionEffect :: "platform \<Rightarrow> replay \<Rightarrow> event \<Rightarrow> replay res" where
  "observeTransactionEffect P r e =
     bindE (exactPayload e [''activityId'', ''effectDigest'', ''facts'', ''factsDigest'', ''outcome'']) (\<lambda>payload.
     bindE (activityFor r payload) (\<lambda>activity.
     bindE (assertTransactionActivity activity) (\<lambda>_.
     bindE (assertExactActivitySubject P e (ac_decision activity)) (\<lambda>_.
     bindE (digestField payload ''effectDigest'') (\<lambda>effectDigest.
     failIf (ac_transactionEffectDigest activity \<noteq> Some effectDigest) (DeliveryReducer ''reference'') (
     failIf (ac_transactionOutcome activity \<noteq> None) (DeliveryReducer ''duplicate'') (
     bindE (enumField payload ''outcome'' transaction_outcomes) (\<lambda>outcome.
     failIf (ac_decisionKind activity = None) (DeliveryReducer ''order'') (
     bindE (assertFoundationTransactionObservationFactsV7 P (ac_operation activity)
       (the (ac_decisionKind activity)) outcome (map_of payload ''facts'') (map_of payload ''factsDigest'')) (\<lambda>_.
     if outcome = Indeterminate then keepObserving r activity effectDigest
     else settleTransaction r activity outcome))))))))))"

section \<open>Closure\<close>

definition closure_dispositions :: "(string \<times> closure_disposition) list" where
  "closure_dispositions = [(''accepted'', ClosureAccepted), (''no-ship'', ClosureNoShip)]"

datatype candidate_treatment = TreatmentIntegrated | TreatmentAbandoned | TreatmentNotCreated

definition candidate_treatments :: "(string \<times> candidate_treatment) list" where
  "candidate_treatments = [(''integrated'', TreatmentIntegrated), (''abandoned'', TreatmentAbandoned),
     (''not-created'', TreatmentNotCreated)]"

definition assertCompleteExecutions :: "revision \<Rightarrow> unit res" where
  "assertCompleteExecutions rv =
     bindE (recordObject (map_of (rv_payload rv) ''terminalExecutions'')) (\<lambda>executions.
     bindE (recordObject (map_of executions ''containment'')) (\<lambda>containment.
     bindE (recordObject (map_of executions ''retirement'')) (\<lambda>retirement.
     failIf (map_of containment ''classification'' \<noteq> Some (JStr ''complete'') \<or>
             map_of retirement ''classification'' \<noteq> Some (JStr ''complete''))
       (DeliveryReducer ''order'') (Inr ()))))"

definition assertAcceptedCandidate ::
  "replay \<Rightarrow> candidate_treatment \<Rightarrow> reference option \<Rightarrow> reference option \<Rightarrow> reference option \<Rightarrow> unit res" where
  "assertAcceptedCandidate r treatment acceptsCandidate acceptsEvidence abandonsCandidate =
     failIf (treatment \<noteq> TreatmentIntegrated) (DeliveryReducer ''order'') (
     bindE (assertReference acceptsCandidate (su_candidate (re_subjects r))) (\<lambda>_.
     bindE (assertReference acceptsEvidence (su_evidence (re_subjects r))) (\<lambda>_.
     assertAbsentRelationship abandonsCandidate)))"

definition assertAbandonedCandidate ::
  "replay \<Rightarrow> candidate_treatment \<Rightarrow> reference option \<Rightarrow> reference option \<Rightarrow> reference option \<Rightarrow> unit res" where
  "assertAbandonedCandidate r treatment acceptsCandidate acceptsEvidence abandonsCandidate =
     bindE (assertAbsentRelationship acceptsCandidate) (\<lambda>_.
     bindE (assertAbsentRelationship acceptsEvidence) (\<lambda>_.
     failIf (treatment \<noteq> (if su_candidate (re_subjects r) = None then TreatmentNotCreated
         else TreatmentAbandoned)) (DeliveryReducer ''order'') (
     assertCurrentOrAbsent abandonsCandidate (su_candidate (re_subjects r)))))"

definition expectedDisposition :: "activity \<Rightarrow> closure_disposition" where
  "expectedDisposition a = (if ac_operation a = Accept then ClosureAccepted else ClosureNoShip)"

definition assertClosureLinks ::
  "replay \<Rightarrow> activity \<Rightarrow> revision \<Rightarrow> closure_disposition \<Rightarrow> candidate_treatment \<Rightarrow> unit res" where
  "assertClosureLinks r activity rv disposition treatment =
     bindE (assertOnlyRelationships rv [''closes-with'', ''governed-by'', ''accepts-candidate'',
       ''accepts-evidence'', ''abandons-candidate'']) (\<lambda>_.
     bindE (requiredRelationship rv ''closes-with'' ''director-decision'') (\<lambda>closesWith.
     bindE (assertReference (Some closesWith) (ac_decision activity)) (\<lambda>_.
     bindE (optionalRelationship rv ''governed-by'' ''work-boundary'') (\<lambda>governedBy.
     bindE (assertCurrentOrAbsent governedBy (if disposition = ClosureAccepted
        then su_activeBoundary (re_subjects r) else currentEstablishedBoundary r)) (\<lambda>_.
     bindE (optionalRelationship rv ''accepts-candidate'' ''candidate-revision'') (\<lambda>acceptsCandidate.
     bindE (optionalRelationship rv ''accepts-evidence'' ''evidence-packet'') (\<lambda>acceptsEvidence.
     bindE (optionalRelationship rv ''abandons-candidate'' ''candidate-revision'') (\<lambda>abandonsCandidate.
     if disposition = ClosureAccepted
     then assertAcceptedCandidate r treatment acceptsCandidate acceptsEvidence abandonsCandidate
     else assertAbandonedCandidate r treatment acceptsCandidate acceptsEvidence abandonsCandidate))))))))"

definition recordClosure :: "platform \<Rightarrow> replay \<Rightarrow> event \<Rightarrow> replay res" where
  "recordClosure P r e =
     bindE (exactPayload e [''activityId'']) (\<lambda>payload.
     bindE (activityFor r payload) (\<lambda>activity.
     bindE (assertTransactionActivity activity) (\<lambda>_.
     failIf (\<not> (ac_operation activity = Accept \<or> ac_operation activity = NoShip))
       (DeliveryReducer ''activity'') (
     failIf (ac_transactionOutcome activity \<noteq> Some Applied) (DeliveryReducer ''order'') (
     failIf (su_closure (re_subjects r) \<noteq> None \<or> ac_closure activity \<noteq> None)
       (DeliveryReducer ''duplicate'') (
     bindE (registerFinalizedSubject P r e ''closure'') (\<lambda>(r, rv).
     bindE (recordEnumField rv ''disposition'' closure_dispositions) (\<lambda>disposition.
     failIf (disposition \<noteq> expectedDisposition activity) (DeliveryReducer ''authority'') (
     bindE (recordEnumField rv ''candidateTreatment'' candidate_treatments) (\<lambda>treatment.
     bindE (assertCompleteExecutions rv) (\<lambda>_.
     bindE (assertClosureLinks r activity rv disposition treatment) (\<lambda>_.
     let closure = Some (retainedReference rv) in
     Inr (update_subjects (\<lambda>s. s\<lparr>su_closure := closure\<rparr>)
       (put_activity (activity\<lparr>ac_closure := closure, ac_completionOutcome := Some OutcomeCompleted,
           ac_stage := Completed, ac_recovery := None\<rparr>)
         (r\<lparr>re_closureDisposition := Some disposition\<rparr>)))))))))))))))"

section \<open>Completion\<close>

definition completion_outcomes :: "(string \<times> completion_outcome) list" where
  "completion_outcomes = [(''completed'', OutcomeCompleted), (''failed'', OutcomeFailed),
     (''abandoned'', OutcomeAbandoned)]"

definition finalization_at :: "activity \<Rightarrow> recovery_step \<Rightarrow> bool" where
  "finalization_at a s \<longleftrightarrow> recovery_is a FinalizationRecovery s \<and> effectless a"

definition terminalNotAppliedFailure :: "activity \<Rightarrow> completion_outcome \<Rightarrow> bool" where
  "terminalNotAppliedFailure a outcome \<longleftrightarrow>
     (ac_operation a = Accept \<or> ac_operation a = NoShip) \<and> outcome = OutcomeFailed \<and>
     ac_transactionEffectDigest a \<noteq> None \<and> ac_transactionOutcome a = Some NotApplied \<and>
     finalization_at a StepActivityCompleted"

definition deterministicBoundaryRefusal :: "activity \<Rightarrow> completion_outcome \<Rightarrow> bool" where
  "deterministicBoundaryRefusal a outcome \<longleftrightarrow>
     outcome \<noteq> OutcomeCompleted \<and> ac_family a = AgentFamily \<and> prepares_boundary (ac_operation a) \<and>
     finalization_at a StepWorkBoundaryFinalized"

definition preIntentAbandonment :: "activity \<Rightarrow> completion_outcome \<Rightarrow> bool" where
  "preIntentAbandonment a outcome \<longleftrightarrow>
     outcome = OutcomeAbandoned \<and> ac_family a = AgentFamily \<and> ac_stage a = Finalizing \<and>
     nothing_attempted a \<and> finalization_at a StepActivityCompleted"

definition directContinueFinalization :: "replay \<Rightarrow> activity \<Rightarrow> bool res" where
  "directContinueFinalization r a =
     (if ac_operation a = Continue \<and> ac_workProduct a \<noteq> None \<and>
         finalization_at a StepActivityFinalization \<and> re_processId r \<noteq> None
      then (case re_resolveRevision r (reference_subject (the (ac_workProduct a))) of
          None \<Rightarrow> Inl (DeliveryReducer ''reference'')
        | Some product \<Rightarrow>
          failIf (\<not> exact_revision (the (ac_workProduct a)) (the (re_processId r)) ''agent-work-product'' product)
            (DeliveryReducer ''reference'')
          (bindE (recordObject (map_of (rv_payload product) ''roleSemantics'')) (\<lambda>semantics.
          failIf (map_of semantics ''role'' \<noteq> Some (JStr ''builder'')) (DeliveryReducer ''record-payload'')
          (Inr (map_of semantics ''proposal'' \<noteq> Some (JStr ''material-condition''))))))
      else Inr False)"

definition completeAgentWork :: "replay \<Rightarrow> activity \<Rightarrow> replay res" where
  "completeAgentWork r a =
     failIf (ac_workProduct a = None) (DeliveryReducer ''order'') (
     if prepares_boundary (ac_operation a) then
       failIf (ac_boundary a = None) (DeliveryReducer ''order'')
       (failIf (ac_checks a = [] \<or> list_ex (\<lambda>c. \<not> legalBaselineReceipt c) (ac_checks a))
         (DeliveryReducer ''order'')
       (Inr (update_subjects (\<lambda>s. s\<lparr>su_proposedBoundary := ac_boundary a\<rparr>) r)))
     else if ac_operation a = Continue then Inr r
     else if ac_operation a = Evaluate then
       failIf (ac_evidence a = None) (DeliveryReducer ''order'') (Inr r)
     else Inl (DeliveryReducer ''activity''))"

definition completeAgent :: "replay \<Rightarrow> activity \<Rightarrow> completion_outcome \<Rightarrow> replay res" where
  "completeAgent r a outcome =
     bindE (if preIntentAbandonment a outcome then Inr ()
        else bindE (assertCoreAgentTerminal a) (\<lambda>_.
          failIf (ac_receipt a = None) (DeliveryReducer ''order'') (Inr ()))) (\<lambda>_.
     if outcome = OutcomeCompleted then completeAgentWork r a else Inr r)"

definition completeIntegration ::
  "platform \<Rightarrow> replay \<Rightarrow> activity \<Rightarrow> completion_outcome \<Rightarrow> replay res" where
  "completeIntegration P r a outcome =
     failIf (ac_integrationAssessment a = None \<or> outcome \<noteq> OutcomeCompleted) (DeliveryReducer ''order'') (
     bindE (integrationAssessmentFor P r (the (ac_integrationAssessment a))) (\<lambda>assessment.
     failIf ((ia_outcome assessment = ''constructed'') \<noteq> (ac_candidate a \<noteq> None)) (DeliveryReducer ''order'') (
     failIf (ia_outcome assessment = ''constructed'' \<and>
             ia_disposition assessment = ''requires-readmission'' \<and> ac_materialCondition a = None)
       (DeliveryReducer ''order'') (Inr r))))"

definition completeTransaction :: "replay \<Rightarrow> activity \<Rightarrow> completion_outcome \<Rightarrow> replay res" where
  "completeTransaction r a outcome =
     failIf ((ac_operation a = Accept \<or> ac_operation a = NoShip) \<and> \<not> terminalNotAppliedFailure a outcome)
       (DeliveryReducer ''order'') (
     failIf (ac_transactionOutcome a = None \<or> ac_transactionOutcome a = Some Indeterminate)
       (DeliveryReducer ''order'') (
     if outcome = OutcomeCompleted then
       failIf (ac_transactionOutcome a \<noteq> Some Applied) (DeliveryReducer ''order'')
       (if ac_operation a = Admit then
          failIf (ac_candidate a = None) (DeliveryReducer ''order'')
          (failIf (ac_decisionKind a = Some DecisionReadmit \<and> su_proposedBoundary (re_subjects r) \<noteq> None)
            (DeliveryReducer ''order'') (Inr r))
        else failIf (ac_closure a = None) (DeliveryReducer ''order'') (Inr r))
     else failIf (ac_transactionOutcome a \<noteq> Some NotApplied) (DeliveryReducer ''order'') (Inr r)))"

definition completeFamily ::
  "platform \<Rightarrow> replay \<Rightarrow> activity \<Rightarrow> completion_outcome \<Rightarrow> replay res" where
  "completeFamily P r a outcome = (case ac_family a of
       AgentFamily \<Rightarrow> completeAgent r a outcome
     | IntegrationFamily \<Rightarrow> completeIntegration P r a outcome
     | TransactionFamily \<Rightarrow> completeTransaction r a outcome)"

definition completeActivity :: "platform \<Rightarrow> replay \<Rightarrow> event \<Rightarrow> replay res" where
  "completeActivity P r e =
     bindE (exactPayload e [''activityId'', ''outcome'']) (\<lambda>payload.
     bindE (activityFor r payload) (\<lambda>activity.
     bindE (enumField payload ''outcome'' completion_outcomes) (\<lambda>outcome.
     bindE (directContinueFinalization r activity) (\<lambda>directContinue.
     failIf (\<not> deterministicBoundaryRefusal activity outcome \<and> \<not> directContinue \<and>
             \<not> finalization_at activity StepActivityCompleted) (DeliveryReducer ''order'') (
     bindE (completeFamily P r activity outcome) (\<lambda>r.
     Inr (put_activity (activity\<lparr>ac_completionOutcome := Some outcome, ac_stage := Completed,
       ac_recovery := None\<rparr>) r)))))))"

end
