(* ===== verification/Delivery_Reducer.thy ===== *)
theory Delivery_Reducer
  imports Opening_Handlers Transaction_Handlers
begin

text \<open>
  The reducer itself (\<open>process/delivery-reducer.ts\<close>): the dispatch of an event to its
  handler, the append of one event to a replay, the reduction of a whole journal, the
  condition under which a store may be sealed, and the overlay of the physical store's
  disposition. A replay is a value here, so the controller's \<open>fork()\<close> is the value itself,
  and an append that throws leaves the caller with the replay it had, as the callers that
  append to a fork and keep it only on success do.
\<close>

definition deliveryCreated :: "replay \<Rightarrow> event \<Rightarrow> replay res" where
  "deliveryCreated r e =
     bindE (exactPayload e []) (\<lambda>_.
     failIf (re_created r \<or> ev_sequence e \<noteq> 1) (DeliveryReducer ''duplicate'')
     (Inr (r\<lparr>re_created := True\<rparr>)))"

fun handle :: "platform \<Rightarrow> event_kind \<Rightarrow> replay \<Rightarrow> event \<Rightarrow> replay res" where
  "handle P DeliveryCreated r e = deliveryCreated r e"
| "handle P DirectorBriefSubmitted r e = submitDirectorBrief P r e"
| "handle P WorkDelegationSet r e = setWorkDelegation P r e"
| "handle P WorkDelegationStopped r e = stopWorkDelegation P r e"
| "handle P ActivityStarted r e = startActivity P r e"
| "handle P ActivityRecoveryRecorded r e = recordRecovery r e"
| "handle P AgentPreIntentRefused r e = refuseAgentBeforeIntent r e"
| "handle P AgentAttemptPrepared r e = prepareAttempt P r e"
| "handle P ProviderEffectIntended r e = intendProviderEffect P r e"
| "handle P ProviderEffectObserved r e = observeProviderEffect P r e"
| "handle P AgentWorkProductSubmitted r e = submitWorkProduct P r e"
| "handle P AgentWorkProductAbandoned r e = abandonWorkProduct P r e"
| "handle P IntegrationAssessed r e = assessIntegration P r e"
| "handle P CandidateRevisionObserved r e = observeCandidateRevision P r e"
| "handle P ExecutionReceiptRecorded r e = recordReceipt P r e"
| "handle P WorkBoundaryFinalized r e = finalizeBoundary P r e"
| "handle P MaterialConditionFrozen r e = freezeMaterialCondition P r e"
| "handle P CandidateSealed r e = sealCandidate P r e"
| "handle P CheckReceiptRecorded r e = recordCheckReceipt P r e"
| "handle P EvidencePacketFinalized r e = finalizeEvidence P r e"
| "handle P DirectorDecisionAuthenticated r e = authenticateDecision P r e"
| "handle P TransactionEffectIntended r e = intendTransactionEffect P r e"
| "handle P TransactionEffectObserved r e = observeTransactionEffect P r e"
| "handle P ActivityCompleted r e = completeActivity P r e"
| "handle P ClosureRecorded r e = recordClosure P r e"

text \<open>A \<open>switch\<close> without a matching case does nothing.\<close>

definition applyEvent :: "platform \<Rightarrow> replay \<Rightarrow> event \<Rightarrow> replay res" where
  "applyEvent P r e =
     failIf (\<not> re_created r \<and> ev_eventKind e \<noteq> ''delivery-created'') (DeliveryReducer ''order'')
     (failIf (su_closure (re_subjects r) \<noteq> None) (DeliveryReducer ''terminal'')
     (case parse_event_kind (ev_eventKind e) of None \<Rightarrow> Inr r | Some kind \<Rightarrow> handle P kind r e))"

definition event_count :: "replay \<Rightarrow> int" where
  "event_count r = (case re_lastEvent r of None \<Rightarrow> 0 | Some e \<Rightarrow> ev_sequence e)"

definition append_event :: "platform \<Rightarrow> replay \<Rightarrow> event \<Rightarrow> replay res" where
  "append_event P r e =
     bindE (verifyEnvelope P r e (event_count r + 1)) (\<lambda>r.
     bindE (applyEvent P r e) (\<lambda>r.
     Inr (r\<lparr>re_lastEvent := Some e\<rparr>)))"

definition replay_events :: "platform \<Rightarrow> resolver \<Rightarrow> event list \<Rightarrow> replay res" where
  "replay_events P resolveRevision events = foldE (append_event P) (freshReplay resolveRevision) events"

definition reduceDeliveryEvents :: "platform \<Rightarrow> event list \<Rightarrow> resolver \<Rightarrow> reduced_state res" where
  "reduceDeliveryEvents P events resolveRevision =
     bindE (replay_events P resolveRevision events) (\<lambda>r. Inr (reducedState r))"

definition assertSealableState :: "reduced_state \<Rightarrow> event option \<Rightarrow> reduced_state res" where
  "assertSealableState state head =
     failIf (st_standing state \<noteq> Closed \<or> su_closure (st_subjects state) = None \<or> head = None \<or>
             ev_eventKind (the head) \<noteq> ''closure-recorded'' \<or> ev_subject (the head) = None \<or>
             the (ev_subject (the head)) \<noteq> reference_subject (the (su_closure (st_subjects state))) \<or>
             list_ex (\<lambda>a. da_stage a \<noteq> Completed) (st_activities state))
       (DeliveryReducer ''seal'') (Inr state)"

definition assertDeliveryReplaySealable :: "platform \<Rightarrow> event list \<Rightarrow> resolver \<Rightarrow> reduced_state res" where
  "assertDeliveryReplaySealable P events resolveRevision =
     bindE (replay_events P resolveRevision events) (\<lambda>r.
     assertSealableState (reducedState r) (re_lastEvent r))"

datatype store_disposition = ActiveUnsealed | SealedUnarchived | ArchivedVerified

definition composeDeliveryStoreDisposition ::
  "reduced_state \<Rightarrow> store_disposition \<Rightarrow> reduced_state res" where
  "composeDeliveryStoreDisposition state disposition =
     (if su_closure (st_subjects state) = None then
        failIf (disposition \<noteq> ActiveUnsealed) (DeliveryReducer ''store-disposition'') (Inr state)
      else if disposition = ArchivedVerified then Inr (state\<lparr>st_eligibleOperations := []\<rparr>)
      else Inr (state\<lparr>st_eligibleOperations := [Recover]\<rparr>))"

end
