(* ===== verification/Bounded_Json.thy ===== *)
theory Bounded_Json
  imports Control_Model
begin

text \<open>
  What \<open>boundedControlJson\<close> (\<open>control/model.ts\<close>) accepts: its work list visits every value
  of the tree once, so the scan is the conjunction of bounds on the tree. A bound on the
  length of the canonical text decides its last check without producing the text.
\<close>

section \<open>The scan as bounds on the tree\<close>

text \<open>Depth, the size of every collection and the bytes of every string, from a depth on.\<close>

fun within_bounds :: "nat \<Rightarrow> nat \<Rightarrow> json \<Rightarrow> bool" where
  "within_bounds maximumBytes depth (JStr s) \<longleftrightarrow> depth \<le> MAXIMUM_JSON_DEPTH \<and> length s \<le> maximumBytes"
| "within_bounds maximumBytes depth (JArr vs) \<longleftrightarrow>
     depth \<le> MAXIMUM_JSON_DEPTH \<and> length vs \<le> MAXIMUM_JSON_MEMBERS \<and>
     (\<forall>v \<in> set vs. within_bounds maximumBytes (Suc depth) v)"
| "within_bounds maximumBytes depth (JObj ms) \<longleftrightarrow>
     depth \<le> MAXIMUM_JSON_DEPTH \<and> length ms \<le> MAXIMUM_JSON_MEMBERS \<and>
     (\<forall>m \<in> set ms. within_bounds maximumBytes (Suc depth) (snd m))"
| "within_bounds maximumBytes depth v \<longleftrightarrow> depth \<le> MAXIMUM_JSON_DEPTH"

lemma sum_list_map_rev: "sum_list (map f (rev xs)) = sum_list (map (f :: _ \<Rightarrow> nat) xs)"
  by (simp add: rev_map [symmetric] sum_list_rev)

lemma bounded_scan_iff:
  "bounded_scan maximumBytes pending n = Inr () \<longleftrightarrow>
     (pending \<noteq> [] \<longrightarrow> n + sum_list (map (\<lambda>p. json_nodes (fst p)) pending) \<le> MAXIMUM_JSON_VALUES) \<and>
     (\<forall>p \<in> set pending. within_bounds maximumBytes (snd p) (fst p))"
proof (induction maximumBytes pending n rule: bounded_scan.induct)
  case (2 maximumBytes v depth pending n)
  have tail: "(pending \<noteq> [] \<longrightarrow> Suc n + sum_list (map (\<lambda>p. json_nodes (fst p)) pending) \<le> MAXIMUM_JSON_VALUES)
      \<and> Suc n \<le> MAXIMUM_JSON_VALUES \<longleftrightarrow>
    Suc n + sum_list (map (\<lambda>p. json_nodes (fst p)) pending) \<le> MAXIMUM_JSON_VALUES"
    by (cases pending) auto
  show ?case
  proof (cases v)
    case JNull
    show ?thesis using tail 2(1) [OF _ _ JNull] unfolding JNull by (simp add: res_simps not_less) blast
  next
    case (JBool b)
    show ?thesis using tail 2(2) [OF _ _ JBool] unfolding JBool by (simp add: res_simps not_less) blast
  next
    case (JInt i)
    show ?thesis using tail 2(3) [OF _ _ JInt] unfolding JInt by (simp add: res_simps not_less) blast
  next
    case (JFrac t)
    show ?thesis using tail 2(4) [OF _ _ JFrac] unfolding JFrac by (simp add: res_simps not_less) blast
  next
    case (JStr s)
    show ?thesis using tail 2(5) [OF _ _ JStr] unfolding JStr by (simp add: res_simps not_less) blast
  next
    case (JArr vs)
    show ?thesis
      using 2(6) [OF _ _ JArr] unfolding JArr
      by (auto simp: res_simps comp_def sum_list_map_rev ac_simps ball_Un)
  next
    case (JObj ms)
    show ?thesis
      using 2(7) [OF _ _ JObj] unfolding JObj
      by (auto simp: res_simps comp_def sum_list_map_rev ac_simps ball_Un)
  qed
qed simp

section \<open>Canonical text\<close>

lemma sum_list_insert_by: "sum_list (map f (insert_by le x xs)) = f x + sum_list (map (f :: _ \<Rightarrow> nat) xs)"
  by (induction xs) auto

lemma sum_list_sort_by [simp]: "sum_list (map f (sort_by le xs)) = sum_list (map (f :: _ \<Rightarrow> nat) xs)"
  by (induction xs) (simp_all add: sort_by_def sum_list_insert_by)

lemma length_escape_char: "length (escape_char c) \<le> 6"
  by (simp add: escape_char_def)

lemma length_quote: "length (quote s) \<le> 6 * length s + 2"
proof -
  have "length (concat (map escape_char s)) \<le> 6 * length s"
    by (induction s) (use length_escape_char in \<open>auto intro: add_mono\<close>)
  then show ?thesis by (simp add: quote_def)
qed

lemma length_join_commas: "length (join_commas ts) \<le> sum_list (map (\<lambda>t. Suc (length t)) ts)"
  by (induction ts rule: join_commas.induct) auto

fun text_bound :: "json \<Rightarrow> nat" where
  "text_bound JNull = 4"
| "text_bound (JBool b) = 5"
| "text_bound (JStr s) = 6 * length s + 2"
| "text_bound (JInt i) = nat \<bar>i\<bar> + 2"
| "text_bound (JFrac t) = length t"
| "text_bound (JArr vs) = 2 + sum_list (map (\<lambda>v. Suc (text_bound v)) vs)"
| "text_bound (JObj ms) = 2 + sum_list (map (\<lambda>m. 6 * length (fst m) + 4 + text_bound (snd m)) ms)"

lemma length_show_nat: "length (show_nat n) \<le> Suc n"
proof (induction n rule: show_nat.induct)
  case (1 n)
  show ?case
  proof (cases "n < 10")
    case False
    with 1 have "length (show_nat (n div 10)) \<le> Suc (n div 10)" by simp
    with False show ?thesis by (subst show_nat.simps) auto
  qed (subst show_nat.simps, simp)
qed

lemma length_show_int: "length (show_int i) \<le> nat \<bar>i\<bar> + 2"
  using length_show_nat [of "nat i"] length_show_nat [of "nat (- i)"] by (auto simp: show_int_def)

lemma length_canonicalize: "length (canonicalize v) \<le> text_bound v"
proof (induction v)
  case (JInt i)
  show ?case using length_show_int [of i] by simp
next
  case (JStr s)
  show ?case using length_quote [of s] by simp
next
  case (JArr vs)
  have "sum_list (map (\<lambda>t. Suc (length t)) (map canonicalize vs)) \<le> sum_list (map (\<lambda>v. Suc (text_bound v)) vs)"
    using JArr by (simp add: comp_def) (rule sum_list_mono, simp)
  then show ?case
    using length_join_commas [of "map canonicalize vs"] by simp
next
  case (JObj ms)
  let ?texts = "map (\<lambda>(k, t). quote k @ '':'' @ t)
    (sort_by (\<lambda>m m'. utf16_le (fst m) (fst m')) (map (\<lambda>(k, v). (k, canonicalize v)) ms))"
  have "sum_list (map (\<lambda>t. Suc (length t)) ?texts)
      = sum_list (map (\<lambda>m. length (quote (fst m)) + 2 + length (canonicalize (snd m))) ms)"
    by (simp add: comp_def case_prod_unfold)
  also have "\<dots> \<le> sum_list (map (\<lambda>m. 6 * length (fst m) + 4 + text_bound (snd m)) ms)"
  proof (rule sum_list_mono)
    fix m assume "m \<in> set ms"
    then have "length (canonicalize (snd m)) \<le> text_bound (snd m)"
      using JObj [of m "snd m"] by (simp add: snds.intros)
    then show "length (quote (fst m)) + 2 + length (canonicalize (snd m)) \<le> 6 * length (fst m) + 4 + text_bound (snd m)"
      using length_quote [of "fst m"] by linarith
  qed
  finally show ?case
    using length_join_commas [of ?texts] by simp
qed simp_all

lemma safe_numbers_form [simp]: "safe_numbers (canonical_form v) = safe_numbers v"
  by (induction v) (auto simp: case_prod_unfold)

section \<open>Acceptance\<close>

definition control_json_ok :: "nat \<Rightarrow> jobject \<Rightarrow> bool" where
  "control_json_ok maximumBytes value \<longleftrightarrow>
     json_nodes (JObj value) \<le> MAXIMUM_JSON_VALUES \<and> within_bounds maximumBytes 1 (JObj value) \<and>
     safe_numbers (JObj value) \<and> length (canonicalize (JObj value)) \<le> maximumBytes"

lemma boundedControlJson_Inr:
  "boundedControlJson value maximumBytes = Inr text \<longleftrightarrow>
     control_json_ok maximumBytes value \<and> text = canonicalize (JObj value)"
  by (auto simp: boundedControlJson_def control_json_ok_def bounded_scan_iff canonicalJson_def
    res_simps failIf_def simp del: bounded_scan.simps canonicalize.simps safe_numbers.simps within_bounds.simps json_nodes.simps
    split: if_splits)

lemma boundedControlJson_accepts:
  assumes "json_nodes (JObj value) \<le> MAXIMUM_JSON_VALUES" and "within_bounds maximumBytes 1 (JObj value)"
    and "safe_numbers (JObj value)" and "text_bound (JObj value) \<le> maximumBytes"
  shows "boundedControlJson value maximumBytes = Inr (canonicalize (JObj value))"
  using assms length_canonicalize [of "JObj value"]
  by (simp add: boundedControlJson_Inr control_json_ok_def del: canonicalize.simps text_bound.simps)

end
