(* ===== verification/Lifecycle_Scenario.thy ===== *)
theory Lifecycle_Scenario
  imports Delivery_Reducer Bounded_Json
begin

text \<open>
  A complete Delivery, from its creation to an accepted Closure, as the journal the Runtime
  appends: a preparation with its baseline Check, an admission, a delegated integration
  under a grant that is then stopped, an evaluation that is ready for acceptance, and the
  acceptance. The concrete platform answers every text with one digest; the reducer only
  compares digests for equality, so the journal shows that the conditions on order,
  references and outcomes can all be met.
\<close>

section \<open>A platform, records and events\<close>

definition demo_platform :: platform where
  "demo_platform = \<lparr>createHash = (\<lambda>_. replicate 64 CHR ''0''), ajvValidate = (\<lambda>_ _. True)\<rparr>"

definition demo_digest :: string where
  "demo_digest = ''sha256:'' @ replicate 64 CHR ''0''"

definition demo_time :: string where
  "demo_time = ''2024-01-01T00:00:00Z''"

definition demo_actor :: "string \<Rightarrow> actor" where
  "demo_actor kind = \<lparr>actor_kind = kind, actor_id = kind\<rparr>"

definition link :: "string \<Rightarrow> revision \<Rightarrow> relationship" where
  "link relation rv = \<lparr>rel_relation = relation, rel_target = \<lparr>tgt_kind = rv_recordKind rv,
     tgt_id = rv_recordId rv, tgt_revision = rv_revision rv, tgt_digest = rv_digest rv\<rparr>\<rparr>"

definition demo_record ::
  "string \<Rightarrow> string \<Rightarrow> int \<Rightarrow> string \<Rightarrow> jobject \<Rightarrow> relationship list \<Rightarrow> revision" where
  "demo_record kind recordId version author payload links = \<lparr>rv_schema = CONTROL_RECORD_REVISION_SCHEMA,
     rv_processId = ''process-1'', rv_recordId = recordId, rv_recordKind = kind, rv_revision = version,
     rv_producer = demo_actor ''runtime'', rv_semanticAuthor = demo_actor author,
     rv_semanticAuthority = ''runtime-derived'', rv_createdAt = demo_time,
     rv_semanticMarkdown = ''text'', rv_payload = payload, rv_relationships = links,
     rv_digest = demo_digest\<rparr>"

definition text_member :: "string \<Rightarrow> string \<Rightarrow> string \<times> json" where
  "text_member k s = (k, JStr s)"

definition demo_commit :: string where
  "demo_commit = replicate 40 CHR ''a''"

section \<open>The records\<close>

definition plan_brief :: revision where
  "plan_brief = demo_record ''director-brief'' ''brief-plan'' 1 ''director''
     [(''scope'', JObj [text_member ''kind'' ''activity'', text_member ''activityId'' ''prepare''])] []"

definition plan_attempt :: revision where
  "plan_attempt = demo_record ''agent-attempt'' ''attempt-plan'' 1 ''runtime'' [] [link ''uses-brief'' plan_brief]"

definition plan_product :: revision where
  "plan_product = demo_record ''agent-work-product'' ''product-plan'' 1 ''agent'' []
     [link ''result-of'' plan_attempt]"

definition plan_receipt :: revision where
  "plan_receipt = demo_record ''execution-receipt'' ''receipt-plan'' 1 ''runtime'' []
     [link ''observes-attempt'' plan_attempt]"

definition mandate :: revision where
  "mandate = demo_record ''work-boundary'' ''boundary'' 1 ''runtime''
     [(''mandate'', JObj [(''checks'', JArr [JObj [text_member ''id'' ''unit'',
        (''baselineRequired'', JBool True), (''finalRequired'', JBool True)]])])]
     [link ''uses-brief'' plan_brief, link ''proposed-from'' plan_product]"

definition check_payload :: "string \<Rightarrow> jobject" where
  "check_payload phase = [text_member ''phase'' phase, text_member ''selectionId'' ''unit'',
     text_member ''modality'' ''regression-guard'', text_member ''disposition'' ''pass'']"

definition baseline_check :: revision where
  "baseline_check = demo_record ''check-receipt'' ''check-baseline'' 1 ''runtime''
     (check_payload ''baseline'') [link ''checks-boundary'' mandate]"

definition admission :: revision where
  "admission = demo_record ''director-decision'' ''decision-admit'' 1 ''director''
     [text_member ''decision'' ''admit'']
     [link ''selects-boundary'' mandate, link ''selects-baseline-receipt'' baseline_check]"

definition candidate_payload :: "string \<Rightarrow> jobject" where
  "candidate_payload observation = [text_member ''schema'' ''lifecycle.candidate-revision-payload.v3'',
     text_member ''observation'' observation, text_member ''candidateBaseCommit'' demo_commit,
     (''carrierManifest'', JObj [text_member ''digest'' demo_digest]),
     text_member ''state'' ''clean'', text_member ''observer'' ''git'']"

definition first_candidate :: revision where
  "first_candidate = demo_record ''candidate-revision'' ''candidate'' 1 ''runtime''
     (candidate_payload ''initialization'') [link ''governed-by'' mandate]"

definition grant_record :: revision where
  "grant_record = demo_record ''work-delegation'' ''delegation'' 1 ''director''
     [text_member ''schema'' WORK_DELEGATION_SCHEMA,
      (''boundary'', target_json (rel_target (link ''uses-boundary'' mandate))),
      (''admission'', target_json (rel_target (link ''uses-admission'' admission))),
      (''replaces'', JNull),
      (''policy'', JObj [text_member ''id'' WORK_DELEGATION_POLICY_ID,
         text_member ''digest'' demo_digest]),
      (''allowedOperations'', JArr [JStr ''delivery.integrate'']),
      (''directions'', JObj [(''continue'', JNull), (''evaluate'', JNull)]),
      (''agentSelections'', JObj [(''builder'', JNull), (''reviewer'', JNull)]),
      (''ceilings'', JObj [(''operations'', JInt 1), (''agentAttempts'', JInt 0),
         (''reservedCellWallTimeMs'', JInt 0)]),
      (''expiresAt'', JNull), text_member ''stopPolicy'' ''finish-reserved-operation'']
     [link ''uses-boundary'' mandate, link ''uses-admission'' admission]"

definition parent_snapshot :: jobject where
  "parent_snapshot = (let body = [text_member ''commit'' demo_commit, text_member ''targetId'' ''target''] in
     text_member ''digest'' demo_digest # body)"

definition assessment_record :: revision where
  "assessment_record = demo_record ''integration-assessment'' ''integration'' 1 ''runtime''
     [(''canonicalParent'', JObj parent_snapshot), text_member ''outcome'' ''constructed'',
      (''conflicts'', JArr []),
      (''validation'', JObj [(''complete'', JBool True), (''valid'', JBool True),
         (''diagnosticCodes'', JArr []),
         text_member ''factsDigest'' demo_digest]),
      (''contextualApplicability'', JObj [text_member ''disposition'' ''unchanged'', (''changes'', JArr [])])]
     [link ''governed-by'' mandate, link ''integrates'' first_candidate]"

definition integrated_candidate :: revision where
  "integrated_candidate = demo_record ''candidate-revision'' ''candidate'' 2 ''runtime''
     (candidate_payload ''integration-successor'')
     [link ''revises'' first_candidate, link ''governed-by'' mandate, link ''integrated-from'' assessment_record]"

definition review_brief :: revision where
  "review_brief = demo_record ''director-brief'' ''brief-review'' 1 ''director''
     [(''scope'', JObj [text_member ''kind'' ''activity'', text_member ''activityId'' ''evaluate''])] []"

definition seal_record :: revision where
  "seal_record = demo_record ''candidate-seal'' ''seal'' 1 ''runtime'' []
     [link ''seals'' integrated_candidate, link ''governed-by'' mandate]"

definition final_check :: revision where
  "final_check = demo_record ''check-receipt'' ''check-final'' 1 ''runtime''
     (check_payload ''final'') [link ''checks-seal'' seal_record]"

definition review_attempt :: revision where
  "review_attempt = demo_record ''agent-attempt'' ''attempt-review'' 1 ''runtime'' []
     [link ''uses-brief'' review_brief, link ''uses-boundary'' mandate,
      link ''uses-candidate'' integrated_candidate, link ''uses-seal'' seal_record]"

definition review_product :: revision where
  "review_product = demo_record ''agent-work-product'' ''product-review'' 1 ''agent'' []
     [link ''result-of'' review_attempt]"

definition review_receipt :: revision where
  "review_receipt = demo_record ''execution-receipt'' ''receipt-review'' 1 ''runtime'' []
     [link ''observes-attempt'' review_attempt]"

definition evidence_record :: revision where
  "evidence_record = demo_record ''evidence-packet'' ''evidence'' 1 ''runtime''
     [text_member ''readiness'' ''acceptance-ready'']
     [link ''governed-by'' mandate, link ''evaluates'' integrated_candidate, link ''uses-seal'' seal_record,
      link ''uses-check'' baseline_check, link ''uses-check'' final_check,
      link ''uses-review'' review_product, link ''uses-review-receipt'' review_receipt]"

definition acceptance :: revision where
  "acceptance = demo_record ''director-decision'' ''decision-accept'' 1 ''director''
     [text_member ''decision'' ''accept'']
     [link ''selects-boundary'' mandate, link ''selects-candidate'' integrated_candidate,
      link ''selects-seal'' seal_record, link ''selects-evidence'' evidence_record]"

definition complete_executions :: json where
  "complete_executions = JObj [text_member ''classification'' ''complete'']"

definition closure_record :: revision where
  "closure_record = demo_record ''closure'' ''closure'' 1 ''runtime''
     [text_member ''disposition'' ''accepted'', text_member ''candidateTreatment'' ''integrated'',
      (''terminalExecutions'', JObj [(''containment'', complete_executions), (''retirement'', complete_executions)])]
     [link ''closes-with'' acceptance, link ''governed-by'' mandate,
      link ''accepts-candidate'' integrated_candidate, link ''accepts-evidence'' evidence_record]"

definition late_condition :: revision where
  "late_condition = demo_record ''material-condition'' ''condition'' 1 ''runtime''
     [text_member ''observedFactsDigest'' demo_digest, (''source'', JObj [text_member ''kind'' ''agent-proposal''])]
     [link ''reported-by'' review_product, link ''observed-in'' review_receipt,
      link ''freezes'' integrated_candidate, link ''governed-by'' mandate]"

definition demo_records :: "revision list" where
  "demo_records = [plan_brief, plan_attempt, plan_product, plan_receipt, mandate, baseline_check,
     admission, first_candidate, grant_record, assessment_record, integrated_candidate,
     review_brief, seal_record, final_check, review_attempt, review_product, review_receipt,
     evidence_record, acceptance, closure_record, late_condition]"

definition demo_resolver :: resolver where
  "demo_resolver s = find (\<lambda>rv. reference_subject (retainedReference rv) = s) demo_records"

section \<open>The journal\<close>

definition demo_event :: "int \<Rightarrow> string \<Rightarrow> event_kind \<Rightarrow> revision option \<Rightarrow> jobject \<Rightarrow> event" where
  "demo_event n eventId kind rv payload = \<lparr>ev_schema = CONTROL_RECORD_EVENT_SCHEMA,
     ev_storeId = ''store-1'', ev_processId = ''process-1'', ev_sequence = n, ev_eventId = eventId,
     ev_eventKind = event_kind_name kind, ev_occurredAt = demo_time, ev_actor = demo_actor ''runtime'',
     ev_subject = map_option (\<lambda>rv. reference_subject (retainedReference rv)) rv, ev_payload = payload,
     ev_predecessorDigest = (if n = 1 then None else Some demo_digest), ev_digest = demo_digest\<rparr>"

definition of_activity :: "string \<Rightarrow> jobject" where
  "of_activity a = [text_member ''activityId'' a]"

definition effect_of :: "string \<Rightarrow> jobject" where
  "effect_of a = [text_member ''activityId'' a, text_member ''effectDigest'' demo_digest]"

definition opening_of :: "string \<Rightarrow> operation \<Rightarrow> jobject" where
  "opening_of a operation = [text_member ''activityId'' a, text_member ''operation'' (operation_name operation)]"

definition completion_of :: "string \<Rightarrow> jobject" where
  "completion_of a = [text_member ''activityId'' a, text_member ''outcome'' ''completed'']"

definition observed :: "string \<Rightarrow> json \<Rightarrow> jobject" where
  "observed a facts = [text_member ''activityId'' a, text_member ''effectDigest'' demo_digest,
     (''facts'', facts), text_member ''factsDigest'' demo_digest, text_member ''outcome'' ''applied'']"

definition admission_facts_json :: json where
  "admission_facts_json = JObj [text_member ''schema'' FOUNDATION_ADMISSION_TRANSACTION_OBSERVATION_FACTS_V1,
     text_member ''outcome'' ''applied'', (''disposition'', JNull),
     text_member ''repositoryBasisDigest'' demo_digest]"

definition acceptance_facts_json :: json where
  "acceptance_facts_json = JObj [text_member ''schema'' FOUNDATION_TERMINAL_ACCEPTANCE_OBSERVATION_FACTS_V1,
     text_member ''ref'' ''refs/heads/main'', text_member ''commit'' demo_commit,
     text_member ''tree'' demo_commit, text_member ''objectFormat'' ''sha1'',
     text_member ''canonicalResultDigest'' demo_digest,
     (''observedTip'', JObj [text_member ''commit'' demo_commit, text_member ''tree'' demo_commit]),
     text_member ''recognition'' ''at-tip'']"

definition demo_reservation :: reservation where
  "demo_reservation = \<lparr>rp_reservationId = ''reservation-1'',
     rp_delegation = rel_target (link ''uses'' grant_record), rp_activityId = ''integrate'',
     rp_operation = Integrate, rp_head_sequence = 18, rp_head_digest = demo_digest,
     rp_basisDigest = demo_digest, rp_reason = ''integrate-ready-candidate'', rp_slots = [],
     rp_charges = \<lparr>acc_operations = 1, acc_agentAttempts = 0, acc_reservedCellWallTimeMs = 0\<rparr>\<rparr>"

definition prepared_events :: "event list" where
  "prepared_events = [
     demo_event 1 ''e1'' DeliveryCreated None [],
     demo_event 2 ''e2'' DirectorBriefSubmitted (Some plan_brief) (of_activity ''prepare''),
     demo_event 3 ''e3'' ActivityStarted None (opening_of ''prepare'' Prepare),
     demo_event 4 ''e4'' AgentAttemptPrepared (Some plan_attempt) (of_activity ''prepare''),
     demo_event 5 ''e5'' ProviderEffectIntended (Some plan_attempt) (effect_of ''prepare''),
     demo_event 6 ''e6'' ProviderEffectObserved (Some plan_attempt)
       (effect_of ''prepare'' @ [text_member ''outcome'' ''completed'']),
     demo_event 7 ''e7'' AgentWorkProductSubmitted (Some plan_product) (of_activity ''prepare''),
     demo_event 8 ''e8'' ExecutionReceiptRecorded (Some plan_receipt) (of_activity ''prepare''),
     demo_event 9 ''e9'' WorkBoundaryFinalized (Some mandate) (of_activity ''prepare''),
     demo_event 10 ''e10'' CheckReceiptRecorded (Some baseline_check) (of_activity ''prepare''),
     demo_event 11 ''e11'' ActivityCompleted None (completion_of ''prepare'')]"

definition admitted_events :: "event list" where
  "admitted_events = [
     demo_event 12 ''e12'' ActivityStarted None (opening_of ''admit'' Admit),
     demo_event 13 ''e13'' DirectorDecisionAuthenticated (Some admission) (of_activity ''admit''),
     demo_event 14 ''e14'' TransactionEffectIntended (Some admission) (effect_of ''admit''),
     demo_event 15 ''e15'' TransactionEffectObserved (Some admission) (observed ''admit'' admission_facts_json),
     demo_event 16 ''e16'' CandidateRevisionObserved (Some first_candidate) (of_activity ''admit''),
     demo_event 17 ''e17'' ActivityCompleted None (completion_of ''admit''),
     demo_event 18 ''e18'' WorkDelegationSet (Some grant_record) []]"

definition integrated_events :: "event list" where
  "integrated_events = [
     demo_event 19 ''e19'' ActivityStarted None
       (opening_of ''integrate'' Integrate @ [(''reservation'', reservation_json demo_reservation)]),
     demo_event 20 ''e20'' IntegrationAssessed (Some assessment_record) (of_activity ''integrate''),
     demo_event 21 ''e21'' CandidateRevisionObserved (Some integrated_candidate) (of_activity ''integrate''),
     demo_event 22 ''e22'' ActivityCompleted None (completion_of ''integrate''),
     demo_event 23 ''e23'' WorkDelegationStopped (Some grant_record)
       [text_member ''requestDigest'' demo_digest, text_member ''requestedAt'' demo_time,
        text_member ''requestedBy'' ''director'']]"

definition reviewed_events :: "event list" where
  "reviewed_events = [
     demo_event 24 ''e24'' DirectorBriefSubmitted (Some review_brief) (of_activity ''evaluate''),
     demo_event 25 ''e25'' ActivityStarted None (opening_of ''evaluate'' Evaluate),
     demo_event 26 ''e26'' CandidateSealed (Some seal_record) (of_activity ''evaluate''),
     demo_event 27 ''e27'' CheckReceiptRecorded (Some final_check) (of_activity ''evaluate''),
     demo_event 28 ''e28'' AgentAttemptPrepared (Some review_attempt) (of_activity ''evaluate''),
     demo_event 29 ''e29'' ProviderEffectIntended (Some review_attempt) (effect_of ''evaluate''),
     demo_event 30 ''e30'' ProviderEffectObserved (Some review_attempt)
       (effect_of ''evaluate'' @ [text_member ''outcome'' ''completed'']),
     demo_event 31 ''e31'' AgentWorkProductSubmitted (Some review_product) (of_activity ''evaluate''),
     demo_event 32 ''e32'' ExecutionReceiptRecorded (Some review_receipt) (of_activity ''evaluate''),
     demo_event 33 ''e33'' EvidencePacketFinalized (Some evidence_record) (of_activity ''evaluate'')]"

definition evaluated_events :: "event list" where
  "evaluated_events = reviewed_events @ [demo_event 34 ''e34'' ActivityCompleted None (completion_of ''evaluate'')]"

text \<open>The other way on from the review: its Agent's Material Condition, frozen after the Evidence.\<close>

definition stranded_event :: event where
  "stranded_event = demo_event 34 ''e34'' MaterialConditionFrozen (Some late_condition)
     [text_member ''sourceKind'' ''agent-proposal'', text_member ''activityId'' ''evaluate'',
      text_member ''observedFactsDigest'' demo_digest]"

definition accepted_events :: "event list" where
  "accepted_events = [
     demo_event 35 ''e35'' ActivityStarted None (opening_of ''accept'' Accept),
     demo_event 36 ''e36'' DirectorDecisionAuthenticated (Some acceptance) (of_activity ''accept''),
     demo_event 37 ''e37'' TransactionEffectIntended (Some acceptance) (effect_of ''accept''),
     demo_event 38 ''e38'' TransactionEffectObserved (Some acceptance) (observed ''accept'' acceptance_facts_json),
     demo_event 39 ''e39'' ClosureRecorded (Some closure_record) (of_activity ''accept'')]"

definition demo_journal :: "event list" where
  "demo_journal = prepared_events @ admitted_events @ integrated_events @ evaluated_events @ accepted_events"


section \<open>Evaluation\<close>

lemma bindE_weak_cong: "m = m' \<Longrightarrow> bindE m f = bindE m' f"
  by simp

lemma failIf_weak_cong: "c = c' \<Longrightarrow> failIf c e k = failIf c' e k"
  by simp

lemma digest_pattern: "sha256_pattern demo_digest" "length demo_digest = 71"
  by (simp_all add: demo_digest_def sha256_pattern_def is_hex_lower_def is_digit_def list_all_iff)

lemma demo_digestCanonical:
  "digestCanonical demo_platform v = failIf (\<not> safe_numbers v) (CanonicalJson ''number'') (Inr demo_digest)"
  by (simp add: digestCanonical_def canonicalJson_def sha256Bytes_def demo_platform_def demo_digest_def failIf_def)

lemma demo_schema: "ajvValidate demo_platform = (\<lambda>_ _. True)"
  by (simp add: demo_platform_def)

lemma demo_policy: "WORK_DELEGATION_POLICY_DIGEST demo_platform = demo_digest"
  by (simp add: WORK_DELEGATION_POLICY_DIGEST_def sha256Bytes_def demo_platform_def demo_digest_def)

lemma demo_date: "date_parse demo_time = Some 1704067200000"
  by (simp add: demo_time_def date_parse_def iso_year_def two_digits_def iso_milliseconds_def iso_time_ms_def
    days_from_civil_def days_in_month_def leap_year_def is_digit_def)

lemma demo_timestamp: "controlTimestamp demo_time = Inr demo_time"
  by (simp add: controlTimestamp_def demo_date)

lemma demo_record_fields:
  assumes "rv = demo_record kind recordId version author payload links"
  shows "rv_recordKind rv = kind" and "rv_recordId rv = recordId" and "rv_revision rv = version"
    and "rv_payload rv = payload" and "rv_relationships rv = links" and "rv_digest rv = demo_digest"
    and "rv_processId rv = ''process-1''" and "rv_semanticAuthor rv = demo_actor author"
    and "rv_createdAt rv = demo_time"
  using assms by (simp_all add: demo_record_def)

lemmas record_fields =
  demo_record_fields [OF plan_brief_def]
  demo_record_fields [OF plan_attempt_def]
  demo_record_fields [OF plan_product_def]
  demo_record_fields [OF plan_receipt_def]
  demo_record_fields [OF mandate_def]
  demo_record_fields [OF baseline_check_def]
  demo_record_fields [OF admission_def]
  demo_record_fields [OF first_candidate_def]
  demo_record_fields [OF grant_record_def]
  demo_record_fields [OF assessment_record_def]
  demo_record_fields [OF integrated_candidate_def]
  demo_record_fields [OF review_brief_def]
  demo_record_fields [OF seal_record_def]
  demo_record_fields [OF final_check_def]
  demo_record_fields [OF review_attempt_def]
  demo_record_fields [OF review_product_def]
  demo_record_fields [OF review_receipt_def]
  demo_record_fields [OF evidence_record_def]
  demo_record_fields [OF acceptance_def]
  demo_record_fields [OF closure_record_def]
  demo_record_fields [OF late_condition_def]

lemma demo_event_fields:
  "ev_schema (demo_event n i kind rv payload) = CONTROL_RECORD_EVENT_SCHEMA"
  "ev_storeId (demo_event n i kind rv payload) = ''store-1''"
  "ev_processId (demo_event n i kind rv payload) = ''process-1''"
  "ev_sequence (demo_event n i kind rv payload) = n"
  "ev_eventId (demo_event n i kind rv payload) = i"
  "ev_eventKind (demo_event n i kind rv payload) = event_kind_name kind"
  "ev_occurredAt (demo_event n i kind rv payload) = demo_time"
  "ev_actor (demo_event n i kind rv payload) = demo_actor ''runtime''"
  "ev_subject (demo_event n i kind rv payload) = map_option (\<lambda>rv. reference_subject (retainedReference rv)) rv"
  "ev_payload (demo_event n i kind rv payload) = payload"
  "ev_predecessorDigest (demo_event n i kind rv payload) = (if n = 1 then None else Some demo_digest)"
  "ev_digest (demo_event n i kind rv payload) = demo_digest"
  by (simp_all add: demo_event_def)

lemma link_fields:
  "rel_relation (link relation rv) = relation" "tgt_kind (rel_target (link relation rv)) = rv_recordKind rv"
  "tgt_id (rel_target (link relation rv)) = rv_recordId rv"
  "tgt_revision (rel_target (link relation rv)) = rv_revision rv"
  "tgt_digest (rel_target (link relation rv)) = rv_digest rv"
  by (simp_all add: link_def)

lemma created_kind: "event_kind_name kind = ''delivery-created'' \<longleftrightarrow> kind = DeliveryCreated"
  by (cases kind) simp_all

lemma kind_pattern: "controlRecordKind (event_kind_name kind) = Inr (event_kind_name kind)"
  by (cases kind) (simp_all add: controlRecordKind_def is_lower_def is_digit_def)

lemma bounded_event:
  assumes "json_nodes (JObj value) \<le> MAXIMUM_JSON_VALUES" and "within_bounds 65536 1 (JObj value)"
    and "safe_numbers (JObj value)" and "text_bound (JObj value) \<le> 65536"
  shows "normalizedControlJsonObject value 65536 = Inr (canonical_object value)"
  using assms by (simp add: normalizedControlJsonObject_def boundedControlJson_accepts
    del: json_nodes.simps within_bounds.simps safe_numbers.simps text_bound.simps canonicalize.simps)

lemma canonical_members_safe:
  "(\<forall>m\<in>set (canonical_object ms). safe_numbers (snd m)) = (\<forall>m\<in>set ms. safe_numbers (snd m))"
  "(\<exists>m\<in>set (canonical_object ms). \<not> safe_numbers (snd m)) = (\<exists>m\<in>set ms. \<not> safe_numbers (snd m))"
proof -
  show "(\<forall>m\<in>set (canonical_object ms). safe_numbers (snd m)) = (\<forall>m\<in>set ms. safe_numbers (snd m))"
    using safe_numbers_form [of "JObj ms"] by (simp add: canonical_object_def del: safe_numbers_form)
  then show "(\<exists>m\<in>set (canonical_object ms). \<not> safe_numbers (snd m)) = (\<exists>m\<in>set ms. \<not> safe_numbers (snd m))"
    by blast
qed

lemma demo_lengths: "length demo_time = 20" "length demo_commit = 40" "git_object_pattern demo_commit"
  by (simp_all add: demo_time_def demo_commit_def git_object_pattern_def is_hex_lower_def is_lower_def is_digit_def list_all_iff)

lemma demo_ref: "git_ref_pattern ''refs/heads/main''"
  by (simp add: git_ref_pattern_def ref_char_def is_alnum_def is_lower_def is_upper_def is_digit_def)

lemma demo_identities: "controlIdentifier ''store-1'' = Inr ''store-1''" "controlIdentifier ''process-1'' = Inr ''process-1''"
  "normalizedActor (demo_actor ''runtime'') = Inr (demo_actor ''runtime'')"
  by (simp_all add: controlIdentifier_def normalizedActor_def demo_actor_def id_char_def is_alnum_def is_lower_def
    is_upper_def is_digit_def)

definition demo_subject_ok :: "revision option \<Rightarrow> bool" where
  "demo_subject_ok rv = (case rv of None \<Rightarrow> True
     | Some v \<Rightarrow> id_pattern (rv_recordId v) \<and> length (rv_recordId v) \<le> 512 \<and>
         rv_revision v \<in> {1, 2} \<and> rv_digest v = demo_digest)"

lemma demo_subject: "demo_subject_ok rv \<Longrightarrow>
   normalizedSubject (map_option (\<lambda>rv. reference_subject (retainedReference rv)) rv) =
     Inr (map_option (\<lambda>rv. reference_subject (retainedReference rv)) rv)"
  by (auto simp: demo_subject_ok_def normalizedSubject_def controlIdentifier_def reference_subject_def
    retainedReference_def safe_integer_def digest_pattern split: option.splits)

lemma demo_compiled:
  assumes "normalizedControlJsonObject payload 65536 = Inr p" and "safe_numbers (JObj p)"
    and "id_pattern i" "length i \<le> 512" "1 \<le> n" "n \<le> 1000" and "demo_subject_ok rv"
  shows "compileControlRecordEvent demo_platform ''store-1'' ''process-1'' n
     (if n = 1 then None else Some demo_digest) (event_input_of (demo_event n i kind rv payload)) =
       Inr (demo_event n i kind rv p)"
proof -
  let ?subject = "map_option (\<lambda>rv. reference_subject (retainedReference rv)) rv"
  have "controlIdentifier i = Inr i" and n: "safe_integer n" "\<not> n < 1"
    using assms by (simp_all add: controlIdentifier_def safe_integer_def)
  moreover have "safe_numbers (subject_json ?subject)"
    using assms(7) by (auto simp: demo_subject_ok_def subject_json_def reference_subject_def
      retainedReference_def safe_integer_def split: option.splits)
  moreover have "safe_numbers (event_body (demo_event n i kind rv p\<lparr>ev_digest := []\<rparr>))"
    using assms calculation
    by (simp add: event_body_def demo_event_def actor_json_def nullable_string_def demo_actor_def)
  ultimately show ?thesis
    using assms
    by (simp add: compileControlRecordEvent_def event_input_of_def demo_event_fields demo_identities
      kind_pattern demo_timestamp demo_digestCanonical demo_subject MAXIMUM_EVENT_PAYLOAD_BYTES_def Let_def
      demo_event_def)
qed

lemma demo_verify:
  assumes "assertDeliveryEventEnvelope demo_platform (demo_event n i kind rv payload) = Inr k"
    and "normalizedControlJsonObject payload 65536 = Inr p" and "safe_numbers (JObj p)"
    and "id_pattern i" "length i \<le> 512" "1 \<le> n" "n \<le> 1000" and "demo_subject_ok rv"
    and "re_lastOccurredAt r = (if re_lastEvent r = None then None else Some 1704067200000)"
  shows "verifyEnvelope demo_platform r (demo_event n i kind rv payload) n =
     bindE (chain_position r (demo_event n i kind rv payload)) (\<lambda>r'.
       failIf (i \<in> re_eventIds r') (DeliveryReducer ''duplicate'')
         (Inr (r'\<lparr>re_eventIds := insert i (re_eventIds r'), re_lastOccurredAt := Some 1704067200000\<rparr>)))"
  using assms(1,9)
  by (auto simp: verifyEnvelope_def demo_event_fields demo_compiled [OF assms(2-8), unfolded demo_event_fields]
    demo_date Let_def chain_position_def failIf_def split: option.splits)

section \<open>The states between the phases\<close>

definition done_agent ::
  "string \<Rightarrow> operation \<Rightarrow> standing \<Rightarrow> revision \<Rightarrow> revision \<Rightarrow> revision \<Rightarrow> revision \<Rightarrow> activity" where
  "done_agent activityId operation origin brief attempt product receipt =
     (opened_activity activityId operation AgentFamily origin (owed StepActivityCompleted None)
        (Some (retainedReference brief)) None)
     \<lparr>ac_stage := Completed, ac_recovery := None, ac_attempt := Some (retainedReference attempt),
      ac_providerEffectDigest := Some demo_digest, ac_providerOutcome := Some ProviderCompleted,
      ac_workProduct := Some (retainedReference product), ac_receipt := Some (retainedReference receipt),
      ac_completionOutcome := Some OutcomeCompleted\<rparr>"

definition passed :: "check_phase \<Rightarrow> revision \<Rightarrow> check_fact" where
  "passed phase rv = \<lparr>ck_reference = retainedReference rv, ck_selectionId = ''unit'', ck_phase = phase,
     ck_modality = RegressionGuard, ck_disposition = CheckPass\<rparr>"

definition prepare_done :: activity where
  "prepare_done = (done_agent ''prepare'' Prepare Framing plan_brief plan_attempt plan_product plan_receipt)
     \<lparr>ac_boundary := Some (retainedReference mandate), ac_checks := [passed Baseline baseline_check]\<rparr>"

definition done_transaction :: "string \<Rightarrow> operation \<Rightarrow> standing \<Rightarrow> revision \<Rightarrow> decision_kind \<Rightarrow> activity" where
  "done_transaction activityId operation origin decision kind =
     (opened_activity activityId operation TransactionFamily origin (owed StepActivityCompleted None) None None)
     \<lparr>ac_stage := Completed, ac_recovery := None, ac_decision := Some (retainedReference decision),
      ac_decisionKind := Some kind, ac_transactionEffectDigest := Some demo_digest,
      ac_transactionOutcome := Some Applied, ac_completionOutcome := Some OutcomeCompleted\<rparr>"

definition admit_done :: activity where
  "admit_done = (done_transaction ''admit'' Admit AwaitingAdmission admission DecisionAdmit)
     \<lparr>ac_candidate := Some (retainedReference first_candidate)\<rparr>"

definition integrate_done :: activity where
  "integrate_done = (opened_activity ''integrate'' Integrate IntegrationFamily Active
       (owed StepActivityCompleted None) None (Some demo_reservation))
     \<lparr>ac_stage := Completed, ac_recovery := None,
      ac_integrationAssessment := Some (retainedReference assessment_record),
      ac_candidate := Some (retainedReference integrated_candidate),
      ac_completionOutcome := Some OutcomeCompleted\<rparr>"

definition evaluate_done :: activity where
  "evaluate_done = (done_agent ''evaluate'' Evaluate Active review_brief review_attempt review_product review_receipt)
     \<lparr>ac_seal := Some (retainedReference seal_record), ac_checks := [passed Final final_check],
      ac_evidence := Some (retainedReference evidence_record), ac_evidenceReadiness := Some AcceptanceReady\<rparr>"

definition evaluate_open :: "recovery_step \<Rightarrow> activity" where
  "evaluate_open step = evaluate_done\<lparr>ac_stage := Finalizing, ac_recovery := Some (owed step None),
     ac_completionOutcome := None\<rparr>"

definition accept_done :: activity where
  "accept_done = (done_transaction ''accept'' Accept DecisionReady acceptance DecisionAccept)
     \<lparr>ac_closure := Some (retainedReference closure_record)\<rparr>"

text \<open>What a journal and the records it finalized leave in the replay's registers, latest first.\<close>

definition journalled :: "event list \<Rightarrow> revision list \<Rightarrow> activity list \<Rightarrow> replay \<Rightarrow> replay" where
  "journalled events records acts r = r\<lparr>re_created := True, re_storeId := Some ''store-1'',
     re_processId := Some ''process-1'', re_lastEvent := Some (hd events),
     re_lastOccurredAt := Some 1704067200000, re_eventIds := set (map ev_eventId events),
     re_finalizedSubjects := set (map (\<lambda>rv. (rv_recordKind rv, retainedReference rv)) records),
     re_recordKinds := map_of (map (\<lambda>rv. (rv_recordId rv, rv_recordKind rv)) records),
     re_recordRevisions := map_of (map (\<lambda>rv. ((rv_recordId rv, rv_revision rv), rv_digest rv)) records),
     re_activities := map (\<lambda>a. (ac_id a, a)) acts\<rparr>"

definition prepared_records :: "revision list" where
  "prepared_records = [baseline_check, mandate, plan_receipt, plan_product, plan_attempt, plan_brief]"

definition admitted_records :: "revision list" where
  "admitted_records = [grant_record, first_candidate, admission] @ prepared_records"

definition integrated_records :: "revision list" where
  "integrated_records = [integrated_candidate, assessment_record] @ admitted_records"

definition evaluated_records :: "revision list" where
  "evaluated_records = [evidence_record, review_receipt, review_product, review_attempt, final_check,
     seal_record, review_brief] @ integrated_records"

definition prepared_state :: replay where
  "prepared_state = journalled (rev prepared_events) prepared_records [prepare_done]
     (freshReplay demo_resolver\<lparr>re_subjects := no_subjects\<lparr>su_proposedBoundary := Some (retainedReference mandate)\<rparr>\<rparr>)"

definition demo_grant :: delegation_payload where
  "demo_grant = \<lparr>dp_boundary = rel_target (link ''uses-boundary'' mandate),
     dp_admission = rel_target (link ''uses-admission'' admission), dp_replaces = None,
     dp_policy_digest = demo_digest, dp_allowedOperations = [Integrate], dp_continue_direction = None,
     dp_evaluate_direction = None, dp_builder = None, dp_reviewer = None,
     dp_ceilings = \<lparr>acc_operations = 1, acc_agentAttempts = 0, acc_reservedCellWallTimeMs = 0\<rparr>,
     dp_expiresAt = None\<rparr>"

definition admitted_state :: replay where
  "admitted_state = journalled (rev (prepared_events @ admitted_events)) admitted_records [prepare_done, admit_done]
     (freshReplay demo_resolver\<lparr>re_subjects := no_subjects\<lparr>su_activeBoundary := Some (retainedReference mandate),
        su_candidate := Some (retainedReference first_candidate)\<rparr>,
      re_activeAdmission := Some (retainedReference admission),
      re_delegation := Some \<lparr>dl_reference = retainedReference grant_record, dl_payload = demo_grant,
        dl_stopped = False\<rparr>\<rparr>)"

definition integrated_subjects :: subjects where
  "integrated_subjects = no_subjects\<lparr>su_activeBoundary := Some (retainedReference mandate),
     su_integrationAssessment := Some (retainedReference assessment_record),
     su_candidate := Some (retainedReference integrated_candidate)\<rparr>"

text \<open>Integrated, the grant stopped and its one operation charged.\<close>

definition under_stopped_grant :: "subjects \<Rightarrow> replay" where
  "under_stopped_grant s = freshReplay demo_resolver\<lparr>re_subjects := s, re_candidateIntegrated := True,
     re_activeAdmission := Some (retainedReference admission),
     re_delegation := Some \<lparr>dl_reference = retainedReference grant_record, dl_payload = demo_grant,
       dl_stopped = True\<rparr>,
     re_delegatedCharges := \<lparr>acc_operations = 1, acc_agentAttempts = 0, acc_reservedCellWallTimeMs = 0\<rparr>\<rparr>"

definition integrated_state :: replay where
  "integrated_state = journalled (rev (prepared_events @ admitted_events @ integrated_events)) integrated_records
     [prepare_done, admit_done, integrate_done] (under_stopped_grant integrated_subjects)"

definition evaluated_subjects :: subjects where
  "evaluated_subjects = integrated_subjects\<lparr>su_seal := Some (retainedReference seal_record),
     su_evidence := Some (retainedReference evidence_record)\<rparr>"

definition evaluated_state :: replay where
  "evaluated_state = journalled (rev (prepared_events @ admitted_events @ integrated_events @ evaluated_events))
     evaluated_records [prepare_done, admit_done, integrate_done, evaluate_done]
     (under_stopped_grant evaluated_subjects\<lparr>re_evidenceReadiness := Some AcceptanceReady\<rparr>)"

definition reviewed_state :: replay where
  "reviewed_state = journalled (rev (prepared_events @ admitted_events @ integrated_events @ reviewed_events))
     evaluated_records [prepare_done, admit_done, integrate_done, evaluate_open StepActivityCompleted]
     (under_stopped_grant evaluated_subjects\<lparr>re_evidenceReadiness := Some AcceptanceReady\<rparr>)"

definition stranded_activity :: activity where
  "stranded_activity = (evaluate_open StepActivityFinalization)
     \<lparr>ac_materialCondition := Some (retainedReference late_condition)\<rparr>"

definition stranded_state :: replay where
  "stranded_state = journalled
     (rev (prepared_events @ admitted_events @ integrated_events @ reviewed_events @ [stranded_event]))
     (late_condition # evaluated_records) [prepare_done, admit_done, integrate_done, stranded_activity]
     (under_stopped_grant (evaluated_subjects\<lparr>su_materialCondition := Some (retainedReference late_condition)\<rparr>)
       \<lparr>re_evidenceReadiness := Some AcceptanceReady\<rparr>)"

definition accepted_state :: replay where
  "accepted_state = journalled (rev demo_journal) ([closure_record, acceptance] @ evaluated_records)
     [prepare_done, admit_done, integrate_done, evaluate_done, accept_done]
     (under_stopped_grant (evaluated_subjects\<lparr>su_closure := Some (retainedReference closure_record)\<rparr>)
       \<lparr>re_evidenceReadiness := Some AcceptanceReady, re_closureDisposition := Some ClosureAccepted\<rparr>)"

section \<open>The phases\<close>

lemma char_cong: "String.Char a b c d e f g h = String.Char a b c d e f g h" by (rule refl)

lemma event_cong: "demo_event a b c d e = demo_event a b c d e" by (rule refl)

lemmas model_definitions =
  utf16_rank_def parse_operation_def canonicalJson_def selfDigest_def freshReplay_def activities_def
  put_activity_def exactPayload_def payload_field_def stringField_def identifierField_def
  digestField_def nullableDigestField_def enumField_def subject_reference_def reference_subject_def
  retainedReference_def assertReference_def registerFinalizedSubject_def recordEnumField_def
  nestedIdentifier_def recordIdentifierField_def recordObject_def recordArray_def exact_revision_def
  requiredCheckSelectionIds_def baselineSelectionIds_def finalSelectionIds_def
  assertOnlyRelationships_def relationshipReferences_def requiredRelationship_def
  optionalRelationship_def assertAbsentRelationship_def currentEstablishedBoundary_def
  legalAcceptanceReceipt_def phase_checks_def baselineChecksForBoundary_def
  assertExactActivitySubject_def publicActivity_def currentStanding_def incomplete_def
  currentCandidateCondition_def delegation_public_def stateFromReplay_def with_eligible_def
  reducedState_def activityFor_def recovery_def assertAgentActivity_def assertTransactionActivity_def
  assertCoreAgentTerminal_def assertWorkProductOpen_def resumes_at_def recovery_is_def effectless_def
  event_input_of_def chain_position_def owed_def registered_def finalizes_def registers_def
  submitStandingBrief_def submitPlannedBrief_def submitDirectorBrief_def exactDelegationRevision_def
  some_incomplete_def assertDelegationLineage_def ceilings_cover_def bindDirection_def
  setWorkDelegation_def stopWorkDelegation_def assertReservedSelection_def assertReservedChecks_def
  reservedOpening_def bypasses_allowance_def openingRecovery_def opened_activity_def charged_def
  opening_payload_def opening_reservation_def opening_brief_def startActivity_def set_stage_def
  recovery_kinds_def recordRecovery_def refusal_resolutions_def MANDATORY_TOO_LARGE_def
  nothing_attempted_def refuseAgentBeforeIntent_def assertReservedAttempt_def covers_def
  assertAttemptSubjects_def assertPreparationSubjects_def prepareAttempt_def intendProviderEffect_def
  provider_outcomes_def observeProviderEffect_def afterWorkProduct_def submitWorkProduct_def
  abandonWorkProduct_def prepares_boundary_def afterReceipt_def recordReceipt_def
  assertInitialBoundary_def assertResolvedBoundary_def finalizeBoundary_def update_subjects_def
  integrationAssessmentFor_def assessIntegration_def payload_is_def advances_def same_member_def
  observeIntegration_def observeDevelopment_def observeInitialization_def same_canonical_member_def
  observeRebind_def observeVariant_def afterCandidate_def integrated_after_def candidateLinks_def
  observeCandidateRevision_def condition_sources_def conditionFromIntegration_def
  measured_refusal_def conditionFromProjection_def conditionFromAgent_def freezeMaterialCondition_def
  sealCandidate_def check_phases_def check_modalities_def check_dispositions_def already_received_def
  assertFinalCheck_def assertBaselineCheck_def afterCheck_def recordCheckReceipt_def readinesses_def
  binds_exactly_def legalForAcceptance_def assertEvidenceLinks_def finalizeEvidence_def
  decision_kinds_def expectedDecision_def decisionLinks_def assertAdmission_def assertAcceptance_def
  assertCurrentOrAbsent_def assertNoShip_def assertDecision_def authenticateDecision_def
  intendTransactionEffect_def transaction_outcomes_def activateBoundary_def afterTransaction_def
  settleTransaction_def keepObserving_def observeTransactionEffect_def closure_dispositions_def
  candidate_treatments_def assertCompleteExecutions_def assertAcceptedCandidate_def
  assertAbandonedCandidate_def expectedDisposition_def assertClosureLinks_def recordClosure_def
  completion_outcomes_def finalization_at_def terminalNotAppliedFailure_def
  deterministicBoundaryRefusal_def preIntentAbandonment_def directContinueFinalization_def
  completeAgentWork_def completeAgent_def completeIntegration_def completeTransaction_def
  completeFamily_def completeActivity_def deliveryCreated_def applyEvent_def event_count_def
  append_event_def replay_events_def reduceDeliveryEvents_def assertSealableState_def
  assertDeliveryReplaySealable_def composeDeliveryStoreDisposition_def
  FOUNDATION_ADMISSION_TRANSACTION_OBSERVATION_FACTS_V1_def
  FOUNDATION_TERMINAL_REPOSITORY_OBSERVATION_FACTS_V1_def
  FOUNDATION_TERMINAL_ACCEPTANCE_OBSERVATION_FACTS_V1_def
  FOUNDATION_TERMINAL_DETACHED_OBSERVATION_FACTS_V1_def
  FOUNDATION_TERMINAL_FAILURE_OBSERVATION_FACTS_V1_def tf_object_def tf_exactKeys_def tf_string_def
  tf_digest_def tf_nullableDigest_def tf_identifier_def tf_gitObject_def tf_gitRef_def
  expected_git_length_def repositoryCoordinate_def coordinate_of_def admission_disposition_def
  admissionFacts_def acceptanceFacts_def detachedFacts_def terminalFailureFacts_def
  parseFoundationTransactionObservationFactsV7_def has_schema_def disposition_reason_def
  assertAdmissionFacts_def assertTerminalFacts_def assertFoundationTransactionObservationFactsV7_def
  foundationTransactionObservationFactsDigestV7_def WORK_DELEGATION_SCHEMA_def
  WORK_DELEGATION_RESERVATION_SCHEMA_def WORK_DELEGATION_POLICY_ID_def WORK_DELEGATION_OPERATIONS_def
  WORK_DELEGATION_MAXIMUM_CELL_WALL_TIME_MS_def WORK_DELEGATION_MAXIMUM_SLOTS_def
  parse_delegation_operation_def wd_object_def mem_def line_terminated_def wd_identifier_def
  wd_opaque_def wd_digest_def wd_integer_def wd_time_def wd_nullable_def wd_array_def
  exactReference_def resourceReference_def BACKEND_PROFILES_def backend_def image_def agentLimits_def
  agentSelection_def executionLimits_def parseWorkDelegationAccounting_def option_json_def
  resource_json_def backend_json_def image_json_def agent_limits_json_def agent_selection_json_def
  execution_limits_json_def accounting_json_def delegation_json_def check_definition_json_def
  reservation_parts_members_def reservation_json_def parseWorkDelegationPayload_def knowledgeId_def
  agentExecutionSlot_def checkExecutionSlot_def executionSlot_def addWorkDelegationAccounting_def
  decision_reasons_def slots_fit_operation_def reservationParts_def with_charges_def
  compileWorkDelegationReservation_def parseWorkDelegationReservation_def grant_selection_def
  selection_mismatch_def assessWorkDelegationAllowance_def WORK_DELEGATION_STOP_REQUEST_SCHEMA_def
  stop_object_def stop_identifier_def stop_digest_def stop_string_def stop_revision_def stop_body_def
  stop_json_def compileWorkDelegationStopRequest_def stop_input_def
  parseWorkDelegationStopRequest_def compileWorkDelegationStopAppend_def no_subjects_def
  no_charges_def subjects_json_def delegation_state_json_def deliveryWorkDecisionBasisDigest_def
  operation_entry_def deliveryOperationDescriptor_def unresolvedActivities_def some_recovery_def
  concurrencyAllows_def operation_eligible_def eligibleDeliveryOperations_def recovery_entry_def
  RECOVERY_DESCRIPTORS_def deliveryRecoveryDescriptor_def DELIVERY_EVENT_KINDS_def
  bounded_identity_def payload_fail_def deliveryEventDescriptor_def selected_fields_def
  assertDeliveryEventPayload_def assertDeliveryEventEnvelope_def deliveryEventSubject_def
  resolveDeliveryEventSubject_def INTEGRATION_CONTEXT_SUBJECTS_def js_object_def js_array_def
  js_string_def js_boolean_def typed_change_def typed_assessment_def string_member_def
  conflict_le_def parseFoundationIntegrationAssessmentPayloadV1_def
  foundationIntegrationValidationFactsDigestV1_def foundationIntegratedCandidateFactsDigestV1_def
  foundationProjectionConditionObservedFactsDigestV1_def CONTROL_RECORD_REVISION_SCHEMA_def
  CONTROL_RECORD_EVENT_SCHEMA_def controlIdentifier_def normalizedActor_def strip_newlines_def
  normalizeSemanticMarkdown_def MAXIMUM_REVISION_PAYLOAD_BYTES_def MAXIMUM_EVENT_PAYLOAD_BYTES_def
  MAXIMUM_JSON_DEPTH_def MAXIMUM_JSON_MEMBERS_def MAXIMUM_JSON_VALUES_def
  canonicalControlJsonObject_def canonicalControlEventJsonObject_def relationship_key_def
  relationshipOrder_def normalizedRelationship_def normalizedRelationships_def actor_json_def
  relationship_json_def revision_body_def SEMANTIC_AUTHORITIES_def subject_json_def
  nullable_string_def event_body_def normalizedSubject_def hasOwn_def member_def safe_integer_def
  exact_keys_def is_digit_def is_lower_def is_upper_def is_alnum_def is_hex_lower_def id_char_def
  knowledge_pattern_def leap_year_def days_in_month_def days_from_civil_def two_digits_def
  iso_milliseconds_def sort_by_def sortUniqueCodePoints_def canonicalJsonOf_def
  assertFoundationSchema_def parse_name_def name_table_def DELIVERY_OPERATIONS_def RECOVERY_KINDS_def
  DELIVERY_RECOVERY_STEPS_def sameReference_def reference_json_def reference_option_json_def
  target_json_def target_reference_def kinded_target_def binding_fail_def opening_execution_def
  readWorkDelegationExecution_def workDelegationAgentSlot_def workDelegationCheckSlot_def
  workDelegationAgentSelectionMatches_def workDelegationAgentAttemptMatches_def
  check_selection_json_def workDelegationCheckSelectionMatches_def

lemmas demo_definitions =
  demo_subject_ok_def complete_executions_def demo_actor_def text_member_def check_payload_def
  candidate_payload_def parent_snapshot_def demo_records_def demo_resolver_def of_activity_def
  effect_of_def opening_of_def completion_of_def observed_def admission_facts_json_def
  acceptance_facts_json_def demo_reservation_def prepared_events_def admitted_events_def
  integrated_events_def reviewed_events_def evaluated_events_def accepted_events_def stranded_event_def
  evaluate_open_def stranded_activity_def
  done_agent_def passed_def prepare_done_def done_transaction_def admit_done_def integrate_done_def
  evaluate_done_def accept_done_def journalled_def prepared_records_def admitted_records_def
  integrated_records_def evaluated_records_def demo_grant_def under_stopped_grant_def
  integrated_subjects_def evaluated_subjects_def owed_def

lemmas evaluation = model_definitions demo_definitions record_fields demo_event_fields link_fields
  bounded_event boundedControlJson_accepts created_kind kind_pattern demo_digestCanonical demo_schema
  demo_policy demo_date demo_timestamp demo_verify digest_pattern demo_lengths demo_ref
  canonical_members_safe Let_def

lemmas unevaluated = event_kind_name.simps canonicalize.simps canonical_form.simps bounded_scan.simps

lemmas evaluation_congs = bindE_weak_cong failIf_weak_cong let_weak_cong char_cong event_cong

lemma prepare_phase: "replay_events demo_platform demo_resolver prepared_events = Inr prepared_state"
  unfolding prepared_state_def
  by (simp add: evaluation del: unevaluated cong: evaluation_congs)

lemma admit_phase: "foldE (append_event demo_platform) prepared_state admitted_events = Inr admitted_state"
  unfolding prepared_state_def admitted_state_def
  by (simp add: evaluation del: unevaluated cong: evaluation_congs)

lemma integrate_phase: "foldE (append_event demo_platform) admitted_state integrated_events = Inr integrated_state"
  unfolding admitted_state_def integrated_state_def
  by (simp add: evaluation del: unevaluated cong: evaluation_congs)

lemma review_phase: "foldE (append_event demo_platform) integrated_state reviewed_events = Inr reviewed_state"
  unfolding reviewed_state_def integrated_state_def
  by (simp add: evaluation del: unevaluated cong: evaluation_congs)

lemma complete_phase: "foldE (append_event demo_platform) reviewed_state
    [demo_event 34 ''e34'' ActivityCompleted None (completion_of ''evaluate'')] = Inr evaluated_state"
  unfolding evaluated_state_def reviewed_state_def
  by (simp add: evaluation del: unevaluated cong: evaluation_congs)

lemma strand_phase: "foldE (append_event demo_platform) reviewed_state [stranded_event] = Inr stranded_state"
  unfolding stranded_state_def reviewed_state_def
  by (simp add: evaluation del: unevaluated cong: evaluation_congs)

lemma accept_phase: "foldE (append_event demo_platform) evaluated_state accepted_events = Inr accepted_state"
  unfolding evaluated_state_def accepted_state_def demo_journal_def
  by (simp add: evaluation del: unevaluated cong: evaluation_congs)

text \<open>The journals of the five phases replay to the five states.\<close>

lemma replay_phase:
  "replay_events P f es = Inr r \<Longrightarrow> foldE (append_event P) r es' = m \<Longrightarrow> replay_events P f (es @ es') = m"
  by (simp add: replay_events_def foldE_append)

lemmas admitted_journal = replay_phase [OF prepare_phase admit_phase]
lemmas integrated_journal = replay_phase [OF admitted_journal integrate_phase]
lemmas reviewed_journal = replay_phase [OF integrated_journal review_phase]
lemmas stranded_journal = replay_phase [OF reviewed_journal strand_phase]

lemma evaluated_journal:
  "replay_events demo_platform demo_resolver
     (prepared_events @ admitted_events @ integrated_events @ evaluated_events) = Inr evaluated_state"
  using replay_phase [OF reviewed_journal complete_phase] by (simp add: evaluated_events_def)

lemma accepted_journal: "replay_events demo_platform demo_resolver demo_journal = Inr accepted_state"
  using replay_phase [OF evaluated_journal accept_phase] by (simp add: demo_journal_def)

end
