(* ===== verification/Lifecycle_Spec.thy ===== *)
theory Lifecycle_Spec
  imports Delivery_Reducer
begin

text \<open>
  What the reducer promises, without records, digests and relationships: an abstract state
  of activities and current subjects, one rule per way an event may change it, and the
  proof that every event the reducer accepts is one of these steps. The invariants of
  \<open>Lifecycle_Invariants\<close> are proved of the rules alone.
\<close>

section \<open>The abstract state\<close>

record core =
  co_created :: bool
  co_activities :: "activity jsmap"
  co_subjects :: subjects
  co_readiness :: "readiness option"
  co_disposition :: "closure_disposition option"
  co_integrated :: bool
  co_admission :: "reference option"

definition core :: "replay \<Rightarrow> core" where
  "core r = \<lparr>co_created = re_created r, co_activities = re_activities r, co_subjects = re_subjects r,
     co_readiness = re_evidenceReadiness r, co_disposition = re_closureDisposition r,
     co_integrated = re_candidateIntegrated r, co_admission = re_activeAdmission r\<rparr>"

definition acts :: "core \<Rightarrow> activity list" where
  "acts c = map snd (co_activities c)"

definition put_core :: "activity \<Rightarrow> core \<Rightarrow> core" where
  "put_core a c = c\<lparr>co_activities := AList.update (ac_id a) a (co_activities c)\<rparr>"

definition subjects_core :: "(subjects \<Rightarrow> subjects) \<Rightarrow> core \<Rightarrow> core" where
  "subjects_core f c = c\<lparr>co_subjects := f (co_subjects c)\<rparr>"

definition running :: "core \<Rightarrow> activity \<Rightarrow> bool" where
  "running c a \<longleftrightarrow> (\<exists>i. map_of (co_activities c) i = Some a) \<and> ac_stage a \<noteq> Completed"

definition core_standing :: "core \<Rightarrow> standing" where
  "core_standing c =
     (let s = co_subjects c in
      if su_closure s \<noteq> None then Closed
      else if su_materialCondition s \<noteq> None \<and> su_proposedBoundary s \<noteq> None then AwaitingReadmission
      else if su_materialCondition s \<noteq> None then BoundaryPaused
      else if co_readiness c = Some AcceptanceReady then DecisionReady
      else if su_activeBoundary s \<noteq> None then Active
      else if su_proposedBoundary s \<noteq> None then AwaitingAdmission
      else Framing)"

abbreviation at_step :: "stage \<Rightarrow> recovery_step \<Rightarrow> activity \<Rightarrow> activity" where
  "at_step g s a \<equiv> set_stage g (owed s None) a"

definition core_terminal :: "activity \<Rightarrow> bool" where
  "core_terminal a \<longleftrightarrow> ac_attempt a \<noteq> None \<and> ac_providerOutcome a \<noteq> None \<and>
     (ac_workProduct a \<noteq> None \<or> ac_workProductAbandoned a)"

definition boundary_checks :: "core \<Rightarrow> reference option \<Rightarrow> check_fact list" where
  "boundary_checks c boundary = (case boundary of
       None \<Rightarrow> []
     | Some b \<Rightarrow> (case find (\<lambda>a. ac_boundary a = Some b) (acts c) of
          None \<Rightarrow> [] | Some owner \<Rightarrow> phase_checks Baseline owner))"

section \<open>Opening and closing\<close>

definition may_open :: "core \<Rightarrow> operation \<Rightarrow> bool" where
  "may_open c operation \<longleftrightarrow> operation \<noteq> Recover \<and>
     core_standing c \<noteq> Closed \<and>
     core_standing c \<in> set (od_legalStandings (operation_descriptor operation)) \<and>
     candidateSatisfies (od_candidateRequirement (operation_descriptor operation)) (co_subjects c) \<and>
     (\<forall>a \<in> set (acts c). ac_stage a = Completed) \<and>
     (operation = Evaluate \<longrightarrow> co_integrated c) \<and>
     (operation = Prepare \<longrightarrow> (\<forall>a \<in> set (acts c). ac_operation a \<noteq> Prepare)) \<and>
     (operation = NoShip \<and> core_standing c = Framing \<longrightarrow>
        (\<exists>a \<in> set (acts c). ac_operation a = Prepare))"

definition opening_step :: "operation \<Rightarrow> recovery_step" where
  "opening_step operation =
     (if operation = Evaluate then StepCandidateSealed
      else case activity_family (od_activity (operation_descriptor operation)) of
          Some AgentFamily \<Rightarrow> StepAgentAttemptPrepared
        | Some IntegrationFamily \<Rightarrow> StepIntegrationAssessed
        | _ \<Rightarrow> StepDirectorDecisionAuthenticated)"

definition decision_subjects :: "core \<Rightarrow> decision_kind \<Rightarrow> bool" where
  "decision_subjects c d = (let s = co_subjects c in case d of
       DecisionAdmit \<Rightarrow> su_proposedBoundary s \<noteq> None
     | DecisionReadmit \<Rightarrow> su_proposedBoundary s \<noteq> None \<and> su_activeBoundary s \<noteq> None \<and>
         su_materialCondition s \<noteq> None \<and> su_candidate s \<noteq> None
     | DecisionAccept \<Rightarrow> su_activeBoundary s \<noteq> None \<and> su_candidate s \<noteq> None \<and>
         su_seal s \<noteq> None \<and> su_evidence s \<noteq> None
     | DecisionNoShip \<Rightarrow> True)"

definition candidate_step :: "core \<Rightarrow> activity \<Rightarrow> reference \<Rightarrow> bool" where
  "candidate_step c a candidate \<longleftrightarrow> su_activeBoundary (co_subjects c) \<noteq> None \<and>
     (case su_candidate (co_subjects c) of
        None \<Rightarrow> ac_operation a = Admit \<and> ac_decisionKind a = Some DecisionAdmit \<and>
          ac_transactionOutcome a = Some Applied \<and> ref_revision candidate = 1
      | Some p \<Rightarrow> ref_id candidate = ref_id p \<and> ref_revision candidate = ref_revision p + 1 \<and>
          (ac_operation a = Integrate \<and> ac_integrationAssessment a \<noteq> None \<and>
             resumes_at a StepCandidateRevisionObserved \<or>
           ac_operation a = Continue \<and> ac_providerOutcome a \<noteq> None \<and> ac_attempt a \<noteq> None \<or>
           ac_operation a = Admit \<and> ac_decisionKind a = Some DecisionReadmit \<and>
             ac_transactionOutcome a = Some Applied))"

definition completes_agent :: "activity \<Rightarrow> completion_outcome \<Rightarrow> bool" where
  "completes_agent a outcome \<longleftrightarrow>
     (preIntentAbandonment a outcome \<or> core_terminal a \<and> ac_receipt a \<noteq> None) \<and>
     (outcome = OutcomeCompleted \<longrightarrow> ac_workProduct a \<noteq> None \<and>
        (prepares_boundary (ac_operation a) \<and> ac_boundary a \<noteq> None \<and> ac_checks a \<noteq> [] \<and>
           list_all legalBaselineReceipt (ac_checks a) \<or>
         ac_operation a = Continue \<or>
         ac_operation a = Evaluate \<and> ac_evidence a \<noteq> None))"

definition completes_transaction :: "core \<Rightarrow> activity \<Rightarrow> completion_outcome \<Rightarrow> bool" where
  "completes_transaction c a outcome \<longleftrightarrow>
     (ac_operation a = Accept \<or> ac_operation a = NoShip \<longrightarrow> terminalNotAppliedFailure a outcome) \<and>
     (outcome = OutcomeCompleted \<longrightarrow> ac_transactionOutcome a = Some Applied \<and>
        (if ac_operation a = Admit then ac_candidate a \<noteq> None else ac_closure a \<noteq> None)) \<and>
     (outcome \<noteq> OutcomeCompleted \<longrightarrow> ac_transactionOutcome a = Some NotApplied)"

definition completes :: "core \<Rightarrow> activity \<Rightarrow> completion_outcome \<Rightarrow> bool" where
  "completes c a outcome \<longleftrightarrow>
     (deterministicBoundaryRefusal a outcome \<or> finalization_at a StepActivityCompleted \<or>
      ac_operation a = Continue \<and> ac_workProduct a \<noteq> None \<and> finalization_at a StepActivityFinalization) \<and>
     (case ac_family a of
        AgentFamily \<Rightarrow> completes_agent a outcome
      | IntegrationFamily \<Rightarrow> ac_integrationAssessment a \<noteq> None \<and> outcome = OutcomeCompleted
      | TransactionFamily \<Rightarrow> completes_transaction c a outcome)"

definition finished :: "completion_outcome \<Rightarrow> activity \<Rightarrow> activity" where
  "finished outcome a =
     a\<lparr>ac_completionOutcome := Some outcome, ac_stage := Completed, ac_recovery := None\<rparr>"

definition after_completion :: "activity \<Rightarrow> completion_outcome \<Rightarrow> core \<Rightarrow> core" where
  "after_completion a outcome c =
     (if ac_family a = AgentFamily \<and> outcome = OutcomeCompleted \<and> prepares_boundary (ac_operation a)
      then subjects_core (\<lambda>s. s\<lparr>su_proposedBoundary := ac_boundary a\<rparr>) c else c)"

section \<open>Steps\<close>

inductive lifecycle :: "event_kind \<Rightarrow> core \<Rightarrow> core \<Rightarrow> bool" where
  created: "\<not> co_created c \<Longrightarrow> lifecycle DeliveryCreated c (c\<lparr>co_created := True\<rparr>)"
| bookkeeping: "k \<in> {DirectorBriefSubmitted, WorkDelegationSet, WorkDelegationStopped} \<Longrightarrow>
    lifecycle k c c"
| resumed: "running c a \<Longrightarrow> lifecycle ActivityRecoveryRecorded c c"
| opened: "map_of (co_activities c) i = None \<Longrightarrow> may_open c operation \<Longrightarrow>
    activity_family (od_activity (operation_descriptor operation)) = Some family \<Longrightarrow>
    (family = AgentFamily) = (brief \<noteq> None) \<Longrightarrow>
    lifecycle ActivityStarted c (put_core (opened_activity i operation family (core_standing c)
      (owed (opening_step operation) None) brief reservation) c)"
| refused: "running c a \<Longrightarrow> ac_family a = AgentFamily \<Longrightarrow> nothing_attempted a \<Longrightarrow>
    ac_stage a = (if ac_operation a = Evaluate then Finalizing else Started) \<Longrightarrow>
    finalization_at a (if ac_operation a = Evaluate then StepEvaluationChecks
      else StepAgentAttemptPrepared) \<Longrightarrow>
    s = StepActivityCompleted \<or> s = StepActivityFinalization \<and>
      (ac_operation a = Evaluate \<or> ac_operation a = Continue) \<Longrightarrow>
    lifecycle AgentPreIntentRefused c (put_core (at_step Finalizing s (a\<lparr>ac_preIntentRefusal := Some e\<rparr>)) c)"
| prepared: "running c a \<Longrightarrow> ac_family a = AgentFamily \<Longrightarrow> ac_preIntentRefusal a = None \<Longrightarrow>
    ac_attempt a = None \<Longrightarrow> ac_providerEffectDigest a = None \<Longrightarrow>
    ac_operation a \<noteq> Prepare \<longrightarrow> su_activeBoundary (co_subjects c) \<noteq> None \<and>
      su_candidate (co_subjects c) \<noteq> None \<Longrightarrow>
    ac_operation a = Evaluate \<longrightarrow> ac_seal a \<noteq> None \<and> su_seal (co_subjects c) \<noteq> None \<and>
      recovery_is a FinalizationRecovery StepEvaluationChecks \<Longrightarrow>
    lifecycle AgentAttemptPrepared c
      (put_core (at_step Prepared StepProviderEffectIntended (a\<lparr>ac_attempt := Some x\<rparr>)) c)"
| intended: "running c a \<Longrightarrow> ac_family a = AgentFamily \<Longrightarrow> ac_attempt a \<noteq> None \<Longrightarrow>
    ac_providerEffectDigest a = None \<Longrightarrow>
    lifecycle ProviderEffectIntended c (put_core (set_stage EffectIntended
      (owed StepProviderEffectObserved (Some d)) (a\<lparr>ac_providerEffectDigest := Some d\<rparr>)) c)"
| observed: "running c a \<Longrightarrow> ac_family a = AgentFamily \<Longrightarrow> ac_attempt a \<noteq> None \<Longrightarrow>
    ac_providerEffectDigest a = Some d \<Longrightarrow> ac_providerOutcome a = None \<Longrightarrow>
    lifecycle ProviderEffectObserved c (put_core (set_stage EffectObserved
      (owed StepWorkProductObservation (Some d)) (a\<lparr>ac_providerOutcome := Some out\<rparr>)) c)"
| submitted: "running c a \<Longrightarrow> ac_family a = AgentFamily \<Longrightarrow>
    ac_providerOutcome a = Some ProviderCompleted \<Longrightarrow> ac_workProduct a = None \<Longrightarrow>
    \<not> ac_workProductAbandoned a \<Longrightarrow>
    s = (if ac_operation a = Continue then StepCandidateRevisionObserved
      else StepExecutionReceiptRecorded) \<Longrightarrow>
    lifecycle AgentWorkProductSubmitted c
      (put_core (at_step Submitted s (a\<lparr>ac_workProduct := Some x\<rparr>)) c)"
| abandoned: "running c a \<Longrightarrow> ac_family a = AgentFamily \<Longrightarrow> ac_attempt a \<noteq> None \<Longrightarrow>
    ac_providerOutcome a \<noteq> None \<Longrightarrow> ac_workProduct a = None \<Longrightarrow> \<not> ac_workProductAbandoned a \<Longrightarrow>
    s = (if ac_operation a = Continue then StepCandidateRevisionObserved
      else StepExecutionReceiptRecorded) \<Longrightarrow>
    lifecycle AgentWorkProductAbandoned c
      (put_core (at_step Submitted s (a\<lparr>ac_workProductAbandoned := True\<rparr>)) c)"
| receipted: "running c a \<Longrightarrow> ac_family a = AgentFamily \<Longrightarrow> core_terminal a \<Longrightarrow> ac_receipt a = None \<Longrightarrow>
    s = (if ac_workProduct a = None then StepActivityCompleted
       else if prepares_boundary (ac_operation a) then StepWorkBoundaryFinalized
       else StepActivityFinalization) \<Longrightarrow>
    lifecycle ExecutionReceiptRecorded c (put_core (at_step Finalizing s (a\<lparr>ac_receipt := Some x\<rparr>)) c)"
| bounded: "running c a \<Longrightarrow> ac_family a = AgentFamily \<Longrightarrow> core_terminal a \<Longrightarrow> ac_workProduct a \<noteq> None \<Longrightarrow>
    ac_receipt a \<noteq> None \<Longrightarrow> ac_boundary a = None \<Longrightarrow> prepares_boundary (ac_operation a) \<Longrightarrow>
    (if ac_operation a = Prepare then ref_revision x = 1
     else \<exists>b. su_activeBoundary (co_subjects c) = Some b \<and> ref_id x = ref_id b \<and>
       ref_revision x = ref_revision b + 1 \<and> su_materialCondition (co_subjects c) \<noteq> None) \<Longrightarrow>
    lifecycle WorkBoundaryFinalized c
      (put_core (at_step Finalizing StepBaselineChecks (a\<lparr>ac_boundary := Some x\<rparr>)) c)"
| assessed: "running c a \<Longrightarrow> ac_operation a = Integrate \<Longrightarrow> ac_family a = IntegrationFamily \<Longrightarrow>
    ac_stage a = Started \<Longrightarrow> ac_integrationAssessment a = None \<Longrightarrow> resumes_at a StepIntegrationAssessed \<Longrightarrow>
    su_activeBoundary (co_subjects c) \<noteq> None \<Longrightarrow> su_candidate (co_subjects c) \<noteq> None \<Longrightarrow>
    s \<in> {StepCandidateRevisionObserved, StepActivityCompleted} \<Longrightarrow>
    lifecycle IntegrationAssessed c (subjects_core (\<lambda>t. t\<lparr>su_integrationAssessment := Some x\<rparr>)
      (put_core (at_step Finalizing s (a\<lparr>ac_integrationAssessment := Some x\<rparr>)) c))"
| candidate: "running c a \<Longrightarrow> ac_receipt a = None \<Longrightarrow> ac_candidate a = None \<Longrightarrow> candidate_step c a x \<Longrightarrow>
    s = (if ac_operation a = Continue then StepExecutionReceiptRecorded else StepActivityCompleted) \<or>
      ac_operation a = Integrate \<and> s = StepActivityFinalization \<Longrightarrow>
    integrated = (if ac_operation a = Integrate then True
      else if ac_operation a = Admit \<and> ac_decisionKind a = Some DecisionAdmit then False
      else co_integrated c) \<Longrightarrow>
    lifecycle CandidateRevisionObserved c
      (subjects_core (\<lambda>t. t\<lparr>su_candidate := Some x, su_seal := None, su_evidence := None\<rparr>)
        (put_core (at_step Finalizing s (a\<lparr>ac_candidate := Some x\<rparr>))
          (c\<lparr>co_integrated := integrated, co_readiness := None\<rparr>)))"
| frozen: "running c a \<Longrightarrow> su_materialCondition (co_subjects c) = None \<Longrightarrow> ac_materialCondition a = None \<Longrightarrow>
    su_activeBoundary (co_subjects c) \<noteq> None \<Longrightarrow>
    ac_operation a = Integrate \<and> ac_family a = IntegrationFamily \<and> ac_candidate a \<noteq> None \<and>
      ac_integrationAssessment a \<noteq> None \<and> resumes_at a StepActivityFinalization \<and>
      s = StepActivityCompleted \<or>
    (ac_operation a = Evaluate \<and> ac_seal a \<noteq> None \<or> ac_operation a = Continue) \<and>
      ac_family a = AgentFamily \<and> ac_stage a = Finalizing \<and> resumes_at a StepActivityFinalization \<and>
      nothing_attempted a \<and> ac_preIntentRefusal a \<noteq> None \<and>
      su_candidate (co_subjects c) \<noteq> None \<and> s = StepActivityCompleted \<or>
    ac_family a = AgentFamily \<and> core_terminal a \<and> ac_workProduct a \<noteq> None \<and> ac_receipt a \<noteq> None \<and>
      su_candidate (co_subjects c) \<noteq> None \<and>
      (ac_operation a = Evaluate \<and> s = StepActivityFinalization \<or>
       ac_operation a = Continue \<and> s = StepActivityCompleted) \<Longrightarrow>
    lifecycle MaterialConditionFrozen c (subjects_core (\<lambda>t. t\<lparr>su_materialCondition := Some x\<rparr>)
      (put_core (at_step Finalizing s (a\<lparr>ac_materialCondition := Some x\<rparr>)) c))"
| sealed: "running c a \<Longrightarrow> ac_operation a = Evaluate \<Longrightarrow> ac_seal a = None \<Longrightarrow> ac_stage a = Started \<Longrightarrow>
    ac_attempt a = None \<Longrightarrow> ac_checks a = [] \<Longrightarrow> recovery_is a FinalizationRecovery StepCandidateSealed \<Longrightarrow>
    su_activeBoundary (co_subjects c) \<noteq> None \<Longrightarrow> su_candidate (co_subjects c) \<noteq> None \<Longrightarrow>
    lifecycle CandidateSealed c
      (subjects_core (\<lambda>t. t\<lparr>su_seal := Some x, su_evidence := None\<rparr>)
        (put_core (at_step Finalizing StepEvaluationChecks (a\<lparr>ac_seal := Some x\<rparr>))
          (c\<lparr>co_readiness := None\<rparr>)))"
| checked: "running c a \<Longrightarrow> ac_family a = AgentFamily \<Longrightarrow>
    \<not> already_received (ck_phase f) (ck_selectionId f) a \<Longrightarrow>
    ac_operation a = Evaluate \<and> ck_phase f = Final \<and> ac_seal a \<noteq> None \<and> ac_attempt a = None \<and>
      s = StepEvaluationChecks \<or>
    prepares_boundary (ac_operation a) \<and> ck_phase f = Baseline \<and> ac_boundary a \<noteq> None \<and>
      (s = StepActivityCompleted \<or> s = StepBaselineChecks) \<Longrightarrow>
    lifecycle CheckReceiptRecorded c
      (put_core (a\<lparr>ac_checks := ac_checks a @ [f], ac_recovery := Some (owed s None)\<rparr>) c)"
| evidenced: "running c a \<Longrightarrow> ac_operation a = Evaluate \<Longrightarrow> core_terminal a \<Longrightarrow> ac_workProduct a \<noteq> None \<Longrightarrow>
    ac_receipt a \<noteq> None \<Longrightarrow> ac_seal a \<noteq> None \<Longrightarrow> ac_checks a \<noteq> [] \<Longrightarrow> ac_evidence a = None \<Longrightarrow>
    su_activeBoundary (co_subjects c) \<noteq> None \<Longrightarrow> su_candidate (co_subjects c) \<noteq> None \<Longrightarrow>
    rd = AcceptanceReady \<longrightarrow> list_all legalForAcceptance
      (boundary_checks c (su_activeBoundary (co_subjects c)) @ ac_checks a) \<Longrightarrow>
    rd = RevisionRequired \<longrightarrow> su_materialCondition (co_subjects c) \<noteq> None \<Longrightarrow>
    lifecycle EvidencePacketFinalized c (subjects_core (\<lambda>t. t\<lparr>su_evidence := Some x\<rparr>)
      (put_core (at_step Finalizing StepActivityCompleted
          (a\<lparr>ac_evidence := Some x, ac_evidenceReadiness := Some rd\<rparr>))
        (c\<lparr>co_readiness := Some rd\<rparr>)))"
| decided: "running c a \<Longrightarrow> ac_family a = TransactionFamily \<Longrightarrow> ac_decision a = None \<Longrightarrow>
    d = expectedDecision a \<Longrightarrow> decision_subjects c d \<Longrightarrow>
    lifecycle DirectorDecisionAuthenticated c (put_core (a\<lparr>ac_decision := Some x,
      ac_decisionKind := Some d, ac_recovery := Some (owed StepTransactionEffectIntended None)\<rparr>) c)"
| effect_intended: "running c a \<Longrightarrow> ac_family a = TransactionFamily \<Longrightarrow> ac_decision a \<noteq> None \<Longrightarrow>
    ac_transactionEffectDigest a = None \<Longrightarrow>
    lifecycle TransactionEffectIntended c (put_core (set_stage EffectIntended
      (owed StepTransactionEffectObserved (Some d)) (a\<lparr>ac_transactionEffectDigest := Some d\<rparr>)) c)"
| effect_indeterminate: "running c a \<Longrightarrow> ac_family a = TransactionFamily \<Longrightarrow>
    ac_transactionEffectDigest a = Some d \<Longrightarrow> ac_transactionOutcome a = None \<Longrightarrow>
    ac_decision a \<noteq> None \<Longrightarrow> ac_decisionKind a \<noteq> None \<Longrightarrow>
    lifecycle TransactionEffectObserved c (put_core (set_stage EffectIntended
      (owed StepTransactionEffectObserved (Some d)) a) c)"
| effect_refused: "running c a \<Longrightarrow> ac_family a = TransactionFamily \<Longrightarrow>
    ac_transactionEffectDigest a \<noteq> None \<Longrightarrow> ac_transactionOutcome a = None \<Longrightarrow>
    ac_decision a \<noteq> None \<Longrightarrow> ac_decisionKind a \<noteq> None \<Longrightarrow>
    lifecycle TransactionEffectObserved c (put_core (at_step EffectObserved StepActivityCompleted
      (a\<lparr>ac_transactionOutcome := Some NotApplied\<rparr>)) c)"
| effect_terminal: "running c a \<Longrightarrow> ac_family a = TransactionFamily \<Longrightarrow>
    ac_transactionEffectDigest a \<noteq> None \<Longrightarrow> ac_transactionOutcome a = None \<Longrightarrow>
    ac_decision a \<noteq> None \<Longrightarrow> ac_decisionKind a \<noteq> None \<Longrightarrow> ac_operation a \<noteq> Admit \<Longrightarrow>
    lifecycle TransactionEffectObserved c (put_core (at_step EffectObserved StepTransactionFinalization
      (a\<lparr>ac_transactionOutcome := Some Applied\<rparr>)) c)"
| admitted: "running c a \<Longrightarrow> ac_family a = TransactionFamily \<Longrightarrow>
    ac_transactionEffectDigest a \<noteq> None \<Longrightarrow> ac_transactionOutcome a = None \<Longrightarrow>
    ac_decision a = Some d \<Longrightarrow> ac_operation a = Admit \<Longrightarrow> ac_decisionKind a \<noteq> None \<Longrightarrow>
    su_proposedBoundary (co_subjects c) \<noteq> None \<Longrightarrow>
    ac_decisionKind a = Some DecisionReadmit \<longrightarrow> su_candidate (co_subjects c) \<noteq> None \<Longrightarrow>
    lifecycle TransactionEffectObserved c (subjects_core (\<lambda>t. t\<lparr>su_activeBoundary := su_proposedBoundary t,
        su_proposedBoundary := None, su_materialCondition := None, su_seal := None, su_evidence := None\<rparr>)
      ((put_core (at_step EffectObserved StepCandidateRevisionObserved
          (a\<lparr>ac_transactionOutcome := Some Applied\<rparr>)) c)
        \<lparr>co_admission := Some d, co_readiness := None\<rparr>))"
| closed: "running c a \<Longrightarrow> ac_family a = TransactionFamily \<Longrightarrow>
    ac_operation a = Accept \<or> ac_operation a = NoShip \<Longrightarrow> ac_transactionOutcome a = Some Applied \<Longrightarrow>
    su_closure (co_subjects c) = None \<Longrightarrow> ac_closure a = None \<Longrightarrow> ac_decision a \<noteq> None \<Longrightarrow>
    d = expectedDisposition a \<Longrightarrow>
    d = ClosureAccepted \<longrightarrow> su_candidate (co_subjects c) \<noteq> None \<and> su_evidence (co_subjects c) \<noteq> None \<Longrightarrow>
    lifecycle ClosureRecorded c (subjects_core (\<lambda>t. t\<lparr>su_closure := Some x\<rparr>)
      (put_core (finished OutcomeCompleted (a\<lparr>ac_closure := Some x\<rparr>))
        (c\<lparr>co_disposition := Some d\<rparr>)))"
| completed: "running c a \<Longrightarrow> completes c a outcome \<Longrightarrow>
    lifecycle ActivityCompleted c (put_core (finished outcome a) (after_completion a outcome c))"

end
