(* ===== verification/Lifecycle_Refinement.thy ===== *)
theory Lifecycle_Refinement
  imports Lifecycle_Spec
begin

text \<open>
  The reducer implements \<open>Lifecycle_Spec\<close>: one lemma per handler, and \<open>append_refines\<close>
  for an event appended to a replay.
\<close>

lemma core_put [simp]: "core (put_activity a r) = put_core a (core r)"
  by (simp add: core_def put_activity_def put_core_def)

lemma core_update_subjects [simp]: "core (update_subjects f r) = subjects_core f (core r)"
  by (simp add: core_def update_subjects_def subjects_core_def)

lemma core_registered [simp]: "core (registered r k rv) = core r"
  by (simp add: core_def)

lemma core_sel [simp]:
  "co_created (core r) = re_created r" "co_activities (core r) = re_activities r"
  "co_subjects (core r) = re_subjects r" "co_readiness (core r) = re_evidenceReadiness r"
  "co_disposition (core r) = re_closureDisposition r" "co_integrated (core r) = re_candidateIntegrated r"
  "co_admission (core r) = re_activeAdmission r"
  by (simp_all add: core_def)

lemma running_core [simp]: "map_of (re_activities r) i = Some a \<Longrightarrow> ac_stage a \<noteq> Completed \<Longrightarrow> running (core r) a"
  by (auto simp: running_def)

lemma refine_prepare:
  "prepareAttempt P r e = Inr r' \<Longrightarrow> lifecycle AgentAttemptPrepared (core r) (core r')"
  by (auto simp add: prepareAttempt_def assertAttemptSubjects_def res_simps split: if_splits intro!: lifecycle.prepared)

lemma refine_intend:
  "intendProviderEffect P r e = Inr r' \<Longrightarrow> lifecycle ProviderEffectIntended (core r) (core r')"
  by (auto simp add: intendProviderEffect_def res_simps intro!: lifecycle.intended)

lemma refine_observe:
  "observeProviderEffect P r e = Inr r' \<Longrightarrow> lifecycle ProviderEffectObserved (core r) (core r')"
  by (auto simp add: observeProviderEffect_def assertExactActivitySubject_def res_simps intro!: lifecycle.observed split: option.splits)


lemma afterWorkProduct_eq [simp]:
  "afterWorkProduct a = Inr (owed (if ac_operation a = Continue then StepCandidateRevisionObserved
     else StepExecutionReceiptRecorded) None)"
  by (simp add: afterWorkProduct_def)

lemma afterReceipt_eq [simp]:
  "afterReceipt a = Inr (owed (if ac_workProduct a = None then StepActivityCompleted
     else if prepares_boundary (ac_operation a) then StepWorkBoundaryFinalized
     else StepActivityFinalization) None)"
  by (simp add: afterReceipt_def)

lemma openingRecovery_eq:
  "activity_family (od_activity (operation_descriptor operation)) = Some family \<Longrightarrow>
    openingRecovery operation family = Inr (owed (opening_step operation) None)"
  by (cases operation; cases family) (simp_all add: openingRecovery_def opening_step_def operation_entry_def)

lemma afterTransaction_eq [simp]:
  "afterTransaction a out = Inr (owed (if out = NotApplied then StepActivityCompleted
     else if ac_operation a = Admit then StepCandidateRevisionObserved else StepTransactionFinalization) None)"
  by (simp add: afterTransaction_def)

lemma exact_subject_Inr:
  "assertExactActivitySubject P e x = Inr u \<Longrightarrow> \<exists>y. x = Some y"
  by (cases x) (auto simp: assertExactActivitySubject_def)

lemma refine_submit:
  "submitWorkProduct P r e = Inr r' \<Longrightarrow> lifecycle AgentWorkProductSubmitted (core r) (core r')"
  by (auto simp: submitWorkProduct_def res_simps intro!: lifecycle.submitted)

lemma refine_abandon:
  "abandonWorkProduct P r e = Inr r' \<Longrightarrow> lifecycle AgentWorkProductAbandoned (core r) (core r')"
  by (auto simp: abandonWorkProduct_def res_simps dest!: exact_subject_Inr intro!: lifecycle.abandoned)

lemma refine_receipt:
  "recordReceipt P r e = Inr r' \<Longrightarrow> lifecycle ExecutionReceiptRecorded (core r) (core r')"
  by (auto simp: recordReceipt_def core_terminal_def res_simps intro!: lifecycle.receipted)

lemma refine_boundary:
  "finalizeBoundary P r e = Inr r' \<Longrightarrow> lifecycle WorkBoundaryFinalized (core r) (core r')"
  by (auto simp: finalizeBoundary_def core_terminal_def assertInitialBoundary_def
      assertResolvedBoundary_def Let_def res_simps intro!: lifecycle.bounded split: if_splits)

lemma refine_recovery:
  "recordRecovery r e = Inr r' \<Longrightarrow> lifecycle ActivityRecoveryRecorded (core r) (core r')"
  by (auto simp: recordRecovery_def res_simps intro: lifecycle.resumed running_core)

lemma refine_refuse:
  "refuseAgentBeforeIntent r e = Inr r' \<Longrightarrow> lifecycle AgentPreIntentRefused (core r) (core r')"
  by (auto simp: refuseAgentBeforeIntent_def Let_def finalization_at_def res_simps
     intro!: lifecycle.refused split: if_splits)

lemma refine_assess:
  "assessIntegration P r e = Inr r' \<Longrightarrow> lifecycle IntegrationAssessed (core r) (core r')"
  by (auto simp: assessIntegration_def Let_def res_simps intro!: lifecycle.assessed split: if_splits)

lemma core_updates [simp]:
  "core (r\<lparr>re_evidenceReadiness := v\<rparr>) = (core r)\<lparr>co_readiness := v\<rparr>"
  "core (r\<lparr>re_candidateIntegrated := b\<rparr>) = (core r)\<lparr>co_integrated := b\<rparr>"
  "core (r\<lparr>re_activeAdmission := d\<rparr>) = (core r)\<lparr>co_admission := d\<rparr>"
  "core (r\<lparr>re_closureDisposition := x\<rparr>) = (core r)\<lparr>co_disposition := x\<rparr>"
  "core (r\<lparr>re_created := b\<rparr>) = (core r)\<lparr>co_created := b\<rparr>"
  "core (r\<lparr>re_plannedBriefs := pb\<rparr>) = core r" "core (r\<lparr>re_standingBriefs := sb\<rparr>) = core r"
  "core (r\<lparr>re_delegation := dl\<rparr>) = core r" "core (r\<lparr>re_delegatedCharges := ch\<rparr>) = core r"
  "core (r\<lparr>re_lastEvent := le\<rparr>) = core r" "core (r\<lparr>re_eventIds := ids\<rparr>) = core r"
  "core (r\<lparr>re_lastOccurredAt := t\<rparr>) = core r" "core (r\<lparr>re_storeId := i\<rparr>) = core r"
  "core (r\<lparr>re_processId := i\<rparr>) = core r"
  by (simp_all add: core_def)

lemma refine_seal:
  "sealCandidate P r e = Inr r' \<Longrightarrow> lifecycle CandidateSealed (core r) (core r')"
  by (auto simp: sealCandidate_def Let_def res_simps intro!: lifecycle.sealed)

lemma Ex_unit [simp]: "(\<exists>u :: unit. Q u) = Q ()"
  by (metis (full_types) old.unit.exhaust)

lemma refine_check:
  "recordCheckReceipt P r e = Inr r' \<Longrightarrow> lifecycle CheckReceiptRecorded (core r) (core r')"
  by (auto simp: recordCheckReceipt_def assertFinalCheck_def assertBaselineCheck_def afterCheck_def
     Let_def res_simps intro!: lifecycle.checked split: if_splits)

lemma boundary_is:
  "(case ac_boundary a of None \<Rightarrow> False | Some s \<Rightarrow> sameReference s b) \<longleftrightarrow> ac_boundary a = Some b"
  by (auto split: option.splits)

lemma boundary_checks_core: "boundary_checks (core r) b = baselineChecksForBoundary r b"
  unfolding boundary_checks_def baselineChecksForBoundary_def boundary_is acts_def activities_def
  by (cases b) simp_all

lemma evidence_links:
  "assertEvidenceLinks r a rv = Inr u \<Longrightarrow>
    su_activeBoundary (re_subjects r) \<noteq> None \<and> su_candidate (re_subjects r) \<noteq> None"
  by (auto simp: assertEvidenceLinks_def res_simps)

lemma baseline_registered [simp]:
  "baselineChecksForBoundary (registered r k rv) b = baselineChecksForBoundary r b"
  by (simp add: baselineChecksForBoundary_def activities_def cong: option.case_cong)

lemma not_legal: "\<not> list_ex (\<lambda>c. \<not> P c) xs \<longleftrightarrow> list_all P xs"
  by (simp add: list_all_iff list_ex_iff)

lemma refine_evidence:
  "finalizeEvidence P r e = Inr r' \<Longrightarrow> lifecycle EvidencePacketFinalized (core r) (core r')"
  by (auto simp: finalizeEvidence_def core_terminal_def boundary_checks_core not_legal Let_def res_simps
     simp del: list_all_append list_ex_append dest!: evidence_links intro!: lifecycle.evidenced)

lemma refine_intendTransaction:
  "intendTransactionEffect P r e = Inr r' \<Longrightarrow> lifecycle TransactionEffectIntended (core r) (core r')"
  by (auto simp: intendTransactionEffect_def res_simps intro!: lifecycle.effect_intended)

lemma refine_decision:
  "authenticateDecision P r e = Inr r' \<Longrightarrow> lifecycle DirectorDecisionAuthenticated (core r) (core r')"
  by (auto simp: authenticateDecision_def assertDecision_def assertAdmission_def assertAcceptance_def decision_subjects_def
    res_simps intro!: lifecycle.decided split: if_splits decision_kind.splits)

lemma set_stage_sel [simp]:
  "ac_decision (set_stage g ob a) = ac_decision a" "ac_decisionKind (set_stage g ob a) = ac_decisionKind a"
  by (simp_all add: set_stage_def)

lemma put_activity_subjects [simp]: "re_subjects (put_activity a r) = re_subjects r"
  by (simp add: put_activity_def)

lemma refine_settle:
  assumes "settleTransaction r a outcome = Inr r'" and "outcome \<noteq> Indeterminate"
    and "running (core r) a" "ac_family a = TransactionFamily" "ac_transactionEffectDigest a \<noteq> None"
    "ac_transactionOutcome a = None" "ac_decision a \<noteq> None" "ac_decisionKind a \<noteq> None"
  shows "lifecycle TransactionEffectObserved (core r) (core r')"
  using assms
  by (cases outcome) (auto simp: settleTransaction_def activateBoundary_def Let_def res_simps
     intro!: lifecycle.effect_refused lifecycle.effect_terminal lifecycle.admitted split: if_splits)

lemma observation_shape:
  assumes "observeTransactionEffect P r e = Inr r'"
  shows "\<exists>a d outcome. running (core r) a \<and> ac_family a = TransactionFamily \<and>
    ac_transactionEffectDigest a = Some d \<and> ac_transactionOutcome a = None \<and>
    ac_decision a \<noteq> None \<and> ac_decisionKind a \<noteq> None \<and>
    (if outcome = Indeterminate then keepObserving r a d else settleTransaction r a outcome) = Inr r'"
  using assms
  by (clarsimp simp: observeTransactionEffect_def res_simps dest!: exact_subject_Inr)
    (metis option.distinct(1) running_core)

lemma refine_transaction:
  assumes "observeTransactionEffect P r e = Inr r'"
  shows "lifecycle TransactionEffectObserved (core r) (core r')"
proof -
  from observation_shape [OF assms] obtain a d outcome where *: "running (core r) a"
      "ac_family a = TransactionFamily" "ac_transactionEffectDigest a = Some d"
      "ac_transactionOutcome a = None" "ac_decision a \<noteq> None" "ac_decisionKind a \<noteq> None"
    and o: "(if outcome = Indeterminate then keepObserving r a d else settleTransaction r a outcome) = Inr r'"
    by blast
  show ?thesis
  proof (cases "outcome = Indeterminate")
    case True
    with o * show ?thesis by (auto simp: keepObserving_def intro!: lifecycle.effect_indeterminate)
  next
    case False
    with o * show ?thesis by (auto intro: refine_settle)
  qed
qed

lemma finished_eq: "a\<lparr>ac_closure := x, ac_completionOutcome := Some OutcomeCompleted, ac_stage := Completed,
   ac_recovery := None\<rparr> = finished OutcomeCompleted (a\<lparr>ac_closure := x\<rparr>)"
  by (simp add: finished_def)

lemma closure_links:
  "assertClosureLinks r a rv d t = Inr u \<Longrightarrow> ac_decision a \<noteq> None \<and>
    (d = ClosureAccepted \<longrightarrow> su_candidate (re_subjects r) \<noteq> None \<and> su_evidence (re_subjects r) \<noteq> None)"
  by (auto simp: assertClosureLinks_def assertAcceptedCandidate_def res_simps split: if_splits)

lemma refine_closure:
  "recordClosure P r e = Inr r' \<Longrightarrow> lifecycle ClosureRecorded (core r) (core r')"
  by (auto simp: recordClosure_def finished_eq Let_def res_simps dest!: closure_links intro!: lifecycle.closed)

lemma refine_created:
  "deliveryCreated r e = Inr r' \<Longrightarrow> lifecycle DeliveryCreated (core r) (core r')"
  using lifecycle.created [of "core r"] by (auto simp: deliveryCreated_def res_simps core_def)

lemma complete_family:
  assumes "completeFamily P r a outcome = Inr r'"
  shows "core r' = after_completion a outcome (core r) \<and> (case ac_family a of
        AgentFamily \<Rightarrow> completes_agent a outcome
      | IntegrationFamily \<Rightarrow> ac_integrationAssessment a \<noteq> None \<and> outcome = OutcomeCompleted
      | TransactionFamily \<Rightarrow> completes_transaction (core r) a outcome)"
  using assms
  by (cases "ac_family a") (auto simp: completeFamily_def completeAgent_def completeAgentWork_def
    completeIntegration_def completeTransaction_def completes_agent_def completes_transaction_def
    after_completion_def core_terminal_def list_all_iff list_ex_iff prepares_boundary_def res_simps split: if_splits)

lemma direct_continue:
  "directContinueFinalization r a = Inr True \<Longrightarrow>
    ac_operation a = Continue \<and> ac_workProduct a \<noteq> None \<and> finalization_at a StepActivityFinalization"
  by (auto simp: directContinueFinalization_def split: if_splits)

lemma put_finished: "a\<lparr>ac_completionOutcome := Some outcome, ac_stage := Completed, ac_recovery := None\<rparr> = finished outcome a"
  by (simp add: finished_def)

lemma complete_shape:
  assumes "running (core r) a" and b: "directContinueFinalization r a = Inr b"
    and g: "deterministicBoundaryRefusal a outcome \<or> b \<or> finalization_at a StepActivityCompleted"
    and f: "completeFamily P r a outcome = Inr q"
  shows "lifecycle ActivityCompleted (core r) (put_core (finished outcome a) (core q))"
proof -
  from complete_family [OF f] g b have "completes (core r) a outcome"
    by (cases b) (auto simp: completes_def dest: direct_continue)
  with assms complete_family [OF f] lifecycle.completed [of "core r" a outcome] show ?thesis by simp
qed

lemma refine_complete:
  "completeActivity P r e = Inr r' \<Longrightarrow> lifecycle ActivityCompleted (core r) (core r')"
  by (clarsimp simp: completeActivity_def put_finished res_simps) (rule complete_shape, auto)

lemma advances_Some:
  "advances p x v \<Longrightarrow> \<exists>q. p = Some q \<and> ref_id x = ref_id q \<and> ref_revision x = ref_revision q + 1"
  by (auto simp: advances_def split: option.splits)

lemma payload_is_distinct: "payload_is rv n v \<Longrightarrow> payload_is rv n w \<longleftrightarrow> v = w"
  by (auto simp: payload_is_def)

definition variant_result :: "core \<Rightarrow> activity \<Rightarrow> revision \<Rightarrow> bool" where
  "variant_result c a rv \<longleftrightarrow> candidate_step c a (retainedReference rv) \<and>
     (\<forall>b. integrated_after rv b = (if ac_operation a = Integrate then True
       else if ac_operation a = Admit \<and> ac_decisionKind a = Some DecisionAdmit then False else b))"

lemma variant_integration:
  "ac_operation a = Integrate \<Longrightarrow> observeIntegration P r a rv l = Inr u \<Longrightarrow> variant_result (core r) a rv"
  by (auto simp: observeIntegration_def variant_result_def candidate_step_def integrated_after_def
      payload_is_distinct Let_def res_simps dest!: advances_Some)

lemma variant_development:
  "ac_operation a = Continue \<Longrightarrow> observeDevelopment r a rv l = Inr u \<Longrightarrow> variant_result (core r) a rv"
  by (auto simp: observeDevelopment_def variant_result_def candidate_step_def integrated_after_def
      payload_is_distinct Let_def res_simps dest!: advances_Some split: option.splits)

lemma variant_initialization:
  "ac_operation a = Admit \<Longrightarrow> ac_decisionKind a = Some DecisionAdmit \<Longrightarrow>
    observeInitialization r a rv l = Inr u \<Longrightarrow> variant_result (core r) a rv"
  by (auto simp: observeInitialization_def variant_result_def candidate_step_def integrated_after_def
      payload_is_distinct retainedReference_def Let_def res_simps)

lemma variant_rebind:
  "ac_operation a = Admit \<Longrightarrow> ac_decisionKind a = Some DecisionReadmit \<Longrightarrow>
    observeRebind r a rv l = Inr u \<Longrightarrow> variant_result (core r) a rv"
  by (auto simp: observeRebind_def variant_result_def candidate_step_def integrated_after_def
      payload_is_distinct Let_def res_simps dest!: advances_Some split: option.splits)

lemma variant_any:
  "observeVariant P r a rv l = Inr u \<Longrightarrow> variant_result (core r) a rv"
  by (simp add: observeVariant_def variant_integration variant_development variant_initialization
      variant_rebind split: if_splits)

lemma after_candidate:
  "afterCandidate P r a = Inr ob \<Longrightarrow> \<exists>s. ob = owed s None \<and>
    (s = (if ac_operation a = Continue then StepExecutionReceiptRecorded else StepActivityCompleted) \<or>
     ac_operation a = Integrate \<and> s = StepActivityFinalization)"
  by (auto simp: afterCandidate_def res_simps split: if_splits)

lemma candidate_links: "candidateLinks a rv = Inr l \<Longrightarrow> ac_candidate a = None"
  by (auto simp: candidateLinks_def res_simps)

lemma refine_candidate:
  "observeCandidateRevision P r e = Inr r' \<Longrightarrow> lifecycle CandidateRevisionObserved (core r) (core r')"
  by (auto simp: observeCandidateRevision_def variant_result_def Let_def res_simps
     dest!: variant_any after_candidate candidate_links intro!: lifecycle.candidate)

lemma condition_integration:
  "conditionFromIntegration P r a rv d = Inr s \<Longrightarrow> ac_materialCondition a = None \<and>
    su_activeBoundary (re_subjects r) \<noteq> None \<and>
    ac_operation a = Integrate \<and> ac_family a = IntegrationFamily \<and> ac_candidate a \<noteq> None \<and>
      ac_integrationAssessment a \<noteq> None \<and> resumes_at a StepActivityFinalization \<and>
      s = StepActivityCompleted"
  by (auto simp: conditionFromIntegration_def res_simps)

lemma condition_projection:
  "conditionFromProjection P r i a rv t d = Inr s \<Longrightarrow> ac_materialCondition a = None \<and>
    su_activeBoundary (re_subjects r) \<noteq> None \<and>
    (ac_operation a = Evaluate \<and> ac_seal a \<noteq> None \<or> ac_operation a = Continue) \<and>
      ac_family a = AgentFamily \<and> ac_stage a = Finalizing \<and> resumes_at a StepActivityFinalization \<and>
      nothing_attempted a \<and> ac_preIntentRefusal a \<noteq> None \<and>
      su_candidate (re_subjects r) \<noteq> None \<and> s = StepActivityCompleted"
  by (auto simp: conditionFromProjection_def measured_refusal_def Let_def res_simps
      split: if_splits option.splits)

lemma condition_agent:
  "conditionFromAgent r a rv = Inr s \<Longrightarrow> ac_materialCondition a = None \<and>
    su_activeBoundary (re_subjects r) \<noteq> None \<and>
    ac_family a = AgentFamily \<and> core_terminal a \<and> ac_workProduct a \<noteq> None \<and> ac_receipt a \<noteq> None \<and>
      su_candidate (re_subjects r) \<noteq> None \<and>
      (ac_operation a = Evaluate \<and> s = StepActivityFinalization \<or>
       ac_operation a = Continue \<and> s = StepActivityCompleted)"
  by (auto simp: conditionFromAgent_def core_terminal_def res_simps split: if_splits)

lemma refine_frozen:
  assumes "freezeMaterialCondition P r e = Inr r'"
  shows "lifecycle MaterialConditionFrozen (core r) (core r')"
proof -
  from assms obtain k rv src i j a s d q where q: "q = registered r ''material-condition'' rv"
    and m: "su_materialCondition (re_subjects r) = None"
    and a: "map_of (re_activities r) j = Some a" "ac_stage a \<noteq> Completed"
    and s: "(if k = IntegrationSource then conditionFromIntegration P q a rv d
        else if k = ProjectionCompilation then conditionFromProjection P q i a rv src d
        else conditionFromAgent q a rv) = Inr s"
    and ks: "FinalizationRecovery = step_kind s"
    and r': "r' = update_subjects (\<lambda>t. t\<lparr>su_materialCondition := Some (retainedReference rv)\<rparr>)
        (put_activity (set_stage Finalizing (owed s None)
           (a\<lparr>ac_materialCondition := Some (retainedReference rv)\<rparr>)) q)"
    by (clarsimp simp: freezeMaterialCondition_def Let_def res_simps simp del: if_split)
  from s a m show ?thesis
    by (auto simp: r' q dest!: condition_integration condition_projection condition_agent
        intro!: lifecycle.frozen split: if_splits)
qed

lemma standing_core: "currentStanding r = core_standing (core r)"
  by (simp add: currentStanding_def core_standing_def Let_def)

lemma acts_core: "acts (core r) = activities r"
  by (simp add: acts_def activities_def)

lemma state_sel [simp]:
  "st_standing (stateFromReplay r) = core_standing (core r)"
  "st_activities (stateFromReplay r) = map publicActivity (activities r)"
  "st_subjects (stateFromReplay r) = re_subjects r"
  by (simp_all add: stateFromReplay_def standing_core)

lemma public_sel [simp]:
  "da_id (publicActivity a) = ac_id a" "da_operation (publicActivity a) = ac_operation a"
  "da_family (publicActivity a) = ac_family a" "da_stage (publicActivity a) = ac_stage a"
  "da_recovery (publicActivity a) = ac_recovery a"
  by (simp_all add: publicActivity_def)

lemma exclusive_operation:
  "od_concurrency (operation_descriptor operation) = ExactRecovery \<longleftrightarrow> operation = Recover"
  by (cases operation) (simp_all add: operation_entry_def)

lemma unresolved_Nil:
  "unresolvedActivities (stateFromReplay r) = [] \<longleftrightarrow> (\<forall>a \<in> set (activities r). ac_stage a = Completed)"
  by (auto simp: unresolvedActivities_def filter_empty_conv)

lemma eligible_may_open:
  assumes "operation \<in> set (eligibleDeliveryOperations (stateFromReplay r) (re_candidateIntegrated r))"
    and "operation \<noteq> Recover"
  shows "may_open (core r) operation"
proof -
  from assms have e: "operation_eligible (stateFromReplay r) (re_candidateIntegrated r) operation"
    and c: "core_standing (core r) \<noteq> Closed"
    by (auto simp: eligibleDeliveryOperations_def split: if_splits)
  let ?p = "find (\<lambda>a. da_operation a = Prepare) (map publicActivity (activities r))"
  have none: "?p = None \<longleftrightarrow> (\<forall>a \<in> set (activities r). ac_operation a \<noteq> Prepare)"
    by (auto simp: find_None_iff)
  have some: "map_option da_stage ?p = Some Completed \<Longrightarrow> \<exists>a \<in> set (activities r). ac_operation a = Prepare"
    by (auto simp: find_Some_iff)
  from e c assms(2) none some show ?thesis
    by (auto simp: operation_eligible_def may_open_def concurrencyAllows_def exclusive_operation
        unresolved_Nil acts_core Let_def split: if_splits)
qed

lemma core_charged: "core (r\<lparr>re_delegatedCharges := v, re_plannedBriefs := w\<rparr>) = core r"
  by simp

lemma family_agent:
  "activity_family act = Some family \<Longrightarrow> act = AgentActivity \<longleftrightarrow> family = AgentFamily"
  by (cases act) auto

lemma start_shape:
  assumes "map_of (re_activities r) i = None" and "operation \<noteq> Recover"
    and "operation \<in> set (eligibleDeliveryOperations (stateFromReplay r) (re_candidateIntegrated r))"
    and fam: "activity_family (od_activity (operation_descriptor operation)) = Some fam"
    and b: "od_activity (operation_descriptor operation) = AgentActivity \<longleftrightarrow> brief \<noteq> None"
    and ob: "openingRecovery operation fam = Inr ob"
  shows "lifecycle ActivityStarted (core r) (put_core
    (opened_activity i operation fam (core_standing (core r)) ob brief reservation) (core r))"
proof -
  from family_agent [OF fam] b have "(fam = AgentFamily) = (brief \<noteq> None)" by simp
  moreover from ob openingRecovery_eq [OF fam] have "ob = owed (opening_step operation) None" by simp
  ultimately show ?thesis
    using assms eligible_may_open by (auto intro: lifecycle.opened)
qed

lemma refine_start:
  "startActivity P r e = Inr r' \<Longrightarrow> lifecycle ActivityStarted (core r) (core r')"
  by (clarsimp simp: startActivity_def deliveryOperationDescriptor_Inr Let_def res_simps)
    (rule start_shape, auto)

lemma core_bind: "bindDirection rv ds r x = Inr q \<Longrightarrow> core q = core r"
  by (auto simp: bindDirection_def res_simps split: option.splits)

lemma refine_brief:
  "submitDirectorBrief P r e = Inr r' \<Longrightarrow> lifecycle DirectorBriefSubmitted (core r) (core r')"
  by (auto simp: submitDirectorBrief_def submitStandingBrief_def submitPlannedBrief_def res_simps
      intro!: lifecycle.bookkeeping split: if_splits)

lemma refine_set:
  "setWorkDelegation P r e = Inr r' \<Longrightarrow> lifecycle WorkDelegationSet (core r) (core r')"
  by (auto simp: setWorkDelegation_def Let_def res_simps dest!: core_bind intro!: lifecycle.bookkeeping)

lemma refine_stop:
  "stopWorkDelegation P r e = Inr r' \<Longrightarrow> lifecycle WorkDelegationStopped (core r) (core r')"
  by (auto simp: stopWorkDelegation_def Let_def res_simps intro!: lifecycle.bookkeeping)

lemma refine_handle: "handle P kind r e = Inr r' \<Longrightarrow> lifecycle kind (core r) (core r')"
  by (cases kind)
    (simp_all add: refine_created refine_brief refine_set refine_stop refine_start refine_recovery
      refine_refuse refine_prepare refine_intend refine_observe refine_submit refine_abandon
      refine_assess refine_candidate refine_receipt refine_boundary refine_frozen refine_seal
      refine_check refine_evidence refine_decision refine_intendTransaction refine_transaction
      refine_complete refine_closure)

lemma verifyEnvelope_core: "verifyEnvelope P r e n = Inr r' \<Longrightarrow> core r' = core r"
  by (auto simp: verifyEnvelope_def chain_position_def Let_def res_simps split: option.splits)

lemma verifyEnvelope_kind:
  "verifyEnvelope P r e n = Inr r' \<Longrightarrow> \<exists>kind. ev_eventKind e = event_kind_name kind"
  by (auto simp: verifyEnvelope_def res_simps dest!: assertDeliveryEventEnvelope_Inr)

theorem append_refines:
  assumes "append_event P r e = Inr r'"
  shows "\<exists>kind. ev_eventKind e = event_kind_name kind \<and> su_closure (re_subjects r) = None \<and>
    (re_created r \<or> kind = DeliveryCreated) \<and> lifecycle kind (core r) (core r')"
proof -
  from assms obtain q q' where q: "verifyEnvelope P r e (event_count r + 1) = Inr q"
    and q': "applyEvent P q e = Inr q'" and r': "r' = q'\<lparr>re_lastEvent := Some e\<rparr>"
    by (auto simp: append_event_def res_simps)
  from verifyEnvelope_kind [OF q] obtain kind where k: "ev_eventKind e = event_kind_name kind" by blast
  from verifyEnvelope_core [OF q] have c: "core q = core r" .
  then have s: "re_subjects q = re_subjects r" "re_created q = re_created r"
    by (metis core_sel)+
  have n: "event_kind_name kind = ''delivery-created'' \<longleftrightarrow> kind = DeliveryCreated"
    by (metis event_kind_name.simps(1) event_kind_name_inject)
  from q' k s n have "handle P kind q e = Inr q'" "su_closure (re_subjects r) = None"
      "re_created r \<or> kind = DeliveryCreated"
    by (auto simp: applyEvent_def res_simps)
  with refine_handle [of P kind q e q'] k c show ?thesis by (auto simp: r')
qed

end
