(* ===== verification/Lifecycle_Invariants.thy ===== *)
theory Lifecycle_Invariants
  imports Lifecycle_Spec
begin

text \<open>
  Invariants of the abstract lifecycle: the activities, the order in which the fields of
  one activity are set and the obligation each phase leaves, and where every current
  subject comes from.
\<close>

section \<open>One activity\<close>

definition family_of :: "operation \<Rightarrow> family option" where
  "family_of operation = activity_family (od_activity (operation_descriptor operation))"

text \<open>The effect digest an obligation carries is that of the effect it waits for.\<close>

definition carried :: "activity \<Rightarrow> recovery_step \<Rightarrow> string option" where
  "carried a s = (case s of
       StepProviderEffectObserved \<Rightarrow> ac_providerEffectDigest a
     | StepWorkProductObservation \<Rightarrow> ac_providerEffectDigest a
     | StepTransactionEffectObserved \<Rightarrow> ac_transactionEffectDigest a
     | _ \<Rightarrow> None)"

definition shape_ok :: "activity \<Rightarrow> bool" where
  "shape_ok a \<longleftrightarrow> family_of (ac_operation a) = Some (ac_family a) \<and>
     (ac_stage a = Completed) = (ac_recovery a = None) \<and>
     (ac_stage a = Completed) = (ac_completionOutcome a \<noteq> None) \<and>
     (\<forall>ob. ac_recovery a = Some ob \<longrightarrow>
        ob = owed (ro_resumesAt ob) (carried a (ro_resumesAt ob)))"

text \<open>The order in which an agent activity's facts can be retained.\<close>

definition agent_order :: "activity \<Rightarrow> bool" where
  "agent_order a \<longleftrightarrow>
     (ac_attempt a = None \<longrightarrow> ac_providerEffectDigest a = None) \<and>
     (ac_providerEffectDigest a = None \<longrightarrow> ac_providerOutcome a = None) \<and>
     (ac_providerOutcome a = None \<longrightarrow> \<not> ac_workProductAbandoned a) \<and>
     (ac_providerOutcome a \<noteq> Some ProviderCompleted \<longrightarrow> ac_workProduct a = None) \<and>
     (ac_workProductAbandoned a \<longrightarrow> ac_workProduct a = None) \<and>
     (\<not> core_terminal a \<longrightarrow> ac_receipt a = None) \<and>
     (ac_receipt a = None \<longrightarrow> ac_boundary a = None \<and> ac_evidence a = None) \<and>
     (ac_workProduct a = None \<longrightarrow> ac_boundary a = None \<and> ac_evidence a = None) \<and>
     (\<not> prepares_boundary (ac_operation a) \<longrightarrow> ac_boundary a = None) \<and>
     (ac_operation a \<noteq> Evaluate \<longrightarrow> ac_evidence a = None \<and> ac_seal a = None) \<and>
     (ac_seal a = None \<longrightarrow> ac_evidence a = None) \<and>
     (ac_operation a = Evaluate \<and> ac_seal a = None \<longrightarrow> ac_attempt a = None \<and> ac_checks a = []) \<and>
     (ac_checks a = [] \<longrightarrow> ac_evidence a = None) \<and>
     (ac_evidence a = None) = (ac_evidenceReadiness a = None) \<and>
     (ac_preIntentRefusal a \<noteq> None \<longrightarrow> ac_attempt a = None) \<and>
     (ac_family a = AgentFamily \<and> (ac_operation a \<noteq> Continue \<or> ac_providerOutcome a = None) \<longrightarrow>
        ac_candidate a = None) \<and>
     (ac_family a = AgentFamily \<and> ac_receipt a = None \<and> ac_preIntentRefusal a = None \<longrightarrow>
        ac_materialCondition a = None) \<and>
     (ac_family a \<noteq> AgentFamily \<longrightarrow> ac_attempt a = None \<and> ac_preIntentRefusal a = None)"

definition transaction_order :: "activity \<Rightarrow> bool" where
  "transaction_order a \<longleftrightarrow>
     (ac_decision a = None \<longrightarrow> ac_decisionKind a = None) \<and>
     (ac_decision a \<noteq> None \<longrightarrow> ac_decisionKind a = Some (expectedDecision a)) \<and>
     (ac_decision a = None \<longrightarrow> ac_transactionEffectDigest a = None) \<and>
     (ac_transactionEffectDigest a = None \<longrightarrow> ac_transactionOutcome a = None) \<and>
     ac_transactionOutcome a \<noteq> Some Indeterminate \<and>
     (ac_transactionOutcome a \<noteq> Some Applied \<longrightarrow> ac_closure a = None) \<and>
     (ac_stage a \<noteq> Completed \<longrightarrow> ac_closure a = None) \<and>
     (ac_family a \<noteq> TransactionFamily \<longrightarrow> ac_decision a = None) \<and>
     (ac_family a = TransactionFamily \<and>
        (ac_operation a \<noteq> Admit \<or> ac_transactionOutcome a \<noteq> Some Applied) \<longrightarrow> ac_candidate a = None) \<and>
     (ac_operation a \<noteq> Integrate \<longrightarrow> ac_integrationAssessment a = None) \<and>
     (ac_operation a = Integrate \<and> ac_integrationAssessment a = None \<longrightarrow> ac_candidate a = None)"

text \<open>The steps an incomplete activity may resume at, by the facts it retains.\<close>

definition agent_steps :: "activity \<Rightarrow> recovery_step set" where
  "agent_steps a =
     (if ac_attempt a = None then
        (if ac_preIntentRefusal a \<noteq> None then
           {StepActivityCompleted} \<union>
           (if ac_operation a = Evaluate then {StepActivityFinalization, StepEvaluationChecks}
            else if ac_operation a = Continue then {StepActivityFinalization} else {})
         else if ac_operation a \<noteq> Evaluate then {StepAgentAttemptPrepared}
         else if ac_seal a = None then {StepCandidateSealed} else {StepEvaluationChecks})
      else if ac_providerEffectDigest a = None then {StepProviderEffectIntended}
      else if ac_providerOutcome a = None then {StepProviderEffectObserved}
      else if ac_receipt a = None then
        (if ac_operation a = Continue \<and> ac_candidate a \<noteq> None then {StepExecutionReceiptRecorded} else {}) \<union>
        (if \<not> core_terminal a
         then (if ac_candidate a = None then {StepWorkProductObservation} else {})
         else if ac_operation a = Continue then {StepCandidateRevisionObserved}
         else {StepExecutionReceiptRecorded})
      else if ac_workProduct a = None then {StepActivityCompleted}
      else if prepares_boundary (ac_operation a) then
        (if ac_boundary a = None then {StepWorkBoundaryFinalized}
         else {StepBaselineChecks, StepActivityCompleted})
      else if ac_operation a = Continue then
        (if ac_materialCondition a = None then {StepActivityFinalization} else {StepActivityCompleted})
      else if ac_evidence a = None then {StepActivityFinalization}
      else if ac_materialCondition a = None then {StepActivityCompleted}
      else {StepActivityCompleted, StepActivityFinalization})"

definition transaction_steps :: "activity \<Rightarrow> recovery_step set" where
  "transaction_steps a =
     (if ac_decision a = None then {StepDirectorDecisionAuthenticated}
      else if ac_transactionEffectDigest a = None then {StepTransactionEffectIntended}
      else if ac_transactionOutcome a = None then {StepTransactionEffectObserved}
      else if ac_transactionOutcome a = Some NotApplied then {StepActivityCompleted}
      else if ac_operation a \<noteq> Admit then {StepTransactionFinalization}
      else if ac_candidate a = None then {StepCandidateRevisionObserved}
      else {StepActivityCompleted})"

definition integration_steps :: "activity \<Rightarrow> recovery_step set" where
  "integration_steps a =
     (if ac_integrationAssessment a = None then {StepIntegrationAssessed}
      else if ac_candidate a = None then {StepCandidateRevisionObserved, StepActivityCompleted}
      else {StepActivityCompleted, StepActivityFinalization})"

definition phase_steps :: "activity \<Rightarrow> recovery_step set" where
  "phase_steps a = (case ac_family a of
       AgentFamily \<Rightarrow> agent_steps a
     | TransactionFamily \<Rightarrow> transaction_steps a
     | IntegrationFamily \<Rightarrow> integration_steps a)"

definition phase_ok :: "activity \<Rightarrow> bool" where
  "phase_ok a \<longleftrightarrow> (\<forall>ob. ac_recovery a = Some ob \<longrightarrow> ro_resumesAt ob \<in> phase_steps a)"

definition activity_ok :: "activity \<Rightarrow> bool" where
  "activity_ok a \<longleftrightarrow> shape_ok a \<and> agent_order a \<and> transaction_order a \<and> phase_ok a"

section \<open>The activities\<close>

definition acts_wf :: "core \<Rightarrow> bool" where
  "acts_wf c \<longleftrightarrow> jsmap_wf (co_activities c) \<and> (\<forall>(i, a) \<in> set (co_activities c). ac_id a = i)"

definition one_running :: "core \<Rightarrow> bool" where
  "one_running c \<longleftrightarrow> (\<forall>a \<in> set (acts c). \<forall>b \<in> set (acts c).
     ac_stage a \<noteq> Completed \<longrightarrow> ac_stage b \<noteq> Completed \<longrightarrow> a = b)"

lemma acts_put_running:
  assumes "acts_wf c" and "running c a" and "ac_id a' = ac_id a"
  shows "set (acts (put_core a' c)) = insert a' (set (acts c) - {a})"
    and "acts_wf (put_core a' c)"
proof -
  let ?m = "co_activities c"
  have d: "distinct (map fst ?m)" and ids: "\<forall>(i, a) \<in> set ?m. ac_id a = i"
    using assms(1) by (auto simp: acts_wf_def jsmap_wf_def)
  have m: "(ac_id a, a) \<in> set ?m"
    using assms(2) ids by (fastforce simp: running_def dest: map_of_SomeD)
  have v: "set (AList.update (ac_id a') a' ?m) = insert (ac_id a', a') {p \<in> set ?m. fst p \<noteq> ac_id a'}"
    using activity_map.values_put [of ?m _ _ "ac_id a'" a'] d
    by (auto simp: jsmap_wf_def split: if_splits)
  have "snd ` {p \<in> set ?m. fst p \<noteq> ac_id a'} = set (acts c) - {a}"
    using m d ids assms(3)
    by (auto simp: acts_def image_iff) (metis (mono_tags, lifting) case_prodD eq_key_imp_eq_value fst_conv)
  then show "set (acts (put_core a' c)) = insert a' (set (acts c) - {a})"
    by (simp add: acts_def put_core_def v)
  show "acts_wf (put_core a' c)"
    using d ids by (auto simp: acts_wf_def put_core_def jsmap_wf_def distinct_update v)
qed

lemma acts_put_new:
  assumes "acts_wf c" and "map_of (co_activities c) i = None" and "ac_id a = i"
  shows "set (acts (put_core a c)) = insert a (set (acts c))"
    and "acts_wf (put_core a c)"
proof -
  let ?m = "co_activities c"
  have d: "distinct (map fst ?m)" and ids: "\<forall>(i, a) \<in> set ?m. ac_id a = i"
    using assms(1) by (auto simp: acts_wf_def jsmap_wf_def)
  have n: "i \<notin> fst ` set ?m" using assms(2) by (simp add: map_of_eq_None_iff)
  have v: "set (AList.update (ac_id a) a ?m) = insert (ac_id a, a) (set ?m)"
    using activity_map.values_put [of ?m _ _ "ac_id a" a] d n assms(3)
    by (auto simp: jsmap_wf_def rev_image_eqI split: if_splits)
  then show "set (acts (put_core a c)) = insert a (set (acts c))"
    by (simp add: acts_def put_core_def)
  show "acts_wf (put_core a c)"
    using d ids by (auto simp: acts_wf_def put_core_def jsmap_wf_def distinct_update v)
qed

lemma running_member: "running c a \<Longrightarrow> a \<in> set (acts c)"
  by (auto simp: running_def acts_def dest: map_of_SomeD) (metis map_of_SomeD snd_conv image_eqI)

lemma acts_frame [simp]:
  "acts (subjects_core f c) = acts c" "acts (c\<lparr>co_readiness := x\<rparr>) = acts c"
  "acts (c\<lparr>co_created := b\<rparr>) = acts c" "acts (c\<lparr>co_integrated := b\<rparr>) = acts c"
  "acts (c\<lparr>co_disposition := y\<rparr>) = acts c" "acts (c\<lparr>co_admission := z\<rparr>) = acts c"
  by (simp_all add: acts_def subjects_core_def)

lemma put_frame [simp]:
  "put_core a (c\<lparr>co_readiness := x\<rparr>) = (put_core a c)\<lparr>co_readiness := x\<rparr>"
  "put_core a (c\<lparr>co_integrated := b\<rparr>) = (put_core a c)\<lparr>co_integrated := b\<rparr>"
  "put_core a (c\<lparr>co_disposition := y\<rparr>) = (put_core a c)\<lparr>co_disposition := y\<rparr>"
  "put_core a (subjects_core f c) = subjects_core f (put_core a c)"
  by (simp_all add: put_core_def subjects_core_def)

section \<open>Every step keeps each activity in order\<close>

lemma upd_sel [simp]:
  "ac_id (set_stage g ob a) = ac_id a" "ac_id (finished out a) = ac_id a"
  "ac_id (opened_activity i op fam st ob br res) = i"
  by (simp_all add: set_stage_def finished_def opened_activity_def)

lemmas phase_defs = phase_steps_def agent_steps_def transaction_steps_def integration_steps_def core_terminal_def

lemma core_terminal_frame [simp]:
  "core_terminal (a\<lparr>ac_stage := g\<rparr>) = core_terminal a"
  "core_terminal (a\<lparr>ac_recovery := ob\<rparr>) = core_terminal a"
  "core_terminal (a\<lparr>ac_receipt := v\<rparr>) = core_terminal a"
  "core_terminal (a\<lparr>ac_boundary := v\<rparr>) = core_terminal a"
  by (simp_all add: core_terminal_def)

lemma steps_frame:
  "agent_steps (a\<lparr>ac_stage := g\<rparr>) = agent_steps a"
  "transaction_steps (a\<lparr>ac_stage := g\<rparr>) = transaction_steps a"
  "integration_steps (a\<lparr>ac_stage := g\<rparr>) = integration_steps a"
  "agent_steps (a\<lparr>ac_recovery := ob\<rparr>) = agent_steps a"
  "transaction_steps (a\<lparr>ac_recovery := ob\<rparr>) = transaction_steps a"
  "integration_steps (a\<lparr>ac_recovery := ob\<rparr>) = integration_steps a"
  by (simp_all add: agent_steps_def transaction_steps_def integration_steps_def cong: if_cong)

lemma phase_steps_frame [simp]:
  "phase_steps (a\<lparr>ac_stage := g\<rparr>) = phase_steps a"
  "phase_steps (a\<lparr>ac_recovery := ob\<rparr>) = phase_steps a"
  by (simp_all add: phase_steps_def steps_frame split: family.splits)

lemma agent_order_frame [simp]:
  "agent_order (a\<lparr>ac_stage := g\<rparr>) = agent_order a"
  "agent_order (a\<lparr>ac_recovery := ob\<rparr>) = agent_order a"
  by (simp_all add: agent_order_def)

lemma transaction_order_frame [simp]:
  "transaction_order (a\<lparr>ac_recovery := ob\<rparr>) = transaction_order a"
  by (simp add: transaction_order_def expectedDecision_def)

lemma carried_frame [simp]: "carried (a\<lparr>ac_stage := g\<rparr>) s = carried a s"
   "carried (a\<lparr>ac_recovery := ob\<rparr>) s = carried a s"
  by (simp_all add: carried_def cong: recovery_step.case_cong)

lemma owed_sel [simp]:
  "ro_resumesAt (owed s d) = s" "ro_kind (owed s d) = step_kind s" "ro_exactEffectDigest (owed s d) = d"
  by (simp_all add: owed_def)

lemma owed_inject [simp]: "owed s d = owed s' d' \<longleftrightarrow> s = s' \<and> d = d'"
  by (auto simp: owed_def)

lemma at_step_ok:
  "activity_ok (set_stage g (owed s d) a) \<longleftrightarrow>
    family_of (ac_operation a) = Some (ac_family a) \<and> g \<noteq> Completed \<and> ac_completionOutcome a = None \<and>
    d = carried a s \<and> agent_order a \<and> s \<in> phase_steps a \<and> transaction_order (a\<lparr>ac_stage := g\<rparr>)"
  by (auto simp: activity_ok_def shape_ok_def phase_ok_def set_stage_def)

lemma recovery_update_ok:
  "activity_ok (a\<lparr>ac_recovery := Some (owed s d)\<rparr>) \<longleftrightarrow>
    family_of (ac_operation a) = Some (ac_family a) \<and> ac_stage a \<noteq> Completed \<and> ac_completionOutcome a = None \<and>
    d = carried a s \<and> agent_order a \<and> s \<in> phase_steps a \<and> transaction_order a"
  by (auto simp: activity_ok_def shape_ok_def phase_ok_def)

lemma finished_ok:
  "activity_ok (finished out a) \<longleftrightarrow>
    family_of (ac_operation a) = Some (ac_family a) \<and> agent_order (a\<lparr>ac_completionOutcome := Some out\<rparr>) \<and>
      transaction_order (a\<lparr>ac_completionOutcome := Some out, ac_stage := Completed\<rparr>)"
  by (auto simp: activity_ok_def shape_ok_def phase_ok_def finished_def)

lemma running_ok:
  "activity_ok a \<Longrightarrow> ac_stage a \<noteq> Completed \<Longrightarrow>
   family_of (ac_operation a) = Some (ac_family a) \<and> ac_completionOutcome a = None \<and>
   agent_order a \<and> transaction_order a \<and> ac_closure a = None"
  by (auto simp: activity_ok_def shape_ok_def transaction_order_def)

lemma running_phase:
  "activity_ok a \<Longrightarrow> ac_stage a \<noteq> Completed \<Longrightarrow>
   \<exists>s. ac_recovery a = Some (owed s (carried a s)) \<and> s \<in> phase_steps a"
  by (auto simp: activity_ok_def shape_ok_def phase_ok_def)

lemma family_of_simps [simp]:
  "family_of Prepare = Some AgentFamily" "family_of Continue = Some AgentFamily"
  "family_of Evaluate = Some AgentFamily" "family_of Revise = Some AgentFamily"
  "family_of Reaffirm = Some AgentFamily" "family_of Integrate = Some IntegrationFamily"
  "family_of Admit = Some TransactionFamily" "family_of Accept = Some TransactionFamily"
  "family_of NoShip = Some TransactionFamily" "family_of Recover = None"
  by (simp_all add: family_of_def operation_entry_def)

lemma family_of_agent:
  "family_of op = Some AgentFamily \<longleftrightarrow> prepares_boundary op \<or> op = Continue \<or> op = Evaluate"
  by (cases op) (simp_all add: prepares_boundary_def)

lemma prepares_boundary_simps [simp]:
  "prepares_boundary Continue = False" "prepares_boundary Evaluate = False" "prepares_boundary Integrate = False"
  "prepares_boundary Admit = False" "prepares_boundary Accept = False" "prepares_boundary NoShip = False"
  by (simp_all add: prepares_boundary_def)

lemmas ok_simps = at_step_ok recovery_update_ok finished_ok agent_order_def transaction_order_def phase_defs
  expectedDecision_def carried_def

lemma ok_prepared:
  "activity_ok a \<Longrightarrow> ac_stage a \<noteq> Completed \<Longrightarrow> ac_family a = AgentFamily \<Longrightarrow> ac_preIntentRefusal a = None \<Longrightarrow>
    ac_attempt a = None \<Longrightarrow> ac_providerEffectDigest a = None \<Longrightarrow>
    ac_operation a = Evaluate \<longrightarrow> ac_seal a \<noteq> None \<Longrightarrow>
    activity_ok (at_step Prepared StepProviderEffectIntended (a\<lparr>ac_attempt := Some x\<rparr>))"
  by (drule (1) running_ok) (clarsimp simp: ok_simps)

lemma ok_intended:
  "activity_ok a \<Longrightarrow> ac_stage a \<noteq> Completed \<Longrightarrow> ac_family a = AgentFamily \<Longrightarrow> ac_attempt a \<noteq> None \<Longrightarrow> ac_providerEffectDigest a = None \<Longrightarrow>
    activity_ok (set_stage EffectIntended
      (owed StepProviderEffectObserved (Some d)) (a\<lparr>ac_providerEffectDigest := Some d\<rparr>))"
  by (drule (1) running_ok) (clarsimp simp: ok_simps)

lemma ok_observed:
  "activity_ok a \<Longrightarrow> ac_stage a \<noteq> Completed \<Longrightarrow> ac_family a = AgentFamily \<Longrightarrow> ac_attempt a \<noteq> None \<Longrightarrow>
    ac_providerEffectDigest a = Some d \<Longrightarrow> ac_providerOutcome a = None \<Longrightarrow>
    activity_ok (set_stage EffectObserved
      (owed StepWorkProductObservation (Some d)) (a\<lparr>ac_providerOutcome := Some out\<rparr>))"
  by (drule (1) running_ok) (clarsimp simp: ok_simps)

lemma ok_refused:
  "activity_ok a \<Longrightarrow> ac_stage a \<noteq> Completed \<Longrightarrow> ac_family a = AgentFamily \<Longrightarrow> nothing_attempted a \<Longrightarrow>
    s = StepActivityCompleted \<or> s = StepActivityFinalization \<and>
      (ac_operation a = Evaluate \<or> ac_operation a = Continue) \<Longrightarrow>
    activity_ok (at_step Finalizing s (a\<lparr>ac_preIntentRefusal := Some e\<rparr>))"
  by (drule (1) running_ok) (elim disjE conjE; clarsimp simp: ok_simps nothing_attempted_def)

lemma ok_submitted:
  "activity_ok a \<Longrightarrow> ac_stage a \<noteq> Completed \<Longrightarrow> ac_family a = AgentFamily \<Longrightarrow> ac_providerOutcome a = Some ProviderCompleted \<Longrightarrow>
    ac_workProduct a = None \<Longrightarrow> \<not> ac_workProductAbandoned a \<Longrightarrow>
    s = (if ac_operation a = Continue then StepCandidateRevisionObserved
      else StepExecutionReceiptRecorded) \<Longrightarrow>
    activity_ok (at_step Submitted s (a\<lparr>ac_workProduct := Some x\<rparr>))"
  by (drule (1) running_ok) (clarsimp simp: ok_simps)

lemma ok_abandoned:
  "activity_ok a \<Longrightarrow> ac_stage a \<noteq> Completed \<Longrightarrow> ac_family a = AgentFamily \<Longrightarrow> ac_attempt a \<noteq> None \<Longrightarrow>
    ac_providerOutcome a \<noteq> None \<Longrightarrow> ac_workProduct a = None \<Longrightarrow> \<not> ac_workProductAbandoned a \<Longrightarrow>
    s = (if ac_operation a = Continue then StepCandidateRevisionObserved
      else StepExecutionReceiptRecorded) \<Longrightarrow>
    activity_ok (at_step Submitted s (a\<lparr>ac_workProductAbandoned := True\<rparr>))"
  by (drule (1) running_ok) (clarsimp simp: ok_simps)

lemma ok_receipted:
  "activity_ok a \<Longrightarrow> ac_stage a \<noteq> Completed \<Longrightarrow> ac_family a = AgentFamily \<Longrightarrow> core_terminal a \<Longrightarrow> ac_receipt a = None \<Longrightarrow>
    s = (if ac_workProduct a = None then StepActivityCompleted
       else if prepares_boundary (ac_operation a) then StepWorkBoundaryFinalized
       else StepActivityFinalization) \<Longrightarrow>
    activity_ok (at_step Finalizing s (a\<lparr>ac_receipt := Some x\<rparr>))"
  by (drule (1) running_ok) (clarsimp simp: ok_simps family_of_agent)

lemma prepares_not: "prepares_boundary op \<Longrightarrow> op \<noteq> Evaluate \<and> op \<noteq> Continue"
  by (auto simp: prepares_boundary_def)

lemma ok_bounded:
  "activity_ok a \<Longrightarrow> ac_stage a \<noteq> Completed \<Longrightarrow> ac_family a = AgentFamily \<Longrightarrow> core_terminal a \<Longrightarrow> ac_workProduct a \<noteq> None \<Longrightarrow>
    ac_receipt a \<noteq> None \<Longrightarrow> ac_boundary a = None \<Longrightarrow> prepares_boundary (ac_operation a) \<Longrightarrow>
    activity_ok (at_step Finalizing StepBaselineChecks (a\<lparr>ac_boundary := Some x\<rparr>))"
  by (drule (1) running_ok, frule prepares_not) (clarsimp simp: ok_simps)

lemma ok_assessed:
  "activity_ok a \<Longrightarrow> ac_stage a \<noteq> Completed \<Longrightarrow> ac_operation a = Integrate \<Longrightarrow> ac_family a = IntegrationFamily \<Longrightarrow>
    ac_integrationAssessment a = None \<Longrightarrow>
    s = StepCandidateRevisionObserved \<or> s = StepActivityCompleted \<Longrightarrow>
    activity_ok (at_step Finalizing s (a\<lparr>ac_integrationAssessment := Some x\<rparr>))"
  by (drule (1) running_ok) (elim disjE; clarsimp simp: ok_simps)

lemma ok_sealed:
  "activity_ok a \<Longrightarrow> ac_stage a \<noteq> Completed \<Longrightarrow> ac_operation a = Evaluate \<Longrightarrow> ac_seal a = None \<Longrightarrow> ac_attempt a = None \<Longrightarrow>
    activity_ok (at_step Finalizing StepEvaluationChecks (a\<lparr>ac_seal := Some x\<rparr>))"
  by (drule (1) running_ok) (clarsimp simp: ok_simps)

lemma ok_evidenced:
  "activity_ok a \<Longrightarrow> ac_stage a \<noteq> Completed \<Longrightarrow> ac_operation a = Evaluate \<Longrightarrow> core_terminal a \<Longrightarrow> ac_workProduct a \<noteq> None \<Longrightarrow>
    ac_receipt a \<noteq> None \<Longrightarrow> ac_seal a \<noteq> None \<Longrightarrow> ac_checks a \<noteq> [] \<Longrightarrow>
    activity_ok (at_step Finalizing StepActivityCompleted
          (a\<lparr>ac_evidence := Some x, ac_evidenceReadiness := Some rd\<rparr>))"
  by (drule (1) running_ok) (clarsimp simp: ok_simps)

lemma ok_decided:
  "activity_ok a \<Longrightarrow> ac_stage a \<noteq> Completed \<Longrightarrow> ac_family a = TransactionFamily \<Longrightarrow> ac_decision a = None \<Longrightarrow>
    activity_ok (a\<lparr>ac_decision := Some x,
      ac_decisionKind := Some (expectedDecision a), ac_recovery := Some (owed StepTransactionEffectIntended None)\<rparr>)"
  by (drule (1) running_ok) (clarsimp simp: ok_simps)

lemma ok_effect_intended:
  "activity_ok a \<Longrightarrow> ac_stage a \<noteq> Completed \<Longrightarrow> ac_family a = TransactionFamily \<Longrightarrow> ac_decision a \<noteq> None \<Longrightarrow>
    ac_transactionEffectDigest a = None \<Longrightarrow>
    activity_ok (set_stage EffectIntended
      (owed StepTransactionEffectObserved (Some d)) (a\<lparr>ac_transactionEffectDigest := Some d\<rparr>))"
  by (drule (1) running_ok) (clarsimp simp: ok_simps)

lemma ok_effect_indeterminate:
  "activity_ok a \<Longrightarrow> ac_stage a \<noteq> Completed \<Longrightarrow> ac_family a = TransactionFamily \<Longrightarrow> ac_transactionEffectDigest a = Some d \<Longrightarrow>
    ac_transactionOutcome a = None \<Longrightarrow>
    activity_ok (set_stage EffectIntended (owed StepTransactionEffectObserved (Some d)) a)"
  by (drule (1) running_ok) (clarsimp simp: ok_simps)

lemma ok_effect_refused:
  "activity_ok a \<Longrightarrow> ac_stage a \<noteq> Completed \<Longrightarrow> ac_family a = TransactionFamily \<Longrightarrow> ac_transactionEffectDigest a \<noteq> None \<Longrightarrow>
    ac_transactionOutcome a = None \<Longrightarrow>
    activity_ok (at_step EffectObserved StepActivityCompleted (a\<lparr>ac_transactionOutcome := Some NotApplied\<rparr>))"
  by (drule (1) running_ok) (clarsimp simp: ok_simps)

lemma ok_effect_terminal:
  "activity_ok a \<Longrightarrow> ac_stage a \<noteq> Completed \<Longrightarrow> ac_family a = TransactionFamily \<Longrightarrow> ac_transactionEffectDigest a \<noteq> None \<Longrightarrow>
    ac_transactionOutcome a = None \<Longrightarrow> ac_operation a \<noteq> Admit \<Longrightarrow>
    activity_ok (at_step EffectObserved StepTransactionFinalization
      (a\<lparr>ac_transactionOutcome := Some Applied\<rparr>))"
  by (drule (1) running_ok) (clarsimp simp: ok_simps)

lemma ok_admitted:
  "activity_ok a \<Longrightarrow> ac_stage a \<noteq> Completed \<Longrightarrow> ac_family a = TransactionFamily \<Longrightarrow> ac_transactionEffectDigest a \<noteq> None \<Longrightarrow>
    ac_transactionOutcome a = None \<Longrightarrow> ac_operation a = Admit \<Longrightarrow>
    activity_ok (at_step EffectObserved StepCandidateRevisionObserved
      (a\<lparr>ac_transactionOutcome := Some Applied\<rparr>))"
  by (drule (1) running_ok) (clarsimp simp: ok_simps)

lemma ok_closed:
  "activity_ok a \<Longrightarrow> ac_stage a \<noteq> Completed \<Longrightarrow> ac_family a = TransactionFamily \<Longrightarrow> ac_transactionOutcome a = Some Applied \<Longrightarrow>
    activity_ok (finished OutcomeCompleted (a\<lparr>ac_closure := Some x\<rparr>))"
  by (drule (1) running_ok) (clarsimp simp: ok_simps)

lemma ok_completed:
  "activity_ok a \<Longrightarrow> ac_stage a \<noteq> Completed \<Longrightarrow> True \<Longrightarrow>
    activity_ok (finished outcome a)"
  by (drule (1) running_ok) (clarsimp simp: ok_simps)

lemma ok_checked:
  assumes "activity_ok a" and "ac_stage a \<noteq> Completed" and "ac_family a = AgentFamily"
    and "ac_operation a = Evaluate \<and> ck_phase f = Final \<and> ac_seal a \<noteq> None \<and> ac_attempt a = None \<and>
      s = StepEvaluationChecks \<or>
    prepares_boundary (ac_operation a) \<and> ck_phase f = Baseline \<and> ac_boundary a \<noteq> None \<and>
      (s = StepActivityCompleted \<or> s = StepBaselineChecks)"
  shows "activity_ok (a\<lparr>ac_checks := ac_checks a @ [f], ac_recovery := Some (owed s None)\<rparr>)"
  using assms(4)
proof
  assume "ac_operation a = Evaluate \<and> ck_phase f = Final \<and> ac_seal a \<noteq> None \<and> ac_attempt a = None \<and>
      s = StepEvaluationChecks"
  with running_ok [OF assms(1,2)] assms(2,3) show ?thesis by (clarsimp simp: ok_simps)
next
  assume "prepares_boundary (ac_operation a) \<and> ck_phase f = Baseline \<and> ac_boundary a \<noteq> None \<and>
      (s = StepActivityCompleted \<or> s = StepBaselineChecks)"
  with running_ok [OF assms(1,2)] assms(2,3) prepares_not [of "ac_operation a"] show ?thesis
    by (elim conjE disjE; clarsimp simp: ok_simps)
qed

lemma ok_candidate:
  assumes "activity_ok a" and "ac_stage a \<noteq> Completed"
    and "ac_receipt a = None" and "ac_candidate a = None" and "candidate_step c a x"
    and s: "s = (if ac_operation a = Continue then StepExecutionReceiptRecorded else StepActivityCompleted) \<or>
      ac_operation a = Integrate \<and> s = StepActivityFinalization"
  shows "activity_ok (at_step Finalizing s (a\<lparr>ac_candidate := Some x\<rparr>))"
proof -
  from assms(5) consider
      (admit) "ac_operation a = Admit" "ac_transactionOutcome a = Some Applied"
    | (integrate) "ac_operation a = Integrate" "ac_integrationAssessment a \<noteq> None"
    | (continue) "ac_operation a = Continue" "ac_providerOutcome a \<noteq> None" "ac_attempt a \<noteq> None"
    by (auto simp: candidate_step_def split: option.splits)
  then show ?thesis
  proof cases
    case admit
    with s running_ok [OF assms(1,2)] assms(2-4) show ?thesis by (clarsimp simp: ok_simps)
  next
    case integrate
    with s running_ok [OF assms(1,2)] assms(2-4) show ?thesis
      by (elim disjE conjE; clarsimp simp: ok_simps)
  next
    case continue
    with s running_ok [OF assms(1,2)] assms(2-4) show ?thesis by (clarsimp simp: ok_simps)
  qed
qed

lemma ok_frozen:
  assumes "activity_ok a" and "ac_stage a \<noteq> Completed" and "ac_materialCondition a = None"
    and s: "ac_operation a = Integrate \<and> ac_family a = IntegrationFamily \<and> ac_candidate a \<noteq> None \<and>
      ac_integrationAssessment a \<noteq> None \<and> resumes_at a StepActivityFinalization \<and>
      s = StepActivityCompleted \<or>
    (ac_operation a = Evaluate \<and> ac_seal a \<noteq> None \<or> ac_operation a = Continue) \<and>
      ac_family a = AgentFamily \<and> ac_stage a = Finalizing \<and> resumes_at a StepActivityFinalization \<and>
      nothing_attempted a \<and> ac_preIntentRefusal a \<noteq> None \<and> cc \<and> s = StepActivityCompleted \<or>
    ac_family a = AgentFamily \<and> core_terminal a \<and> ac_workProduct a \<noteq> None \<and> ac_receipt a \<noteq> None \<and> cc \<and>
      (ac_operation a = Evaluate \<and> s = StepActivityFinalization \<or>
       ac_operation a = Continue \<and> s = StepActivityCompleted)"
  shows "activity_ok (at_step Finalizing s (a\<lparr>ac_materialCondition := Some x\<rparr>))"
  using s
proof (elim disjE)
  assume "ac_operation a = Integrate \<and> ac_family a = IntegrationFamily \<and> ac_candidate a \<noteq> None \<and>
      ac_integrationAssessment a \<noteq> None \<and> resumes_at a StepActivityFinalization \<and>
      s = StepActivityCompleted"
  with running_ok [OF assms(1,2)] assms(2,3) show ?thesis by (clarsimp simp: ok_simps)
next
  assume "(ac_operation a = Evaluate \<and> ac_seal a \<noteq> None \<or> ac_operation a = Continue) \<and>
      ac_family a = AgentFamily \<and> ac_stage a = Finalizing \<and> resumes_at a StepActivityFinalization \<and>
      nothing_attempted a \<and> ac_preIntentRefusal a \<noteq> None \<and> cc \<and> s = StepActivityCompleted"
  with running_ok [OF assms(1,2)] assms(2,3) show ?thesis
    by (clarsimp simp: ok_simps nothing_attempted_def)
next
  assume "ac_family a = AgentFamily \<and> core_terminal a \<and> ac_workProduct a \<noteq> None \<and> ac_receipt a \<noteq> None \<and> cc \<and>
      (ac_operation a = Evaluate \<and> s = StepActivityFinalization \<or>
       ac_operation a = Continue \<and> s = StepActivityCompleted)"
  with running_ok [OF assms(1,2)] assms(2,3) show ?thesis
    by (elim conjE disjE; clarsimp simp: ok_simps)
qed

lemma ok_opened:
  assumes "activity_family (od_activity (operation_descriptor operation)) = Some family"
    and "(family = AgentFamily) = (brief \<noteq> None)"
  shows "activity_ok (opened_activity i operation family st (owed (opening_step operation) None) brief res)"
  using assms
  by (cases operation)
    (simp_all add: activity_ok_def shape_ok_def phase_ok_def phase_defs carried_def opened_activity_def
      agent_order_def transaction_order_def opening_step_def operation_entry_def split: family.splits)

lemma running_all: "running c a \<Longrightarrow> \<forall>b \<in> set (acts c). Q b \<Longrightarrow> Q a \<and> ac_stage a \<noteq> Completed"
  using running_member by (auto simp: running_def)

lemma running_frame [simp]:
  "running (subjects_core f c) a = running c a" "running (after_completion b out c) a = running c a"
  by (simp_all add: running_def subjects_core_def after_completion_def)

lemma acts_after_completion [simp]: "acts (after_completion a out c) = acts c"
  by (simp add: after_completion_def)

section \<open>What a step does to the activities\<close>

text \<open>What an activity has retained, it retains: each fact is set at most once.\<close>

definition kept :: "'a option \<Rightarrow> 'a option \<Rightarrow> bool" where
  "kept x y \<longleftrightarrow> x = None \<or> y = x"

definition retains :: "activity \<Rightarrow> activity \<Rightarrow> bool" where
  "retains a b \<longleftrightarrow> ac_id b = ac_id a \<and> ac_operation b = ac_operation a \<and> ac_family b = ac_family a \<and>
     ac_originStanding b = ac_originStanding a \<and> ac_brief b = ac_brief a \<and>
     ac_reservation b = ac_reservation a \<and> kept (ac_attempt a) (ac_attempt b) \<and>
     kept (ac_providerEffectDigest a) (ac_providerEffectDigest b) \<and>
     kept (ac_providerOutcome a) (ac_providerOutcome b) \<and> kept (ac_workProduct a) (ac_workProduct b) \<and>
     (ac_workProductAbandoned a \<longrightarrow> ac_workProductAbandoned b) \<and>
     kept (ac_candidate a) (ac_candidate b) \<and>
     kept (ac_integrationAssessment a) (ac_integrationAssessment b) \<and> kept (ac_receipt a) (ac_receipt b) \<and>
     kept (ac_boundary a) (ac_boundary b) \<and> kept (ac_materialCondition a) (ac_materialCondition b) \<and>
     kept (ac_seal a) (ac_seal b) \<and> (\<exists>fs. ac_checks b = ac_checks a @ fs) \<and>
     (ac_evidence a \<noteq> None \<longrightarrow> ac_checks b = ac_checks a) \<and> kept (ac_evidence a) (ac_evidence b) \<and>
     kept (ac_evidenceReadiness a) (ac_evidenceReadiness b) \<and> kept (ac_decision a) (ac_decision b) \<and>
     kept (ac_decisionKind a) (ac_decisionKind b) \<and>
     kept (ac_transactionEffectDigest a) (ac_transactionEffectDigest b) \<and>
     kept (ac_transactionOutcome a) (ac_transactionOutcome b) \<and> kept (ac_closure a) (ac_closure b) \<and>
     kept (ac_completionOutcome a) (ac_completionOutcome b) \<and>
     (ac_stage a = Completed \<longrightarrow> b = a)"

lemma kept_simps [simp]: "kept x x" "kept None y"
  by (simp_all add: kept_def)

lemma kept_trans: "kept x y \<Longrightarrow> kept y z \<Longrightarrow> kept x z"
  by (auto simp: kept_def)

lemma kept_Some: "kept (Some v) y \<longleftrightarrow> y = Some v"
  by (simp add: kept_def)

lemma retains_refl [simp]: "retains a a"
  by (simp add: retains_def)

lemma retains_trans: "retains a b \<Longrightarrow> retains b c \<Longrightarrow> retains a c"
  unfolding retains_def
  by (elim conjE exE, intro conjI impI; (elim kept_trans)?) (auto simp: kept_def)

definition core_retains :: "core \<Rightarrow> core \<Rightarrow> bool" where
  "core_retains c d \<longleftrightarrow> (\<forall>a \<in> set (acts c). \<exists>b \<in> set (acts d). retains a b)"

lemma running_order:
  assumes "running c a" and "\<forall>a \<in> set (acts c). activity_ok a"
  shows "activity_ok a" "ac_stage a \<noteq> Completed" "ac_completionOutcome a = None"
    "ac_closure a = None" "ac_evidence a = None \<longleftrightarrow> ac_evidenceReadiness a = None"
    "ac_decision a = None \<longrightarrow> ac_decisionKind a = None" "ac_attempt a = None \<longrightarrow> ac_evidence a = None"
    "ac_boundary a \<noteq> None \<longrightarrow> ac_evidence a = None"
proof -
  from running_all [OF assms] have "activity_ok a" "ac_stage a \<noteq> Completed" by simp_all
  note o = this(2) running_ok [OF this]
  show "activity_ok a" by fact
  from o show "ac_stage a \<noteq> Completed" "ac_completionOutcome a = None" "ac_closure a = None" by simp_all
  from o show "ac_evidence a = None \<longleftrightarrow> ac_evidenceReadiness a = None"
    "ac_decision a = None \<longrightarrow> ac_decisionKind a = None"
    by (simp_all add: agent_order_def transaction_order_def)
  from o show "ac_attempt a = None \<longrightarrow> ac_evidence a = None"
    by (simp add: agent_order_def core_terminal_def)
  from o have "\<not> prepares_boundary (ac_operation a) \<longrightarrow> ac_boundary a = None"
    "ac_operation a \<noteq> Evaluate \<longrightarrow> ac_evidence a = None"
    by (simp_all add: agent_order_def)
  then show "ac_boundary a \<noteq> None \<longrightarrow> ac_evidence a = None"
    using prepares_not [of "ac_operation a"] by metis
qed

text \<open>
  A step leaves every activity alone, opens one while none is incomplete, or changes the
  one running activity to a well-ordered one that retains what it had.
\<close>

definition change :: "core \<Rightarrow> core \<Rightarrow> bool" where
  "change c d \<longleftrightarrow> co_activities d = co_activities c \<or>
     (\<exists>b. map_of (co_activities c) (ac_id b) = None \<and> (\<forall>a \<in> set (acts c). ac_stage a = Completed) \<and>
        activity_ok b \<and> co_activities d = co_activities (put_core b c)) \<or>
     (\<exists>a b. running c a \<and> activity_ok b \<and> retains a b \<and> co_activities d = co_activities (put_core b c))"

lemma changed: "running c a \<Longrightarrow> co_activities d = co_activities (put_core b c) \<Longrightarrow>
    activity_ok b \<Longrightarrow> retains a b \<Longrightarrow> change c d"
  by (auto simp: change_def)

lemma activities_frame [simp]:
  "co_activities (subjects_core f c) = co_activities c"
  "co_activities (after_completion a out c) = co_activities c"
  "co_activities (put_core a (c\<lparr>co_readiness := x\<rparr>)) = co_activities (put_core a c)"
  "co_activities (put_core a (c\<lparr>co_integrated := b, co_readiness := x\<rparr>)) = co_activities (put_core a c)"
  "co_activities (put_core a (c\<lparr>co_disposition := y\<rparr>)) = co_activities (put_core a c)"
  "co_activities (put_core a (after_completion e out c)) = co_activities (put_core a c)"
  by (simp_all add: subjects_core_def after_completion_def put_core_def)

lemmas retained = retains_def set_stage_def finished_def

theorem lifecycle_change:
  assumes "lifecycle k c c'" and all: "\<forall>a \<in> set (acts c). activity_ok a"
  shows "change c c'"
  using assms(1)
proof cases
  case (opened i operation family brief reservation)
  then show ?thesis using ok_opened [OF opened(5,6)]
    by (auto simp: change_def may_open_def intro!: exI)
next
  case (refused a s e)
  show ?thesis
    by (rule changed [OF refused(3)], simp add: refused(2), rule ok_refused)
      (use refused running_order [OF refused(3) all] in \<open>auto simp: retained\<close>)
next
  case (prepared a x)
  show ?thesis
    by (rule changed [OF prepared(3)], simp add: prepared(2), rule ok_prepared)
      (use prepared running_order [OF prepared(3) all] in \<open>auto simp: retained\<close>)
next
  case (intended a d)
  show ?thesis
    by (rule changed [OF intended(3)], simp add: intended(2), rule ok_intended)
      (use intended running_order [OF intended(3) all] in \<open>auto simp: retained\<close>)
next
  case (observed a d out)
  show ?thesis
    by (rule changed [OF observed(3)], simp add: observed(2), rule ok_observed)
      (use observed running_order [OF observed(3) all] in \<open>auto simp: retained\<close>)
next
  case (submitted a s x)
  show ?thesis
    by (rule changed [OF submitted(3)], simp add: submitted(2), rule ok_submitted)
      (use submitted running_order [OF submitted(3) all] in \<open>auto simp: retained\<close>)
next
  case (abandoned a s)
  show ?thesis
    by (rule changed [OF abandoned(3)], simp add: abandoned(2), rule ok_abandoned)
      (use abandoned running_order [OF abandoned(3) all] in \<open>auto simp: retained\<close>)
next
  case (receipted a s x)
  show ?thesis
    by (rule changed [OF receipted(3)], simp add: receipted(2), rule ok_receipted)
      (use receipted running_order [OF receipted(3) all] in \<open>auto simp: retained\<close>)
next
  case (bounded a x)
  show ?thesis
    by (rule changed [OF bounded(3)], simp add: bounded(2), rule ok_bounded)
      (use bounded running_order [OF bounded(3) all] in \<open>auto simp: retained\<close>)
next
  case (assessed a s x)
  show ?thesis
    by (rule changed [OF assessed(3)], simp add: assessed(2), rule ok_assessed)
      (use assessed running_order [OF assessed(3) all] in \<open>auto simp: retained\<close>)
next
  case (candidate a x s integrated)
  show ?thesis
    by (rule changed [OF candidate(3)], simp add: candidate(2), rule ok_candidate)
      (use candidate running_order [OF candidate(3) all] in \<open>auto simp: retained\<close>)
next
  case (frozen a s x)
  show ?thesis
    by (rule changed [OF frozen(3)], simp add: frozen(2), rule ok_frozen)
      (use frozen running_order [OF frozen(3) all] in \<open>auto simp: retained\<close>)
next
  case (sealed a x)
  show ?thesis
    by (rule changed [OF sealed(3)], simp add: sealed(2), rule ok_sealed)
      (use sealed running_order [OF sealed(3) all] in \<open>auto simp: retained\<close>)
next
  case (checked a f s)
  show ?thesis
    by (rule changed [OF checked(3)], simp add: checked(2), rule ok_checked)
      (use checked running_order [OF checked(3) all] in \<open>auto simp: retained\<close>)
next
  case (evidenced a rd x)
  show ?thesis
    by (rule changed [OF evidenced(3)], simp add: evidenced(2), rule ok_evidenced)
      (use evidenced running_order [OF evidenced(3) all] in \<open>auto simp: retained\<close>)
next
  case (decided a d x)
  show ?thesis
    by (rule changed [OF decided(3)], simp add: decided(2,6), rule ok_decided)
      (use decided running_order [OF decided(3) all] in \<open>auto simp: retained\<close>)
next
  case (effect_intended a d)
  show ?thesis
    by (rule changed [OF effect_intended(3)], simp add: effect_intended(2), rule ok_effect_intended)
      (use effect_intended running_order [OF effect_intended(3) all] in \<open>auto simp: retained\<close>)
next
  case (effect_indeterminate a d)
  show ?thesis
    by (rule changed [OF effect_indeterminate(3)], simp add: effect_indeterminate(2), rule ok_effect_indeterminate)
      (use effect_indeterminate running_order [OF effect_indeterminate(3) all] in \<open>auto simp: retained\<close>)
next
  case (effect_refused a)
  show ?thesis
    by (rule changed [OF effect_refused(3)], simp add: effect_refused(2), rule ok_effect_refused)
      (use effect_refused running_order [OF effect_refused(3) all] in \<open>auto simp: retained\<close>)
next
  case (effect_terminal a)
  show ?thesis
    by (rule changed [OF effect_terminal(3)], simp add: effect_terminal(2), rule ok_effect_terminal)
      (use effect_terminal running_order [OF effect_terminal(3) all] in \<open>auto simp: retained\<close>)
next
  case (admitted a d)
  show ?thesis
    by (rule changed [OF admitted(3)], simp add: admitted(2), rule ok_admitted)
      (use admitted running_order [OF admitted(3) all] in \<open>auto simp: retained\<close>)
next
  case (closed a d x)
  show ?thesis
    by (rule changed [OF closed(3)], simp add: closed(2), rule ok_closed)
      (use closed running_order [OF closed(3) all] in \<open>auto simp: retained\<close>)
next
  case (completed a outcome)
  show ?thesis
    by (rule changed [OF completed(3)], simp add: completed(2), rule ok_completed)
      (use completed running_order [OF completed(3) all] in \<open>auto simp: retained\<close>)
qed (auto simp: change_def)

lemma change_cases:
  assumes "change c d" and wf: "acts_wf c"
  obtains "set (acts d) = set (acts c)"
  | b where "\<forall>a \<in> set (acts c). ac_stage a = Completed" "activity_ok b"
      "set (acts d) = insert b (set (acts c))"
  | a b where "a \<in> set (acts c)" "ac_stage a \<noteq> Completed" "activity_ok b" "retains a b"
      "set (acts d) = insert b (set (acts c) - {a})"
  using assms(1) unfolding change_def
proof (elim disjE exE conjE)
  fix a b
  assume r: "running c a" "activity_ok b" "retains a b" "co_activities d = co_activities (put_core b c)"
  then have "acts d = acts (put_core b c)" and i: "ac_id b = ac_id a"
    by (simp_all add: acts_def retains_def)
  then show thesis
    using that(3) [of a b] r acts_put_running(1) [OF wf r(1) i] running_member [OF r(1)]
    by (simp add: running_def)
next
  fix b
  assume "map_of (co_activities c) (ac_id b) = None" "\<forall>a \<in> set (acts c). ac_stage a = Completed"
    "activity_ok b" and d: "co_activities d = co_activities (put_core b c)"
  moreover from d have "acts d = acts (put_core b c)" by (simp add: acts_def)
  ultimately show thesis using that(2) [of b] acts_put_new(1) [OF wf] by simp
qed (use that(1) in \<open>simp add: acts_def\<close>)

lemma acts_wf_cong: "co_activities c = co_activities d \<Longrightarrow> acts_wf c = acts_wf d"
  by (simp add: acts_wf_def)

lemma change_wf: "change c d \<Longrightarrow> acts_wf c \<Longrightarrow> acts_wf d"
  unfolding change_def
  by (elim disjE exE conjE; drule acts_wf_cong;
    simp add: acts_put_new(2) acts_put_running(2) retains_def)

lemma change_ok:
  assumes "change c d" and "acts_wf c" and "\<forall>a \<in> set (acts c). activity_ok a"
  shows "\<forall>a \<in> set (acts d). activity_ok a"
  by (rule change_cases [OF assms(1,2)]) (use assms(3) in auto)

lemma change_retains:
  assumes "change c d" and "acts_wf c"
  shows "core_retains c d"
  unfolding core_retains_def
proof
  fix x assume x: "x \<in> set (acts c)"
  from assms show "\<exists>y \<in> set (acts d). retains x y"
  proof (cases rule: change_cases)
    case (3 a b)
    with x show ?thesis by (cases "x = a") (auto intro: bexI [of _ x])
  qed (use x in \<open>auto intro: bexI [of _ x]\<close>)
qed

lemma change_one_running:
  assumes "change c d" and "acts_wf c" and "one_running c"
  shows "one_running d"
  using assms(1,2)
proof (cases rule: change_cases)
  case (3 a b)
  then show ?thesis using assms(3) unfolding one_running_def by (metis Diff_iff insert_iff)
qed (use assms(3) in \<open>auto simp: one_running_def\<close>)

lemma core_retains_refl [simp]: "core_retains c c"
  unfolding core_retains_def using retains_refl by blast

lemma core_retains_trans: "core_retains c d \<Longrightarrow> core_retains d e \<Longrightarrow> core_retains c e"
  unfolding core_retains_def by (meson retains_trans)

end
