(* ===== verification/Lifecycle_Provenance.thy ===== *)
theory Lifecycle_Provenance
  imports Lifecycle_Invariants
begin

text \<open>
  Where the current subjects come from: the activity that produced each boundary,
  admission, Candidate Revision, seal, Evidence Packet and Closure, and what is known of it.
\<close>

section \<open>Provenance\<close>

definition certified :: "activity \<Rightarrow> reference \<Rightarrow> bool" where
  "certified a b \<longleftrightarrow> prepares_boundary (ac_operation a) \<and> ac_boundary a = Some b \<and>
     ac_stage a = Completed \<and> ac_completionOutcome a = Some OutcomeCompleted \<and>
     ac_checks a \<noteq> [] \<and> list_all legalBaselineReceipt (ac_checks a)"

definition boundary_facts :: "core \<Rightarrow> bool" where
  "boundary_facts c \<longleftrightarrow> (\<forall>b. su_proposedBoundary (co_subjects c) = Some b \<or>
     su_activeBoundary (co_subjects c) = Some b \<longrightarrow> (\<exists>a \<in> set (acts c). certified a b))"

definition admitted_by :: "activity \<Rightarrow> reference \<Rightarrow> bool" where
  "admitted_by a d \<longleftrightarrow> ac_operation a = Admit \<and> ac_decision a = Some d \<and>
     ac_transactionOutcome a = Some Applied"

definition admission_facts :: "core \<Rightarrow> bool" where
  "admission_facts c \<longleftrightarrow> (su_activeBoundary (co_subjects c) = None) = (co_admission c = None) \<and>
     (\<forall>d. co_admission c = Some d \<longrightarrow> (\<exists>a \<in> set (acts c). admitted_by a d))"

definition candidate_facts :: "core \<Rightarrow> bool" where
  "candidate_facts c \<longleftrightarrow>
     (su_candidate (co_subjects c) \<noteq> None \<longrightarrow> su_activeBoundary (co_subjects c) \<noteq> None) \<and>
     (\<forall>p. su_candidate (co_subjects c) = Some p \<longrightarrow> (\<exists>a \<in> set (acts c). ac_candidate a = Some p)) \<and>
     (\<forall>a \<in> set (acts c). \<forall>x. ac_candidate a = Some x \<longrightarrow> (\<exists>p. su_candidate (co_subjects c) = Some p \<and>
        ref_id x = ref_id p \<and> 1 \<le> ref_revision x \<and> ref_revision x \<le> ref_revision p)) \<and>
     (\<forall>a \<in> set (acts c). \<forall>b \<in> set (acts c). \<forall>x y. ac_candidate a = Some x \<longrightarrow> ac_candidate b = Some y \<longrightarrow>
        ref_revision x = ref_revision y \<longrightarrow> a = b)"

definition condition_facts :: "core \<Rightarrow> bool" where
  "condition_facts c \<longleftrightarrow> (\<forall>m. su_materialCondition (co_subjects c) = Some m \<longrightarrow>
     su_activeBoundary (co_subjects c) \<noteq> None \<and> su_candidate (co_subjects c) \<noteq> None \<and>
     (\<exists>a \<in> set (acts c). ac_materialCondition a = Some m))"

definition seal_facts :: "core \<Rightarrow> bool" where
  "seal_facts c \<longleftrightarrow>
     (\<forall>a \<in> set (acts c). ac_stage a \<noteq> Completed \<longrightarrow> ac_operation a = Evaluate \<longrightarrow> ac_seal a \<noteq> None \<longrightarrow>
        su_seal (co_subjects c) = ac_seal a) \<and>
     (\<forall>s. su_seal (co_subjects c) = Some s \<longrightarrow> su_candidate (co_subjects c) \<noteq> None \<and>
        (\<exists>a \<in> set (acts c). ac_operation a = Evaluate \<and> ac_seal a = Some s))"

definition evaluated :: "activity \<Rightarrow> reference option \<Rightarrow> reference \<Rightarrow> readiness \<Rightarrow> bool" where
  "evaluated a seal ev rd \<longleftrightarrow> ac_operation a = Evaluate \<and> seal \<noteq> None \<and> ac_seal a = seal \<and>
     core_terminal a \<and> ac_receipt a \<noteq> None \<and> ac_checks a \<noteq> [] \<and>
     ac_evidence a = Some ev \<and> ac_evidenceReadiness a = Some rd \<and>
     (rd = AcceptanceReady \<longrightarrow> list_all legalForAcceptance (ac_checks a))"

definition baseline_legal :: "core \<Rightarrow> bool" where
  "baseline_legal c \<longleftrightarrow> (\<exists>b. su_activeBoundary (co_subjects c) = Some b \<and>
     (\<exists>a \<in> set (acts c). ac_boundary a = Some b \<and> ac_stage a = Completed \<and>
        list_all legalForAcceptance (phase_checks Baseline a)))"

definition evidence_facts :: "core \<Rightarrow> bool" where
  "evidence_facts c \<longleftrightarrow> (su_evidence (co_subjects c) = None) = (co_readiness c = None) \<and>
     (\<forall>ev rd. su_evidence (co_subjects c) = Some ev \<longrightarrow> co_readiness c = Some rd \<longrightarrow>
        (\<exists>a \<in> set (acts c). evaluated a (su_seal (co_subjects c)) ev rd) \<and>
        (rd = AcceptanceReady \<longrightarrow> baseline_legal c))"

definition accept_facts :: "core \<Rightarrow> bool" where
  "accept_facts c \<longleftrightarrow> (\<forall>a \<in> set (acts c). ac_stage a \<noteq> Completed \<longrightarrow> ac_operation a = Accept \<longrightarrow>
     co_readiness c = Some AcceptanceReady \<and> su_materialCondition (co_subjects c) = None)"

definition closing :: "core \<Rightarrow> activity \<Rightarrow> reference \<Rightarrow> bool" where
  "closing c a x \<longleftrightarrow> ac_closure a = Some x \<and> (ac_operation a = Accept \<or> ac_operation a = NoShip) \<and>
     ac_decision a \<noteq> None \<and> ac_transactionOutcome a = Some Applied \<and>
     co_disposition c = Some (expectedDisposition a)"

definition closure_facts :: "core \<Rightarrow> bool" where
  "closure_facts c \<longleftrightarrow> (su_closure (co_subjects c) = None) = (co_disposition c = None) \<and>
     (\<forall>x. su_closure (co_subjects c) = Some x \<longrightarrow> (\<forall>a \<in> set (acts c). ac_stage a = Completed) \<and>
        (\<exists>a \<in> set (acts c). closing c a x)) \<and>
     (co_disposition c = Some ClosureAccepted \<longrightarrow> co_readiness c = Some AcceptanceReady \<and>
        su_materialCondition (co_subjects c) = None)"

lemma put_core_frame [simp]:
  "co_subjects (put_core a c) = co_subjects c" "co_readiness (put_core a c) = co_readiness c"
  "co_admission (put_core a c) = co_admission c" "co_disposition (put_core a c) = co_disposition c"
  "co_created (put_core a c) = co_created c" "co_integrated (put_core a c) = co_integrated c"
  by (simp_all add: put_core_def)

lemma subjects_core_frame [simp]:
  "co_subjects (subjects_core f c) = f (co_subjects c)" "co_readiness (subjects_core f c) = co_readiness c"
  "co_admission (subjects_core f c) = co_admission c" "co_disposition (subjects_core f c) = co_disposition c"
  "co_created (subjects_core f c) = co_created c" "co_integrated (subjects_core f c) = co_integrated c"
  by (simp_all add: subjects_core_def)

lemma after_completion_frame [simp]:
  "co_readiness (after_completion a out c) = co_readiness c"
  "co_admission (after_completion a out c) = co_admission c"
  "co_disposition (after_completion a out c) = co_disposition c"
  "co_created (after_completion a out c) = co_created c"
  by (simp_all add: after_completion_def)

lemma after_completion_subjects [simp]:
  "su_activeBoundary (co_subjects (after_completion a out c)) = su_activeBoundary (co_subjects c)"
  "su_candidate (co_subjects (after_completion a out c)) = su_candidate (co_subjects c)"
  "su_materialCondition (co_subjects (after_completion a out c)) = su_materialCondition (co_subjects c)"
  "su_seal (co_subjects (after_completion a out c)) = su_seal (co_subjects c)"
  "su_evidence (co_subjects (after_completion a out c)) = su_evidence (co_subjects c)"
  "su_closure (co_subjects (after_completion a out c)) = su_closure (co_subjects c)"
  by (simp_all add: after_completion_def)

lemma put_core_member [simp]: "a \<in> set (acts (put_core a c))"
proof -
  have "map_of (AList.update (ac_id a) a (co_activities c)) (ac_id a) = Some a"
    by (simp add: update_conv')
  then show ?thesis by (force simp: acts_def put_core_def image_iff dest!: map_of_SomeD)
qed

section \<open>Facts that are kept\<close>

lemma kept_fact:
  assumes "core_retains c d" and "\<exists>a \<in> set (acts c). P a" and "\<And>a b. retains a b \<Longrightarrow> P a \<Longrightarrow> P b"
  shows "\<exists>a \<in> set (acts d). P a"
  using assms unfolding core_retains_def by blast

lemma certified_kept: "core_retains c d \<Longrightarrow> \<exists>a \<in> set (acts c). certified a b \<Longrightarrow>
    \<exists>a \<in> set (acts d). certified a b"
  by (erule (1) kept_fact) (auto simp: retains_def certified_def)

lemma admitted_kept: "core_retains c d \<Longrightarrow> \<exists>a \<in> set (acts c). admitted_by a b \<Longrightarrow>
    \<exists>a \<in> set (acts d). admitted_by a b"
  by (erule (1) kept_fact) (auto simp: retains_def admitted_by_def kept_Some)

lemma condition_kept: "core_retains c d \<Longrightarrow> \<exists>a \<in> set (acts c). ac_materialCondition a = Some x \<Longrightarrow>
    \<exists>a \<in> set (acts d). ac_materialCondition a = Some x"
  by (erule (1) kept_fact) (simp add: retains_def kept_Some)

lemma candidate_kept: "core_retains c d \<Longrightarrow> \<exists>a \<in> set (acts c). ac_candidate a = Some x \<Longrightarrow>
    \<exists>a \<in> set (acts d). ac_candidate a = Some x"
  by (erule (1) kept_fact) (simp add: retains_def kept_Some)

lemma seal_kept: "core_retains c d \<Longrightarrow>
    \<exists>a \<in> set (acts c). ac_operation a = Evaluate \<and> ac_seal a = Some x \<Longrightarrow>
    \<exists>a \<in> set (acts d). ac_operation a = Evaluate \<and> ac_seal a = Some x"
  by (erule (1) kept_fact) (auto simp: retains_def kept_Some)

lemma baseline_kept: "core_retains c d \<Longrightarrow> su_activeBoundary (co_subjects d) = su_activeBoundary (co_subjects c) \<Longrightarrow>
    baseline_legal c \<Longrightarrow> baseline_legal d"
  unfolding baseline_legal_def
  by (elim exE conjE, intro exI conjI, simp, erule (1) kept_fact) (auto simp: retains_def)

lemma evaluated_kept: "core_retains c d \<Longrightarrow> \<exists>a \<in> set (acts c). evaluated a s ev rd \<Longrightarrow>
    \<exists>a \<in> set (acts d). evaluated a s ev rd"
  by (erule (1) kept_fact) (cases s; auto simp: evaluated_def retains_def kept_Some core_terminal_def)

lemma step_boundary:
  assumes "lifecycle k c d" and "core_retains c d" and "boundary_facts c"
  shows "boundary_facts d"
proof -
  from assms(3) have kept: "\<exists>a \<in> set (acts d). certified a b"
    if "su_proposedBoundary (co_subjects c) = Some b \<or> su_activeBoundary (co_subjects c) = Some b" for b
    using that certified_kept [OF assms(2)] unfolding boundary_facts_def by blast
  from assms(1) show ?thesis
  proof cases
    case (completed a outcome)
    have "certified (finished outcome a) b"
      if "after_completion a outcome c \<noteq> c" "ac_boundary a = Some b" for b
      using that completed
      by (auto simp: after_completion_def certified_def finished_def completes_def completes_agent_def
          dest: prepares_not split: if_splits)
    moreover have "finished outcome a \<in> set (acts d)" by (simp add: completed(2))
    ultimately have new: "\<exists>a \<in> set (acts d). certified a b"
      if "after_completion a outcome c \<noteq> c" "ac_boundary a = Some b" for b
      using that by blast
    have "su_proposedBoundary (co_subjects d) = (if after_completion a outcome c = c
        then su_proposedBoundary (co_subjects c) else ac_boundary a)"
      by (simp add: completed(2) after_completion_def)
    moreover have "su_activeBoundary (co_subjects d) = su_activeBoundary (co_subjects c)"
      by (simp add: completed(2))
    ultimately show ?thesis using kept new unfolding boundary_facts_def by (metis (no_types))
  qed (use kept in \<open>auto simp: boundary_facts_def\<close>)
qed

lemma step_admission:
  assumes "lifecycle k c d" and "core_retains c d" and "admission_facts c"
  shows "admission_facts d"
proof -
  from assms(3) have kept: "\<exists>a \<in> set (acts d). admitted_by a b" if "co_admission c = Some b" for b
    using that admitted_kept [OF assms(2)] unfolding admission_facts_def by blast
  from assms(1) show ?thesis
  proof cases
    case (admitted a d')
    let ?b = "at_step EffectObserved StepCandidateRevisionObserved (a\<lparr>ac_transactionOutcome := Some Applied\<rparr>)"
    have "admitted_by ?b d'" using admitted by (simp add: admitted_by_def set_stage_def)
    moreover have "?b \<in> set (acts d)" "co_admission d = Some d'" by (simp_all add: admitted(2))
    moreover have "su_activeBoundary (co_subjects d) \<noteq> None" using admitted(10) by (simp add: admitted(2))
    ultimately show ?thesis by (auto simp: admission_facts_def)
  qed (use kept assms(3) in \<open>simp_all add: admission_facts_def\<close>)
qed

lemma step_condition:
  assumes "lifecycle k c d" and "core_retains c d" and "condition_facts c" and "candidate_facts c"
  shows "condition_facts d"
proof -
  from assms(3) have kept: "\<exists>a \<in> set (acts d). ac_materialCondition a = Some m"
    if "su_materialCondition (co_subjects c) = Some m" for m
    using that condition_kept [OF assms(2)] unfolding condition_facts_def by blast
  from assms(1) show ?thesis
  proof cases
    case (frozen a s x)
    have "su_candidate (co_subjects c) \<noteq> None" if "ac_candidate a \<noteq> None"
      using assms(4) running_member [OF frozen(3)] that unfolding candidate_facts_def by blast
    with frozen(7) have "su_candidate (co_subjects c) \<noteq> None" by blast
    moreover let ?b = "at_step Finalizing s (a\<lparr>ac_materialCondition := Some x\<rparr>)"
    have "?b \<in> set (acts d)" "ac_materialCondition ?b = Some x"
      by (simp_all add: frozen(2) set_stage_def)
    ultimately show ?thesis using frozen(6) by (auto simp: condition_facts_def frozen(2))
  qed (use kept assms(3) in \<open>simp_all add: condition_facts_def\<close>)
qed

lemma put_members: "x \<in> set (acts (put_core b c)) \<Longrightarrow> x = b \<or> x \<in> set (acts c)"
proof -
  have "set (AList.update k v m) \<subseteq> insert (k, v) (set m)" for k v and m :: "activity jsmap"
    by (induction m) auto
  then show "x \<in> set (acts (put_core b c)) \<Longrightarrow> x = b \<or> x \<in> set (acts c)"
    by (fastforce simp: acts_def put_core_def)
qed

lemma acts_unique: "acts_wf c \<Longrightarrow> x \<in> set (acts c) \<Longrightarrow> y \<in> set (acts c) \<Longrightarrow> ac_id x = ac_id y \<Longrightarrow> x = y"
  by (simp add: acts_wf_def jsmap_wf_def acts_def image_iff)
    (metis (mono_tags, lifting) case_prodD eq_key_imp_eq_value prod.collapse)

lemma seal_origin:
  assumes "lifecycle k c d" and "x \<in> set (acts d)" and "ac_seal x \<noteq> None" and "k \<noteq> CandidateSealed"
  shows "\<exists>a \<in> set (acts c). ac_id a = ac_id x \<and> ac_seal a = ac_seal x"
  using assms
  by cases (auto dest!: put_members running_member simp: set_stage_def finished_def opened_activity_def)

lemma candidate_origin:
  assumes "lifecycle k c d" and "x \<in> set (acts d)" and "ac_candidate x \<noteq> None" and "k \<noteq> CandidateRevisionObserved"
  shows "\<exists>a \<in> set (acts c). ac_id a = ac_id x \<and> ac_candidate a = ac_candidate x"
  using assms
  by cases (auto dest!: put_members running_member simp: set_stage_def finished_def opened_activity_def)

lemma step_running:
  assumes "lifecycle k c d" and wf: "acts_wf c" and ok: "\<forall>a \<in> set (acts c). activity_ok a"
    and x: "x \<in> set (acts d)" "ac_stage x \<noteq> Completed"
  obtains (old) a where "a \<in> set (acts c)" "ac_stage a \<noteq> Completed" "retains a x"
  | (new) "may_open c (ac_operation x)" "d = put_core x c" "ac_seal x = None"
proof -
  have "change c d" by (rule lifecycle_change [OF assms(1) ok])
  from this wf show thesis
  proof (cases rule: change_cases)
    case 1
    with x show ?thesis by (auto intro: old)
  next
    case (3 a b)
    with x show ?thesis by (cases "x = b") (auto intro: old)
  next
    case (2 b)
    from assms(1) show ?thesis
    proof cases
      case (opened i operation family brief reservation)
      with x show ?thesis
        by (auto dest!: put_members intro: old new simp: opened_activity_def)
    qed (use 2 x old in \<open>auto dest!: running_all [where Q = "\<lambda>a. ac_stage a = Completed"]\<close>)
  qed
qed

lemma step_accept:
  assumes "lifecycle k c d" and "acts_wf c" and "\<forall>a \<in> set (acts c). activity_ok a"
    and one: "one_running c" and "accept_facts c"
  shows "accept_facts d"
  unfolding accept_facts_def
proof (intro ballI impI)
  fix x assume x: "x \<in> set (acts d)" "ac_stage x \<noteq> Completed" "ac_operation x = Accept"
  from assms(1-3) x(1,2)
  show "co_readiness d = Some AcceptanceReady \<and> su_materialCondition (co_subjects d) = None"
  proof (cases rule: step_running)
    case new
    then show ?thesis using x(3)
      by (auto simp: may_open_def core_standing_def Let_def operation_entry_def split: if_splits)
  next
    case (old a)
    then have a: "ac_operation a = Accept" using x(3) by (simp add: retains_def)
    with old assms(5) have facts: "co_readiness c = Some AcceptanceReady" "su_materialCondition (co_subjects c) = None"
      by (auto simp: accept_facts_def)
    have same: "b = a" if "running c b" for b
      using one old that running_member [OF that] unfolding one_running_def running_def by blast
    from assms(1) show ?thesis
      by cases (use facts a in \<open>auto dest!: same simp: after_completion_def candidate_step_def split: option.splits\<close>)
  qed
qed

lemma step_candidate_other:
  assumes "lifecycle k c d" and "k \<noteq> CandidateRevisionObserved"
  shows "su_candidate (co_subjects d) = su_candidate (co_subjects c)"
    and "su_activeBoundary (co_subjects c) \<noteq> None \<longrightarrow> su_activeBoundary (co_subjects d) \<noteq> None"
  using assms by (cases; simp)+

lemma step_candidate:
  assumes step: "lifecycle k c d" and R: "core_retains c d" and wf: "acts_wf c" "acts_wf d"
    and inv: "candidate_facts c"
  shows "candidate_facts d"
proof (cases "k = CandidateRevisionObserved")
  case False
  note same = step_candidate_other [OF step False]
  have origin: "\<exists>b \<in> set (acts c). ac_id b = ac_id a \<and> ac_candidate b = Some x"
    if "a \<in> set (acts d)" "ac_candidate a = Some x" for a x
    using candidate_origin [OF step that(1) _ False] that(2) by auto
  have kept: "\<exists>a \<in> set (acts d). ac_candidate a = Some x" if "su_candidate (co_subjects c) = Some x" for x
    using that candidate_kept [OF R] inv unfolding candidate_facts_def by blast
  have "a = b" if ab: "a \<in> set (acts d)" "b \<in> set (acts d)" and
      xy: "ac_candidate a = Some x" "ac_candidate b = Some y" "ref_revision x = ref_revision y" for a b x y
  proof -
    obtain a' b' where "a' \<in> set (acts c)" "ac_id a' = ac_id a" "ac_candidate a' = Some x"
      "b' \<in> set (acts c)" "ac_id b' = ac_id b" "ac_candidate b' = Some y"
      using origin [OF ab(1) xy(1)] origin [OF ab(2) xy(2)] by blast
    moreover from this have "a' = b'" using inv xy(3) unfolding candidate_facts_def by blast
    ultimately show ?thesis using acts_unique [OF wf(2) ab] by simp
  qed
  then show ?thesis
    using same kept origin inv unfolding candidate_facts_def by (auto; blast)
next
  case True
  from step True obtain a x s b where r: "running c a" "ac_candidate a = None" "candidate_step c a x"
    and b: "b = at_step Finalizing s (a\<lparr>ac_candidate := Some x\<rparr>)"
    and d: "acts d = acts (put_core b c)" "su_candidate (co_subjects d) = Some x"
      "su_activeBoundary (co_subjects d) = su_activeBoundary (co_subjects c)"
    by cases auto
  have A: "set (acts d) = insert b (set (acts c) - {a})"
    unfolding d(1) by (rule acts_put_running [OF wf(1) r(1)]) (simp add: b)
  have new: "ac_candidate b = Some x" by (simp add: b set_stage_def)
  have earlier: "ref_id y = ref_id x \<and> 1 \<le> ref_revision y \<and> ref_revision y < ref_revision x"
    if y: "e \<in> set (acts c)" "ac_candidate e = Some y" for e y
  proof -
    from inv y obtain p where "su_candidate (co_subjects c) = Some p" "ref_id y = ref_id p"
      "1 \<le> ref_revision y" "ref_revision y \<le> ref_revision p"
      unfolding candidate_facts_def by blast
    with r(3) show ?thesis by (simp add: candidate_step_def)
  qed
  have pos: "1 \<le> ref_revision x"
  proof (cases "su_candidate (co_subjects c)")
    case None
    with r(3) show ?thesis by (simp add: candidate_step_def)
  next
    case (Some p)
    with inv obtain e where "e \<in> set (acts c)" "ac_candidate e = Some p"
      unfolding candidate_facts_def by blast
    from earlier [OF this] show ?thesis by simp
  qed
  have active: "su_activeBoundary (co_subjects c) \<noteq> None" using r(3) by (simp add: candidate_step_def)
  have uniq: "u = v" if "u \<in> set (acts d)" "v \<in> set (acts d)" "ac_candidate u = Some y"
    "ac_candidate v = Some z" "ref_revision y = ref_revision z" for u v y z
  proof -
    have "u = v" if "u \<in> set (acts c)" "v \<in> set (acts c)"
      using that \<open>ac_candidate u = Some y\<close> \<open>ac_candidate v = Some z\<close> \<open>ref_revision y = ref_revision z\<close> inv
      unfolding candidate_facts_def by blast
    moreover have "e \<notin> set (acts c)" if "ac_candidate e = Some w" "ref_revision w = ref_revision x" for e w
      using earlier [of e w] that by auto
    moreover from that new have "u = b \<Longrightarrow> y = x" "v = b \<Longrightarrow> z = x" by simp_all
    moreover from that(1,2) have "u = b \<or> u \<in> set (acts c)" "v = b \<or> v \<in> set (acts c)"
      by (simp_all add: A) blast+
    ultimately show ?thesis using that(3-5) by metis
  qed
  have bound: "ref_id y = ref_id x \<and> 1 \<le> ref_revision y \<and> ref_revision y \<le> ref_revision x"
    if "e \<in> set (acts d)" "ac_candidate e = Some y" for e y
  proof (cases "e = b")
    case False
    with that earlier [of e y] show ?thesis by (simp add: A)
  qed (use that new pos in simp)
  have "b \<in> set (acts d)" by (simp add: A)
  with new have made: "\<exists>e \<in> set (acts d). ac_candidate e = Some x" by blast
  show ?thesis
    unfolding candidate_facts_def d(2,3)
  proof (intro conjI ballI allI impI active)
    fix u v y z
    assume "u \<in> set (acts d)" "v \<in> set (acts d)" "ac_candidate u = Some y" "ac_candidate v = Some z"
      "ref_revision y = ref_revision z"
    then show "u = v" by (rule uniq)
  next
    fix e y assume "e \<in> set (acts d)" "ac_candidate e = Some y"
    then show "\<exists>p. Some x = Some p \<and> ref_id y = ref_id p \<and> 1 \<le> ref_revision y \<and> ref_revision y \<le> ref_revision p"
      using bound [of e y] by simp
  qed (use made in simp)
qed

lemma step_seal_other:
  assumes "lifecycle k c d" and "k \<noteq> CandidateSealed"
  shows "su_seal (co_subjects d) = su_seal (co_subjects c) \<and>
      su_candidate (co_subjects d) = su_candidate (co_subjects c) \<or>
    su_seal (co_subjects d) = None \<and> (\<exists>a. running c a \<and> ac_operation a \<noteq> Evaluate)"
  using assms by cases (auto simp: candidate_step_def split: option.splits)

lemma step_seal:
  assumes step: "lifecycle k c d" and R: "core_retains c d" and wf: "acts_wf c"
    and ok: "\<forall>a \<in> set (acts c). activity_ok a" and one: "one_running c" and inv: "seal_facts c"
  shows "seal_facts d"
proof (cases "k = CandidateSealed")
  case True
  from step True obtain a x b where r: "running c a" "ac_operation a = Evaluate" "ac_seal a = None"
    and b: "b = at_step Finalizing StepEvaluationChecks (a\<lparr>ac_seal := Some x\<rparr>)"
    and d: "acts d = acts (put_core b c)" "su_seal (co_subjects d) = Some x"
      "su_candidate (co_subjects d) \<noteq> None"
    by cases auto
  have A: "set (acts d) = insert b (set (acts c) - {a})"
    unfolding d(1) by (rule acts_put_running [OF wf r(1)]) (simp add: b)
  have new: "ac_operation b = Evaluate \<and> ac_seal b = Some x" using r(2) by (simp add: b set_stage_def)
  have "e = a" if "e \<in> set (acts c)" "ac_stage e \<noteq> Completed" for e
    using one that r(1) running_member [OF r(1)] unfolding one_running_def running_def by blast
  then show ?thesis using new d(3) unfolding seal_facts_def A d(2) by auto
next
  case False
  from step_seal_other [OF step False] show ?thesis
  proof (elim disjE conjE exE)
    assume same: "su_seal (co_subjects d) = su_seal (co_subjects c)"
      "su_candidate (co_subjects d) = su_candidate (co_subjects c)"
    have "su_seal (co_subjects c) = ac_seal x"
      if x: "x \<in> set (acts d)" "ac_stage x \<noteq> Completed" "ac_operation x = Evaluate" "ac_seal x \<noteq> None" for x
    proof -
      from seal_origin [OF step x(1,4) False] obtain a where
        a: "a \<in> set (acts c)" "ac_id a = ac_id x" "ac_seal a = ac_seal x" by blast
      from step wf ok x(1,2) obtain a' where a': "a' \<in> set (acts c)" "ac_stage a' \<noteq> Completed" "retains a' x"
        by (rule step_running) (use x(4) in simp_all)
      with a have "a' = a" using acts_unique [OF wf a'(1) a(1)] by (simp add: retains_def)
      with a a' x inv show ?thesis unfolding seal_facts_def by (auto simp: retains_def)
    qed
    then show ?thesis using same inv seal_kept [OF R] unfolding seal_facts_def by auto
  next
    fix a assume none: "su_seal (co_subjects d) = None" and a: "running c a" "ac_operation a \<noteq> Evaluate"
    have "\<not> (ac_operation x = Evaluate \<and> ac_seal x \<noteq> None)" if x: "x \<in> set (acts d)" "ac_stage x \<noteq> Completed" for x
      using step wf ok x
    proof (cases rule: step_running)
      case (old e)
      then have "e = a" using one a(1) running_member [OF a(1)] unfolding one_running_def running_def by blast
      with old a(2) show ?thesis by (simp add: retains_def)
    next
      case new
      then show ?thesis by (simp add: opened_activity_def)
    qed
    then show ?thesis unfolding seal_facts_def none by auto
  qed
qed

lemma boundary_checks_legal:
  assumes "list_all legalForAcceptance (boundary_checks c (Some b))" and "\<exists>a \<in> set (acts c). ac_boundary a = Some b"
  shows "\<exists>a \<in> set (acts c). ac_boundary a = Some b \<and> list_all legalForAcceptance (phase_checks Baseline a)"
proof (cases "find (\<lambda>a. ac_boundary a = Some b) (acts c)")
  case None
  with assms(2) show ?thesis by (auto simp: find_None_iff)
next
  case (Some a)
  with assms(1) show ?thesis by (auto simp: boundary_checks_def find_Some_iff intro!: bexI [of _ a])
qed

lemma evidence_baseline:
  assumes "running c a" and "ac_operation a = Evaluate" and one: "one_running c"
    and ok: "\<forall>a \<in> set (acts c). activity_ok a" and bound: "boundary_facts c"
    and b: "su_activeBoundary (co_subjects c) = Some b"
    and legal: "list_all legalForAcceptance (boundary_checks c (Some b))"
  shows "baseline_legal c"
proof -
  have "\<exists>a \<in> set (acts c). ac_boundary a = Some b"
    using bound b unfolding boundary_facts_def certified_def by blast
  with boundary_checks_legal [OF legal] obtain e where e: "e \<in> set (acts c)" "ac_boundary e = Some b"
    "list_all legalForAcceptance (phase_checks Baseline e)" by blast
  have "ac_stage e = Completed"
  proof (rule ccontr)
    assume "ac_stage e \<noteq> Completed"
    then have "e = a" using one e(1) assms(1) running_member [OF assms(1)]
      unfolding one_running_def running_def by blast
    with e(1,2) assms(2) ok show False by (auto simp: activity_ok_def agent_order_def)
  qed
  with e b show ?thesis unfolding baseline_legal_def by blast
qed

lemma step_evidence_other:
  assumes "lifecycle k c d" and "k \<noteq> EvidencePacketFinalized"
  shows "su_evidence (co_subjects d) = su_evidence (co_subjects c) \<and> co_readiness d = co_readiness c \<and>
      su_seal (co_subjects d) = su_seal (co_subjects c) \<and>
      su_activeBoundary (co_subjects d) = su_activeBoundary (co_subjects c) \<or>
    su_evidence (co_subjects d) = None \<and> co_readiness d = None"
  using assms by cases simp_all

lemma step_evidence:
  assumes step: "lifecycle k c d" and R: "core_retains c d" and wf: "acts_wf c" "acts_wf d"
    and ok: "\<forall>a \<in> set (acts c). activity_ok a" and one: "one_running c"
    and inv: "evidence_facts c" "seal_facts c" "boundary_facts c"
  shows "evidence_facts d"
proof (cases "k = EvidencePacketFinalized")
  case False
  from step_evidence_other [OF step False] show ?thesis
    using evaluated_kept [OF R] baseline_kept [OF R] inv(1) unfolding evidence_facts_def by (elim disjE conjE) auto
next
  case True
  from step show ?thesis
  proof cases
    case (evidenced a rd x)
    let ?b = "at_step Finalizing StepActivityCompleted (a\<lparr>ac_evidence := Some x, ac_evidenceReadiness := Some rd\<rparr>)"
    have d: "?b \<in> set (acts d)" "su_evidence (co_subjects d) = Some x" "co_readiness d = Some rd"
      "su_seal (co_subjects d) = su_seal (co_subjects c)"
      "su_activeBoundary (co_subjects d) = su_activeBoundary (co_subjects c)"
      by (simp_all add: evidenced(2))
    have "su_seal (co_subjects c) = ac_seal a"
      using inv(2) evidenced(3,4,8) running_member [OF evidenced(3)] unfolding seal_facts_def running_def by blast
    then have "evaluated ?b (su_seal (co_subjects d)) x rd"
      using evidenced(4-13) by (simp add: evaluated_def d(4) set_stage_def core_terminal_def)
    moreover have "baseline_legal d" if rd: "rd = AcceptanceReady"
    proof -
      from evidenced(11) obtain w where w: "su_activeBoundary (co_subjects c) = Some w" by blast
      with evidenced(13) rd have "list_all legalForAcceptance (boundary_checks c (Some w))" by simp
      from evidence_baseline [OF evidenced(3,4) one ok inv(3) w this] show ?thesis
        by (rule baseline_kept [OF R d(5)])
    qed
    ultimately show ?thesis using d(1-3) unfolding evidence_facts_def by auto
  qed (use True in simp_all)
qed

lemma step_closure:
  assumes step: "lifecycle k c d" and wf: "acts_wf c" and one: "one_running c"
    and inv: "closure_facts c" "accept_facts c" and open': "su_closure (co_subjects c) = None"
  shows "closure_facts d"
proof (cases "k = ClosureRecorded")
  case False
  have none: "co_disposition c = None" using inv(1) open' by (simp add: closure_facts_def)
  from step False open' none have "su_closure (co_subjects d) = None \<and> co_disposition d = None"
    by cases simp_all
  then show ?thesis by (simp add: closure_facts_def)
next
  case True
  from step True obtain a x b where r: "running c a" "ac_operation a = Accept \<or> ac_operation a = NoShip"
      "ac_transactionOutcome a = Some Applied" "ac_decision a \<noteq> None"
    and b: "b = finished OutcomeCompleted (a\<lparr>ac_closure := Some x\<rparr>)"
    and d: "acts d = acts (put_core b c)" "su_closure (co_subjects d) = Some x"
      "co_disposition d = Some (expectedDisposition a)" "co_readiness d = co_readiness c"
      "su_materialCondition (co_subjects d) = su_materialCondition (co_subjects c)"
    by cases auto
  have A: "set (acts d) = insert b (set (acts c) - {a})"
    unfolding d(1) by (rule acts_put_running [OF wf r(1)]) (simp add: b)
  have "ac_stage e = Completed" if "e \<in> set (acts c) - {a}" for e
    using one that r(1) running_member [OF r(1)] unfolding one_running_def running_def by blast
  moreover have "ac_stage b = Completed" by (simp add: b finished_def)
  moreover have "closing d b x" using r d(3)
    by (simp add: closing_def b finished_def expectedDisposition_def)
  moreover have "ac_operation a = Accept" if "expectedDisposition a = ClosureAccepted"
    using that r(2) by (auto simp: expectedDisposition_def split: if_splits)
  then have "co_readiness c = Some AcceptanceReady \<and> su_materialCondition (co_subjects c) = None"
    if "expectedDisposition a = ClosureAccepted"
    using that inv(2) r(1) running_member [OF r(1)] unfolding accept_facts_def running_def by blast
  ultimately show ?thesis unfolding closure_facts_def A d(2-5) by auto
qed

end
