(* ===== verification/Delegation_Roundtrip.thy ===== *)
theory Delegation_Roundtrip
  imports Work_Delegation
begin

text \<open>
  Grants and reservations as JSON and back: what a parser returns, printed, parses to the
  same value, so a retained grant or reservation can be read again without change. The
  accounting that follows from it.
\<close>

section \<open>Leaves\<close>

lemma exact_keys_fst [simp]: "map fst ms = keys \<Longrightarrow> exact_keys ms keys"
  by (auto simp: exact_keys_def dest: arg_cong [where f = length])

lemma mem_Cons [simp]: "mem ((k, v) # ms) k' = (if k' = k then v else mem ms k')"
  by (simp add: mem_def)

lemma wd_object_Inr [res_simps]: "wd_object v keys = Inr ms \<longleftrightarrow> v = JObj ms \<and> exact_keys ms keys"
  by (auto simp: wd_object_def res_simps split: json.splits)

lemma wd_identifier_Inr: "wd_identifier v = Inr s \<Longrightarrow> v = JStr s"
  by (auto simp: wd_identifier_def controlIdentifier_def res_simps split: json.splits)

lemma wd_identifier_again [simp]: "wd_identifier v = Inr s \<Longrightarrow> wd_identifier (JStr s) = Inr s"
  using wd_identifier_Inr by metis

lemma wd_opaque_again [simp]: "wd_opaque v = Inr s \<Longrightarrow> wd_opaque (JStr s) = Inr s"
  by (auto simp: wd_opaque_def res_simps)

lemma wd_digest_again [simp]: "wd_digest v = Inr s \<Longrightarrow> wd_digest (JStr s) = Inr s"
  by (auto simp: wd_digest_def res_simps split: json.splits)

lemma wd_integer_again [simp]: "wd_integer v l h = Inr n \<Longrightarrow> wd_integer (JInt n) l h = Inr n"
  by (auto simp: wd_integer_def res_simps split: json.splits)

lemma wd_time_again [simp]: "wd_time v = Inr s \<Longrightarrow> wd_time (JStr s) = Inr s"
  by (auto simp: wd_time_def controlTimestamp_def res_simps split: json.splits)

lemma wd_nullable_again:
  assumes "\<And>v x. parse v = Inr x \<Longrightarrow> parse (print x) = Inr x \<and> print x \<noteq> JNull"
    and "wd_nullable parse v = Inr x"
  shows "wd_nullable parse (option_json print x) = Inr x"
  using assms by (cases x) (auto simp: wd_nullable_def option_json_def res_simps split: if_splits)

lemma wd_nullable_None [simp]: "wd_nullable parse JNull = Inr None"
  by (simp add: wd_nullable_def)

lemma option_int_again [simp]:
  "wd_nullable (\<lambda>v. wd_integer v l h) v = Inr x \<Longrightarrow>
    wd_nullable (\<lambda>v. wd_integer v l h) (option_json JInt x) = Inr x"
  by (rule wd_nullable_again) simp_all

lemma option_time_again [simp]:
  "wd_nullable wd_time v = Inr x \<Longrightarrow> wd_nullable wd_time (option_json JStr x) = Inr x"
  by (rule wd_nullable_again) simp_all

section \<open>Records\<close>

lemma reference_again [simp]: "exactReference v k = Inr t \<Longrightarrow> exactReference (target_json t) k = Inr t"
  by (auto simp: exactReference_def target_json_def res_simps)

lemma resource_again [simp]: "resourceReference v = Inr r \<Longrightarrow> resourceReference (resource_json r) = Inr r"
  by (auto simp: resourceReference_def resource_json_def res_simps)

lemma backend_again [simp]: "backend v = Inr b \<Longrightarrow> backend (backend_json b) = Inr b"
  by (cases "mem (case v of JObj ms \<Rightarrow> ms | _ \<Rightarrow> []) ''profileId''")
    (auto simp: backend_def backend_json_def res_simps)

lemma image_again [simp]: "image v = Inr i \<Longrightarrow> image (image_json i) = Inr i"
  by (auto simp: image_def image_json_def res_simps)

lemma agentLimits_again [simp]: "agentLimits v = Inr l \<Longrightarrow> agentLimits (agent_limits_json l) = Inr l"
  by (auto simp: agentLimits_def agent_limits_json_def Let_def res_simps)

lemma agentSelection_again [simp]:
  "agentSelection v = Inr s \<Longrightarrow> agentSelection (agent_selection_json s) = Inr s"
  by (auto simp: agentSelection_def agent_selection_json_def res_simps)

lemma executionLimits_again [simp]:
  "executionLimits v = Inr l \<Longrightarrow> executionLimits (execution_limits_json l) = Inr l"
  by (auto simp: executionLimits_def execution_limits_json_def res_simps)

lemma accounting_again [simp]:
  "parseWorkDelegationAccounting v = Inr a \<Longrightarrow> parseWorkDelegationAccounting (accounting_json a) = Inr a"
  by (auto simp: parseWorkDelegationAccounting_def accounting_json_def res_simps)

lemma accounting_same: "parseWorkDelegationAccounting (accounting_json a) = Inr b \<Longrightarrow> b = a"
  by (auto simp: parseWorkDelegationAccounting_def accounting_json_def
      wd_integer_def res_simps)

section \<open>The grant\<close>

lemma delegation_operation_again:
  "parse_delegation_operation v = Some op \<Longrightarrow> v = JStr (operation_name op)"
  by (auto simp: parse_delegation_operation_def dest: parse_name_table split: json.splits)

lemma operations_again:
  "parse_operations p vs = Inr ops \<Longrightarrow> vs = map (\<lambda>op. JStr (operation_name op)) ops"
  by (induction p vs arbitrary: ops rule: parse_operations.induct)
    (auto simp: res_simps dest: delegation_operation_again split: option.splits)

lemma print_not_null [simp]: "target_json t \<noteq> JNull" "agent_selection_json a \<noteq> JNull"
  by (simp_all add: target_json_def agent_selection_json_def)

lemma option_json_null [simp]:
  "option_json target_json x = JNull \<longleftrightarrow> x = None" "option_json JStr z = JNull \<longleftrightarrow> z = None"
  "option_json agent_selection_json y = JNull \<longleftrightarrow> y = None"
  by (simp_all add: option_json_def split: option.splits)

lemma option_reference_again [simp]:
  "wd_nullable (\<lambda>v. exactReference v k) v = Inr x \<Longrightarrow>
    wd_nullable (\<lambda>v. exactReference v k) (option_json target_json x) = Inr x"
  by (rule wd_nullable_again) simp_all

lemma option_selection_again [simp]:
  "wd_nullable agentSelection v = Inr x \<Longrightarrow>
    wd_nullable agentSelection (option_json agent_selection_json x) = Inr x"
  by (rule wd_nullable_again) simp_all

text \<open>The same equation, with what it says of \<open>null\<close> beside it.\<close>

definition nullable_value :: "(json \<Rightarrow> 'a res) \<Rightarrow> json \<Rightarrow> 'a option \<Rightarrow> bool" where
  "nullable_value parse v x \<longleftrightarrow> wd_nullable parse v = Inr x"

lemma nullable_value_iff:
  "wd_nullable parse v = Inr x \<longleftrightarrow> nullable_value parse v x \<and> (v = JNull \<longleftrightarrow> x = None)"
  by (auto simp: nullable_value_def wd_nullable_def res_simps split: if_splits)

lemma nullable_value_again:
  "nullable_value (\<lambda>v. exactReference v k) v t \<Longrightarrow>
    nullable_value (\<lambda>v. exactReference v k) (option_json target_json t) t"
  "nullable_value agentSelection v a \<Longrightarrow> nullable_value agentSelection (option_json agent_selection_json a) a"
  "nullable_value wd_time v u \<Longrightarrow> nullable_value wd_time (option_json JStr u) u"
  by (simp_all add: nullable_value_def)

lemma wd_array_Inr [res_simps]: "wd_array v e = Inr vs \<longleftrightarrow> v = JArr vs"
  by (auto simp: wd_array_def split: json.splits)

lemma grant_again:
  "parseWorkDelegationPayload P v = Inr g \<Longrightarrow> parseWorkDelegationPayload P (delegation_json P g) = Inr g"
  unfolding parseWorkDelegationPayload_def Let_def
  by (clarsimp simp: nullable_value_iff res_simps, frule operations_again)
    (auto simp: nullable_value_iff nullable_value_again delegation_json_def res_simps)

section \<open>Reservations\<close>

lemma definition_id_again [simp]:
  "wd_opaque v = Inr s \<Longrightarrow> knowledgeId s = Inr t \<Longrightarrow> wd_opaque (JStr t) = Inr t \<and> knowledgeId t = Inr t"
  by (auto simp: knowledgeId_def res_simps)

lemma role_name_inject [simp]: "role_name a = role_name b \<longleftrightarrow> a = b"
  by (cases a; cases b) simp_all

lemma agentExecutionSlot_again:
  "agentExecutionSlot v = Inr s \<Longrightarrow> agentExecutionSlot (slot_json s) = Inr s"
  by (auto simp: agentExecutionSlot_def res_simps)

lemma checkExecutionSlot_again:
  "checkExecutionSlot v = Inr s \<Longrightarrow> checkExecutionSlot (slot_json s) = Inr s"
  by (auto simp: checkExecutionSlot_def check_definition_json_def res_simps)

lemma slot_purpose:
  "agentExecutionSlot v = Inr s \<Longrightarrow> \<exists>ms. slot_json s = JObj ms \<and> mem ms ''purpose'' = JStr ''agent''"
  "checkExecutionSlot v = Inr s \<Longrightarrow> \<exists>ms. slot_json s = JObj ms \<and> mem ms ''purpose'' = JStr ''check''"
  by (auto simp: agentExecutionSlot_def checkExecutionSlot_def res_simps)

lemma executionSlot_again: "executionSlot v = Inr s \<Longrightarrow> executionSlot (slot_json s) = Inr s"
  by (auto simp: executionSlot_def dest: slot_purpose agentExecutionSlot_again checkExecutionSlot_again
      split: json.splits if_splits)

lemma slots_again [simp]:
  "mapE executionSlot vs = Inr xs \<Longrightarrow> mapE executionSlot (map slot_json xs) = Inr xs"
  by (induction vs arbitrary: xs) (auto simp: res_simps intro: executionSlot_again)

lemma slots_length [simp]: "mapE executionSlot vs = Inr xs \<Longrightarrow> length xs = length vs"
  by (rule mapE_Inr_length)

lemma reservationParts_again:
  "reservationParts v = Inr r \<Longrightarrow> reservationParts (JObj (reservation_parts_members r)) = Inr r"
  unfolding reservationParts_def Let_def
  by (clarsimp simp: res_simps, frule delegation_operation_again)
    (auto simp: reservation_parts_members_def res_simps)

lemma parts_same [simp]: "reservation_parts_members (with_charges p c) = reservation_parts_members p"
  by (simp add: reservation_parts_members_def with_charges_def)

lemma with_charges_sel [simp]: "rp_charges (with_charges p c) = c" "rp_slots (with_charges p c) = rp_slots p"
  "rp_activityId (with_charges p c) = rp_activityId p" "rp_operation (with_charges p c) = rp_operation p"
  by (simp_all add: with_charges_def)

lemma add_accounting_again:
  "addWorkDelegationAccounting a b = Inr c \<Longrightarrow> parseWorkDelegationAccounting (accounting_json c) = Inr c"
  by (auto simp: addWorkDelegationAccounting_def res_simps)

lemma fold_accounting_again:
  "foldE (\<lambda>c s. addWorkDelegationAccounting c (slot_charges s)) a slots = Inr c \<Longrightarrow>
    parseWorkDelegationAccounting (accounting_json a) = Inr a \<Longrightarrow>
    parseWorkDelegationAccounting (accounting_json c) = Inr c"
  by (induction slots arbitrary: a) (auto simp: res_simps intro: add_accounting_again)

lemma case_sum_Inr: "(case m of Inl e \<Rightarrow> Inl (f e) | Inr _ \<Rightarrow> Inr x) = Inr y \<longleftrightarrow> (\<exists>z. m = Inr z) \<and> y = x"
  by (cases m) auto

lemma compile_Inr:
  "compileWorkDelegationReservation v = Inr r \<Longrightarrow> \<exists>p. reservationParts v = Inr p \<and> r = with_charges p (rp_charges r) \<and>
    foldE (\<lambda>c s. addWorkDelegationAccounting c (slot_charges s))
      \<lparr>acc_operations = 1, acc_agentAttempts = 0, acc_reservedCellWallTimeMs = 0\<rparr> (rp_slots r) = Inr (rp_charges r)"
  by (auto simp: compileWorkDelegationReservation_def Let_def case_sum_Inr res_simps)

lemma compile_accounting:
  assumes "compileWorkDelegationReservation v = Inr r"
  shows "parseWorkDelegationAccounting (accounting_json (rp_charges r)) = Inr (rp_charges r)"
proof -
  have "parseWorkDelegationAccounting (accounting_json
      \<lparr>acc_operations = 1, acc_agentAttempts = 0, acc_reservedCellWallTimeMs = 0\<rparr>) =
    Inr \<lparr>acc_operations = 1, acc_agentAttempts = 0, acc_reservedCellWallTimeMs = 0\<rparr>"
    by (simp add: parseWorkDelegationAccounting_def accounting_json_def wd_integer_def safe_integer_def wd_object_def)
  with compile_Inr [OF assms] fold_accounting_again show ?thesis by blast
qed

lemma compile_again:
  assumes "compileWorkDelegationReservation v = Inr r"
  shows "compileWorkDelegationReservation (JObj (reservation_parts_members r)) = Inr r"
proof -
  from compile_Inr [OF assms] obtain p where p: "reservationParts v = Inr p" "r = with_charges p (rp_charges r)"
    by blast
  then have "reservationParts (JObj (reservation_parts_members r)) = Inr p"
    using reservationParts_again [OF p(1)] parts_same [of p "rp_charges r"] by simp
  with assms p show ?thesis by (simp add: compileWorkDelegationReservation_def)
qed

lemma reservation_again:
  assumes "parseWorkDelegationReservation P v = Inr r"
  shows "parseWorkDelegationReservation P (reservation_json r) = Inr r"
proof -
  from assms obtain w c d where w: "compileWorkDelegationReservation w = Inr r"
    and d: "digestCanonical P (accounting_json (rp_charges r)) = Inr d"
    by (auto simp: parseWorkDelegationReservation_def res_simps)
  from w have c: "parseWorkDelegationAccounting (accounting_json (rp_charges r)) = Inr (rp_charges r)"
    by (rule compile_accounting)
  have f: "filter (\<lambda>m. fst m \<noteq> ''charges'') (reservation_parts_members r @ [(''charges'', a)]) = reservation_parts_members r" for a
    by (simp add: reservation_parts_members_def)
  have "mem (reservation_parts_members r @ [(''charges'', a)]) ''charges'' = a" for a
    by (simp add: reservation_parts_members_def)
  moreover have "exact_keys (reservation_parts_members r @ [(''charges'', a)]) [''schema'', ''reservationId'',
     ''delegation'', ''activityId'', ''operation'', ''decision'', ''charges'', ''slots'']" for a
    by (auto simp: exact_keys_def reservation_parts_members_def)
  ultimately show ?thesis
    using compile_again [OF w] d c f by (simp add: parseWorkDelegationReservation_def reservation_json_def wd_object_def)
qed

lemma reservation_compiles:
  assumes "parseWorkDelegationReservation P v = Inr r"
  shows "compileWorkDelegationReservation (JObj (reservation_parts_members r)) = Inr r"
proof -
  from assms obtain w where "compileWorkDelegationReservation w = Inr r"
    by (auto simp: parseWorkDelegationReservation_def res_simps)
  then show ?thesis by (rule compile_again)
qed

section \<open>Accounting\<close>

definition add_accounting :: "accounting \<Rightarrow> accounting \<Rightarrow> accounting" where
  "add_accounting a b = \<lparr>acc_operations = acc_operations a + acc_operations b,
     acc_agentAttempts = acc_agentAttempts a + acc_agentAttempts b,
     acc_reservedCellWallTimeMs = acc_reservedCellWallTimeMs a + acc_reservedCellWallTimeMs b\<rparr>"

definition within :: "accounting \<Rightarrow> accounting \<Rightarrow> bool" where
  "within a b \<longleftrightarrow> acc_operations a \<le> acc_operations b \<and> acc_agentAttempts a \<le> acc_agentAttempts b \<and>
     acc_reservedCellWallTimeMs a \<le> acc_reservedCellWallTimeMs b"

lemma accounting_Inr:
  "parseWorkDelegationAccounting (accounting_json a) = Inr b \<longleftrightarrow> b = a \<and>
    0 \<le> acc_operations a \<and> acc_operations a \<le> MAX_SAFE \<and> 0 \<le> acc_agentAttempts a \<and>
    acc_agentAttempts a \<le> MAX_SAFE \<and> 0 \<le> acc_reservedCellWallTimeMs a \<and>
    acc_reservedCellWallTimeMs a \<le> MAX_SAFE"
  by (auto simp: parseWorkDelegationAccounting_def accounting_json_def wd_integer_def safe_integer_def res_simps)

definition countable_accounting :: "accounting \<Rightarrow> bool" where
  "countable_accounting a \<longleftrightarrow> parseWorkDelegationAccounting (accounting_json a) = Inr a"

lemma add_accounting_Inr:
  "addWorkDelegationAccounting a b = Inr c \<longleftrightarrow> c = add_accounting a b \<and> countable_accounting a \<and>
    countable_accounting b \<and> countable_accounting c"
  by (auto simp: addWorkDelegationAccounting_def add_accounting_def countable_accounting_def accounting_Inr res_simps)

lemma allowance_Inr:
  assumes "assessWorkDelegationAllowance P d charges v t stopped = Inr w"
    and "parseWorkDelegationPayload P x = Inr d" and "parseWorkDelegationReservation P y = Inr v"
  shows "aw_prospective w = add_accounting charges (rp_charges v) \<and>
    (aw_allowed w \<longleftrightarrow> \<not> stopped \<and>
       \<not> (dp_expiresAt d \<noteq> None \<and> js_less_eq (date_parse (the (dp_expiresAt d))) (date_parse t)) \<and>
       rp_operation v \<in> set (dp_allowedOperations d) \<and> selection_mismatch P d v = Inr False \<and>
       within (add_accounting charges (rp_charges v)) (dp_ceilings d))"
proof -
  let ?sum = "add_accounting charges (rp_charges v)"
  from assms(1) grant_again [OF assms(2)] reservation_again [OF assms(3)] obtain m where
      m: "selection_mismatch P d v = Inr m" and w: "aw_prospective w = ?sum"
    and a: "aw_allowed w \<longleftrightarrow> (if stopped then AllowanceStopped
        else if dp_expiresAt d \<noteq> None \<and>
                js_less_eq (date_parse (the (dp_expiresAt d))) (date_parse t) then AllowanceExpired
        else if rp_operation v \<notin> set (dp_allowedOperations d) then OperationNotDelegated
        else if m then SelectionMismatch
        else if acc_operations ?sum > acc_operations (dp_ceilings d) then OperationsExhausted
        else if acc_agentAttempts ?sum > acc_agentAttempts (dp_ceilings d) then AgentAttemptsExhausted
        else if acc_reservedCellWallTimeMs ?sum > acc_reservedCellWallTimeMs (dp_ceilings d)
          then CellWallTimeExhausted
        else WithinAllowance) = WithinAllowance"
    by (clarsimp simp: assessWorkDelegationAllowance_def add_accounting_Inr accounting_Inr controlTimestamp_def
        Let_def res_simps simp del: if_split cong: if_cong)
  show ?thesis unfolding a w m within_def by (simp add: not_less)
qed

end
