(* ===== verification/Delivery_Journal.thy ===== *)
theory Delivery_Journal
  imports Lifecycle_Refinement Lifecycle_Provenance Delegation_Roundtrip
begin

text \<open>
  The replay of a whole journal: what the handlers leave alone, the invariant of the
  abstract lifecycle along a journal (by interpretation of the replay locales), the chain
  the accepted events form, the registers of finalized subjects and the accounting of
  delegated work.
\<close>

section \<open>What a handler leaves alone\<close>

text \<open>
  The registers agree: a finalized subject is bound to its kind, its revision to its digest,
  and the store resolves it to a revision of that kind.
\<close>

definition subjects_bound :: "replay \<Rightarrow> bool" where
  "subjects_bound r \<longleftrightarrow> (\<forall>(kind, x) \<in> re_finalizedSubjects r. re_recordKinds r (ref_id x) = Some kind \<and>
     re_recordRevisions r (ref_id x, ref_revision x) = Some (ref_digest x) \<and>
     (\<exists>rv. re_resolveRevision r (reference_subject x) = Some rv \<and> rv_recordKind rv = kind \<and>
        retainedReference rv = x))"

definition keeps :: "replay \<Rightarrow> replay \<Rightarrow> bool" where
  "keeps r s \<longleftrightarrow> re_resolveRevision s = re_resolveRevision r \<and> re_storeId s = re_storeId r \<and>
     re_processId s = re_processId r \<and> re_eventIds s = re_eventIds r \<and>
     re_lastOccurredAt s = re_lastOccurredAt r \<and>
     map_le (re_recordKinds r) (re_recordKinds s) \<and> map_le (re_recordRevisions r) (re_recordRevisions s) \<and>
     re_finalizedSubjects r \<subseteq> re_finalizedSubjects s \<and> (subjects_bound r \<longrightarrow> subjects_bound s)"

definition delegated :: "replay \<Rightarrow> delegation option \<times> accounting" where
  "delegated r = (re_delegation r, re_delegatedCharges r)"

definition frames :: "replay \<Rightarrow> replay \<Rightarrow> bool" where
  "frames r s \<longleftrightarrow> keeps r s \<and> delegated s = delegated r"

lemma subjects_bound_frame [simp]:
  "subjects_bound (r\<lparr>re_eventIds := ids\<rparr>) = subjects_bound r" "subjects_bound (r\<lparr>re_lastEvent := le\<rparr>) = subjects_bound r"
  "subjects_bound (r\<lparr>re_lastOccurredAt := t\<rparr>) = subjects_bound r" "subjects_bound (r\<lparr>re_storeId := i\<rparr>) = subjects_bound r"
  "subjects_bound (r\<lparr>re_processId := i\<rparr>) = subjects_bound r"
  by (simp_all add: subjects_bound_def)

lemma keeps_refl [simp]: "keeps r r"
  by (simp add: keeps_def)

lemma keeps_put [simp]:
  "keeps r (put_activity a s) = keeps r s" "keeps r (update_subjects f s) = keeps r s"
  "keeps r (s\<lparr>re_evidenceReadiness := v\<rparr>) = keeps r s" "keeps r (s\<lparr>re_candidateIntegrated := b\<rparr>) = keeps r s"
  "keeps r (s\<lparr>re_activeAdmission := d\<rparr>) = keeps r s" "keeps r (s\<lparr>re_closureDisposition := x\<rparr>) = keeps r s"
  "keeps r (s\<lparr>re_created := b\<rparr>) = keeps r s" "keeps r (s\<lparr>re_plannedBriefs := pb\<rparr>) = keeps r s"
  "keeps r (s\<lparr>re_standingBriefs := sb\<rparr>) = keeps r s" "keeps r (s\<lparr>re_delegation := dl\<rparr>) = keeps r s"
  "keeps r (s\<lparr>re_delegatedCharges := ch\<rparr>) = keeps r s"
  by (simp_all add: keeps_def subjects_bound_def put_activity_def update_subjects_def)

lemma delegated_put [simp]:
  "delegated (put_activity a s) = delegated s" "delegated (update_subjects f s) = delegated s"
  "delegated (s\<lparr>re_evidenceReadiness := v\<rparr>) = delegated s" "delegated (s\<lparr>re_candidateIntegrated := b\<rparr>) = delegated s"
  "delegated (s\<lparr>re_activeAdmission := d\<rparr>) = delegated s" "delegated (s\<lparr>re_closureDisposition := x\<rparr>) = delegated s"
  "delegated (s\<lparr>re_created := b\<rparr>) = delegated s" "delegated (s\<lparr>re_plannedBriefs := pb\<rparr>) = delegated s"
  "delegated (s\<lparr>re_standingBriefs := sb\<rparr>) = delegated s" "delegated (registered s k rv) = delegated s"
  by (simp_all add: delegated_def put_activity_def update_subjects_def)

lemma keeps_registered [intro]: "registers P r e k rv \<Longrightarrow> keeps r (registered r k rv)"
proof -
  assume "registers P r e k rv"
  then have f: "finalizes r e k rv" by (rule registers_finalizes)
  let ?x = "retainedReference rv"
  have le: "map_le (re_recordKinds r) (re_recordKinds (registered r k rv))"
    "map_le (re_recordRevisions r) (re_recordRevisions (registered r k rv))"
    "re_finalizedSubjects r \<subseteq> re_finalizedSubjects (registered r k rv)"
    using f by (auto simp: registered_def finalizes_def retainedReference_def Let_def map_le_def)
  have up: "m a = Some v \<Longrightarrow> map_le m n \<Longrightarrow> n a = Some v" for m n :: "'b \<Rightarrow> 'c option" and a v
    by (metis domI map_le_def)
  have "subjects_bound (registered r k rv)" if b: "subjects_bound r"
    unfolding subjects_bound_def
  proof (clarify)
    fix kind x assume "(kind, x) \<in> re_finalizedSubjects (registered r k rv)"
    then consider "kind = k" "x = ?x" | "(kind, x) \<in> re_finalizedSubjects r"
      by (auto simp: registered_def Let_def)
    then show "re_recordKinds (registered r k rv) (ref_id x) = Some kind \<and>
      re_recordRevisions (registered r k rv) (ref_id x, ref_revision x) = Some (ref_digest x) \<and>
      (\<exists>rv'. re_resolveRevision (registered r k rv) (reference_subject x) = Some rv' \<and>
        rv_recordKind rv' = kind \<and> retainedReference rv' = x)"
    proof cases
      case 1
      with f show ?thesis by (simp add: finalizes_def registered_def Let_def)
    next
      case 2
      have *: "re_recordKinds r (ref_id x) = Some kind"
        "re_recordRevisions r (ref_id x, ref_revision x) = Some (ref_digest x)"
        "\<exists>rv'. re_resolveRevision r (reference_subject x) = Some rv' \<and> rv_recordKind rv' = kind \<and> retainedReference rv' = x"
        using bspec [OF b [unfolded subjects_bound_def] 2] by simp_all
      show ?thesis
        by (intro conjI up [OF *(1) le(1)] up [OF *(2) le(2)]) (simp only: registered_same *(3))
    qed
  qed
  with le show ?thesis by (simp add: keeps_def)
qed

named_theorems frame_rules

lemma frame_created [frame_rules]: "deliveryCreated r e = Inr r' \<Longrightarrow> frames r r'"
  by (auto simp: deliveryCreated_def frames_def res_simps)

lemma frame_recovery [frame_rules]: "recordRecovery r e = Inr r' \<Longrightarrow> frames r r'"
  by (auto simp: recordRecovery_def frames_def res_simps)

lemma frame_refuse [frame_rules]: "refuseAgentBeforeIntent r e = Inr r' \<Longrightarrow> frames r r'"
  by (auto simp: refuseAgentBeforeIntent_def Let_def frames_def res_simps)

lemma frame_prepare [frame_rules]: "prepareAttempt P r e = Inr r' \<Longrightarrow> frames r r'"
  by (auto simp: prepareAttempt_def frames_def res_simps)

lemma frame_intend [frame_rules]: "intendProviderEffect P r e = Inr r' \<Longrightarrow> frames r r'"
  by (auto simp: intendProviderEffect_def frames_def res_simps)

lemma frame_observe [frame_rules]: "observeProviderEffect P r e = Inr r' \<Longrightarrow> frames r r'"
  by (auto simp: observeProviderEffect_def frames_def res_simps)

lemma frame_submit [frame_rules]: "submitWorkProduct P r e = Inr r' \<Longrightarrow> frames r r'"
  by (auto simp: submitWorkProduct_def frames_def res_simps)

lemma frame_abandon [frame_rules]: "abandonWorkProduct P r e = Inr r' \<Longrightarrow> frames r r'"
  by (auto simp: abandonWorkProduct_def frames_def res_simps)

lemma frame_receipt [frame_rules]: "recordReceipt P r e = Inr r' \<Longrightarrow> frames r r'"
  by (auto simp: recordReceipt_def frames_def res_simps)

lemma frame_boundary [frame_rules]: "finalizeBoundary P r e = Inr r' \<Longrightarrow> frames r r'"
  by (auto simp: finalizeBoundary_def Let_def frames_def res_simps)

lemma frame_assess [frame_rules]: "assessIntegration P r e = Inr r' \<Longrightarrow> frames r r'"
  by (auto simp: assessIntegration_def Let_def frames_def res_simps)

lemma frame_candidate [frame_rules]: "observeCandidateRevision P r e = Inr r' \<Longrightarrow> frames r r'"
  by (auto simp: observeCandidateRevision_def Let_def frames_def res_simps)

lemma frame_frozen [frame_rules]: "freezeMaterialCondition P r e = Inr r' \<Longrightarrow> frames r r'"
  by (clarsimp simp: freezeMaterialCondition_def Let_def frames_def res_simps simp del: if_split) blast

lemma frame_seal [frame_rules]: "sealCandidate P r e = Inr r' \<Longrightarrow> frames r r'"
  by (auto simp: sealCandidate_def Let_def frames_def res_simps)

lemma frame_check [frame_rules]: "recordCheckReceipt P r e = Inr r' \<Longrightarrow> frames r r'"
  by (auto simp: recordCheckReceipt_def Let_def frames_def res_simps)

lemma frame_evidence [frame_rules]: "finalizeEvidence P r e = Inr r' \<Longrightarrow> frames r r'"
  by (auto simp: finalizeEvidence_def Let_def frames_def res_simps simp del: list_all_append list_ex_append)

lemma frame_decision [frame_rules]: "authenticateDecision P r e = Inr r' \<Longrightarrow> frames r r'"
  by (auto simp: authenticateDecision_def frames_def res_simps)

lemma frame_intend_transaction [frame_rules]: "intendTransactionEffect P r e = Inr r' \<Longrightarrow> frames r r'"
  by (auto simp: intendTransactionEffect_def frames_def res_simps)

lemma frame_transaction [frame_rules]: "observeTransactionEffect P r e = Inr r' \<Longrightarrow> frames r r'"
  by (drule observation_shape)
    (auto simp: keepObserving_def settleTransaction_def activateBoundary_def Let_def frames_def res_simps split: if_splits)

lemma frame_closure [frame_rules]: "recordClosure P r e = Inr r' \<Longrightarrow> frames r r'"
  by (auto simp: recordClosure_def Let_def frames_def res_simps)

lemma frame_family: "completeFamily P r a outcome = Inr r' \<Longrightarrow> frames r r'"
  by (cases "ac_family a") (auto simp: completeFamily_def completeAgent_def completeAgentWork_def
    completeIntegration_def completeTransaction_def frames_def res_simps split: if_splits)

lemma frame_complete [frame_rules]: "completeActivity P r e = Inr r' \<Longrightarrow> frames r r'"
  by (auto simp: completeActivity_def res_simps dest!: frame_family) (auto simp: frames_def)

lemma keeps_trans: "keeps r s \<Longrightarrow> keeps s t \<Longrightarrow> keeps r t"
  by (auto simp: keeps_def intro: map_le_trans)

lemma keeps_bind: "bindDirection rv ds r x = Inr q \<Longrightarrow> keeps r q"
  by (auto simp: bindDirection_def res_simps split: option.splits)

lemma delegated_bind: "bindDirection rv ds r x = Inr q \<Longrightarrow> delegated q = delegated r \<and> re_activities q = re_activities r"
  by (auto simp: bindDirection_def res_simps split: option.splits)

lemma frame_brief [frame_rules]: "submitDirectorBrief P r e = Inr r' \<Longrightarrow> frames r r'"
  by (auto simp: submitDirectorBrief_def submitStandingBrief_def submitPlannedBrief_def frames_def res_simps
      split: if_splits)

lemma set_shape:
  "setWorkDelegation P r e = Inr r' \<Longrightarrow> \<exists>rv grant q t. registers P r e ''work-delegation'' rv \<and>
     parseWorkDelegationPayload P (JObj (rv_payload rv)) = Inr grant \<and>
     ceilings_cover (dp_ceilings grant) (re_delegatedCharges r) \<and>
     bindDirection rv (filter (\<lambda>l. rel_relation l = ''uses-brief'') (rv_relationships rv))
       (registered r ''work-delegation'' rv) (Continue, dp_continue_direction grant) = Inr t \<and>
     bindDirection rv (filter (\<lambda>l. rel_relation l = ''uses-brief'') (rv_relationships rv))
       t (Evaluate, dp_evaluate_direction grant) = Inr q \<and>
     r' = q\<lparr>re_delegation := Some \<lparr>dl_reference = retainedReference rv, dl_payload = grant, dl_stopped = False\<rparr>\<rparr>"
  by (clarsimp simp: setWorkDelegation_def Let_def res_simps simp del: if_split) blast

lemma keeps_set: "setWorkDelegation P r e = Inr r' \<Longrightarrow> keeps r r'"
  by (drule set_shape, clarsimp) (meson keeps_bind keeps_registered keeps_trans)

lemma stop_shape: "stopWorkDelegation P r e = Inr r' \<Longrightarrow> \<exists>d. re_delegation r = Some d \<and>
    r' = r\<lparr>re_delegation := Some (d\<lparr>dl_stopped := True\<rparr>)\<rparr>"
  by (auto simp: stopWorkDelegation_def Let_def res_simps)

lemma start_shape_replay:
  "startActivity P r e = Inr r' \<Longrightarrow> \<exists>p i op fam ob brief reservation charges pb.
     map_of (re_activities r) i = None \<and> opening_reservation P p = Inr reservation \<and>
     opening_brief P r e i op reservation = Inr brief \<and>
     charged (put_activity (opened_activity i op fam (currentStanding r) ob brief reservation) r) reservation
       = Inr charges \<and>
     r' = put_activity (opened_activity i op fam (currentStanding r) ob brief reservation) r
       \<lparr>re_delegatedCharges := charges, re_plannedBriefs := pb\<rparr>"
  by (clarsimp simp: startActivity_def Let_def res_simps stateFromReplay_def) blast

theorem handle_frames:
  "handle P kind r e = Inr r' \<Longrightarrow> kind \<notin> {WorkDelegationSet, WorkDelegationStopped, ActivityStarted} \<Longrightarrow> frames r r'"
  by (cases kind) (simp_all add: frame_rules)

theorem handle_keeps: "handle P kind r e = Inr r' \<Longrightarrow> keeps r r'"
  using handle_frames [of P kind r e r'] keeps_set [of P r e r'] stop_shape [of P r e r'] start_shape_replay [of P r e r']
  by (cases kind) (auto simp: frames_def)

section \<open>The invariant of the lifecycle along a journal\<close>

definition core_ok :: "core \<Rightarrow> bool" where
  "core_ok c \<longleftrightarrow> acts_wf c \<and> one_running c \<and> (\<forall>a \<in> set (acts c). activity_ok a) \<and> boundary_facts c \<and>
     admission_facts c \<and> candidate_facts c \<and> condition_facts c \<and> seal_facts c \<and> evidence_facts c \<and>
     accept_facts c \<and> closure_facts c"

lemma core_ok_step:
  assumes "core_ok c" and "lifecycle k c d" and "su_closure (co_subjects c) = None"
  shows "core_ok d" and "core_retains c d"
proof -
  from assms(1) have inv: "acts_wf c" "one_running c" "\<forall>a \<in> set (acts c). activity_ok a" "boundary_facts c"
      "admission_facts c" "candidate_facts c" "condition_facts c" "seal_facts c" "evidence_facts c"
      "accept_facts c" "closure_facts c"
    by (simp_all add: core_ok_def)
  note ch = lifecycle_change [OF assms(2) inv(3)]
  note wf = change_wf [OF ch inv(1)]
  note R = change_retains [OF ch inv(1)]
  show "core_retains c d" by (rule R)
  show "core_ok d"
    unfolding core_ok_def
    by (intro conjI wf change_one_running [OF ch inv(1,2)] change_ok [OF ch inv(1,3)]
        step_boundary [OF assms(2) R inv(4)] step_admission [OF assms(2) R inv(5)]
        step_candidate [OF assms(2) R inv(1) wf inv(6)] step_condition [OF assms(2) R inv(7,6)]
        step_seal [OF assms(2) R inv(1,3,2,8)] step_evidence [OF assms(2) R inv(1) wf inv(3,2,9,8,4)]
        step_accept [OF assms(2) inv(1,3,2,10)] step_closure [OF assms(2) inv(1,2,11,10) assms(3)])
qed

lemma core_fresh: "core_ok (core (freshReplay f))"
  by (simp add: core_ok_def core_def freshReplay_def acts_wf_def jsmap_wf_def acts_def one_running_def
      boundary_facts_def admission_facts_def candidate_facts_def condition_facts_def seal_facts_def
      evidence_facts_def accept_facts_def closure_facts_def no_subjects_def)

interpretation delivery: monotone_replay "append_event P" "\<lambda>r. core_ok (core r)"
  "\<lambda>r s. core_retains (core r) (core s)" for P
proof (unfold_locales, goal_cases)
  case (1 r e r')
  then show ?case using append_refines [OF 1(2)] core_ok_step(1) by (auto simp: core_sel)
next
  case (2 r)
  show ?case by simp
next
  case (3 r s t)
  then show ?case by (rule core_retains_trans)
next
  case (4 r e r')
  then show ?case using append_refines [OF 4(2)] core_ok_step(2) by (auto simp: core_sel)
qed

lemma journal_ok: "replay_events P f es = Inr r \<Longrightarrow> core_ok (core r)"
  unfolding replay_events_def by (rule delivery.run_inv [OF core_fresh])

lemma journal_prefix:
  assumes "replay_events P f (es @ fs) = Inr r"
  obtains q where "replay_events P f es = Inr q" "foldE (append_event P) q fs = Inr r" "core_ok (core q)"
    "core_retains (core q) (core r)"
  using assms delivery.prefix_inv [OF core_fresh] delivery.run_le
  unfolding replay_events_def by meson

section \<open>The chain\<close>

definition reproduced :: "platform \<Rightarrow> event \<Rightarrow> bool" where
  "reproduced P e \<longleftrightarrow> (\<exists>x. compileControlRecordEvent P (ev_storeId e) (ev_processId e) (ev_sequence e)
     (ev_predecessorDigest e) (event_input_of e) = Inr x \<and> ev_digest x = ev_digest e)"

lemma reproduced_time: "reproduced P e \<Longrightarrow> date_parse (ev_occurredAt e) \<noteq> None"
  by (auto simp: reproduced_def compileControlRecordEvent_def controlTimestamp_def event_input_of_def Let_def res_simps)

lemma verifyEnvelope_Inr:
  "verifyEnvelope P r e n = Inr q \<Longrightarrow> \<exists>q'. reproduced P e \<and> ev_sequence e = n \<and> chain_position r e = Inr q' \<and>
    ev_eventId e \<notin> re_eventIds q' \<and> \<not> js_less (date_parse (ev_occurredAt e)) (re_lastOccurredAt q') \<and>
    q = q'\<lparr>re_eventIds := insert (ev_eventId e) (re_eventIds q'),
      re_lastOccurredAt := date_parse (ev_occurredAt e)\<rparr>"
  by (auto simp: verifyEnvelope_def reproduced_def Let_def res_simps)

lemma chain_position_Inr:
  "chain_position r e = Inr q \<Longrightarrow> ev_predecessorDigest e = map_option ev_digest (re_lastEvent r) \<and>
    q = r\<lparr>re_storeId := Some (ev_storeId e), re_processId := Some (ev_processId e)\<rparr> \<and>
    (re_lastEvent r \<noteq> None \<longrightarrow> re_storeId r = Some (ev_storeId e) \<and> re_processId r = Some (ev_processId e))"
  by (cases "re_lastEvent r") (auto simp: chain_position_def res_simps)

lemma append_event_keeps:
  assumes "append_event P r e = Inr r'"
  shows "re_lastEvent r' = Some e" "ev_sequence e = event_count r + 1" "ev_eventId e \<notin> re_eventIds r"
    "re_eventIds r' = insert (ev_eventId e) (re_eventIds r)"
    "re_storeId r' = Some (ev_storeId e)" "re_processId r' = Some (ev_processId e)"
    "ev_predecessorDigest e = map_option ev_digest (re_lastEvent r)"
    "re_lastEvent r \<noteq> None \<Longrightarrow> re_storeId r' = re_storeId r \<and> re_processId r' = re_processId r"
    "re_lastOccurredAt r' = date_parse (ev_occurredAt e)"
    "\<not> js_less (date_parse (ev_occurredAt e)) (re_lastOccurredAt r)" "reproduced P e"
    "re_resolveRevision r' = re_resolveRevision r"
proof -
  from assms obtain q q' where q: "verifyEnvelope P r e (event_count r + 1) = Inr q"
    and q': "applyEvent P q e = Inr q'" and r': "r' = q'\<lparr>re_lastEvent := Some e\<rparr>"
    by (auto simp: append_event_def res_simps)
  have k: "keeps q q'" using q' handle_keeps by (auto simp: applyEvent_def res_simps split: option.splits)
  from verifyEnvelope_Inr [OF q] chain_position_Inr obtain p where p: "reproduced P e"
    "ev_sequence e = event_count r + 1" "chain_position r e = Inr p" "ev_eventId e \<notin> re_eventIds p"
    "\<not> js_less (date_parse (ev_occurredAt e)) (re_lastOccurredAt p)"
    "q = p\<lparr>re_eventIds := insert (ev_eventId e) (re_eventIds p), re_lastOccurredAt := date_parse (ev_occurredAt e)\<rparr>"
    by blast
  note c = chain_position_Inr [OF p(3)]
  show "re_lastEvent r' = Some e" by (simp add: r')
  show "ev_sequence e = event_count r + 1" "reproduced P e" by fact+
  show "ev_eventId e \<notin> re_eventIds r" "re_eventIds r' = insert (ev_eventId e) (re_eventIds r)"
    "re_storeId r' = Some (ev_storeId e)" "re_processId r' = Some (ev_processId e)"
    "ev_predecessorDigest e = map_option ev_digest (re_lastEvent r)"
    "re_lastEvent r \<noteq> None \<Longrightarrow> re_storeId r' = re_storeId r \<and> re_processId r' = re_processId r"
    "re_lastOccurredAt r' = date_parse (ev_occurredAt e)"
    "\<not> js_less (date_parse (ev_occurredAt e)) (re_lastOccurredAt r)"
    "re_resolveRevision r' = re_resolveRevision r"
    using k p(4,5) c by (simp_all add: r' p(6) keeps_def)
qed

text \<open>The journal the accepted events form, with the replay at its end.\<close>

definition chained :: "platform \<Rightarrow> event list \<Rightarrow> bool" where
  "chained P es \<longleftrightarrow>
     (\<forall>i < length es. ev_sequence (es ! i) = int i + 1 \<and>
        ev_predecessorDigest (es ! i) = (if i = 0 then None else Some (ev_digest (es ! (i - 1))))) \<and>
     (\<forall>e \<in> set es. reproduced P e) \<and>
     (\<exists>s p. \<forall>e \<in> set es. ev_storeId e = s \<and> ev_processId e = p) \<and>
     distinct (map ev_eventId es) \<and>
     sorted (map (\<lambda>e. the (date_parse (ev_occurredAt e))) es)"

definition chain_end :: "event list \<Rightarrow> replay \<Rightarrow> bool" where
  "chain_end es r \<longleftrightarrow> re_lastEvent r = (if es = [] then None else Some (last es)) \<and>
     event_count r = int (length es) \<and> re_eventIds r = set (map ev_eventId es) \<and>
     (es \<noteq> [] \<longrightarrow> re_storeId r = Some (ev_storeId (last es)) \<and> re_processId r = Some (ev_processId (last es))) \<and>
     re_lastOccurredAt r = (if es = [] then None else date_parse (ev_occurredAt (last es)))"

lemma sorted_snoc:
  assumes "sorted (map f es)" and "es \<noteq> [] \<Longrightarrow> f (last es) \<le> f e"
  shows "sorted (map f (es @ [e]))"
proof (cases "es = []")
  case False
  have "\<forall>d \<in> set es. f d \<le> f (last es)"
    using assms(1) False by (induction es) auto
  with assms False show ?thesis by (auto simp: sorted_append intro: order_trans)
qed simp

lemma chain_step:
  assumes c: "chained P es" "chain_end es r" and a: "append_event P r e = Inr r'"
  shows "chained P (es @ [e]) \<and> chain_end (es @ [e]) r'"
proof -
  note k = append_event_keeps [OF a]
  have seq: "ev_sequence e = int (length es) + 1" using c(2) k(2) by (simp add: chain_end_def)
  have prev: "ev_predecessorDigest e = (if es = [] then None else Some (ev_digest (es ! (length es - 1))))"
    using c(2) k(7) by (simp add: chain_end_def last_conv_nth)
  have scope: "ev_storeId e = ev_storeId (last es) \<and> ev_processId e = ev_processId (last es)" if "es \<noteq> []"
    using c(2) k(5,6,8) that by (simp add: chain_end_def)
  have time: "the (date_parse (ev_occurredAt (last es))) \<le> the (date_parse (ev_occurredAt e))" if "es \<noteq> []"
  proof -
    from that c(1) have "reproduced P (last es)" by (simp add: chained_def)
    with reproduced_time [OF this] reproduced_time [OF k(11)] k(10) c(2) that show ?thesis
      by (auto simp: chain_end_def)
  qed
  have "chained P (es @ [e])"
    unfolding chained_def
  proof (intro conjI)
    show "\<forall>i < length (es @ [e]). ev_sequence ((es @ [e]) ! i) = int i + 1 \<and>
        ev_predecessorDigest ((es @ [e]) ! i) = (if i = 0 then None else Some (ev_digest ((es @ [e]) ! (i - 1))))"
      using seq prev c(1) by (auto simp: chained_def nth_append less_Suc_eq)
    show "\<forall>d \<in> set (es @ [e]). reproduced P d"
      using k(11) c(1) by (simp add: chained_def)
    show "\<exists>s p. \<forall>d \<in> set (es @ [e]). ev_storeId d = s \<and> ev_processId d = p"
    proof (cases "es = []")
      case False
      from c(1) obtain s p where "\<forall>d \<in> set es. ev_storeId d = s \<and> ev_processId d = p"
        unfolding chained_def by blast
      with scope False show ?thesis by (intro exI [of _ s] exI [of _ p]) simp
    qed simp
    show "distinct (map ev_eventId (es @ [e]))" using k(3) c by (simp add: chained_def chain_end_def)
    show "sorted (map (\<lambda>e. the (date_parse (ev_occurredAt e))) (es @ [e]))"
      using c(1) time by (intro sorted_snoc) (simp_all add: chained_def)
  qed
  moreover have "chain_end (es @ [e]) r'"
    using k(1,4,5,6,9) seq scope c(2) by (cases "es = []") (auto simp: chain_end_def event_count_def)
  ultimately show ?thesis ..
qed

lemma journal_chain:
  "replay_events P f es = Inr r \<Longrightarrow> chained P es \<and> chain_end es r \<and> re_resolveRevision r = f"
proof (induction es arbitrary: r rule: rev_induct)
  case Nil
  then show ?case
    by (auto simp: replay_events_def chained_def chain_end_def event_count_def freshReplay_def)
next
  case (snoc e es)
  from snoc.prems obtain q where q: "replay_events P f es = Inr q" "append_event P q e = Inr r"
    by (auto simp: replay_events_def foldE_append res_simps)
  with snoc.IH [OF q(1)] chain_step [OF _ _ q(2)] append_event_keeps(12) [OF q(2)] show ?case by auto
qed

section \<open>The registers of subjects\<close>

definition registers_grow :: "replay \<Rightarrow> replay \<Rightarrow> bool" where
  "registers_grow r s \<longleftrightarrow> map_le (re_recordKinds r) (re_recordKinds s) \<and>
     map_le (re_recordRevisions r) (re_recordRevisions s) \<and> re_finalizedSubjects r \<subseteq> re_finalizedSubjects s"

lemma append_registers:
  assumes "append_event P r e = Inr r'"
  shows "registers_grow r r'" and "subjects_bound r \<Longrightarrow> subjects_bound r'"
proof -
  from assms obtain q q' where q: "verifyEnvelope P r e (event_count r + 1) = Inr q"
    and q': "applyEvent P q e = Inr q'" and r': "r' = q'\<lparr>re_lastEvent := Some e\<rparr>"
    by (auto simp: append_event_def res_simps)
  have k: "keeps q q'" using q' handle_keeps by (auto simp: applyEvent_def res_simps split: option.splits)
  from verifyEnvelope_Inr [OF q] obtain p where p: "chain_position r e = Inr p"
    "q = p\<lparr>re_eventIds := insert (ev_eventId e) (re_eventIds p), re_lastOccurredAt := date_parse (ev_occurredAt e)\<rparr>"
    by blast
  note c = chain_position_Inr [OF p(1)]
  show "registers_grow r r'" using k c by (simp add: registers_grow_def keeps_def p(2) r')
  show "subjects_bound r'" if "subjects_bound r"
    using k c that by (simp add: keeps_def p(2) r')
qed

interpretation registry: monotone_replay "append_event P" subjects_bound registers_grow for P
proof (unfold_locales, goal_cases)
  case (1 r e r')
  then show ?case using append_registers(2) by blast
next
  case (3 r s t)
  then show ?case by (auto simp: registers_grow_def intro: map_le_trans)
next
  case (4 r e r')
  then show ?case using append_registers(1) by blast
qed (simp add: registers_grow_def)

lemma journal_bound: "replay_events P f es = Inr r \<Longrightarrow> subjects_bound r"
  unfolding replay_events_def
  by (rule registry.run_inv [where s = "freshReplay f"]) (simp_all add: subjects_bound_def freshReplay_def)

section \<open>Delegated charges\<close>

definition reservations :: "core \<Rightarrow> reservation option list" where
  "reservations c = map ac_reservation (acts c)"

lemma update_same:
  "map_of m (ac_id a) = Some b \<Longrightarrow> distinct (map fst m) \<Longrightarrow> g b = g a \<Longrightarrow>
    map (\<lambda>p. g (snd p)) (AList.update (ac_id a) a m) = map (\<lambda>p. g (snd p)) m"
  by (induction m) (auto split: if_splits)

lemma reservations_kept:
  assumes "lifecycle k c d" and "k \<noteq> ActivityStarted" and wf: "acts_wf c"
    and ok: "\<forall>a \<in> set (acts c). activity_ok a"
  shows "reservations d = reservations c"
proof -
  have "change c d" by (rule lifecycle_change [OF assms(1) ok])
  then consider "co_activities d = co_activities c"
    | "\<forall>a \<in> set (acts c). ac_stage a = Completed" "co_activities d \<noteq> co_activities c"
    | a b where "running c a" "retains a b" "co_activities d = co_activities (put_core b c)"
    unfolding change_def by blast
  then show ?thesis
  proof cases
    case 1
    then show ?thesis by (simp add: reservations_def acts_def)
  next
    case 2
    from assms(1) have False
      by cases (use 2 assms(2) in \<open>auto dest!: running_all [where Q = "\<lambda>a. ac_stage a = Completed"]\<close>)
    then show ?thesis ..
  next
    case (3 a b)
    from 3(1) wf have "map_of (co_activities c) (ac_id a) = Some a" "distinct (map fst (co_activities c))"
      by (auto simp: running_def acts_wf_def jsmap_wf_def dest: map_of_SomeD)
    moreover from 3(2) have "ac_id b = ac_id a" "ac_reservation b = ac_reservation a" by (simp_all add: retains_def)
    ultimately show ?thesis
      using update_same [of "co_activities c" b a ac_reservation]
      by (simp add: reservations_def acts_def 3(3) put_core_def comp_def)
  qed
qed

fun total_charges :: "reservation option list \<Rightarrow> accounting" where
  "total_charges [] = no_charges"
| "total_charges (None # rs) = total_charges rs"
| "total_charges (Some v # rs) = add_accounting (rp_charges v) (total_charges rs)"

fun reservation_ids :: "reservation option list \<Rightarrow> string list" where
  "reservation_ids [] = []"
| "reservation_ids (None # rs) = reservation_ids rs"
| "reservation_ids (Some v # rs) = rp_reservationId v # reservation_ids rs"

definition delegation_ok :: "platform \<Rightarrow> replay \<Rightarrow> bool" where
  "delegation_ok P r \<longleftrightarrow> (\<forall>d. re_delegation r = Some d \<longrightarrow>
     (\<exists>x. parseWorkDelegationPayload P x = Inr (dl_payload d)) \<and>
     within (re_delegatedCharges r) (dp_ceilings (dl_payload d)))"

definition accounted :: "platform \<Rightarrow> replay \<Rightarrow> bool" where
  "accounted P r \<longleftrightarrow> core_ok (core r) \<and> delegation_ok P r \<and>
     re_delegatedCharges r = total_charges (reservations (core r)) \<and>
     distinct (reservation_ids (reservations (core r)))"

lemma total_charges_snoc:
  "total_charges (rs @ [None]) = total_charges rs"
  "total_charges (rs @ [Some v]) = add_accounting (total_charges rs) (rp_charges v)"
  by (induction rs rule: total_charges.induct) (simp_all add: add_accounting_def no_charges_def)

lemma reservation_ids_snoc:
  "reservation_ids (rs @ [None]) = reservation_ids rs"
  "reservation_ids (rs @ [Some v]) = reservation_ids rs @ [rp_reservationId v]"
  by (induction rs rule: reservation_ids.induct) simp_all

lemma reservation_ids_set: "i \<in> set (reservation_ids rs) \<longleftrightarrow> (\<exists>v. Some v \<in> set rs \<and> rp_reservationId v = i)"
  by (induction rs rule: reservation_ids.induct) auto

lemma reserved_facts:
  "reservedOpening P r e i op v b = Inr b' \<Longrightarrow> \<exists>d w. re_delegation r = Some d \<and>
    rp_reservationId v \<notin> set (reservation_ids (reservations (core r))) \<and>
    assessWorkDelegationAllowance P (dl_payload d) (re_delegatedCharges r) v (ev_occurredAt e) (dl_stopped d) = Inr w \<and>
    aw_allowed w"
  by (clarsimp simp: reservedOpening_def Let_def res_simps)
    (auto simp: reservation_ids_set reservations_def acts_core list_ex_iff dest: sym)

lemma opened_reservations:
  assumes "map_of (re_activities r) i = None" and "ac_id a = i"
  shows "reservations (core (put_activity a r)) = reservations (core r) @ [ac_reservation a]"
proof -
  have "map_of m (ac_id a) = None \<Longrightarrow> AList.update (ac_id a) a m = m @ [(ac_id a, a)]" for m :: "activity jsmap"
    by (induction m) (auto split: if_splits)
  with assms show ?thesis by (simp add: reservations_def acts_def put_core_def)
qed

lemma accounted_start:
  assumes inv: "accounted P r" and start: "startActivity P r e = Inr r'" and ok: "core_ok (core r')"
  shows "accounted P r'"
proof -
  from start_shape_replay [OF start] obtain p i op fam ob brief reservation charges pb where
    new: "map_of (re_activities r) i = None" and p: "opening_reservation P p = Inr reservation"
    and b: "opening_brief P r e i op reservation = Inr brief"
    and c: "charged (put_activity (opened_activity i op fam (currentStanding r) ob brief reservation) r) reservation
       = Inr charges"
    and r': "r' = put_activity (opened_activity i op fam (currentStanding r) ob brief reservation) r
       \<lparr>re_delegatedCharges := charges, re_plannedBriefs := pb\<rparr>"
    by blast
  have rs: "reservations (core r') = reservations (core r) @ [reservation]"
    using opened_reservations [OF new] by (simp add: r' opened_activity_def)
  have d: "re_delegation r' = re_delegation r" "re_delegatedCharges r' = charges"
    by (simp_all add: r' put_activity_def)
  show ?thesis
  proof (cases reservation)
    case None
    with c have "charges = re_delegatedCharges r" by (simp add: charged_def put_activity_def)
    with inv d rs None ok show ?thesis
      by (auto simp: accounted_def delegation_ok_def total_charges_snoc reservation_ids_snoc)
  next
    case (Some v)
    with p obtain x where x: "parseWorkDelegationReservation P x = Inr v"
      by (auto simp: opening_reservation_def res_simps split: if_splits)
    from b Some have "reservedOpening P r e i op v (re_plannedBriefs r i) = Inr brief"
      by (simp add: opening_brief_def)
    then obtain g w where g: "re_delegation r = Some g"
      and i: "rp_reservationId v \<notin> set (reservation_ids (reservations (core r)))"
      and w: "assessWorkDelegationAllowance P (dl_payload g) (re_delegatedCharges r) v (ev_occurredAt e) (dl_stopped g) = Inr w"
        "aw_allowed w"
      using reserved_facts by blast
    from inv g obtain y where "parseWorkDelegationPayload P y = Inr (dl_payload g)"
      by (auto simp: accounted_def delegation_ok_def)
    note a = allowance_Inr [OF w(1) this x]
    have "charges = add_accounting (re_delegatedCharges r) (rp_charges v)"
      using c Some by (simp add: charged_def add_accounting_Inr put_activity_def)
    with a w(2) inv d rs g i Some ok show ?thesis
      by (auto simp: accounted_def delegation_ok_def total_charges_snoc reservation_ids_snoc)
  qed
qed

lemma reservations_frame [simp]:
  "reservations (core (r\<lparr>re_delegation := d\<rparr>)) = reservations (core r)"
  by simp

lemma accounted_set:
  assumes inv: "accounted P r" and set: "setWorkDelegation P r e = Inr r'" and ok: "core_ok (core r')"
  shows "accounted P r'"
proof -
  from set_shape [OF set] obtain rv grant q t where
    g: "parseWorkDelegationPayload P (JObj (rv_payload rv)) = Inr grant"
      "ceilings_cover (dp_ceilings grant) (re_delegatedCharges r)"
    and b: "bindDirection rv (filter (\<lambda>l. rel_relation l = ''uses-brief'') (rv_relationships rv))
       (registered r ''work-delegation'' rv) (Continue, dp_continue_direction grant) = Inr t"
      "bindDirection rv (filter (\<lambda>l. rel_relation l = ''uses-brief'') (rv_relationships rv))
       t (Evaluate, dp_evaluate_direction grant) = Inr q"
    and r': "r' = q\<lparr>re_delegation := Some \<lparr>dl_reference = retainedReference rv, dl_payload = grant, dl_stopped = False\<rparr>\<rparr>"
    by blast
  from delegated_bind [OF b(1)] delegated_bind [OF b(2)] have
    "re_delegatedCharges q = re_delegatedCharges r" "re_activities q = re_activities r"
    by (simp_all add: delegated_def)
  with inv g ok show ?thesis
    by (auto simp: accounted_def delegation_ok_def r' reservations_def acts_core activities_def
        ceilings_cover_def within_def not_less)
qed

lemma accounted_stop:
  "accounted P r \<Longrightarrow> stopWorkDelegation P r e = Inr r' \<Longrightarrow> core_ok (core r') \<Longrightarrow> accounted P r'"
  by (drule stop_shape) (clarsimp simp: accounted_def delegation_ok_def)

lemma accounted_step:
  assumes inv: "accounted P r" and app: "append_event P r e = Inr r'"
  shows "accounted P r'"
proof -
  from app obtain q q' where q: "verifyEnvelope P r e (event_count r + 1) = Inr q"
    and q': "applyEvent P q e = Inr q'" and r': "r' = q'\<lparr>re_lastEvent := Some e\<rparr>"
    by (auto simp: append_event_def res_simps)
  from verifyEnvelope_core [OF q] have core: "core q = core r" .
  from verifyEnvelope_Inr [OF q] chain_position_Inr have
    "re_delegation q = re_delegation r" "re_delegatedCharges q = re_delegatedCharges r" by fastforce+
  with inv core have inv': "accounted P q" by (auto simp: accounted_def delegation_ok_def)
  have ok: "core_ok (core q')" using delivery.step_inv [of r P e r'] inv app by (simp add: accounted_def r')
  from verifyEnvelope_kind [OF q] obtain kind where k: "ev_eventKind e = event_kind_name kind" by blast
  with q' have h: "handle P kind q e = Inr q'" by (auto simp: applyEvent_def res_simps)
  have "accounted P q'"
  proof (cases "kind \<in> {WorkDelegationSet, WorkDelegationStopped, ActivityStarted}")
    case True
    with h accounted_start [OF inv' _ ok] accounted_set [OF inv' _ ok] accounted_stop [OF inv' _ ok]
    show ?thesis by auto
  next
    case False
    with handle_frames [OF h] have "delegated q' = delegated q" by (simp add: frames_def)
    moreover have "reservations (core q') = reservations (core q)"
      using reservations_kept [OF refine_handle [OF h]] False inv' by (auto simp: accounted_def core_ok_def)
    ultimately show ?thesis using inv' ok by (auto simp: accounted_def delegation_ok_def delegated_def)
  qed
  moreover have "accounted P (q'\<lparr>re_lastEvent := Some e\<rparr>) = accounted P q'"
    by (simp add: accounted_def delegation_ok_def)
  ultimately show ?thesis by (simp add: r')
qed

interpretation charges: event_replay "append_event P" "accounted P" for P
  by unfold_locales (rule accounted_step)

lemma accounted_fresh: "accounted P (freshReplay f)"
  unfolding accounted_def
  by (intro conjI core_fresh)
    (simp_all add: delegation_ok_def reservations_def acts_core activities_def freshReplay_def)

lemma journal_accounted: "replay_events P f es = Inr r \<Longrightarrow> accounted P r"
  unfolding replay_events_def by (rule charges.run_inv [OF accounted_fresh])

end
