(* ===== verification/Delivery_Assurance.thy ===== *)
theory Delivery_Assurance
  imports Delivery_Journal
begin

text \<open>
  What a replayed journal guarantees of its replay, as lemmas over the replay's own fields:
  the invariants of \<open>Delivery_Journal\<close> read back from the abstract lifecycle, the operations
  that are eligible, and the link between a recorded Closure and the head of the journal.
\<close>

section \<open>The invariants of a replay\<close>

lemma journal_facts:
  assumes "replay_events P f es = Inr r"
  shows "acts_wf (core r)" "one_running (core r)" "\<And>a. a \<in> set (activities r) \<Longrightarrow> activity_ok a"
    "boundary_facts (core r)" "admission_facts (core r)" "candidate_facts (core r)"
    "condition_facts (core r)" "seal_facts (core r)" "evidence_facts (core r)" "accept_facts (core r)"
    "closure_facts (core r)"
  using journal_ok [OF assms] by (simp_all add: core_ok_def acts_core)

lemma journal_one_incomplete:
  "replay_events P f es = Inr r \<Longrightarrow> a \<in> set (activities r) \<Longrightarrow> b \<in> set (activities r) \<Longrightarrow>
    incomplete a \<Longrightarrow> incomplete b \<Longrightarrow> a = b"
  using journal_facts(2) by (fastforce simp: one_running_def acts_core incomplete_def)

lemma journal_recovery:
  assumes "replay_events P f es = Inr r" and "a \<in> set (activities r)"
  shows "incomplete a \<longleftrightarrow> ac_recovery a \<noteq> None" and "incomplete a \<longleftrightarrow> ac_completionOutcome a = None"
    and "ac_recovery a = Some ob \<Longrightarrow> ob = owed (ro_resumesAt ob) (carried a (ro_resumesAt ob)) \<and>
      ro_resumesAt ob \<in> phase_steps a"
  using journal_facts(3) [OF assms] by (auto simp: activity_ok_def shape_ok_def phase_ok_def incomplete_def)

lemma journal_unresolved:
  assumes "replay_events P f es = Inr r"
  shows "some_recovery (unresolvedActivities (stateFromReplay r)) = list_ex incomplete (activities r)"
    and "unresolvedActivities (stateFromReplay r) = [] \<longleftrightarrow> \<not> list_ex incomplete (activities r)"
  using journal_recovery(1) [OF assms]
  by (auto simp: some_recovery_def unresolvedActivities_def publicActivity_def list_ex_iff incomplete_def filter_empty_conv)

definition earned_acceptance :: "replay \<Rightarrow> bool" where
  "earned_acceptance r \<longleftrightarrow>
    (\<exists>a \<in> set (activities r). ac_operation a = Accept \<and> ac_decision a \<noteq> None \<and>
      ac_transactionOutcome a = Some Applied \<and> ac_closure a = su_closure (re_subjects r)) \<and>
    (\<exists>a \<in> set (activities r). ac_operation a = Evaluate \<and> ac_seal a \<noteq> None \<and>
      ac_seal a = su_seal (re_subjects r) \<and> ac_receipt a \<noteq> None \<and> ac_checks a \<noteq> [] \<and>
      list_all legalForAcceptance (ac_checks a) \<and> ac_evidence a = su_evidence (re_subjects r) \<and>
      ac_evidenceReadiness a = Some AcceptanceReady) \<and>
    (\<exists>a \<in> set (activities r). prepares_boundary (ac_operation a) \<and> ac_boundary a \<noteq> None \<and>
      ac_boundary a = su_activeBoundary (re_subjects r) \<and> ac_completionOutcome a = Some OutcomeCompleted \<and>
      ac_checks a \<noteq> [] \<and> list_all legalBaselineReceipt (ac_checks a)) \<and>
    (\<exists>a \<in> set (activities r). ac_operation a = Admit \<and> ac_decision a \<noteq> None \<and>
      ac_decision a = re_activeAdmission r \<and> ac_transactionOutcome a = Some Applied) \<and>
    su_materialCondition (re_subjects r) = None \<and> list_all (\<lambda>a. ac_stage a = Completed) (activities r)"

lemma journal_acceptance:
  assumes "replay_events P f es = Inr r" and "re_closureDisposition r = Some ClosureAccepted"
  shows "earned_acceptance r"
proof -
  note facts = journal_facts [OF assms(1)]
  from facts(11) assms(2) obtain x where x: "su_closure (re_subjects r) = Some x"
    and ready: "re_evidenceReadiness r = Some AcceptanceReady" "su_materialCondition (re_subjects r) = None"
    by (fastforce simp: closure_facts_def)
  with facts(11) obtain c where c: "c \<in> set (activities r)" "closing (core r) c x"
    and completed: "\<forall>a \<in> set (activities r). ac_stage a = Completed"
    unfolding closure_facts_def acts_core by auto
  from facts(9) ready obtain ev where ev: "su_evidence (re_subjects r) = Some ev"
    by (auto simp: evidence_facts_def)
  with facts(9) ready obtain a where a: "a \<in> set (activities r)"
      "evaluated a (su_seal (re_subjects r)) ev AcceptanceReady" and base: "baseline_legal (core r)"
    unfolding evidence_facts_def acts_core by auto
  from base obtain b where b: "su_activeBoundary (re_subjects r) = Some b" by (auto simp: baseline_legal_def)
  with facts(4) obtain p where p: "p \<in> set (activities r)" "certified p b"
    unfolding boundary_facts_def acts_core by auto
  from facts(5) b obtain m d where m: "m \<in> set (activities r)" "admitted_by m d" "re_activeAdmission r = Some d"
    unfolding admission_facts_def acts_core by auto
  have closer: "ac_operation c = Accept \<and> ac_decision c \<noteq> None \<and> ac_transactionOutcome c = Some Applied \<and>
      ac_closure c = su_closure (re_subjects r)"
    using c(2) assms(2) x by (auto simp: closing_def expectedDisposition_def split: if_splits)
  have review: "ac_operation a = Evaluate \<and> ac_seal a \<noteq> None \<and>
      ac_seal a = su_seal (re_subjects r) \<and> ac_receipt a \<noteq> None \<and> ac_checks a \<noteq> [] \<and>
      list_all legalForAcceptance (ac_checks a) \<and> ac_evidence a = su_evidence (re_subjects r) \<and>
      ac_evidenceReadiness a = Some AcceptanceReady"
    using a(2) ev by (simp add: evaluated_def)
  have plan: "prepares_boundary (ac_operation p) \<and> ac_boundary p \<noteq> None \<and>
      ac_boundary p = su_activeBoundary (re_subjects r) \<and> ac_completionOutcome p = Some OutcomeCompleted \<and>
      ac_checks p \<noteq> [] \<and> list_all legalBaselineReceipt (ac_checks p)"
    using p(2) b by (simp add: certified_def)
  have admit: "ac_operation m = Admit \<and> ac_decision m \<noteq> None \<and>
      ac_decision m = re_activeAdmission r \<and> ac_transactionOutcome m = Some Applied"
    using m(2,3) by (simp add: admitted_by_def)
  have "list_all (\<lambda>a. ac_stage a = Completed) (activities r)" using completed by (simp add: list_all_iff)
  with closer review plan admit c(1) a(1) p(1) m(1) ready(2) show ?thesis
    unfolding earned_acceptance_def by blast
qed

lemma journal_retains:
  assumes "replay_events P f (es @ fs) = Inr s" and "replay_events P f es = Inr r" and "a \<in> set (activities r)"
  shows "\<exists>b \<in> set (activities s). retains a b"
proof -
  from assms(1) obtain q where "replay_events P f es = Inr q" "core_retains (core q) (core s)"
    by (rule journal_prefix)
  with assms(2,3) show ?thesis by (auto simp: core_retains_def acts_core)
qed

lemma journal_registers:
  assumes "replay_events P f es = Inr r" and "replay_events P f (es @ fs) = Inr s"
  shows "re_recordKinds r \<subseteq>\<^sub>m re_recordKinds s \<and> re_recordRevisions r \<subseteq>\<^sub>m re_recordRevisions s \<and>
    re_finalizedSubjects r \<subseteq> re_finalizedSubjects s \<and>
    (\<forall>(kind, x) \<in> re_finalizedSubjects s. re_recordKinds s (ref_id x) = Some kind \<and>
       re_recordRevisions s (ref_id x, ref_revision x) = Some (ref_digest x) \<and>
       (\<exists>rv. f (reference_subject x) = Some rv \<and> rv_recordKind rv = kind \<and> retainedReference rv = x))"
proof -
  from assms have "foldE (append_event P) r fs = Inr s" by (simp add: replay_events_def foldE_append)
  with registry.run_le journal_bound [OF assms(1)] have "registers_grow r s" by blast
  moreover have "subjects_bound s" by (rule journal_bound [OF assms(2)])
  moreover have "re_resolveRevision s = f" using journal_chain [OF assms(2)] by blast
  ultimately show ?thesis by (simp add: registers_grow_def subjects_bound_def)
qed

lemma journal_sources:
  assumes "replay_events P f es = Inr r"
  shows "(\<forall>b. su_proposedBoundary (re_subjects r) = Some b \<or> su_activeBoundary (re_subjects r) = Some b \<longrightarrow>
      (\<exists>a \<in> set (activities r). certified a b)) \<and>
    (su_activeBoundary (re_subjects r) \<noteq> None \<longrightarrow> (\<exists>d. re_activeAdmission r = Some d \<and>
      (\<exists>a \<in> set (activities r). admitted_by a d))) \<and>
    (\<forall>m. su_materialCondition (re_subjects r) = Some m \<longrightarrow> su_candidate (re_subjects r) \<noteq> None \<and>
      (\<exists>a \<in> set (activities r). ac_materialCondition a = Some m)) \<and>
    (\<forall>s. su_seal (re_subjects r) = Some s \<longrightarrow> su_candidate (re_subjects r) \<noteq> None \<and>
      (\<exists>a \<in> set (activities r). ac_operation a = Evaluate \<and> ac_seal a = Some s)) \<and>
    (\<forall>x. su_evidence (re_subjects r) = Some x \<longrightarrow> (\<exists>rd. re_evidenceReadiness r = Some rd \<and>
      (\<exists>a \<in> set (activities r). evaluated a (su_seal (re_subjects r)) x rd)))"
proof (intro conjI)
  note facts = journal_facts [OF assms]
  show "\<forall>b. su_proposedBoundary (re_subjects r) = Some b \<or> su_activeBoundary (re_subjects r) = Some b \<longrightarrow>
      (\<exists>a \<in> set (activities r). certified a b)"
    using facts(4) unfolding boundary_facts_def acts_core core_sel .
  show "su_activeBoundary (re_subjects r) \<noteq> None \<longrightarrow> (\<exists>d. re_activeAdmission r = Some d \<and>
      (\<exists>a \<in> set (activities r). admitted_by a d))"
    using facts(5) unfolding admission_facts_def acts_core core_sel by (metis option.exhaust)
  show "\<forall>m. su_materialCondition (re_subjects r) = Some m \<longrightarrow> su_candidate (re_subjects r) \<noteq> None \<and>
      (\<exists>a \<in> set (activities r). ac_materialCondition a = Some m)"
    using facts(7) unfolding condition_facts_def acts_core core_sel by blast
  show "\<forall>s. su_seal (re_subjects r) = Some s \<longrightarrow> su_candidate (re_subjects r) \<noteq> None \<and>
      (\<exists>a \<in> set (activities r). ac_operation a = Evaluate \<and> ac_seal a = Some s)"
    using facts(8) unfolding seal_facts_def acts_core core_sel by blast
  show "\<forall>x. su_evidence (re_subjects r) = Some x \<longrightarrow> (\<exists>rd. re_evidenceReadiness r = Some rd \<and>
      (\<exists>a \<in> set (activities r). evaluated a (su_seal (re_subjects r)) x rd))"
  proof (intro allI impI)
    fix x assume x: "su_evidence (re_subjects r) = Some x"
    have ev: "(su_evidence (re_subjects r) = None) = (re_evidenceReadiness r = None)"
      "\<And>rd. re_evidenceReadiness r = Some rd \<Longrightarrow> \<exists>a \<in> set (activities r). evaluated a (su_seal (re_subjects r)) x rd"
      using facts(9) x unfolding evidence_facts_def acts_core core_sel by blast+
    from ev(1) x obtain rd where "re_evidenceReadiness r = Some rd" by auto
    with ev(2) show "\<exists>rd. re_evidenceReadiness r = Some rd \<and>
      (\<exists>a \<in> set (activities r). evaluated a (su_seal (re_subjects r)) x rd)" by blast
  qed
qed

section \<open>Eligible operations\<close>

lemma closure_standing: "currentStanding r = Closed \<longleftrightarrow> su_closure (re_subjects r) \<noteq> None"
  by (simp add: currentStanding_def Let_def)

lemma journal_eligible:
  assumes "replay_events P f es = Inr r"
  shows "st_eligibleOperations (reducedState r) =
    (if currentStanding r = Closed then []
     else if list_ex incomplete (activities r) then [Recover]
     else filter (operation_eligible (stateFromReplay r) (re_candidateIntegrated r)) DELIVERY_OPERATIONS)"
  using journal_unresolved [OF assms]
  by (simp add: reducedState_def with_eligible_def eligibleDeliveryOperations_def Let_def
      stateFromReplay_def delivery_state.defs reduced_state.defs)

lemma reducedState_standing [simp]:
  "st_standing (reducedState r) = currentStanding r" "st_subjects (reducedState r) = re_subjects r"
  "st_activities (reducedState r) = map publicActivity (activities r)"
  "st_candidateCondition (reducedState r) = currentCandidateCondition r"
  by (simp_all add: reducedState_def with_eligible_def Let_def stateFromReplay_def delivery_state.defs
      reduced_state.defs)

lemma quiet_eligible:
  assumes "replay_events P f es = Inr r" and "currentStanding r \<noteq> Closed" and "\<not> list_ex incomplete (activities r)"
  shows "NoShip \<in> set (st_eligibleOperations (reducedState r)) \<or>
     Prepare \<in> set (st_eligibleOperations (reducedState r)) \<and> currentStanding r = Framing"
proof -
  note u = journal_unresolved [OF assms(1)]
  have free: "unresolvedActivities (stateFromReplay r) = []" "\<not> some_recovery []"
    using u(2) assms(3) by (simp_all add: some_recovery_def)
  have all_done: "\<forall>a \<in> set (activities r). ac_stage a = Completed"
    using assms(3) by (auto simp: list_ex_iff incomplete_def)
  have conc: "concurrencyAllows (operation_descriptor NoShip) (unresolvedActivities (stateFromReplay r))"
    "concurrencyAllows (operation_descriptor Prepare) (unresolvedActivities (stateFromReplay r))"
    using free by (simp_all add: concurrencyAllows_def operation_entry_def)
  show ?thesis
  proof (cases "currentStanding r = Framing \<and> (\<forall>a \<in> set (activities r). ac_operation a \<noteq> Prepare)")
    case True
    then have none: "find (\<lambda>a. da_operation a = Prepare) (st_activities (stateFromReplay r)) = None"
      by (auto simp: find_None_iff stateFromReplay_def publicActivity_def)
    have "su_activeBoundary (re_subjects r) = None"
      using True by (auto simp: currentStanding_def Let_def split: if_splits)
    then have "su_candidate (re_subjects r) = None"
      using journal_facts(6) [OF assms(1)] by (auto simp: candidate_facts_def)
    with True none conc(2) have "operation_eligible (stateFromReplay r) (re_candidateIntegrated r) Prepare"
      by (simp add: operation_eligible_def Let_def stateFromReplay_def operation_entry_def)
    with True assms(2,3) journal_eligible [OF assms(1)] show ?thesis by simp
  next
    case False
    have "currentStanding r = Framing \<longrightarrow>
        map_option da_stage (find (\<lambda>a. da_operation a = Prepare) (st_activities (stateFromReplay r))) = Some Completed"
    proof
      assume "currentStanding r = Framing"
      with False obtain a where "a \<in> set (activities r)" "ac_operation a = Prepare" by blast
      then have "find (\<lambda>a. da_operation a = Prepare) (st_activities (stateFromReplay r)) \<noteq> None"
        by (auto simp: find_None_iff stateFromReplay_def publicActivity_def)
      then obtain p where p: "find (\<lambda>a. da_operation a = Prepare) (st_activities (stateFromReplay r)) = Some p"
        by blast
      then have "p \<in> publicActivity ` set (activities r)"
        by (auto simp: find_Some_iff stateFromReplay_def)
      with all_done p show "map_option da_stage (find (\<lambda>a. da_operation a = Prepare)
          (st_activities (stateFromReplay r))) = Some Completed"
        by (auto simp: publicActivity_def)
    qed
    moreover have "currentStanding r \<in> set (od_legalStandings (operation_descriptor NoShip))"
      using assms(2) by (cases "currentStanding r") (simp_all add: operation_entry_def)
    ultimately have "operation_eligible (stateFromReplay r) (re_candidateIntegrated r) NoShip"
      using conc(1) by (simp add: operation_eligible_def Let_def stateFromReplay_def operation_entry_def)
    with assms(2,3) journal_eligible [OF assms(1)] show ?thesis by simp
  qed
qed

lemma reduced_operations:
  assumes "reduceDeliveryEvents P es f = Inr s"
  shows "if st_standing s = Closed then st_eligibleOperations s = []
    else if \<exists>a \<in> set (st_activities s). da_stage a \<noteq> Completed then st_eligibleOperations s = [Recover]
    else NoShip \<in> set (st_eligibleOperations s) \<or>
      st_standing s = Framing \<and> Prepare \<in> set (st_eligibleOperations s)"
proof -
  from assms obtain r where r: "replay_events P f es = Inr r" "s = reducedState r"
    by (auto simp: reduceDeliveryEvents_def res_simps)
  have "list_ex incomplete (activities r) = (\<exists>a \<in> set (st_activities s). da_stage a \<noteq> Completed)"
    by (auto simp: r(2) list_ex_iff incomplete_def publicActivity_def)
  with journal_eligible [OF r(1)] quiet_eligible [OF r(1)] show ?thesis
    by (auto simp: r(2))
qed

section \<open>The head of a closed journal\<close>

definition closed_head :: "replay \<Rightarrow> bool" where
  "closed_head r \<longleftrightarrow> (\<forall>x. su_closure (re_subjects r) = Some x \<longrightarrow> (\<exists>e. re_lastEvent r = Some e \<and>
     ev_eventKind e = ''closure-recorded'' \<and> ev_subject e = Some (reference_subject x)))"

lemma closure_subject:
  "recordClosure P r e = Inr r' \<Longrightarrow>
    \<exists>x. su_closure (re_subjects r') = Some x \<and> ev_subject e = Some (reference_subject x)"
  by (auto simp: recordClosure_def Let_def res_simps update_subjects_def finalizes_def dest!: registers_finalizes)

lemma lifecycle_closure:
  "lifecycle k c d \<Longrightarrow> su_closure (co_subjects c) = None \<Longrightarrow> su_closure (co_subjects d) \<noteq> None \<Longrightarrow> k = ClosureRecorded"
  by (erule lifecycle.cases) auto

lemma append_closed_head:
  assumes "append_event P r e = Inr r'"
  shows "closed_head r'"
proof -
  from assms obtain q q' where q: "verifyEnvelope P r e (event_count r + 1) = Inr q"
    and q': "applyEvent P q e = Inr q'" and r': "r' = q'\<lparr>re_lastEvent := Some e\<rparr>"
    by (auto simp: append_event_def res_simps)
  from append_refines [OF assms] obtain kind where k: "ev_eventKind e = event_kind_name kind"
    and unclosed: "su_closure (re_subjects r) = None" and step: "lifecycle kind (core r) (core r')"
    by blast
  have h: "handle P kind q e = Inr q'" using q' k by (auto simp: applyEvent_def res_simps)
  show ?thesis
    unfolding closed_head_def
  proof (intro allI impI)
    fix x assume x: "su_closure (re_subjects r') = Some x"
    with lifecycle_closure [OF step] unclosed have "kind = ClosureRecorded" by simp
    with h k closure_subject [of P q e q'] x r' show "\<exists>e. re_lastEvent r' = Some e \<and>
        ev_eventKind e = ''closure-recorded'' \<and> ev_subject e = Some (reference_subject x)"
      by auto
  qed
qed

interpretation head: event_replay "append_event P" closed_head for P
  by unfold_locales (rule append_closed_head)

lemma journal_head: "replay_events P f es = Inr r \<Longrightarrow> closed_head r"
  unfolding replay_events_def
  by (rule head.run_inv [where s = "freshReplay f"]) (simp_all add: closed_head_def freshReplay_def no_subjects_def)

lemma sealable_iff:
  assumes "replay_events P f es = Inr r"
  shows "assertDeliveryReplaySealable P es f = Inr s \<longleftrightarrow> s = reducedState r \<and> currentStanding r = Closed"
proof (cases "currentStanding r = Closed")
  case True
  then obtain x where x: "su_closure (re_subjects r) = Some x" by (auto simp: closure_standing)
  with journal_head [OF assms] obtain e where "re_lastEvent r = Some e"
    "ev_eventKind e = ''closure-recorded''" "ev_subject e = Some (reference_subject x)"
    by (auto simp: closed_head_def)
  moreover have "\<not> list_ex (\<lambda>a. da_stage a \<noteq> Completed) (map publicActivity (activities r))"
    using journal_facts(11) [OF assms] x by (auto simp: closure_facts_def list_ex_iff publicActivity_def acts_core)
  ultimately show ?thesis
    using assms True x by (auto simp: assertDeliveryReplaySealable_def assertSealableState_def)
next
  case False
  with assms show ?thesis
    by (auto simp: assertDeliveryReplaySealable_def assertSealableState_def)
qed

end
