(* ===== verification/Delivery_Obligations.thy ===== *)
theory Delivery_Obligations
  imports Delivery_Assurance
begin

text \<open>
  The obligation of the activity under way and the events that resolve it: the recovery
  registry (\<open>process/recovery-registry.ts\<close>) against what the reducer accepts, and the state in
  which no event resolves the obligation.
\<close>

section \<open>Obligations and the registry\<close>

definition founded :: "replay \<Rightarrow> bool" where
  "founded r \<longleftrightarrow> (re_activities r \<noteq> [] \<longrightarrow> re_created r)"

lemma lifecycle_created: "lifecycle k c d \<Longrightarrow> co_created d = (co_created c \<or> k = DeliveryCreated)"
  by (erule lifecycle.cases) auto

interpretation foundation: event_replay "append_event P" founded for P
proof
  fix r e r' assume inv: "founded r" and app: "append_event P r e = Inr r'"
  from append_refines [OF app] obtain k where k: "re_created r \<or> k = DeliveryCreated" "lifecycle k (core r) (core r')"
    by blast
  with lifecycle_created [OF k(2)] show "founded r'" by (auto simp: founded_def)
qed

lemma journal_founded: "replay_events P f es = Inr r \<Longrightarrow> founded r"
  unfolding replay_events_def
  by (rule foundation.run_inv [where s = "freshReplay f"]) (simp_all add: founded_def freshReplay_def)

text \<open>Events that resolve no obligation, and the ones the reducer accepts beside the registry.\<close>

definition bookkeeping_kinds :: "event_kind set" where
  "bookkeeping_kinds = {DirectorBriefSubmitted, WorkDelegationSet, WorkDelegationStopped, ActivityRecoveryRecorded}"

definition unregistered_answers :: "(event_kind \<times> recovery_step) set" where
  "unregistered_answers =
     {(AgentWorkProductSubmitted, StepExecutionReceiptRecorded),
      (AgentWorkProductAbandoned, StepExecutionReceiptRecorded),
      (CandidateRevisionObserved, StepWorkProductObservation),
      (ExecutionReceiptRecorded, StepCandidateRevisionObserved),
      (MaterialConditionFrozen, StepActivityCompleted),
      (CheckReceiptRecorded, StepActivityCompleted)}"

definition registered_answer :: "event_kind \<Rightarrow> recovery_step \<Rightarrow> bool" where
  "registered_answer k s \<longleftrightarrow> (\<exists>d evs. deliveryRecoveryDescriptor (step_kind s) (step_name s) = Inr d \<and>
     rd_next d = NextEvents evs \<and> event_kind_name k \<in> set evs)"

fun answering :: "recovery_step \<Rightarrow> event_kind list" where
  "answering StepIntegrationAssessed = [IntegrationAssessed]"
| "answering StepCandidateSealed = [CandidateSealed]"
| "answering StepAgentAttemptPrepared = [AgentAttemptPrepared, AgentPreIntentRefused]"
| "answering StepProviderEffectIntended = [ProviderEffectIntended]"
| "answering StepProviderEffectObserved = [ProviderEffectObserved]"
| "answering StepWorkProductObservation = [AgentWorkProductSubmitted, AgentWorkProductAbandoned]"
| "answering StepCandidateRevisionObserved = [CandidateRevisionObserved]"
| "answering StepExecutionReceiptRecorded = [ExecutionReceiptRecorded]"
| "answering StepWorkBoundaryFinalized = [WorkBoundaryFinalized, ActivityCompleted]"
| "answering StepBaselineChecks = [CheckReceiptRecorded, ActivityCompleted]"
| "answering StepEvaluationChecks = [CheckReceiptRecorded, AgentAttemptPrepared, AgentPreIntentRefused]"
| "answering StepActivityFinalization =
     [CheckReceiptRecorded, MaterialConditionFrozen, EvidencePacketFinalized, ActivityCompleted]"
| "answering StepActivityCompleted = [ActivityCompleted]"
| "answering StepDirectorDecisionAuthenticated = [DirectorDecisionAuthenticated]"
| "answering StepTransactionEffectIntended = [TransactionEffectIntended]"
| "answering StepTransactionEffectObserved = [TransactionEffectObserved]"
| "answering StepTransactionFinalization = [CandidateRevisionObserved, ActivityCompleted, ClosureRecorded]"
| "answering _ = []"

lemma obligation_registered: "\<exists>d. deliveryRecoveryDescriptor (ro_kind (owed s x)) (step_name (ro_resumesAt (owed s x))) = Inr d"
  by (cases s) (simp_all add: deliveryRecoveryDescriptor_def RECOVERY_DESCRIPTORS_def recovery_entry_def
    del: step_name.simps)

lemma journal_obligation:
  assumes "replay_events P f es = Inr r" and "a \<in> set (activities r)"
  shows "if ac_stage a = Completed then ac_recovery a = None \<and> ac_completionOutcome a \<noteq> None
    else ac_completionOutcome a = None \<and> (\<exists>ob d. ac_recovery a = Some ob \<and>
      ro_resumesAt ob \<in> phase_steps a \<and>
      deliveryRecoveryDescriptor (ro_kind ob) (step_name (ro_resumesAt ob)) = Inr d \<and>
      ro_exactEffectDigest ob = carried a (ro_resumesAt ob))"
proof (cases "ac_recovery a")
  case None
  with journal_recovery(1,2) [OF assms] show ?thesis by (auto simp: incomplete_def)
next
  case (Some ob)
  from journal_recovery(3) [OF assms Some] have
    ob: "ob = owed (ro_resumesAt ob) (carried a (ro_resumesAt ob))" "ro_resumesAt ob \<in> phase_steps a" by simp_all
  from obligation_registered [of "ro_resumesAt ob" "carried a (ro_resumesAt ob)"] ob(1)
  obtain d where "deliveryRecoveryDescriptor (ro_kind ob) (step_name (ro_resumesAt ob)) = Inr d" by metis
  moreover have "ro_exactEffectDigest ob = carried a (ro_resumesAt ob)"
    using arg_cong [OF ob(1), of ro_exactEffectDigest] by simp
  ultimately show ?thesis
    using journal_recovery(1,2) [OF assms] Some ob(2) by (auto simp: incomplete_def)
qed

lemma answering_registered:
  assumes "k \<in> set (answering s)"
  shows "registered_answer k s"
proof -
  have "\<exists>d. deliveryRecoveryDescriptor (step_kind s) (step_name s) = Inr d \<and>
      rd_next d = NextEvents (map event_kind_name (answering s))"
    using assms
    by (cases s) (simp_all add: deliveryRecoveryDescriptor_def RECOVERY_DESCRIPTORS_def recovery_entry_def
        del: step_name.simps)
  then show ?thesis using assms by (auto simp: registered_answer_def)
qed


lemma candidate_step_cases:
  assumes "candidate_step c a y"
  obtains (admitted) "ac_operation a = Admit" "ac_transactionOutcome a = Some Applied"
  | (integrated) "ac_operation a = Integrate" "resumes_at a StepCandidateRevisionObserved"
  | (developed) "ac_operation a = Continue" "ac_providerOutcome a \<noteq> None" "ac_attempt a \<noteq> None"
  using assms by (auto simp: candidate_step_def split: option.splits)

lemma lifecycle_answers:
  assumes step: "lifecycle k c d" and k: "k \<notin> bookkeeping_kinds" "k \<noteq> DeliveryCreated"
    and one: "one_running c" and x: "x \<in> set (acts c)" "ac_stage x \<noteq> Completed"
    and ok: "activity_ok x" and ob: "ac_recovery x = Some ob"
  shows "k \<in> set (answering (ro_resumesAt ob)) \<or> (k, ro_resumesAt ob) \<in> unregistered_answers"
proof -
  have order: "ro_resumesAt ob \<in> phase_steps x" "agent_order x" "transaction_order x"
    using ok ob(1) by (auto simp: activity_ok_def phase_ok_def shape_ok_def)
  have fam: "family_of (ac_operation x) = Some (ac_family x)"
    using ok by (auto simp: activity_ok_def shape_ok_def)
  have same: "a = x" if "running c a" for a
    using one x that running_member [OF that] by (auto simp: one_running_def running_def)
  have idle: "\<not> (\<forall>a \<in> set (acts c). ac_stage a = Completed)" using x by blast
  from step show ?thesis
  proof cases
    case (refused a s e)
    with same [OF \<open>running c a\<close>] ob show ?thesis
      by (auto simp: finalization_at_def recovery_is_def resumes_at_def split: if_splits)
  next
    case (prepared a y)
    with same [OF \<open>running c a\<close>] ob order(1) show ?thesis
      by (auto simp: phase_steps_def agent_steps_def recovery_is_def resumes_at_def split: if_splits)
  next
    case (intended a y)
    with same [OF \<open>running c a\<close>] ob order show ?thesis
      by (auto simp: phase_steps_def agent_steps_def agent_order_def split: if_splits)
  next
    case (observed a y out)
    with same [OF \<open>running c a\<close>] ob order show ?thesis
      by (auto simp: phase_steps_def agent_steps_def split: if_splits)
  next
    case (submitted a s y)
    with same [OF \<open>running c a\<close>] ob order show ?thesis
      by (auto simp: phase_steps_def agent_steps_def agent_order_def core_terminal_def unregistered_answers_def split: if_splits)
  next
    case (abandoned a s)
    with same [OF \<open>running c a\<close>] ob order show ?thesis
      by (auto simp: phase_steps_def agent_steps_def agent_order_def core_terminal_def unregistered_answers_def split: if_splits)
  next
    case (receipted a s y)
    with same [OF \<open>running c a\<close>] ob order show ?thesis
      by (auto simp: phase_steps_def agent_steps_def agent_order_def core_terminal_def unregistered_answers_def split: if_splits)
  next
    case (bounded a y)
    with same [OF \<open>running c a\<close>] ob order show ?thesis
      by (auto simp: phase_steps_def agent_steps_def agent_order_def core_terminal_def split: if_splits)
  next
    case (assessed a s y)
    with same [OF \<open>running c a\<close>] ob show ?thesis by (auto simp: resumes_at_def)
  next
    case (candidate a y s i)
    with same [OF \<open>running c a\<close>] have c: "candidate_step c x y" "ac_receipt x = None" "ac_candidate x = None"
      and k: "k = CandidateRevisionObserved" by simp_all
    from c(1) show ?thesis
    proof (cases rule: candidate_step_cases)
      case admitted
      with fam have "ac_family x = TransactionFamily" by simp
      with admitted c(3) order(1,3) k show ?thesis
        by (auto simp: phase_steps_def transaction_steps_def transaction_order_def)
    next
      case integrated
      with ob k show ?thesis by (simp add: resumes_at_def)
    next
      case developed
      with fam have "ac_family x = AgentFamily" by simp
      with developed c order(1,2) k show ?thesis
        by (auto simp: phase_steps_def agent_steps_def agent_order_def unregistered_answers_def split: if_splits)
    qed
  next
    case (frozen a s y)
    with same [OF \<open>running c a\<close>] have k: "k = MaterialConditionFrozen" and none: "ac_materialCondition x = None"
      and c: "resumes_at x StepActivityFinalization \<or> ac_family x = AgentFamily \<and> core_terminal x \<and>
        ac_workProduct x \<noteq> None \<and> ac_receipt x \<noteq> None \<and> (ac_operation x = Evaluate \<or> ac_operation x = Continue)"
      by auto
    from c show ?thesis
    proof
      assume "resumes_at x StepActivityFinalization"
      with ob k show ?thesis by (simp add: resumes_at_def)
    next
      assume c: "ac_family x = AgentFamily \<and> core_terminal x \<and> ac_workProduct x \<noteq> None \<and>
        ac_receipt x \<noteq> None \<and> (ac_operation x = Evaluate \<or> ac_operation x = Continue)"
      then have "ac_attempt x \<noteq> None" "ac_providerOutcome x \<noteq> None" by (simp_all add: core_terminal_def)
      moreover with order(2) have "ac_providerEffectDigest x \<noteq> None" by (simp add: agent_order_def)
      ultimately have "ro_resumesAt ob \<in> {StepActivityFinalization, StepActivityCompleted}"
        using order(1) c none by (auto simp: phase_steps_def agent_steps_def split: if_splits)
      with k show ?thesis by (auto simp: unregistered_answers_def)
    qed
  next
    case (sealed a y)
    with same [OF \<open>running c a\<close>] ob show ?thesis by (auto simp: recovery_is_def resumes_at_def)
  next
    case (checked a f s)
    with same [OF \<open>running c a\<close>] ob order show ?thesis
      by (auto simp: phase_steps_def agent_steps_def agent_order_def unregistered_answers_def split: if_splits)
  next
    case (evidenced a y rd)
    with same [OF \<open>running c a\<close>] ob order fam show ?thesis
      by (auto simp: phase_steps_def agent_steps_def agent_order_def core_terminal_def split: if_splits)
  next
    case (decided a dd y)
    with same [OF \<open>running c a\<close>] ob order show ?thesis
      by (auto simp: phase_steps_def transaction_steps_def split: if_splits)
  next
    case (effect_intended a dd)
    with same [OF \<open>running c a\<close>] ob order show ?thesis
      by (auto simp: phase_steps_def transaction_steps_def transaction_order_def split: if_splits)
  next
    case (effect_indeterminate a dd)
    with same [OF \<open>running c a\<close>] ob order show ?thesis
      by (auto simp: phase_steps_def transaction_steps_def split: if_splits)
  next
    case (effect_refused a)
    with same [OF \<open>running c a\<close>] ob order show ?thesis
      by (auto simp: phase_steps_def transaction_steps_def split: if_splits)
  next
    case (effect_terminal a)
    with same [OF \<open>running c a\<close>] ob order show ?thesis
      by (auto simp: phase_steps_def transaction_steps_def split: if_splits)
  next
    case (admitted a dd)
    with same [OF \<open>running c a\<close>] ob order show ?thesis
      by (auto simp: phase_steps_def transaction_steps_def split: if_splits)
  next
    case (closed a dd y)
    with same [OF \<open>running c a\<close>] ob order show ?thesis
      by (auto simp: phase_steps_def transaction_steps_def transaction_order_def split: if_splits)
  next
    case (completed a out)
    with same [OF \<open>running c a\<close>] ob show ?thesis
      by (auto simp: completes_def deterministicBoundaryRefusal_def finalization_at_def recovery_is_def resumes_at_def split: if_splits)
  qed (use k idle in \<open>auto simp: bookkeeping_kinds_def may_open_def\<close>)
qed

section \<open>An evaluation that cannot be completed\<close>

text \<open>
  An evaluation whose Agent's Material Condition is frozen after its Evidence resumes at a
  finalization that neither a Condition, nor Evidence, nor a Check, nor a completion can
  answer any more.
\<close>

definition stranded :: "activity \<Rightarrow> bool" where
  "stranded a \<longleftrightarrow> ac_operation a = Evaluate \<and> ac_stage a \<noteq> Completed \<and> ac_evidence a \<noteq> None \<and>
     resumes_at a StepActivityFinalization"

lemma evidence_order:
  assumes "agent_order a" and "ac_evidence a \<noteq> None"
  shows "ac_receipt a \<noteq> None" "ac_workProduct a \<noteq> None" "core_terminal a"
    "ac_providerEffectDigest a \<noteq> None" "ac_providerOutcome a \<noteq> None" "ac_attempt a \<noteq> None"
proof -
  from assms(1) have o: "ac_receipt a = None \<longrightarrow> ac_evidence a = None" "ac_workProduct a = None \<longrightarrow> ac_evidence a = None"
    "\<not> core_terminal a \<longrightarrow> ac_receipt a = None" "ac_providerEffectDigest a = None \<longrightarrow> ac_providerOutcome a = None"
    by (simp_all add: agent_order_def)
  with assms(2) show r: "ac_receipt a \<noteq> None" "ac_workProduct a \<noteq> None" by auto
  with o(3) show c: "core_terminal a" by blast
  then show "ac_providerOutcome a \<noteq> None" "ac_attempt a \<noteq> None" by (simp_all add: core_terminal_def)
  with o(4) show "ac_providerEffectDigest a \<noteq> None" by blast
qed

lemma stranded_facts:
  assumes "activity_ok x" and "stranded x"
  shows "ac_materialCondition x \<noteq> None" and "ac_attempt x \<noteq> None" and "ac_family x = AgentFamily"
proof -
  from assms show fam: "ac_family x = AgentFamily" by (auto simp: activity_ok_def shape_ok_def stranded_def)
  from assms have o: "agent_order x" "StepActivityFinalization \<in> phase_steps x"
    by (auto simp: activity_ok_def phase_ok_def stranded_def resumes_at_def)
  from assms(2) have "ac_evidence x \<noteq> None" by (simp add: stranded_def)
  note e = evidence_order [OF o(1) this]
  show "ac_attempt x \<noteq> None" by (rule e(6))
  show "ac_materialCondition x \<noteq> None"
    using o(2) fam assms(2) e
    unfolding phase_steps_def agent_steps_def stranded_def
    by (cases "ac_materialCondition x") simp_all
qed

lemma lifecycle_stranded:
  assumes step: "lifecycle k c d" and created: "k \<noteq> DeliveryCreated"
    and one: "one_running c" and x: "x \<in> set (acts c)" and ok: "activity_ok x" and str: "stranded x"
  shows "k \<in> bookkeeping_kinds" and "co_activities d = co_activities c" and "co_subjects d = co_subjects c"
proof -
  have open': "ac_stage x \<noteq> Completed" using str by (simp add: stranded_def)
  obtain ob where ob: "ac_recovery x = Some ob" "ro_resumesAt ob = StepActivityFinalization"
    using str by (auto simp: stranded_def resumes_at_def)
  have same: "a = x" if "running c a" for a
    using one x open' that running_member [OF that] by (auto simp: one_running_def running_def)
  note facts = stranded_facts [OF ok str]
  show k: "k \<in> bookkeeping_kinds"
  proof (rule ccontr)
    assume "k \<notin> bookkeeping_kinds"
    from lifecycle_answers [OF step this created one x open' ok ob(1)] ob(2)
    have "k \<in> {CheckReceiptRecorded, MaterialConditionFrozen, EvidencePacketFinalized, ActivityCompleted}"
      by (auto simp: unregistered_answers_def)
    with step show False
    proof cases
      case (completed a out)
      with same [OF \<open>running c a\<close>] str ob show False
        by (auto simp: completes_def deterministicBoundaryRefusal_def finalization_at_def recovery_is_def
            resumes_at_def stranded_def)
    qed (use same facts str in \<open>auto simp: stranded_def\<close>)
  qed
  from step k show "co_activities d = co_activities c" "co_subjects d = co_subjects c"
    by (cases; simp add: bookkeeping_kinds_def)+
qed

definition stranding :: "activity \<Rightarrow> replay \<Rightarrow> bool" where
  "stranding x r \<longleftrightarrow> core_ok (core r) \<and> founded r \<and> su_closure (re_subjects r) = None \<and>
     x \<in> set (activities r) \<and> stranded x"

lemma stranding_step:
  assumes inv: "stranding x r" and app: "append_event P r e = Inr r'"
  shows "stranding x r'"
proof -
  from append_refines [OF app] obtain k where k: "re_created r \<or> k = DeliveryCreated"
    "lifecycle k (core r) (core r')" by blast
  have created: "re_created r" using inv by (auto simp: stranding_def founded_def activities_def)
  have "k \<noteq> DeliveryCreated"
  proof
    assume "k = DeliveryCreated"
    with k(2) have "\<not> re_created r" by cases simp_all
    with created show False by simp
  qed
  moreover have "one_running (core r)" "activity_ok x" "x \<in> set (acts (core r))" "stranded x"
    using inv by (auto simp: stranding_def core_ok_def acts_core)
  ultimately have "re_activities r' = re_activities r" "re_subjects r' = re_subjects r"
    using lifecycle_stranded(2,3) [OF k(2)] by simp_all
  with inv delivery.step_inv [of r P e r'] foundation.step_inv [of r P e r'] app show ?thesis
    by (simp add: stranding_def activities_def)
qed

interpretation strand: event_replay "append_event P" "stranding x" for P x
  by unfold_locales (rule stranding_step)

lemma stranded_reduction:
  assumes "replay_events P f es = Inr r" and "x \<in> set (activities r)" and "stranded x"
    and "su_closure (re_subjects r) = None" and "reduceDeliveryEvents P (es @ fs) f = Inr s"
  shows "st_standing s \<noteq> Closed \<and> publicActivity x \<in> set (st_activities s) \<and> st_eligibleOperations s = [Recover]"
proof -
  from assms(1,5) obtain q where q: "foldE (append_event P) r fs = Inr q" "s = reducedState q"
    and j: "replay_events P f (es @ fs) = Inr q"
    by (auto simp: reduceDeliveryEvents_def replay_events_def foldE_append res_simps)
  have "stranding x r"
    using assms journal_ok [OF assms(1)] journal_founded [OF assms(1)] by (simp add: stranding_def)
  from strand.run_inv [OF this q(1)] have x: "x \<in> set (activities q)" "su_closure (re_subjects q) = None"
    by (simp_all add: stranding_def)
  moreover have "list_ex incomplete (activities q)"
    using x(1) assms(3) by (auto simp: list_ex_iff incomplete_def stranded_def)
  ultimately show ?thesis
    using journal_eligible [OF j] by (simp add: q(2) closure_standing)
qed

lemma journal_answers:
  assumes "replay_events P f es = Inr r" and "append_event P r e = Inr r'"
    and "ev_eventKind e = event_kind_name k" and "k \<notin> bookkeeping_kinds"
    and "a \<in> set (activities r)" and "ac_stage a \<noteq> Completed" and "ac_recovery a = Some ob"
  shows "registered_answer k (ro_resumesAt ob) \<or> (k, ro_resumesAt ob) \<in> unregistered_answers"
proof -
  from append_refines [OF assms(2)] assms(3) have k: "re_created r \<or> k = DeliveryCreated"
    "lifecycle k (core r) (core r')" by auto
  have "re_created r" using journal_founded [OF assms(1)] assms(5) by (auto simp: founded_def activities_def)
  then have "k \<noteq> DeliveryCreated" using k(2) by (auto elim: lifecycle.cases)
  moreover have "one_running (core r)" "activity_ok a" using journal_facts(2,3) [OF assms(1)] assms(5) by auto
  ultimately show ?thesis
    using lifecycle_answers [OF k(2) assms(4), of a ob] assms(5-7) answering_registered by (auto simp: acts_core)
qed

end
