(* ===== verification/Scenario_States.thy ===== *)
theory Scenario_States
  imports Lifecycle_Scenario Delivery_Obligations
begin

text \<open>
  What the states of \<open>Lifecycle_Scenario\<close> hold, read off their definitions: the activities,
  their stages and the current subjects.
\<close>

section \<open>Reading the states\<close>

lemma single_phase: "foldE (append_event P) r [e] = Inr r' \<Longrightarrow> append_event P r e = Inr r'"
  by (simp add: res_simps)

lemma scenario_activities:
  "activities prepared_state = [prepare_done]" "activities admitted_state = [prepare_done, admit_done]"
  "activities integrated_state = [prepare_done, admit_done, integrate_done]"
  "activities accepted_state = [prepare_done, admit_done, integrate_done, evaluate_done, accept_done]"
  by (simp_all add: activities_def journalled_def prepared_state_def admitted_state_def integrated_state_def
    accepted_state_def)

lemma reviewed_activities:
  "activities reviewed_state = [prepare_done, admit_done, integrate_done, evaluate_open StepActivityCompleted]"
  by (simp add: activities_def journalled_def reviewed_state_def)

lemma stranded_activities:
  "activities stranded_state = [prepare_done, admit_done, integrate_done, stranded_activity]"
  by (simp add: activities_def journalled_def stranded_state_def)

lemmas scenario_activity_defs = prepare_done_def admit_done_def integrate_done_def evaluate_done_def accept_done_def
  evaluate_open_def stranded_activity_def done_agent_def done_transaction_def opened_activity_def

lemma scenario_stages:
  "ac_stage prepare_done = Completed" "ac_stage admit_done = Completed" "ac_stage integrate_done = Completed"
  "ac_stage evaluate_done = Completed" "ac_stage accept_done = Completed"
  "ac_stage (evaluate_open s) = Finalizing" "ac_stage stranded_activity = Finalizing"
  by (simp_all add: scenario_activity_defs)

lemma accepted_subjects: "su_closure (re_subjects accepted_state) = Some (retainedReference closure_record)"
  by (simp add: accepted_state_def journalled_def under_stopped_grant_def)

lemma stranded_scenario:
  "stranded stranded_activity" "su_closure (re_subjects stranded_state) = None"
  "su_materialCondition (re_subjects stranded_state) = Some (retainedReference late_condition)"
  by (simp_all add: stranded_def scenario_activity_defs resumes_at_def stranded_state_def journalled_def
    under_stopped_grant_def evaluated_subjects_def integrated_subjects_def no_subjects_def)

lemma accepted_reduction:
  "currentStanding accepted_state = Closed" "currentCandidateCondition accepted_state = CandidateAccepted"
  by (simp_all add: accepted_state_def journalled_def under_stopped_grant_def evaluated_subjects_def
    integrated_subjects_def currentStanding_def currentCandidateCondition_def Let_def)

section \<open>The grant and the reservation of the delegated integration\<close>

lemma demo_grant_parsed:
  "parseWorkDelegationPayload demo_platform (JObj (rv_payload grant_record)) = Inr demo_grant"
  by (simp add: evaluation del: unevaluated cong: evaluation_congs)

lemma demo_reservation_parsed:
  "parseWorkDelegationReservation demo_platform (reservation_json demo_reservation) = Inr demo_reservation"
  by (simp add: evaluation del: unevaluated cong: evaluation_congs)

lemma demo_allowance:
  "assessWorkDelegationAllowance demo_platform demo_grant no_charges demo_reservation demo_time False =
     Inr \<lparr>aw_allowed = True, aw_reason = WithinAllowance, aw_charged = no_charges,
       aw_prospective = \<lparr>acc_operations = 1, acc_agentAttempts = 0, acc_reservedCellWallTimeMs = 0\<rparr>\<rparr>"
  by (simp add: evaluation del: unevaluated cong: evaluation_congs)

end
