(* ===== verification/Evidence_Facts.thy ===== *)
theory Evidence_Facts
  imports Work_Delegation
begin

text \<open>
  The facts Evidence is assessed on (\<open>runtime/src/foundation/evidence/assessment-v1.ts\<close>):
  the requirements of the Work Boundary, the Check Receipts, the review and the physical
  observation, with the readers of identities, digests, times and paths. Fields of a
  literal union type are strings, as the code compares them; \<open>string\<close>, \<open>array\<close> and
  \<open>boolean\<close>, which re-check the type of a typed field, have no counterpart.
\<close>

section \<open>Facts\<close>

record artifact_observation =
  ao_artifactId :: string
  ao_fileKind :: string
  ao_existence :: string
  ao_change :: string
  ao_contentDigest :: "string option"
  ao_manifestDigest :: "string option"
  ao_schemaValidation :: string
  ao_semanticValidation :: string
  ao_limitationIds :: "string list option"

record description_observation =
  do_path :: string
  do_descriptionId :: "string option"
  do_selector :: "string option"
  do_ownership :: string
  do_implementationChange :: string
  do_descriptionChange :: string
  do_exclusionChange :: string
  do_obligationIds :: "string list"

record evidence_diagnostic =
  ed_code :: string
  ed_stage :: string
  ed_factsDigest :: string

record evidence_observation =
  eo_evaluatedAt :: string
  eo_artifacts :: "artifact_observation list"
  eo_descriptionCoverage :: "description_observation list"
  eo_reviewerSubjectDisposition :: string
  eo_diagnostics :: "evidence_diagnostic list option"
  eo_ruleSet :: resource_reference
  eo_validator :: resource_reference

record check_binding =
  cb_id :: string
  cb_digest :: string
  cb_implementationDigest :: string

record check_selection =
  sel_id :: string
  sel_definition :: check_definition
  sel_bindings :: "check_binding list"
  sel_modality :: string
  sel_baselineRequired :: bool
  sel_finalRequired :: bool
  sel_obligationIds :: "string list"
  sel_environmentRequirements :: "string list"

record boundary_obligation =
  bo_id :: string
  bo_severity :: string
  bo_requiredEvidenceArtifactIds :: "string list"
  bo_propositionIds :: "string list"

record boundary_artifact =
  ba_id :: string
  ba_path :: string
  ba_mustChange :: bool
  ba_obligationIds :: "string list"

record boundary_proposition =
  bq_id :: string
  bq_obligationIds :: "string list"
  bq_allowNotApplicable :: bool
  bq_notApplicableCondition :: "string option"

record evidence_requirements =
  er_checks :: "check_selection list"
  er_obligations :: "boundary_obligation list"
  er_artifacts :: "boundary_artifact list"
  er_propositions :: "boundary_proposition list"

record retained_check =
  rc_reference :: target
  rc_proofSubject :: target
  rc_phase :: string
  rc_modality :: string
  rc_disposition :: string
  rc_selectionId :: string
  rc_allocation :: string
  rc_notRunAuthorization :: "string option"
  rc_startedAt :: "string option"
  rc_finishedAt :: "string option"
  rc_definition :: check_definition
  rc_binding :: check_binding
  rc_requestedConditions :: "string list"

record review_judgment =
  rj_id :: string
  rj_propositionId :: string
  rj_disposition :: string
  rj_citationIds :: "string list"
  rj_inspectedSubjectIds :: "string list"
  rj_uncertainty :: string
  rj_limitationIds :: "string list"
  rj_fragmentDigest :: string

record applicability_judgment =
  aj_disposition :: string
  aj_citationIds :: "string list"
  aj_rationale :: string
  aj_fragmentDigest :: string
  aj_receiptId :: "string option"

record parent_basis =
  pb_commit :: string
  pb_tree :: string
  pb_snapshotDigest :: string

record evidence_subject =
  es_boundary :: target
  es_candidate :: target
  es_seal :: target
  es_integration :: target
  es_parent :: parent_basis

record citation =
  ci_id :: string
  ci_subjectId :: string
  ci_subjectDigest :: string
  ci_subjectKind :: string

record review_facts =
  rf_reference :: target
  rf_subject :: evidence_subject
  rf_citations :: "citation list"
  rf_mandateApplicability :: applicability_judgment
  rf_baselineApplicability :: "applicability_judgment list"
  rf_judgments :: "review_judgment list"
  rf_mandateExcess :: bool
  rf_missingObligationIds :: "string list"
  rf_overallUncertainty :: string

record evidence_input =
  in_subject :: evidence_subject
  in_requirements :: evidence_requirements
  in_checks :: "retained_check list"
  in_review :: review_facts
  in_contextSeparation :: string
  in_observationSubject :: evidence_subject
  in_observation :: evidence_observation

section \<open>Readers\<close>

definition evidence_positiveInteger :: "int \<Rightarrow> int res" where
  "evidence_positiveInteger value =
     failIf (\<not> safe_integer value \<or> value < 1) (EvidencePacket ''retained-fact'') (Inr value)"

definition evidence_digest :: "string \<Rightarrow> string res" where
  "evidence_digest value = failIf (\<not> sha256_pattern value) (EvidencePacket ''retained-fact'') (Inr value)"

definition evidence_id :: "string \<Rightarrow> string res" where
  "evidence_id value =
     failIf (\<not> id_pattern value) (EvidencePacket ''identity'')
     (failIf (length value > 512) (EvidencePacket ''bound'') (Inr value))"

text \<open>\<open>SINGLE_LINE_PATTERN\<close> on UTF-8: no C0 or C1 control, U+2028 or U+2029.\<close>

fun single_line_bytes :: "nat list \<Rightarrow> bool" where
  "single_line_bytes [] = True"
| "single_line_bytes (a # s) =
     (32 \<le> a \<and> a \<noteq> 127 \<and>
      (case s of
         b # s' \<Rightarrow>
           \<not> (a = 194 \<and> 128 \<le> b \<and> b \<le> 159) \<and>
           \<not> (a = 226 \<and> b = 128 \<and> s' \<noteq> [] \<and> (hd s' = 168 \<or> hd s' = 169))
       | [] \<Rightarrow> True) \<and> single_line_bytes s)"

definition evidence_singleLine :: "string \<Rightarrow> string res" where
  "evidence_singleLine value =
     failIf (value = [] \<or> length value > 4096 \<or> \<not> single_line_bytes (map of_char value))
       (EvidencePacket ''observation'') (Inr value)"

definition evidence_sortedIds :: "nat \<Rightarrow> string list \<Rightarrow> string list res" where
  "evidence_sortedIds maximum values =
     failIf (length values > maximum) (EvidencePacket ''bound'')
     (bindE (mapE evidence_id values) (\<lambda>ids. Inr (sortUniqueCodePoints ids)))"

definition evidence_timestamp :: "string \<Rightarrow> string res" where
  "evidence_timestamp value = failIf (date_parse value = None) (EvidencePacket ''time'') (Inr value)"

text \<open>
  The module's own \<open>compareCodePoints\<close> is JavaScript's \<open><\<close> on strings, the order of UTF-16
  code units; \<open>sort_on_units\<close> sorts by it.
\<close>

definition sort_on_units :: "('a \<Rightarrow> string) \<Rightarrow> 'a list \<Rightarrow> 'a list" where
  "sort_on_units key xs = sort_by (\<lambda>l r. utf16_le (key l) (key r)) xs"

text \<open>A \<open>Map\<close> built from a list: the last entry of a key wins.\<close>

definition last_by :: "('a \<Rightarrow> string) \<Rightarrow> 'a list \<Rightarrow> string \<Rightarrow> 'a option" where
  "last_by key xs k = find (\<lambda>x. key x = k) (rev xs)"

section \<open>Paths\<close>

text \<open>
  \<open>PATH_PATTERN\<close>, \<open>/^(?!\/)(?!.*(?:^|\/)\.\.(?:\/|$))(?!.*\/\/)[^\u0000-\u001f\u007f]+$/u\<close>: the
  dots of the two look-aheads match no line terminator, so they stop at U+2028 and U+2029.
\<close>

fun at_line_separator :: "nat list \<Rightarrow> bool" where
  "at_line_separator (a # b # c # _) = (a = 226 \<and> b = 128 \<and> (c = 168 \<or> c = 169))"
| "at_line_separator _ = False"

text \<open>A look-ahead \<open>.*p\<close> from here: \<open>p\<close> at this place or at a later one reached over dots.\<close>

fun ahead :: "(nat list \<Rightarrow> bool) \<Rightarrow> nat list \<Rightarrow> bool" where
  "ahead p [] = p []"
| "ahead p (a # s) = (p (a # s) \<or> \<not> at_line_separator (a # s) \<and> ahead p s)"

definition parent_segment :: "nat list \<Rightarrow> bool" where
  "parent_segment s \<longleftrightarrow> take 2 s = [46, 46] \<and> (drop 2 s = [] \<or> hd (drop 2 s) = 47)"

definition path_pattern :: "string \<Rightarrow> bool" where
  "path_pattern value \<longleftrightarrow>
     (let s = map of_char value in
      s \<noteq> [] \<and> hd s \<noteq> 47 \<and>
      \<not> parent_segment s \<and> \<not> ahead (\<lambda>r. r \<noteq> [] \<and> hd r = 47 \<and> parent_segment (tl r)) s \<and>
      \<not> ahead (\<lambda>r. take 2 r = [47, 47]) s \<and>
      list_all (\<lambda>a. 32 \<le> a \<and> a \<noteq> 127) s)"

text \<open>\<open>value.length\<close>: the UTF-16 units of UTF-8 text.\<close>

definition utf16_length :: "string \<Rightarrow> nat" where
  "utf16_length s =
     sum_list (map (\<lambda>c. if 128 \<le> code c \<and> code c < 192 then 0 else if 240 \<le> code c then 2 else 1) s)"

section \<open>Checks\<close>

text \<open>\<open>digestCanonical\<close> of an array of strings, and \<open>canonicalJson\<close> of one.\<close>

definition strings_json :: "string list \<Rightarrow> json" where
  "strings_json xs = JArr (map JStr xs)"

definition sameJson :: "json \<Rightarrow> json \<Rightarrow> bool res" where
  "sameJson l r = bindE (canonicalJson l) (\<lambda>a. bindE (canonicalJson r) (\<lambda>b. Inr (a = b)))"

definition checkMatchesSelection :: "platform \<Rightarrow> retained_check \<Rightarrow> check_selection \<Rightarrow> unit res" where
  "checkMatchesSelection P check selection =
     failIf (rc_selectionId check \<noteq> sel_id selection \<or> rc_modality check \<noteq> sel_modality selection)
       (EvidencePacket ''check'')
     (failIf (rc_definition check \<noteq> sel_definition selection) (EvidencePacket ''check'')
     (failIf (\<not> list_ex (\<lambda>candidate. rc_binding check = candidate) (sel_bindings selection)) (EvidencePacket ''check'')
     (bindE (digestCanonical P (strings_json (sortUniqueCodePoints (rc_requestedConditions check)))) (\<lambda>requested.
     (bindE (digestCanonical P (strings_json (sel_environmentRequirements selection))) (\<lambda>required.
        failIf (requested \<noteq> required) (EvidencePacket ''check'') (Inr ())))))))"

definition isFoundationAuthorizedBaselinePostconditionV1 :: "retained_check \<Rightarrow> bool" where
  "isFoundationAuthorizedBaselinePostconditionV1 check \<longleftrightarrow>
     rc_phase check = ''baseline'' \<and> rc_modality check = ''postcondition'' \<and>
     rc_disposition check = ''not-run'' \<and> rc_notRunAuthorization check = Some ''baseline-postcondition'' \<and>
     rc_allocation check = ''not-allocated'' \<and> rc_startedAt check = None \<and> rc_finishedAt check = None"

definition legalBaseline :: "retained_check \<Rightarrow> bool" where
  "legalBaseline check =
     (if rc_phase check \<noteq> ''baseline'' then False
      else if rc_modality check = ''precondition'' \<or> rc_modality check = ''regression-guard''
        then rc_disposition check = ''pass''
      else if rc_modality check = ''repair-target''
        then rc_disposition check = ''pass'' \<or> rc_disposition check = ''fail''
      else if rc_modality check = ''postcondition'' then isFoundationAuthorizedBaselinePostconditionV1 check
      else True)"

definition legalFinal :: "retained_check \<Rightarrow> bool" where
  "legalFinal check \<longleftrightarrow>
     rc_phase check = ''final'' \<and> (rc_modality check = ''diagnostic'' \<or> rc_disposition check = ''pass'')"

text \<open>\<open>localId\<close>: the prefix and the hexadecimal digits of the digest of the value.\<close>

definition localId :: "platform \<Rightarrow> string \<Rightarrow> jobject \<Rightarrow> string res" where
  "localId P prefix value = bindE (digestCanonical P (JObj value)) (\<lambda>d. Inr (prefix @ ''.'' @ drop 7 d))"

section \<open>References\<close>

definition evidence_assertReference :: "target \<Rightarrow> unit res" where
  "evidence_assertReference value =
     bindE (evidence_id (tgt_kind value)) (\<lambda>_.
     bindE (evidence_id (tgt_id value)) (\<lambda>_.
     bindE (evidence_positiveInteger (tgt_revision value)) (\<lambda>_.
     bindE (evidence_digest (tgt_digest value)) (\<lambda>_. Inr ()))))"

definition evidence_sameReference :: "target \<Rightarrow> target \<Rightarrow> bool res" where
  "evidence_sameReference l r = sameJson (target_json l) (target_json r)"

definition parent_json :: "parent_basis \<Rightarrow> json" where
  "parent_json p = JObj [(''commit'', JStr (pb_commit p)), (''tree'', JStr (pb_tree p)),
     (''snapshotDigest'', JStr (pb_snapshotDigest p))]"

definition evidence_subject_json :: "evidence_subject \<Rightarrow> json" where
  "evidence_subject_json s = JObj [(''boundary'', target_json (es_boundary s)), (''candidate'', target_json (es_candidate s)),
     (''seal'', target_json (es_seal s)), (''integration'', target_json (es_integration s)),
     (''parent'', parent_json (es_parent s))]"

definition diagnostic_json :: "evidence_diagnostic \<Rightarrow> json" where
  "diagnostic_json d = JObj [(''code'', JStr (ed_code d)), (''stage'', JStr (ed_stage d)),
     (''factsDigest'', JStr (ed_factsDigest d))]"

section \<open>Coordinates of the rules\<close>

definition FOUNDATION_RUNTIME_PROTOCOL :: string where
  "FOUNDATION_RUNTIME_PROTOCOL = ''lifecycle.runtime.foundation.v17''"

definition FOUNDATION_EVIDENCE_RULE_SET_V7 :: "platform \<Rightarrow> resource_reference res" where
  "FOUNDATION_EVIDENCE_RULE_SET_V7 P =
     bindE (digestCanonical P (JObj
       [(''id'', JStr ''lifecycle.evidence-packet-rule-set.foundation-v2''),
        (''runtimeProtocol'', JStr FOUNDATION_RUNTIME_PROTOCOL),
        (''evidenceProfile'', JStr ''lifecycle.evidence-packet.foundation-v2''),
        (''controlStore'', JStr ''lifecycle.control-record-store.v2'')])) (\<lambda>d.
     Inr \<lparr>rr_id = ''lifecycle.evidence-packet-rule-set.foundation-v2'', rr_digest = d\<rparr>)"

definition FOUNDATION_EVIDENCE_VALIDATOR_V7 :: "platform \<Rightarrow> resource_reference res" where
  "FOUNDATION_EVIDENCE_VALIDATOR_V7 P =
     bindE (FOUNDATION_EVIDENCE_RULE_SET_V7 P) (\<lambda>ruleSet.
     bindE (digestCanonical P (JObj
       [(''id'', JStr ''lifecycle-runtime-evidence-validator-v7''),
        (''runtimeProtocol'', JStr FOUNDATION_RUNTIME_PROTOCOL),
        (''ruleSetDigest'', JStr (rr_digest ruleSet))])) (\<lambda>d.
     Inr \<lparr>rr_id = ''lifecycle-runtime-evidence-validator-v7'', rr_digest = d\<rparr>))"

end
