(* ===== verification/Evidence_Assessment.thy ===== *)
theory Evidence_Assessment
  imports Evidence_Facts
begin

text \<open>
  The assessment of Evidence (\<open>assessFoundationEvidenceV1\<close> of
  \<open>runtime/src/foundation/evidence/assessment-v1.ts\<close> and
  \<open>evidence/review-classification-v1.ts\<close>): one ledger per kind of fact, then the
  disposition. A ledger is a list of records whose fields are those of the frozen objects.
\<close>

section \<open>Receipts\<close>

record receipt_entry =
  re_id :: string
  re_checkId :: string
  re_phase :: string
  re_receiptId :: "string option"
  re_use :: string
  re_freshness :: string
  re_subjectEquivalence :: string
  re_ageMs :: "int option"
  re_maximumAgeMs :: "int option"
  re_reasonCode :: string
  re_provenance :: string

record receipt_ledger =
  rl_entries :: "receipt_entry list"
  rl_usedChecks :: "retained_check list"
  rl_completeAndLegal :: bool

definition coordinate :: "retained_check \<Rightarrow> string \<times> string" where
  "coordinate check = (rc_phase check, rc_selectionId check)"

definition legalAt :: "string \<Rightarrow> retained_check \<Rightarrow> bool" where
  "legalAt phase check = (if phase = ''baseline'' then legalBaseline check else legalFinal check)"

definition requiredAt :: "string \<Rightarrow> check_selection \<Rightarrow> bool" where
  "requiredAt phase selection =
     (if phase = ''baseline'' then sel_baselineRequired selection else sel_finalRequired selection)"

text \<open>
  \<open>freshness\<close> and \<open>ageMs\<close> of a Receipt (\<open>None\<close> is null; both instants are exact times), and
  whether \<open>completeAndLegal\<close> survives them.
\<close>

definition receiptFreshness ::
  "string \<Rightarrow> retained_check option \<Rightarrow> bool \<Rightarrow> (string \<times> int option \<times> bool) res" where
  "receiptFreshness evaluatedAt check required =
     (case check of
        None \<Rightarrow> Inr (if required then ''indeterminate'' else ''not-applicable'', None, True)
      | Some c \<Rightarrow>
          if isFoundationAuthorizedBaselinePostconditionV1 c then Inr (''not-applicable'', None, True)
          else (case rc_finishedAt c of
              None \<Rightarrow> Inr (''indeterminate'', None, False)
            | Some finishedAt \<Rightarrow>
                bindE (evidence_timestamp finishedAt) (\<lambda>t.
                  let age = (case (date_parse evaluatedAt, date_parse t) of
                         (Some e, Some f) \<Rightarrow> Some (e - f) | _ \<Rightarrow> None)
                  in if js_less age (Some 0) then Inr (''stale'', age, False) else Inr (''fresh'', age, True))))"

definition receiptUse ::
  "platform \<Rightarrow> retained_check list \<Rightarrow> string \<Rightarrow> check_selection \<Rightarrow> string \<Rightarrow> (receipt_entry \<times> bool) res" where
  "receiptUse P byCoordinate evaluatedAt selection phase =
     (let check = find (\<lambda>c. coordinate c = (phase, sel_id selection)) byCoordinate;
          required = requiredAt phase selection;
          complete = \<not> (check = None \<and> required);
          legal = (case check of
              None \<Rightarrow> True
            | Some c \<Rightarrow> legalAt phase c \<or> \<not> (required \<or> sel_modality selection \<noteq> ''diagnostic''));
          authorizedNonExecution = (case check of
              None \<Rightarrow> False | Some c \<Rightarrow> isFoundationAuthorizedBaselinePostconditionV1 c)
      in bindE (receiptFreshness evaluatedAt check required) (\<lambda>(freshness, ageMs, current).
         bindE (localId P ''receipt-use'' [(''checkId'', JStr (sel_id selection)), (''phase'', JStr phase)]) (\<lambda>i.
         Inr (\<lparr>re_id = i, re_checkId = sel_id selection, re_phase = phase,
            re_receiptId = map_option (\<lambda>c. tgt_id (rc_reference c)) check,
            re_use = (if check = None then (if required then ''missing'' else ''excluded'')
                      else if authorizedNonExecution then ''excluded'' else ''executed''),
            re_freshness = freshness,
            re_subjectEquivalence = (if check = None then ''indeterminate'' else ''exact''),
            re_ageMs = ageMs, re_maximumAgeMs = None,
            re_reasonCode = (case check of
                None \<Rightarrow> if required then ''required-receipt-missing'' else ''receipt-not-required''
              | Some c \<Rightarrow>
                  if authorizedNonExecution then ''baseline-postcondition-not-run''
                  else if freshness = ''stale'' then ''receipt-finished-after-evaluation''
                  else if phase = ''baseline''
                    then (if legalBaseline c then ''baseline-receipt-current'' else ''baseline-disposition-illegal'')
                  else if legalFinal c then ''final-receipt-current'' else ''final-disposition-illegal''),
            re_provenance = ''runtime-derived''\<rparr>, complete \<and> legal \<and> current))))"

definition receiptLedgers ::
  "platform \<Rightarrow> evidence_requirements \<Rightarrow> retained_check list \<Rightarrow> string \<Rightarrow> receipt_ledger res" where
  "receiptLedgers P facts checks evaluatedAt =
     failIf (\<not> distinct (map coordinate checks)) (EvidencePacket ''check'')
     (bindE (mapE (\<lambda>check.
        case last_by sel_id (er_checks facts) (rc_selectionId check) of
          None \<Rightarrow> Inl (EvidencePacket ''check'')
        | Some selection \<Rightarrow> checkMatchesSelection P check selection) checks) (\<lambda>_.
     (bindE (mapE (\<lambda>(selection, phase). receiptUse P checks evaluatedAt selection phase)
        (List.product (er_checks facts) [''baseline'', ''final''])) (\<lambda>uses.
     Inr \<lparr>rl_entries = sort_on_units re_id (map fst uses),
       rl_usedChecks = sort_on_units (\<lambda>c. tgt_id (rc_reference c)) checks,
       rl_completeAndLegal = list_all snd uses\<rparr>))))"

section \<open>Review\<close>

record applicability =
  ap_receiptId :: "string option"
  ap_disposition :: string
  ap_fragmentDigest :: string

record assessed_review =
  ar_mandateApplicability :: applicability
  ar_baselineApplicability :: "applicability list"
  ar_judgments :: "review_judgment list"
  ar_mandateExcess :: bool
  ar_missingObligationIds :: "string list"
  ar_overallUncertainty :: string

definition reviewCitation :: "citation \<Rightarrow> citation res" where
  "reviewCitation c =
     bindE (evidence_id (ci_id c)) (\<lambda>i.
     bindE (evidence_id (ci_subjectId c)) (\<lambda>s.
     bindE (evidence_digest (ci_subjectDigest c)) (\<lambda>d.
     Inr \<lparr>ci_id = i, ci_subjectId = s, ci_subjectDigest = d, ci_subjectKind = ci_subjectKind c\<rparr>)))"

definition citationExact :: "retained_check list \<Rightarrow> citation \<Rightarrow> unit res" where
  "citationExact checks c =
     (case find (\<lambda>check. tgt_id (rc_reference check) = ci_subjectId c) checks of
        None \<Rightarrow> Inr ()
      | Some check \<Rightarrow>
          failIf (ci_subjectKind c \<noteq> ''evidence'' \<or> ci_subjectDigest c \<noteq> tgt_digest (rc_reference check))
            (EvidencePacket ''review'') (Inr ()))"

definition reviewApplicability ::
  "retained_check list \<Rightarrow> citation list \<Rightarrow> applicability_judgment \<Rightarrow> bool \<Rightarrow> applicability res" where
  "reviewApplicability checks citations item baseline =
     failIf (aj_disposition item \<notin> set (if baseline then [''applicable'', ''insufficient'', ''indeterminate'']
         else [''applicable'', ''requires-readmission'', ''indeterminate''])) (EvidencePacket ''review'')
     (bindE (evidence_sortedIds 4096 (aj_citationIds item)) (\<lambda>citationIds.
      failIf (citationIds = [] \<or> list_ex (\<lambda>i. last_by ci_id citations i = None) citationIds) (EvidencePacket ''review'')
     (bindE (if baseline
             then (case aj_receiptId item of
                 None \<Rightarrow> Inl (EvidencePacket ''retained-fact'')
               | Some r \<Rightarrow> bindE (evidence_id r) (\<lambda>r. Inr (Some r)))
             else Inr None) (\<lambda>receiptId.
      failIf (case receiptId of
          None \<Rightarrow> False
        | Some r \<Rightarrow>
            (case find (\<lambda>check. rc_phase check = ''baseline'' \<and> tgt_id (rc_reference check) = r) checks of
               None \<Rightarrow> True
             | Some check \<Rightarrow> \<not> list_ex (\<lambda>i.
                 case last_by ci_id citations i of
                   None \<Rightarrow> False
                 | Some c \<Rightarrow> ci_subjectId c = r \<and> ci_subjectKind c = ''evidence'' \<and>
                     ci_subjectDigest c = tgt_digest (rc_reference check)) citationIds))
        (EvidencePacket ''review'')
     (bindE (evidence_digest (aj_fragmentDigest item)) (\<lambda>d.
      Inr \<lparr>ap_receiptId = receiptId, ap_disposition = aj_disposition item, ap_fragmentDigest = d\<rparr>))))))"

definition receiptText :: "applicability \<Rightarrow> string" where
  "receiptText a = (case ap_receiptId a of None \<Rightarrow> ''undefined'' | Some r \<Rightarrow> r)"

definition UNCERTAINTIES :: "string list" where
  "UNCERTAINTIES = [''none'', ''bounded'', ''material'', ''unknown'']"

definition reviewJudgment :: "platform \<Rightarrow> citation list \<Rightarrow> review_judgment \<Rightarrow> review_judgment res" where
  "reviewJudgment P citations judgment =
     bindE (evidence_sortedIds 4096 (rj_citationIds judgment)) (\<lambda>citationIds.
     failIf (citationIds = []) (EvidencePacket ''review'')
     (bindE (mapE (\<lambda>i. case last_by ci_id citations i of
          None \<Rightarrow> Inl (EvidencePacket ''review'') | Some c \<Rightarrow> Inr (ci_subjectId c)) citationIds) (\<lambda>subjects.
     (bindE (evidence_sortedIds 4096 subjects) (\<lambda>derivedSubjects.
     (bindE (evidence_sortedIds 4096 (rj_inspectedSubjectIds judgment)) (\<lambda>retainedSubjects.
     (bindE (digestCanonical P (strings_json derivedSubjects)) (\<lambda>derived.
     (bindE (digestCanonical P (strings_json retainedSubjects)) (\<lambda>retained.
     failIf (derived \<noteq> retained) (EvidencePacket ''review'')
     (failIf (rj_disposition judgment \<notin> {''accepted'', ''rejected'', ''indeterminate'', ''not-applicable''})
        (EvidencePacket ''review'')
     (failIf (rj_uncertainty judgment \<notin> set UNCERTAINTIES) (EvidencePacket ''review'')
     (bindE (evidence_id (rj_id judgment)) (\<lambda>i.
     (bindE (evidence_id (rj_propositionId judgment)) (\<lambda>p.
     (bindE (evidence_sortedIds 4096 (rj_limitationIds judgment)) (\<lambda>limitationIds.
     (bindE (evidence_digest (rj_fragmentDigest judgment)) (\<lambda>d.
     Inr \<lparr>rj_id = i, rj_propositionId = p, rj_disposition = rj_disposition judgment, rj_citationIds = citationIds,
       rj_inspectedSubjectIds = retainedSubjects, rj_uncertainty = rj_uncertainty judgment,
       rj_limitationIds = limitationIds, rj_fragmentDigest = d\<rparr>)))))))))))))))))))))"

definition reviewJudgments ::
  "platform \<Rightarrow> review_facts \<Rightarrow> evidence_requirements \<Rightarrow> retained_check list \<Rightarrow> assessed_review res" where
  "reviewJudgments P review facts checks =
     bindE (mapE reviewCitation (rf_citations review)) (\<lambda>citations.
     bindE (mapE (citationExact checks) citations) (\<lambda>_.
     failIf (\<not> distinct (map ci_id citations)) (EvidencePacket ''review'')
     (bindE (reviewApplicability checks citations (rf_mandateApplicability review) False) (\<lambda>mandateApplicability.
     (bindE (mapE (\<lambda>item. reviewApplicability checks citations item True) (rf_baselineApplicability review)) (\<lambda>baselines.
     let baselineApplicability = sort_on_units receiptText baselines;
         requiredBaselineIds = sort_on_units id (map (\<lambda>check. tgt_id (rc_reference check))
           (filter (\<lambda>check. rc_phase check = ''baseline'' \<and>
              list_ex (\<lambda>selection. sel_id selection = rc_selectionId check \<and> sel_baselineRequired selection)
                (er_checks facts)) checks))
     in bindE (sameJson (strings_json (map receiptText baselineApplicability)) (strings_json requiredBaselineIds)) (\<lambda>same.
     failIf (\<not> same) (EvidencePacket ''review'')
     (bindE (mapE (reviewJudgment P citations) (rf_judgments review)) (\<lambda>judgments.
     failIf (\<not> distinct (map rj_propositionId judgments)) (EvidencePacket ''review'')
     (failIf (length judgments \<noteq> length (er_propositions facts) \<or>
        list_ex (\<lambda>p. bq_id p \<notin> set (map rj_propositionId judgments)) (er_propositions facts)) (EvidencePacket ''review'')
     (failIf (rf_overallUncertainty review \<notin> set UNCERTAINTIES) (EvidencePacket ''review'')
     (bindE (evidence_sortedIds 4096 (rf_missingObligationIds review)) (\<lambda>missing.
     Inr \<lparr>ar_mandateApplicability = mandateApplicability, ar_baselineApplicability = baselineApplicability,
       ar_judgments = sort_on_units rj_propositionId judgments, ar_mandateExcess = rf_mandateExcess review,
       ar_missingObligationIds = missing, ar_overallUncertainty = rf_overallUncertainty review\<rparr>)))))))))))))"

definition reviewRequiresMandateResolutionV1 :: "assessed_review \<Rightarrow> bool" where
  "reviewRequiresMandateResolutionV1 review \<longleftrightarrow>
     ap_disposition (ar_mandateApplicability review) = ''requires-readmission'' \<or>
     list_ex (\<lambda>a. ap_disposition a = ''insufficient'') (ar_baselineApplicability review) \<or>
     ar_mandateExcess review \<or> ar_missingObligationIds review \<noteq> [] \<or> ar_overallUncertainty review = ''material'' \<or>
     list_ex (\<lambda>j. rj_uncertainty j = ''material'') (ar_judgments review)"

section \<open>Propositions\<close>

record proposition_entry =
  pe_id :: string
  pe_propositionId :: string
  pe_reviewerDisposition :: string
  pe_reviewWorkProductId :: string
  pe_fragmentDigest :: string
  pe_citationIds :: "string list"
  pe_inspectedSubjectIds :: "string list"
  pe_limitationIds :: "string list"
  pe_uncertainty :: string
  pe_provenance :: string
  pe_validation :: string

definition propositionValidation :: "review_judgment \<Rightarrow> boundary_proposition \<Rightarrow> string" where
  "propositionValidation judgment proposition =
     (let legalNotApplicable = rj_disposition judgment = ''not-applicable'' \<and>
            bq_allowNotApplicable proposition \<and> bq_notApplicableCondition proposition \<noteq> None;
          acceptedWithVisibleLimits = rj_disposition judgment = ''accepted'' \<and>
            (rj_uncertainty judgment = ''none'' \<or> rj_uncertainty judgment = ''bounded'')
      in if legalNotApplicable \<or> acceptedWithVisibleLimits then ''valid''
         else if rj_disposition judgment = ''indeterminate'' \<or> rj_uncertainty judgment = ''unknown'' then ''indeterminate''
         else ''invalid'')"

definition propositionEntry ::
  "platform \<Rightarrow> target \<Rightarrow> evidence_requirements \<Rightarrow> review_judgment \<Rightarrow> proposition_entry res" where
  "propositionEntry P workProduct facts judgment =
     (case last_by bq_id (er_propositions facts) (rj_propositionId judgment) of
        None \<Rightarrow> Inl JsTypeError
      | Some proposition \<Rightarrow>
          bindE (localId P ''proposition-decision'' [(''propositionId'', JStr (bq_id proposition))]) (\<lambda>i.
          Inr \<lparr>pe_id = i, pe_propositionId = bq_id proposition, pe_reviewerDisposition = rj_disposition judgment,
            pe_reviewWorkProductId = tgt_id workProduct, pe_fragmentDigest = rj_fragmentDigest judgment,
            pe_citationIds = rj_citationIds judgment, pe_inspectedSubjectIds = rj_inspectedSubjectIds judgment,
            pe_limitationIds = rj_limitationIds judgment, pe_uncertainty = rj_uncertainty judgment,
            pe_provenance = ''agent-proposed'', pe_validation = propositionValidation judgment proposition\<rparr>))"

definition propositionLedger ::
  "platform \<Rightarrow> target \<Rightarrow> evidence_requirements \<Rightarrow> assessed_review \<Rightarrow> proposition_entry list res" where
  "propositionLedger P workProduct facts review = mapE (propositionEntry P workProduct facts) (ar_judgments review)"

section \<open>Artifacts\<close>

record artifact_entry =
  ae_id :: string
  ae_artifactId :: string
  ae_path :: string
  ae_fileKind :: string
  ae_existence :: string
  ae_change :: string
  ae_contentDigest :: "string option"
  ae_manifestDigest :: "string option"
  ae_schemaValidation :: string
  ae_semanticValidation :: string
  ae_obligationIds :: "string list"
  ae_sourceRecordIds :: "string list"
  ae_limitations :: "string list"
  ae_state :: string
  ae_provenance :: string

definition artifactIncoherent :: "artifact_observation \<Rightarrow> bool" where
  "artifactIncoherent observation \<longleftrightarrow>
     ao_existence observation = ''absent'' \<and> ao_fileKind observation \<noteq> ''absent'' \<or>
     ao_existence observation = ''present'' \<and> ao_fileKind observation = ''absent'' \<or>
     ao_fileKind observation = ''directory'' \<and> ao_contentDigest observation \<noteq> None \<or>
     ao_fileKind observation \<noteq> ''directory'' \<and> ao_manifestDigest observation \<noteq> None"

definition artifactState :: "boundary_artifact \<Rightarrow> artifact_observation \<Rightarrow> string" where
  "artifactState artifact observation =
     (if ao_schemaValidation observation = ''indeterminate'' \<or> ao_semanticValidation observation = ''indeterminate'' \<or>
         (ba_mustChange artifact \<and> ao_change observation = ''indeterminate'') then ''indeterminate''
      else if ao_existence observation = ''present'' \<and> ao_fileKind observation \<in> {''file'', ''directory''} \<and>
         (if ao_fileKind observation = ''file'' then ao_contentDigest observation \<noteq> None
          else ao_manifestDigest observation \<noteq> None) \<and>
         ao_schemaValidation observation \<in> {''valid'', ''not-required''} \<and>
         ao_semanticValidation observation \<in> {''valid'', ''not-required''} \<and>
         (\<not> ba_mustChange artifact \<or> ao_change observation \<in> {''added'', ''modified''}) then ''satisfied''
      else ''failed'')"

definition nullableDigest :: "string option \<Rightarrow> unit res" where
  "nullableDigest d = (case d of None \<Rightarrow> Inr () | Some v \<Rightarrow> bindE (evidence_digest v) (\<lambda>_. Inr ()))"

definition artifactEntry ::
  "platform \<Rightarrow> artifact_observation list \<Rightarrow> evidence_requirements \<Rightarrow> target \<Rightarrow> retained_check list \<Rightarrow>
     boundary_artifact \<Rightarrow> artifact_entry res" where
  "artifactEntry P observations facts candidate checks artifact =
     (case last_by ao_artifactId observations (ba_id artifact) of
        None \<Rightarrow> Inl JsTypeError
      | Some observation \<Rightarrow>
          failIf (artifactIncoherent observation) (EvidencePacket ''artifact'')
          (bindE (nullableDigest (ao_contentDigest observation)) (\<lambda>_.
          (bindE (nullableDigest (ao_manifestDigest observation)) (\<lambda>_.
          (bindE (evidence_sortedIds 4096 (tgt_id candidate # map (\<lambda>check. tgt_id (rc_reference check))
             (filter (\<lambda>check. case find (\<lambda>selection. sel_id selection = rc_selectionId check) (er_checks facts) of
                 None \<Rightarrow> False
               | Some selection \<Rightarrow>
                   list_ex (\<lambda>obligationId. obligationId \<in> set (ba_obligationIds artifact)) (sel_obligationIds selection))
               checks))) (\<lambda>sourceRecordIds.
          (bindE (localId P ''artifact-ledger'' [(''artifactId'', JStr (ba_id artifact))]) (\<lambda>i.
          (bindE (evidence_sortedIds 1024 (case ao_limitationIds observation of None \<Rightarrow> [] | Some l \<Rightarrow> l)) (\<lambda>limitations.
          Inr \<lparr>ae_id = i, ae_artifactId = ba_id artifact, ae_path = ba_path artifact,
            ae_fileKind = ao_fileKind observation, ae_existence = ao_existence observation,
            ae_change = ao_change observation, ae_contentDigest = ao_contentDigest observation,
            ae_manifestDigest = ao_manifestDigest observation,
            ae_schemaValidation = ao_schemaValidation observation,
            ae_semanticValidation = ao_semanticValidation observation,
            ae_obligationIds = ba_obligationIds artifact, ae_sourceRecordIds = sourceRecordIds,
            ae_limitations = limitations, ae_state = artifactState artifact observation,
            ae_provenance = ''runtime-observed''\<rparr>)))))))))))"

definition artifactLedger ::
  "platform \<Rightarrow> artifact_observation list \<Rightarrow> evidence_requirements \<Rightarrow> target \<Rightarrow> retained_check list \<Rightarrow>
     artifact_entry list res" where
  "artifactLedger P observations facts candidate checks =
     failIf (length observations > 4096) (EvidencePacket ''bound'')
     (failIf (\<not> distinct (map ao_artifactId observations) \<or> length observations \<noteq> length (er_artifacts facts) \<or>
        list_ex (\<lambda>a. ba_id a \<notin> set (map ao_artifactId observations)) (er_artifacts facts)) (EvidencePacket ''artifact'')
     (bindE (mapE (artifactEntry P observations facts candidate checks) (er_artifacts facts)) (\<lambda>entries.
     Inr (sort_on_units ae_id entries))))"

section \<open>Descriptions\<close>

record description_entry =
  de_id :: string
  de_path :: string
  de_descriptionId :: "string option"
  de_selector :: "string option"
  de_ownership :: string
  de_implementationChange :: string
  de_descriptionChange :: string
  de_exclusionChange :: string
  de_obligationIds :: "string list"
  de_sourceRecordIds :: "string list"
  de_state :: string
  de_provenance :: string

definition descriptionState :: "description_observation \<Rightarrow> string" where
  "descriptionState observation =
     (if do_ownership observation = ''indeterminate'' then ''indeterminate''
      else if do_ownership observation = ''excluded'' then ''not-applicable''
      else if do_ownership observation = ''exact'' \<and> do_descriptionId observation \<noteq> None \<and>
        do_selector observation \<noteq> None \<and> do_descriptionChange observation \<noteq> ''absent'' then ''satisfied''
      else ''failed'')"

definition nullable_check :: "(string \<Rightarrow> string res) \<Rightarrow> string option \<Rightarrow> unit res" where
  "nullable_check f v = (case v of None \<Rightarrow> Inr () | Some s \<Rightarrow> bindE (f s) (\<lambda>_. Inr ()))"

text \<open>One observation, after those already \<open>seen\<close>.\<close>

definition descriptionEntry ::
  "platform \<Rightarrow> evidence_requirements \<Rightarrow> target \<Rightarrow> description_entry list \<Rightarrow> description_observation \<Rightarrow>
     description_entry list res" where
  "descriptionEntry P facts candidate seen observation =
     failIf (\<not> path_pattern (do_path observation) \<or> utf16_length (do_path observation) > 4096)
       (EvidencePacket ''description'')
     (failIf (do_path observation \<in> set (map de_path seen)) (EvidencePacket ''description'')
     (bindE (evidence_sortedIds 4096 (do_obligationIds observation)) (\<lambda>selectedObligations.
      failIf (list_ex (\<lambda>o'. o' \<notin> set (map bo_id (er_obligations facts))) selectedObligations) (EvidencePacket ''description'')
     (bindE (nullable_check evidence_id (do_descriptionId observation)) (\<lambda>_.
     (bindE (nullable_check evidence_singleLine (do_selector observation)) (\<lambda>_.
     (bindE (localId P ''description-ledger'' [(''path'', JStr (do_path observation))]) (\<lambda>i.
      Inr (seen @ [\<lparr>de_id = i, de_path = do_path observation, de_descriptionId = do_descriptionId observation,
        de_selector = do_selector observation, de_ownership = do_ownership observation,
        de_implementationChange = do_implementationChange observation,
        de_descriptionChange = do_descriptionChange observation,
        de_exclusionChange = do_exclusionChange observation, de_obligationIds = selectedObligations,
        de_sourceRecordIds = [tgt_id candidate], de_state = descriptionState observation,
        de_provenance = ''runtime-observed''\<rparr>]))))))))))"

definition descriptionLedger ::
  "platform \<Rightarrow> description_observation list \<Rightarrow> evidence_requirements \<Rightarrow> target \<Rightarrow> description_entry list res" where
  "descriptionLedger P observations facts candidate =
     failIf (length observations > 4096) (EvidencePacket ''bound'')
     (bindE (foldE (descriptionEntry P facts candidate) [] observations) (\<lambda>entries.
     Inr (sort_on_units de_id entries)))"

section \<open>Independence of the review\<close>

record independence_entry =
  ie_id :: string
  ie_ruleId :: string
  ie_contextSeparation :: string
  ie_subjectDisposition :: string
  ie_state :: string

definition INDEPENDENCE_RULE :: string where
  "INDEPENDENCE_RULE = ''rule.independent-review.standard-v1''"

definition reviewerIndependence :: "platform \<Rightarrow> evidence_input \<Rightarrow> independence_entry list res" where
  "reviewerIndependence P input =
     (let contextSeparation = in_contextSeparation input;
          subjectDisposition = eo_reviewerSubjectDisposition (in_observation input)
      in failIf (contextSeparation \<notin> {''distinct'', ''shared'', ''unobserved''}) (EvidencePacket ''independence'')
         (bindE (localId P ''independence'' [(''ruleId'', JStr INDEPENDENCE_RULE)]) (\<lambda>i.
         Inr [\<lparr>ie_id = i, ie_ruleId = INDEPENDENCE_RULE, ie_contextSeparation = contextSeparation,
           ie_subjectDisposition = subjectDisposition,
           ie_state = (if contextSeparation = ''distinct'' \<and> subjectDisposition = ''exact-read-only'' then ''satisfied''
             else if contextSeparation = ''shared'' \<or> subjectDisposition = ''mutated'' then ''failed''
             else ''indeterminate'')\<rparr>])))"

section \<open>Obligations\<close>

record obligation_entry =
  oe_id :: string
  oe_obligationId :: string
  oe_state :: string
  oe_checkIds :: "string list"
  oe_receiptIds :: "string list"
  oe_propositionDecisionIds :: "string list"
  oe_artifactLedgerIds :: "string list"
  oe_reasonCode :: string
  oe_provenance :: string

text \<open>\<open>text.includes("illegal")\<close>\<close>

fun js_includes :: "string \<Rightarrow> string \<Rightarrow> bool" where
  "js_includes [] pattern = (pattern = [])"
| "js_includes (c # s) pattern = (take (length pattern) (c # s) = pattern \<or> js_includes s pattern)"

definition receiptState :: "receipt_entry \<Rightarrow> string" where
  "receiptState entry =
     (if re_use entry = ''missing'' then ''missing''
      else if re_freshness entry = ''stale'' then ''stale''
      else if re_freshness entry = ''indeterminate'' then ''indeterminate''
      else if js_includes (re_reasonCode entry) ''illegal'' then ''failed'' else ''satisfied'')"

definition decisionState :: "proposition_entry \<Rightarrow> string" where
  "decisionState entry =
     (if pe_validation entry = ''valid'' then ''satisfied''
      else if pe_validation entry = ''indeterminate'' then ''indeterminate'' else ''failed'')"

definition obligationReceipts :: "evidence_requirements \<Rightarrow> receipt_entry list \<Rightarrow> string \<Rightarrow> receipt_entry list" where
  "obligationReceipts facts entries obligationId =
     concat (map (\<lambda>selection. filter (\<lambda>entry. re_checkId entry = sel_id selection \<and>
         (if re_phase entry = ''baseline'' then sel_baselineRequired selection
          else if re_phase entry = ''final'' then sel_finalRequired selection else False)) entries)
       (filter (\<lambda>selection. obligationId \<in> set (sel_obligationIds selection)) (er_checks facts)))"

definition obligationVerdict :: "boundary_obligation \<Rightarrow> string list \<Rightarrow> string \<times> string" where
  "obligationVerdict obligation states =
     (if ''failed'' \<in> set states then (''failed'', ''evidence-failed'')
      else if ''missing'' \<in> set states then (''missing'', ''evidence-missing'')
      else if ''stale'' \<in> set states then (''stale'', ''evidence-stale'')
      else if ''unsupported'' \<in> set states then (''unsupported'', ''evidence-unsupported'')
      else if ''indeterminate'' \<in> set states then (''indeterminate'', ''evidence-indeterminate'')
      else if states = [] \<and> bo_severity obligation = ''diagnostic''
        then (''not-applicable'', ''diagnostic-obligation-not-applicable'')
      else if states = [] then (''missing'', ''obligation-has-no-evidence-route'')
      else (''satisfied'', ''evidence-satisfied''))"

definition obligationEntry ::
  "platform \<Rightarrow> evidence_requirements \<Rightarrow> receipt_entry list \<Rightarrow> proposition_entry list \<Rightarrow> artifact_entry list \<Rightarrow>
     description_entry list \<Rightarrow> assessed_review \<Rightarrow> boundary_obligation \<Rightarrow> obligation_entry res" where
  "obligationEntry P facts receiptEntries propositions artifacts descriptions review obligation =
     (let checkSelections = filter (\<lambda>selection. bo_id obligation \<in> set (sel_obligationIds selection)) (er_checks facts);
          receipts = obligationReceipts facts receiptEntries (bo_id obligation);
          propositionEntries = List.map_filter (last_by pe_propositionId propositions) (bo_propositionIds obligation);
          artifactEntries = List.map_filter (last_by ae_artifactId artifacts) (bo_requiredEvidenceArtifactIds obligation);
          descriptionEntries = filter (\<lambda>entry. bo_id obligation \<in> set (de_obligationIds entry)) descriptions;
          (state, reasonCode) =
            (if bo_id obligation \<in> set (ar_missingObligationIds review)
               then (''missing'', ''reviewer-reported-obligation-missing'')
             else if length artifactEntries \<noteq> length (bo_requiredEvidenceArtifactIds obligation) \<or>
               length propositionEntries \<noteq> length (bo_propositionIds obligation)
               then (''missing'', ''required-evidence-entry-missing'')
             else obligationVerdict obligation
               (map receiptState receipts @ map decisionState propositionEntries @ map ae_state artifactEntries @
                map de_state descriptionEntries))
      in bindE (localId P ''obligation-state'' [(''obligationId'', JStr (bo_id obligation))]) (\<lambda>i.
         bindE (evidence_sortedIds 4096 (List.map_filter re_receiptId receipts)) (\<lambda>receiptIds.
         bindE (evidence_sortedIds 4096 (map pe_id propositionEntries)) (\<lambda>decisionIds.
         bindE (evidence_sortedIds 4096 (map ae_id artifactEntries)) (\<lambda>artifactIds.
         Inr \<lparr>oe_id = i, oe_obligationId = bo_id obligation, oe_state = state,
           oe_checkIds = sort_on_units id (map sel_id checkSelections), oe_receiptIds = receiptIds,
           oe_propositionDecisionIds = decisionIds, oe_artifactLedgerIds = artifactIds, oe_reasonCode = reasonCode,
           oe_provenance = ''runtime-derived''\<rparr>)))))"

definition obligationLedger ::
  "platform \<Rightarrow> evidence_requirements \<Rightarrow> receipt_entry list \<Rightarrow> proposition_entry list \<Rightarrow> artifact_entry list \<Rightarrow>
     description_entry list \<Rightarrow> assessed_review \<Rightarrow> obligation_entry list res" where
  "obligationLedger P facts receiptEntries propositions artifacts descriptions review =
     bindE (mapE (obligationEntry P facts receiptEntries propositions artifacts descriptions review) (er_obligations facts))
       (\<lambda>entries. Inr (sort_on_units oe_id entries))"

section \<open>Uncertainty\<close>

record uncertainty =
  un_level :: string
  un_itemIds :: "string list"

definition uncertaintyLevel ::
  "assessed_review \<Rightarrow> obligation_entry list \<Rightarrow> independence_entry list \<Rightarrow> uncertainty res" where
  "uncertaintyLevel review obligations independence =
     (let items = map rj_id (filter (\<lambda>j. rj_uncertainty j \<noteq> ''none'') (ar_judgments review)) @
            map oe_id (filter (\<lambda>e. oe_state e \<noteq> ''satisfied'' \<and> oe_state e \<noteq> ''not-applicable'') obligations) @
            map ie_id (filter (\<lambda>e. ie_state e \<noteq> ''satisfied'') independence);
          judgmentLevels = map rj_uncertainty (ar_judgments review);
          level = (if reviewRequiresMandateResolutionV1 review then ''material''
            else if ap_disposition (ar_mandateApplicability review) = ''indeterminate'' \<or>
              list_ex (\<lambda>a. ap_disposition a = ''indeterminate'') (ar_baselineApplicability review) \<or>
              ar_overallUncertainty review = ''unknown'' \<or> ''unknown'' \<in> set judgmentLevels \<or>
              list_ex (\<lambda>e. oe_state e \<in> {''indeterminate'', ''missing'', ''stale'', ''unsupported''}) obligations \<or>
              list_ex (\<lambda>e. ie_state e = ''indeterminate'') independence then ''unknown''
            else if ar_overallUncertainty review = ''bounded'' \<or> ''bounded'' \<in> set judgmentLevels then ''bounded''
            else ''none'')
      in bindE (evidence_sortedIds 4096 items) (\<lambda>itemIds. Inr \<lparr>un_level = level, un_itemIds = itemIds\<rparr>))"

section \<open>The assessment\<close>

record evidence_assessment =
  as_disposition :: string
  as_requiresMandateResolution :: bool
  as_artifacts :: "artifact_entry list"
  as_descriptions :: "description_entry list"
  as_receiptUse :: "receipt_entry list"
  as_mandateApplicability :: applicability
  as_baselineApplicability :: "applicability list"
  as_independence :: "independence_entry list"
  as_propositions :: "proposition_entry list"
  as_obligations :: "obligation_entry list"
  as_uncertainty :: uncertainty

definition sameSubject :: "target \<Rightarrow> target \<Rightarrow> target \<Rightarrow> unit res" where
  "sameSubject subject observed reviewed =
     bindE (evidence_assertReference subject) (\<lambda>_.
     bindE (evidence_sameReference subject observed) (\<lambda>s.
     failIf (\<not> s) (EvidencePacket ''subject'')
     (bindE (evidence_sameReference subject reviewed) (\<lambda>s'.
     failIf (\<not> s') (EvidencePacket ''subject'') (Inr ())))))"

definition assertSubjects :: "evidence_input \<Rightarrow> unit res" where
  "assertSubjects input =
     (let subject = in_subject input; observed = in_observationSubject input; reviewed = rf_subject (in_review input)
      in bindE (sameSubject (es_boundary subject) (es_boundary observed) (es_boundary reviewed)) (\<lambda>_.
         bindE (sameSubject (es_candidate subject) (es_candidate observed) (es_candidate reviewed)) (\<lambda>_.
         bindE (sameSubject (es_seal subject) (es_seal observed) (es_seal reviewed)) (\<lambda>_.
         bindE (sameJson (evidence_subject_json reviewed) (evidence_subject_json subject)) (\<lambda>same.
         failIf (\<not> same) (EvidencePacket ''subject'')
         (failIf (\<not> git_object_pattern (pb_commit (es_parent subject)) \<or> \<not> git_object_pattern (pb_tree (es_parent subject)))
           (EvidencePacket ''subject'')
         (bindE (evidence_digest (pb_snapshotDigest (es_parent subject))) (\<lambda>_.
          bindE (evidence_sameReference (es_integration observed) (es_integration subject)) (\<lambda>same.
          failIf (\<not> same) (EvidencePacket ''subject'')
         (bindE (sameJson (parent_json (es_parent observed)) (parent_json (es_parent subject))) (\<lambda>same.
          failIf (\<not> same) (EvidencePacket ''subject'')
         (bindE (evidence_assertReference (es_integration subject)) (\<lambda>_.
          evidence_assertReference (rf_reference (in_review input)))))))))))))))"

definition assertCheck :: "evidence_subject \<Rightarrow> retained_check \<Rightarrow> unit res" where
  "assertCheck subject check =
     bindE (evidence_assertReference (rc_reference check)) (\<lambda>_.
     bindE (evidence_sameReference (rc_proofSubject check)
       (if rc_phase check = ''baseline'' then es_boundary subject else es_seal subject)) (\<lambda>same.
     failIf (\<not> same) (EvidencePacket ''check'') (Inr ())))"

definition assertIdentities :: "string list \<Rightarrow> unit res" where
  "assertIdentities ids =
     failIf (length ids > 4096 \<or> \<not> distinct ids) (EvidencePacket ''bound'')
     (bindE (mapE evidence_id ids) (\<lambda>_. Inr ()))"

definition assertDiagnostic :: "evidence_diagnostic \<Rightarrow> unit res" where
  "assertDiagnostic d =
     bindE (evidence_id (ed_code d)) (\<lambda>_. bindE (evidence_id (ed_stage d)) (\<lambda>_.
     bindE (evidence_digest (ed_factsDigest d)) (\<lambda>_. Inr ())))"

definition diagnostics_of :: "evidence_input \<Rightarrow> evidence_diagnostic list" where
  "diagnostics_of input = (case eo_diagnostics (in_observation input) of None \<Rightarrow> [] | Some ds \<Rightarrow> ds)"

definition assertEvidenceInput :: "platform \<Rightarrow> evidence_input \<Rightarrow> unit res" where
  "assertEvidenceInput P input =
     bindE (assertSubjects input) (\<lambda>_.
     bindE (mapE (assertCheck (in_subject input)) (in_checks input)) (\<lambda>_.
     bindE (FOUNDATION_EVIDENCE_RULE_SET_V7 P) (\<lambda>ruleSet.
     bindE (FOUNDATION_EVIDENCE_VALIDATOR_V7 P) (\<lambda>validator.
     bindE (sameJson (resource_json (eo_ruleSet (in_observation input))) (resource_json ruleSet)) (\<lambda>same.
     failIf (\<not> same) (EvidencePacket ''selection'')
     (bindE (sameJson (resource_json (eo_validator (in_observation input))) (resource_json validator)) (\<lambda>same.
     failIf (\<not> same) (EvidencePacket ''selection'')
     (bindE (mapE assertIdentities [map sel_id (er_checks (in_requirements input)),
         map bo_id (er_obligations (in_requirements input)), map ba_id (er_artifacts (in_requirements input)),
         map bq_id (er_propositions (in_requirements input))]) (\<lambda>_.
     failIf (length (in_checks input) > 8192 \<or> length (rf_citations (in_review input)) > 4096 \<or>
         length (rf_judgments (in_review input)) > 4096 \<or> length (rf_baselineApplicability (in_review input)) > 4096)
       (EvidencePacket ''bound'')
     (failIf (length (diagnostics_of input) > 1024) (EvidencePacket ''diagnostic'')
     (bindE (mapE (\<lambda>d. digestCanonical P (diagnostic_json d)) (diagnostics_of input)) (\<lambda>digests.
     failIf (\<not> distinct digests) (EvidencePacket ''diagnostic'')
     (bindE (mapE assertDiagnostic (diagnostics_of input)) (\<lambda>_. Inr ()))))))))))))))"

definition evidenceSupported ::
  "evidence_input \<Rightarrow> receipt_ledger \<Rightarrow> assessed_review \<Rightarrow> proposition_entry list \<Rightarrow> artifact_entry list \<Rightarrow>
     description_entry list \<Rightarrow> independence_entry list \<Rightarrow> obligation_entry list \<Rightarrow> bool" where
  "evidenceSupported input receipt review propositions artifacts descriptions independence obligations \<longleftrightarrow>
     ap_disposition (ar_mandateApplicability review) = ''applicable'' \<and>
     list_all (\<lambda>a. ap_disposition a = ''applicable'') (ar_baselineApplicability review) \<and>
     rl_completeAndLegal receipt \<and> ar_overallUncertainty review \<noteq> ''unknown'' \<and>
     list_all (\<lambda>e. pe_validation e = ''valid'') propositions \<and>
     list_all (\<lambda>e. oe_state e = ''satisfied'' \<or> oe_state e = ''not-applicable'') obligations \<and>
     list_all (\<lambda>e. ae_state e = ''satisfied'') artifacts \<and>
     list_all (\<lambda>e. de_state e = ''satisfied'' \<or> de_state e = ''not-applicable'') descriptions \<and>
     list_all (\<lambda>e. ie_state e = ''satisfied'') independence \<and> diagnostics_of input = []"

definition assessFoundationEvidenceV1 :: "platform \<Rightarrow> evidence_input \<Rightarrow> evidence_assessment res" where
  "assessFoundationEvidenceV1 P input =
     bindE (assertEvidenceInput P input) (\<lambda>_.
     let facts = in_requirements input; observation = in_observation input; subject = in_subject input in
     bindE (evidence_timestamp (eo_evaluatedAt observation)) (\<lambda>evaluatedAt.
     bindE (receiptLedgers P facts (in_checks input) evaluatedAt) (\<lambda>receipt.
     bindE (reviewJudgments P (in_review input) facts (rl_usedChecks receipt)) (\<lambda>review.
     bindE (propositionLedger P (rf_reference (in_review input)) facts review) (\<lambda>propositions.
     bindE (artifactLedger P (eo_artifacts observation) facts (es_candidate subject) (rl_usedChecks receipt)) (\<lambda>artifacts.
     bindE (descriptionLedger P (eo_descriptionCoverage observation) facts (es_candidate subject)) (\<lambda>descriptions.
     bindE (reviewerIndependence P input) (\<lambda>independence.
     bindE (obligationLedger P facts (rl_entries receipt) propositions artifacts descriptions review) (\<lambda>obligations.
     bindE (uncertaintyLevel review obligations independence) (\<lambda>uncertainty.
     Inr \<lparr>as_disposition =
           (if reviewRequiresMandateResolutionV1 review then ''mandate-resolution-required''
            else if evidenceSupported input receipt review propositions artifacts descriptions independence obligations
              then ''supported''
            else if un_level uncertainty = ''unknown'' then ''indeterminate'' else ''unmet''),
       as_requiresMandateResolution = reviewRequiresMandateResolutionV1 review,
       as_artifacts = artifacts, as_descriptions = descriptions, as_receiptUse = rl_entries receipt,
       as_mandateApplicability = ar_mandateApplicability review,
       as_baselineApplicability = ar_baselineApplicability review, as_independence = independence,
       as_propositions = propositions, as_obligations = obligations, as_uncertainty = uncertainty\<rparr>))))))))))"

end
