(* ===== verification/Evidence_Support.thy ===== *)
theory Evidence_Support
  imports Evidence_Assessment
begin

text \<open>
  What a supported assessment of Evidence means: a declarative specification over the facts
  alone (\<open>evidence_earned\<close>), and one lemma per ledger that relates its entries to the facts
  they were computed from.
\<close>

section \<open>Lists of results\<close>

lemma mapE_list_all2: "mapE f xs = Inr ys \<longleftrightarrow> list_all2 (\<lambda>x y. f x = Inr y) xs ys"
proof (induction xs arbitrary: ys)
  case (Cons x xs)
  then show ?case by (cases ys) (auto simp: res_simps)
qed auto

lemma mapE_ball:
  assumes "mapE f xs = Inr ys" and "\<And>x y. x \<in> set xs \<Longrightarrow> f x = Inr y \<Longrightarrow> P y \<longleftrightarrow> Q x"
  shows "(\<forall>y \<in> set ys. P y) \<longleftrightarrow> (\<forall>x \<in> set xs. Q x)"
  using assms
proof (induction xs arbitrary: ys)
  case (Cons x xs)
  then obtain y zs where "ys = y # zs" "f x = Inr y" "mapE f xs = Inr zs" by (auto simp: res_simps)
  with Cons show ?case by fastforce
qed auto

lemma mapE_map: "mapE f xs = Inr ys \<Longrightarrow> (\<And>x y. x \<in> set xs \<Longrightarrow> f x = Inr y \<Longrightarrow> g y = h x) \<Longrightarrow> map g ys = map h xs"
  by (induction xs arbitrary: ys) (auto simp: res_simps)

lemma mapE_in: "mapE f xs = Inr ys \<Longrightarrow> x \<in> set xs \<Longrightarrow> \<exists>y \<in> set ys. f x = Inr y"
  by (induction xs arbitrary: ys) (auto simp: res_simps)

lemma set_sort_on_units [simp]: "set (sort_on_units key xs) = set xs"
  by (simp add: sort_on_units_def)

lemma sort_on_units_Nil [simp]: "sort_on_units key xs = [] \<longleftrightarrow> xs = []"
  by (metis length_0_conv length_sort_by sort_on_units_def)

lemma set_sortUniqueCodePoints [simp]: "set (sortUniqueCodePoints xs) = set xs"
  by (simp add: sortUniqueCodePoints_def)

lemma find_in: "find Q xs = Some x \<Longrightarrow> x \<in> set xs \<and> Q x"
  by (induction xs) (auto split: if_splits)

lemma last_by_Some: "last_by key xs k = Some x \<Longrightarrow> x \<in> set xs \<and> key x = k"
  using find_in [of "\<lambda>x. key x = k" "rev xs" x] by (simp add: last_by_def)

lemma last_by_None: "last_by key xs k = None \<longleftrightarrow> k \<notin> key ` set xs"
  by (auto simp: last_by_def find_None_iff)

lemma last_by_distinct:
  assumes "distinct (map key xs)" and "x \<in> set xs"
  shows "last_by key xs (key x) = Some x"
proof -
  obtain y where y: "last_by key xs (key x) = Some y"
    using assms(2) last_by_None [of key xs "key x"] by (cases "last_by key xs (key x)") auto
  then have "y \<in> set xs" "key y = key x" using last_by_Some by fastforce+
  with assms y show ?thesis by (metis distinct_map inj_onD)
qed

lemma find_distinct:
  assumes "distinct (map key xs)"
  shows "find (\<lambda>x. key x = k) xs = Some x \<longleftrightarrow> x \<in> set xs \<and> key x = k"
  using assms by (induction xs) auto

lemma sortedIds_set: "evidence_sortedIds m xs = Inr ys \<Longrightarrow> set ys = set xs"
proof -
  assume "evidence_sortedIds m xs = Inr ys"
  then obtain ids where ids: "mapE evidence_id xs = Inr ids" "ys = sortUniqueCodePoints ids"
    by (auto simp: evidence_sortedIds_def res_simps)
  from ids(1) have "map id ids = map id xs"
    by (rule mapE_map) (auto simp: evidence_id_def res_simps)
  with ids(2) show ?thesis by simp
qed

lemma map_filter_length: "length (List.map_filter f xs) = length xs \<longleftrightarrow> (\<forall>x \<in> set xs. f x \<noteq> None)"
proof (induction xs)
  case (Cons x xs)
  have "length (List.map_filter f xs) \<le> length xs"
    by (simp add: List.map_filter_def)
  with Cons show ?case by (cases "f x") (simp_all add: List.map_filter_simps)
qed (simp add: List.map_filter_simps)

lemma set_map_filter: "set (List.map_filter f xs) = {y. \<exists>x \<in> set xs. f x = Some y}"
  by (force simp: List.map_filter_def)

section \<open>The specification\<close>

text \<open>
  A Check is in order at a phase when a required Receipt is there, and a Receipt that is
  there is legal (unless it is optional and diagnostic) and finished by the evaluation,
  unless it records an authorized non-execution.
\<close>

definition receipt_earned :: "retained_check list \<Rightarrow> string \<Rightarrow> check_selection \<Rightarrow> string \<Rightarrow> bool" where
  "receipt_earned checks evaluatedAt selection phase \<longleftrightarrow>
     (requiredAt phase selection \<longrightarrow> (\<exists>check \<in> set checks. coordinate check = (phase, sel_id selection))) \<and>
     (\<forall>check \<in> set checks. coordinate check = (phase, sel_id selection) \<longrightarrow>
        (legalAt phase check \<or> \<not> requiredAt phase selection \<and> sel_modality selection = ''diagnostic'') \<and>
        (isFoundationAuthorizedBaselinePostconditionV1 check \<or>
         (case rc_finishedAt check of
            None \<Rightarrow> False
          | Some finishedAt \<Rightarrow> \<not> js_less (date_parse evaluatedAt) (date_parse finishedAt))))"

definition judgment_earned :: "boundary_proposition list \<Rightarrow> review_judgment \<Rightarrow> bool" where
  "judgment_earned propositions j \<longleftrightarrow> rj_uncertainty j \<noteq> ''material'' \<and>
     (rj_disposition j = ''accepted'' \<and> rj_uncertainty j \<in> {''none'', ''bounded''} \<or>
      rj_disposition j = ''not-applicable'' \<and> (\<exists>p \<in> set propositions. bq_id p = rj_propositionId j \<and>
        bq_allowNotApplicable p \<and> bq_notApplicableCondition p \<noteq> None))"

definition artifact_earned :: "artifact_observation list \<Rightarrow> boundary_artifact \<Rightarrow> bool" where
  "artifact_earned observations artifact \<longleftrightarrow>
     (\<exists>o' \<in> set observations. ao_artifactId o' = ba_id artifact \<and> ao_existence o' = ''present'' \<and>
        (ao_fileKind o' = ''file'' \<and> ao_contentDigest o' \<noteq> None \<or>
         ao_fileKind o' = ''directory'' \<and> ao_manifestDigest o' \<noteq> None) \<and>
        ao_schemaValidation o' \<in> {''valid'', ''not-required''} \<and>
        ao_semanticValidation o' \<in> {''valid'', ''not-required''} \<and>
        (ba_mustChange artifact \<longrightarrow> ao_change o' \<in> {''added'', ''modified''}))"

definition description_earned :: "description_observation \<Rightarrow> bool" where
  "description_earned d \<longleftrightarrow> do_ownership d = ''excluded'' \<or>
     do_ownership d = ''exact'' \<and> do_descriptionId d \<noteq> None \<and> do_selector d \<noteq> None \<and>
     do_descriptionChange d \<noteq> ''absent''"

definition obligation_earned :: "evidence_input \<Rightarrow> boundary_obligation \<Rightarrow> bool" where
  "obligation_earned input ob \<longleftrightarrow>
     (let facts = in_requirements input in
      set (bo_requiredEvidenceArtifactIds ob) \<subseteq> ba_id ` set (er_artifacts facts) \<and>
      set (bo_propositionIds ob) \<subseteq> bq_id ` set (er_propositions facts) \<and>
      (bo_severity ob = ''diagnostic'' \<or> bo_requiredEvidenceArtifactIds ob \<noteq> [] \<or> bo_propositionIds ob \<noteq> [] \<or>
       (\<exists>c \<in> set (er_checks facts). bo_id ob \<in> set (sel_obligationIds c) \<and>
          (sel_baselineRequired c \<or> sel_finalRequired c)) \<or>
       (\<exists>d \<in> set (eo_descriptionCoverage (in_observation input)). bo_id ob \<in> set (do_obligationIds d))))"

definition evidence_earned :: "evidence_input \<Rightarrow> bool" where
  "evidence_earned input \<longleftrightarrow>
     (let facts = in_requirements input; review = in_review input; observation = in_observation input in
      aj_disposition (rf_mandateApplicability review) = ''applicable'' \<and>
      (\<forall>a \<in> set (rf_baselineApplicability review). aj_disposition a = ''applicable'') \<and>
      \<not> rf_mandateExcess review \<and> rf_missingObligationIds review = [] \<and>
      rf_overallUncertainty review \<notin> {''material'', ''unknown''} \<and>
      (\<forall>j \<in> set (rf_judgments review). judgment_earned (er_propositions facts) j) \<and>
      (\<forall>selection \<in> set (er_checks facts). \<forall>phase \<in> {''baseline'', ''final''}.
         receipt_earned (in_checks input) (eo_evaluatedAt observation) selection phase) \<and>
      (\<forall>a \<in> set (er_artifacts facts). artifact_earned (eo_artifacts observation) a) \<and>
      (\<forall>d \<in> set (eo_descriptionCoverage observation). description_earned d) \<and>
      (\<forall>ob \<in> set (er_obligations facts). obligation_earned input ob) \<and>
      in_contextSeparation input = ''distinct'' \<and>
      eo_reviewerSubjectDisposition observation = ''exact-read-only'' \<and> diagnostics_of input = [])"

section \<open>Receipts\<close>

lemma receiptState_satisfied:
  assumes "re_use entry \<noteq> ''missing''" and "re_freshness entry = ''fresh'' \<or> re_freshness entry = ''not-applicable''"
    and "re_reasonCode entry \<in> {''baseline-postcondition-not-run'', ''baseline-receipt-current'', ''final-receipt-current''}"
  shows "receiptState entry = ''satisfied''"
proof -
  have "\<not> js_includes ''baseline-postcondition-not-run'' ''illegal''" "\<not> js_includes ''baseline-receipt-current'' ''illegal''"
    "\<not> js_includes ''final-receipt-current'' ''illegal''" by simp_all
  with assms show ?thesis by (auto simp: receiptState_def simp del: js_includes.simps)
qed

lemma receiptUse_facts:
  assumes "receiptUse P checks evaluatedAt selection phase = Inr (entry, ok)"
    and "distinct (map coordinate checks)" and "date_parse evaluatedAt \<noteq> None"
    and "phase = ''baseline'' \<or> phase = ''final''"
  shows "re_checkId entry = sel_id selection" and "re_phase entry = phase"
    and "ok \<longleftrightarrow> receipt_earned checks evaluatedAt selection phase"
    and "ok \<Longrightarrow> requiredAt phase selection \<Longrightarrow> receiptState entry = ''satisfied''"
proof -
  let ?check = "find (\<lambda>c. coordinate c = (phase, sel_id selection)) checks"
  have found: "?check = Some c \<longleftrightarrow> c \<in> set checks \<and> coordinate c = (phase, sel_id selection)" for c
    by (rule find_distinct [OF assms(2)])
  show "re_checkId entry = sel_id selection" "re_phase entry = phase"
    using assms(1) by (auto simp: receiptUse_def Let_def res_simps)
  have "(ok \<longleftrightarrow> receipt_earned checks evaluatedAt selection phase) \<and>
    (ok \<longrightarrow> requiredAt phase selection \<longrightarrow> receiptState entry = ''satisfied'')"
  proof (cases ?check)
    case None
    then have "\<forall>c \<in> set checks. coordinate c \<noteq> (phase, sel_id selection)" by (auto simp: find_None_iff)
    with None assms(1) show ?thesis
      by (auto simp: receiptUse_def Let_def res_simps receiptFreshness_def receipt_earned_def)
  next
    case (Some c)
    then have c: "c \<in> set checks" "coordinate c = (phase, sel_id selection)" using found by auto
    have only: "c' = c" if "c' \<in> set checks" "coordinate c' = (phase, sel_id selection)" for c'
      using found [of c'] Some that by simp
    have earned: "receipt_earned checks evaluatedAt selection phase \<longleftrightarrow>
        (legalAt phase c \<or> \<not> requiredAt phase selection \<and> sel_modality selection = ''diagnostic'') \<and>
        (isFoundationAuthorizedBaselinePostconditionV1 c \<or>
         (case rc_finishedAt c of None \<Rightarrow> False
          | Some finishedAt \<Rightarrow> \<not> js_less (date_parse evaluatedAt) (date_parse finishedAt)))"
      using c only unfolding receipt_earned_def by blast
    obtain e where e: "date_parse evaluatedAt = Some e" using assms(3) by auto
    from assms(1) Some obtain freshness age current where f: "receiptFreshness evaluatedAt (Some c)
        (requiredAt phase selection) = Inr (freshness, age, current)"
      by (auto simp: receiptUse_def Let_def res_simps)
    with assms(1) Some have
        ok: "ok \<longleftrightarrow> (legalAt phase c \<or> \<not> requiredAt phase selection \<and> sel_modality selection = ''diagnostic'') \<and> current"
      and entry: "re_use entry = (if isFoundationAuthorizedBaselinePostconditionV1 c then ''excluded'' else ''executed'')"
        "re_freshness entry = freshness"
        "re_reasonCode entry = (if isFoundationAuthorizedBaselinePostconditionV1 c then ''baseline-postcondition-not-run''
           else if freshness = ''stale'' then ''receipt-finished-after-evaluation''
           else if phase = ''baseline''
             then (if legalBaseline c then ''baseline-receipt-current'' else ''baseline-disposition-illegal'')
           else if legalFinal c then ''final-receipt-current'' else ''final-disposition-illegal'')"
      by (clarsimp simp: receiptUse_def Let_def res_simps)+
    have current: "current \<longleftrightarrow> isFoundationAuthorizedBaselinePostconditionV1 c \<or>
         (case rc_finishedAt c of None \<Rightarrow> False
          | Some finishedAt \<Rightarrow> \<not> js_less (date_parse evaluatedAt) (date_parse finishedAt))"
      and fresh: "current \<Longrightarrow> freshness = ''fresh'' \<or> freshness = ''not-applicable''"
      using f e by (auto simp: receiptFreshness_def evidence_timestamp_def res_simps Let_def split: if_splits option.splits)
    have "receiptState entry = ''satisfied''" if "ok" "requiredAt phase selection"
      using that ok fresh entry assms(4) by (intro receiptState_satisfied) (auto simp: legalAt_def split: if_splits)
    with ok current earned show ?thesis by auto
  qed
  then show "ok \<longleftrightarrow> receipt_earned checks evaluatedAt selection phase"
    and "ok \<Longrightarrow> requiredAt phase selection \<Longrightarrow> receiptState entry = ''satisfied''"
    by auto
qed

lemma receiptLedgers_facts:
  assumes "receiptLedgers P facts checks evaluatedAt = Inr l" and "date_parse evaluatedAt \<noteq> None"
  shows "distinct (map coordinate checks)" and "set (rl_usedChecks l) = set checks"
    and "rl_completeAndLegal l \<longleftrightarrow> (\<forall>selection \<in> set (er_checks facts). \<forall>phase \<in> {''baseline'', ''final''}.
        receipt_earned checks evaluatedAt selection phase)"
    and "\<And>selection phase. selection \<in> set (er_checks facts) \<Longrightarrow> phase \<in> {''baseline'', ''final''} \<Longrightarrow>
        \<exists>entry \<in> set (rl_entries l). re_checkId entry = sel_id selection \<and> re_phase entry = phase"
    and "\<And>entry. entry \<in> set (rl_entries l) \<Longrightarrow> rl_completeAndLegal l \<Longrightarrow>
        \<exists>selection \<in> set (er_checks facts). re_checkId entry = sel_id selection \<and>
          (re_phase entry = ''baseline'' \<or> re_phase entry = ''final'') \<and>
          (requiredAt (re_phase entry) selection \<longrightarrow> receiptState entry = ''satisfied'')"
proof -
  let ?pairs = "List.product (er_checks facts) [''baseline'', ''final'']"
  from assms(1) obtain uses where dist: "distinct (map coordinate checks)"
    and uses: "mapE (\<lambda>(selection, phase). receiptUse P checks evaluatedAt selection phase) ?pairs = Inr uses"
    and l: "rl_entries l = sort_on_units re_id (map fst uses)"
      "rl_usedChecks l = sort_on_units (\<lambda>c. tgt_id (rc_reference c)) checks"
      "rl_completeAndLegal l = list_all snd uses"
    by (auto simp: receiptLedgers_def res_simps)
  note facts = receiptUse_facts [OF _ dist assms(2)]
  show "distinct (map coordinate checks)" by (rule dist)
  show "set (rl_usedChecks l) = set checks" using l by simp
  have "(\<forall>u \<in> set uses. snd u) \<longleftrightarrow> (\<forall>(selection, phase) \<in> set ?pairs. receipt_earned checks evaluatedAt selection phase)"
    using uses by (rule mapE_ball) (auto dest: facts(3))
  then show "rl_completeAndLegal l \<longleftrightarrow> (\<forall>selection \<in> set (er_checks facts). \<forall>phase \<in> {''baseline'', ''final''}.
        receipt_earned checks evaluatedAt selection phase)"
    using l by (simp add: list_all_iff)
  show "\<exists>entry \<in> set (rl_entries l). re_checkId entry = sel_id selection \<and> re_phase entry = phase"
    if "selection \<in> set (er_checks facts)" "phase \<in> {''baseline'', ''final''}" for selection phase
  proof -
    have "(selection, phase) \<in> set ?pairs" using that by auto
    from mapE_in [OF uses this] obtain u where "u \<in> set uses" "receiptUse P checks evaluatedAt selection phase = Inr u"
      by auto
    with facts(1,2) [of P selection phase "fst u" "snd u"] that l show ?thesis by (intro bexI [of _ "fst u"]) auto
  qed
  show "\<exists>selection \<in> set (er_checks facts). re_checkId entry = sel_id selection \<and>
          (re_phase entry = ''baseline'' \<or> re_phase entry = ''final'') \<and>
          (requiredAt (re_phase entry) selection \<longrightarrow> receiptState entry = ''satisfied'')"
    if "entry \<in> set (rl_entries l)" "rl_completeAndLegal l" for entry
  proof -
    from that l obtain ok where ok: "(entry, ok) \<in> set uses" "ok" by (force simp: list_all_iff)
    from mapE_Inr_all [OF uses ok(1)] obtain selection phase where sp: "(selection, phase) \<in> set ?pairs"
      and use: "receiptUse P checks evaluatedAt selection phase = Inr (entry, ok)" by auto
    have phase: "phase = ''baseline'' \<or> phase = ''final''" using sp by auto
    from facts [OF use phase] ok sp phase show ?thesis by (intro bexI [of _ selection]) auto
  qed
qed

section \<open>The review\<close>

lemma reviewApplicability_facts:
  "reviewApplicability checks citations item baseline = Inr a \<Longrightarrow> ap_disposition a = aj_disposition item"
  by (auto simp: reviewApplicability_def res_simps)

lemma reviewJudgment_facts:
  assumes "reviewJudgment P citations j = Inr j'"
  shows "rj_propositionId j' = rj_propositionId j" "rj_disposition j' = rj_disposition j"
    "rj_uncertainty j' = rj_uncertainty j"
  using assms by (auto simp: reviewJudgment_def res_simps evidence_id_def)

lemma reviewJudgments_facts:
  assumes "reviewJudgments P review facts checks = Inr r"
  shows "ap_disposition (ar_mandateApplicability r) = aj_disposition (rf_mandateApplicability review)"
    and "(\<forall>a \<in> set (ar_baselineApplicability r). Q (ap_disposition a)) \<longleftrightarrow>
         (\<forall>a \<in> set (rf_baselineApplicability review). Q (aj_disposition a))"
    and "(\<forall>j \<in> set (ar_judgments r). R (rj_propositionId j) (rj_disposition j) (rj_uncertainty j)) \<longleftrightarrow>
         (\<forall>j \<in> set (rf_judgments review). R (rj_propositionId j) (rj_disposition j) (rj_uncertainty j))"
    and "ar_mandateExcess r = rf_mandateExcess review"
    and "set (ar_missingObligationIds r) = set (rf_missingObligationIds review)"
    and "ar_overallUncertainty r = rf_overallUncertainty review"
    and "rf_overallUncertainty review \<in> set UNCERTAINTIES"
    and "distinct (map rj_propositionId (rf_judgments review))"
    and "length (rf_judgments review) = length (er_propositions facts)"
    and "bq_id ` set (er_propositions facts) \<subseteq> rj_propositionId ` set (rf_judgments review)"
proof -
  from assms obtain citations mandate baselines judgments missing where
      m: "reviewApplicability checks citations (rf_mandateApplicability review) False = Inr mandate"
    and b: "mapE (\<lambda>item. reviewApplicability checks citations item True) (rf_baselineApplicability review) = Inr baselines"
    and j: "mapE (reviewJudgment P citations) (rf_judgments review) = Inr judgments"
    and dist: "distinct (map rj_propositionId judgments)"
    and len: "length judgments = length (er_propositions facts)"
    and all: "\<not> list_ex (\<lambda>p. bq_id p \<notin> set (map rj_propositionId judgments)) (er_propositions facts)"
    and unc: "rf_overallUncertainty review \<in> set UNCERTAINTIES"
    and missing: "evidence_sortedIds 4096 (rf_missingObligationIds review) = Inr missing"
    and r: "r = \<lparr>ar_mandateApplicability = mandate, ar_baselineApplicability = sort_on_units receiptText baselines,
       ar_judgments = sort_on_units rj_propositionId judgments, ar_mandateExcess = rf_mandateExcess review,
       ar_missingObligationIds = missing, ar_overallUncertainty = rf_overallUncertainty review\<rparr>"
    by (clarsimp simp: reviewJudgments_def res_simps Let_def)
  note one = reviewJudgment_facts
  have ids: "map rj_propositionId judgments = map rj_propositionId (rf_judgments review)"
    using j by (rule mapE_map) (rule one)
  show "ap_disposition (ar_mandateApplicability r) = aj_disposition (rf_mandateApplicability review)"
    using reviewApplicability_facts [OF m] r by simp
  show "(\<forall>a \<in> set (ar_baselineApplicability r). Q (ap_disposition a)) \<longleftrightarrow>
      (\<forall>a \<in> set (rf_baselineApplicability review). Q (aj_disposition a))"
    using mapE_ball [OF b, of "\<lambda>a. Q (ap_disposition a)" "\<lambda>a. Q (aj_disposition a)"] r
    by (simp add: reviewApplicability_facts)
  show "(\<forall>j \<in> set (ar_judgments r). R (rj_propositionId j) (rj_disposition j) (rj_uncertainty j)) \<longleftrightarrow>
      (\<forall>j \<in> set (rf_judgments review). R (rj_propositionId j) (rj_disposition j) (rj_uncertainty j))"
    using mapE_ball [OF j, of "\<lambda>j. R (rj_propositionId j) (rj_disposition j) (rj_uncertainty j)"
        "\<lambda>j. R (rj_propositionId j) (rj_disposition j) (rj_uncertainty j)"] r
    by (simp add: one)
  show "ar_mandateExcess r = rf_mandateExcess review" "ar_overallUncertainty r = rf_overallUncertainty review"
    using r by simp_all
  show "set (ar_missingObligationIds r) = set (rf_missingObligationIds review)"
    using sortedIds_set [OF missing] r by simp
  show "rf_overallUncertainty review \<in> set UNCERTAINTIES" by (rule unc)
  show "distinct (map rj_propositionId (rf_judgments review))" using dist ids by simp
  show "length (rf_judgments review) = length (er_propositions facts)" using len ids by (metis length_map)
  show "bq_id ` set (er_propositions facts) \<subseteq> rj_propositionId ` set (rf_judgments review)"
    using all ids by (auto simp: list_ex_iff)
qed

section \<open>Propositions, artifacts, descriptions\<close>

lemma propositionLedger_facts:
  assumes "propositionLedger P w facts review = Inr es" and "distinct (map bq_id (er_propositions facts))"
  shows "pe_propositionId ` set es = rj_propositionId ` set (ar_judgments review)"
    and "(\<forall>e \<in> set es. pe_validation e = ''valid'') \<longleftrightarrow> (\<forall>j \<in> set (ar_judgments review).
        rj_disposition j = ''accepted'' \<and> rj_uncertainty j \<in> {''none'', ''bounded''} \<or>
        rj_disposition j = ''not-applicable'' \<and> (\<exists>p \<in> set (er_propositions facts). bq_id p = rj_propositionId j \<and>
          bq_allowNotApplicable p \<and> bq_notApplicableCondition p \<noteq> None))"
    and "\<And>j. j \<in> set (ar_judgments review) \<Longrightarrow> rj_propositionId j \<in> bq_id ` set (er_propositions facts)"
proof -
  let ?f = "propositionEntry P w facts"
  have L: "mapE ?f (ar_judgments review) = Inr es" using assms(1) by (simp add: propositionLedger_def)
  have one: "\<exists>p \<in> set (er_propositions facts). bq_id p = rj_propositionId j \<and> pe_propositionId e = bq_id p \<and>
      pe_validation e = propositionValidation j p" if "?f j = Inr e" for j e
    using that last_by_Some [of bq_id "er_propositions facts" "rj_propositionId j"]
    by (auto simp: propositionEntry_def res_simps split: option.splits)
  have same: "p = p'" if "p \<in> set (er_propositions facts)" "p' \<in> set (er_propositions facts)" "bq_id p = bq_id p'" for p p'
    using that assms(2) by (metis distinct_map inj_onD)
  have "map pe_propositionId es = map rj_propositionId (ar_judgments review)"
    using L by (rule mapE_map) (use one in fastforce)
  then show "pe_propositionId ` set es = rj_propositionId ` set (ar_judgments review)" by (metis list.set_map)
  show "(\<forall>e \<in> set es. pe_validation e = ''valid'') \<longleftrightarrow> (\<forall>j \<in> set (ar_judgments review).
        rj_disposition j = ''accepted'' \<and> rj_uncertainty j \<in> {''none'', ''bounded''} \<or>
        rj_disposition j = ''not-applicable'' \<and> (\<exists>p \<in> set (er_propositions facts). bq_id p = rj_propositionId j \<and>
          bq_allowNotApplicable p \<and> bq_notApplicableCondition p \<noteq> None))"
  proof (rule mapE_ball [OF L])
    fix j e assume "?f j = Inr e"
    from one [OF this] obtain p where p: "p \<in> set (er_propositions facts)" "bq_id p = rj_propositionId j"
      "pe_validation e = propositionValidation j p" by blast
    then have ex: "(\<exists>p \<in> set (er_propositions facts). bq_id p = rj_propositionId j \<and>
          bq_allowNotApplicable p \<and> bq_notApplicableCondition p \<noteq> None) \<longleftrightarrow>
        bq_allowNotApplicable p \<and> bq_notApplicableCondition p \<noteq> None"
      using same by metis
    show "pe_validation e = ''valid'' \<longleftrightarrow>
        rj_disposition j = ''accepted'' \<and> rj_uncertainty j \<in> {''none'', ''bounded''} \<or>
        rj_disposition j = ''not-applicable'' \<and> (\<exists>p \<in> set (er_propositions facts). bq_id p = rj_propositionId j \<and>
          bq_allowNotApplicable p \<and> bq_notApplicableCondition p \<noteq> None)"
      unfolding ex p(3) propositionValidation_def Let_def by simp
  qed
  show "rj_propositionId j \<in> bq_id ` set (er_propositions facts)" if j: "j \<in> set (ar_judgments review)" for j
  proof -
    obtain e where "?f j = Inr e" using mapE_in [OF L j] by blast
    from one [OF this] show ?thesis by (auto simp: image_iff) metis
  qed
qed

lemma artifactState_earned:
  assumes "last_by ao_artifactId observations (ba_id artifact) = Some ob" and "distinct (map ao_artifactId observations)"
  shows "artifactState artifact ob = ''satisfied'' \<longleftrightarrow> artifact_earned observations artifact"
proof -
  have "ob' = ob" if "ob' \<in> set observations" "ao_artifactId ob' = ba_id artifact" for ob'
    using last_by_distinct [OF assms(2) that(1)] assms(1) that(2) by simp
  then have "artifact_earned observations artifact \<longleftrightarrow>
      ao_existence ob = ''present'' \<and>
        (ao_fileKind ob = ''file'' \<and> ao_contentDigest ob \<noteq> None \<or>
         ao_fileKind ob = ''directory'' \<and> ao_manifestDigest ob \<noteq> None) \<and>
        ao_schemaValidation ob \<in> {''valid'', ''not-required''} \<and>
        ao_semanticValidation ob \<in> {''valid'', ''not-required''} \<and>
        (ba_mustChange artifact \<longrightarrow> ao_change ob \<in> {''added'', ''modified''})"
    using last_by_Some [OF assms(1)] unfolding artifact_earned_def by blast
  then show ?thesis by (auto simp: artifactState_def)
qed

lemma artifactLedger_facts:
  assumes "artifactLedger P observations facts candidate checks = Inr es"
  shows "ae_artifactId ` set es = ba_id ` set (er_artifacts facts)"
    and "(\<forall>e \<in> set es. ae_state e = ''satisfied'') \<longleftrightarrow>
         (\<forall>a \<in> set (er_artifacts facts). artifact_earned observations a)"
proof -
  from assms obtain entries where dist: "distinct (map ao_artifactId observations)"
    and L: "mapE (artifactEntry P observations facts candidate checks) (er_artifacts facts) = Inr entries"
    and es: "es = sort_on_units ae_id entries"
    by (auto simp: artifactLedger_def res_simps)
  have one: "ae_artifactId e = ba_id a \<and> (ae_state e = ''satisfied'' \<longleftrightarrow> artifact_earned observations a)"
    if "artifactEntry P observations facts candidate checks a = Inr e" for a e
    using that artifactState_earned [OF _ dist]
    by (auto simp: artifactEntry_def res_simps split: option.splits)
  have "map ae_artifactId entries = map ba_id (er_artifacts facts)"
    using L by (rule mapE_map) (use one in blast)
  then show "ae_artifactId ` set es = ba_id ` set (er_artifacts facts)" using es by (metis list.set_map set_sort_on_units)
  show "(\<forall>e \<in> set es. ae_state e = ''satisfied'') \<longleftrightarrow>
         (\<forall>a \<in> set (er_artifacts facts). artifact_earned observations a)"
    unfolding es set_sort_on_units using L by (rule mapE_ball) (use one in blast)
qed

lemma descriptionEntry_facts:
  assumes "descriptionEntry P facts candidate seen d = Inr es"
  shows "\<exists>e. es = seen @ [e] \<and> de_state e = descriptionState d \<and> set (de_obligationIds e) = set (do_obligationIds d)"
  using assms by (auto simp: descriptionEntry_def res_simps dest: sortedIds_set)

lemma descriptionFold_facts:
  assumes "foldE (descriptionEntry P facts candidate) seen ds = Inr es"
  shows "\<exists>new. es = seen @ new \<and>
    list_all2 (\<lambda>d e. de_state e = descriptionState d \<and> set (de_obligationIds e) = set (do_obligationIds d)) ds new"
  using assms
proof (induction ds arbitrary: seen)
  case (Cons d ds)
  then obtain e where "foldE (descriptionEntry P facts candidate) (seen @ [e]) ds = Inr es"
      and e: "de_state e = descriptionState d" "set (de_obligationIds e) = set (do_obligationIds d)"
    by (auto simp: res_simps dest: descriptionEntry_facts)
  from Cons.IH [OF this(1)] e show ?case by auto
qed simp

lemma descriptionLedger_facts:
  assumes "descriptionLedger P ds facts candidate = Inr es"
  shows "(\<forall>e \<in> set es. de_state e = ''satisfied'' \<or> de_state e = ''not-applicable'') \<longleftrightarrow>
      (\<forall>d \<in> set ds. description_earned d)"
    and "(\<exists>e \<in> set es. ob \<in> set (de_obligationIds e)) \<longleftrightarrow> (\<exists>d \<in> set ds. ob \<in> set (do_obligationIds d))"
proof -
  have state: "descriptionState d = ''satisfied'' \<or> descriptionState d = ''not-applicable'' \<longleftrightarrow> description_earned d" for d
    by (auto simp: descriptionState_def description_earned_def)
  from assms obtain entries where es: "es = sort_on_units de_id entries"
    and all: "list_all2 (\<lambda>d e. de_state e = descriptionState d \<and> set (de_obligationIds e) = set (do_obligationIds d)) ds entries"
    using descriptionFold_facts [of P facts candidate "[]"] by (fastforce simp: descriptionLedger_def res_simps)
  show "(\<forall>e \<in> set es. de_state e = ''satisfied'' \<or> de_state e = ''not-applicable'') \<longleftrightarrow>
      (\<forall>d \<in> set ds. description_earned d)"
    unfolding es set_sort_on_units using all by (induction rule: list_all2_induct) (auto simp flip: state)
  show "(\<exists>e \<in> set es. ob \<in> set (de_obligationIds e)) \<longleftrightarrow> (\<exists>d \<in> set ds. ob \<in> set (do_obligationIds d))"
    unfolding es set_sort_on_units using all by (induction rule: list_all2_induct) auto
qed

section \<open>Obligations\<close>

lemma obligationVerdict_good:
  assumes "set states \<subseteq> {''satisfied'', ''not-applicable''}"
  shows "fst (obligationVerdict ob states) \<in> {''satisfied'', ''not-applicable''} \<longleftrightarrow>
    states \<noteq> [] \<or> bo_severity ob = ''diagnostic''"
  using assms by (auto simp: obligationVerdict_def)

lemma obligationReceipts_nonempty:
  assumes "\<And>selection phase. selection \<in> set (er_checks facts) \<Longrightarrow> phase \<in> {''baseline'', ''final''} \<Longrightarrow>
        \<exists>entry \<in> set entries. re_checkId entry = sel_id selection \<and> re_phase entry = phase"
  shows "obligationReceipts facts entries ob \<noteq> [] \<longleftrightarrow>
    (\<exists>c \<in> set (er_checks facts). ob \<in> set (sel_obligationIds c) \<and> (sel_baselineRequired c \<or> sel_finalRequired c))"
proof
  assume "obligationReceipts facts entries ob \<noteq> []"
  then show "\<exists>c \<in> set (er_checks facts). ob \<in> set (sel_obligationIds c) \<and> (sel_baselineRequired c \<or> sel_finalRequired c)"
    by (auto simp: obligationReceipts_def filter_empty_conv split: if_splits)
next
  assume "\<exists>c \<in> set (er_checks facts). ob \<in> set (sel_obligationIds c) \<and> (sel_baselineRequired c \<or> sel_finalRequired c)"
  then obtain c where c: "c \<in> set (er_checks facts)" "ob \<in> set (sel_obligationIds c)"
    "sel_baselineRequired c \<or> sel_finalRequired c" by blast
  obtain b f where bf: "b \<in> set entries" "re_checkId b = sel_id c" "re_phase b = ''baseline''"
     "f \<in> set entries" "re_checkId f = sel_id c" "re_phase f = ''final''"
    using assms [OF c(1), of "''baseline''"] assms [OF c(1), of "''final''"] by auto
  have "b \<in> set (obligationReceipts facts entries ob) \<or> f \<in> set (obligationReceipts facts entries ob)"
    using c bf by (auto simp: obligationReceipts_def)
  then show "obligationReceipts facts entries ob \<noteq> []" by auto
qed

lemma obligationReceipts_in:
  assumes "entry \<in> set (obligationReceipts facts entries ob)"
  obtains selection where "entry \<in> set entries" "selection \<in> set (er_checks facts)" "re_checkId entry = sel_id selection"
    "requiredAt (re_phase entry) selection"
  using assms by (auto simp: obligationReceipts_def requiredAt_def split: if_splits)

lemma obligationEntry_facts:
  assumes entry: "obligationEntry P facts (rl_entries l) propositions artifacts descriptions review ob = Inr e"
    and ledger: "receiptLedgers P facts checks evaluatedAt = Inr l" "date_parse evaluatedAt \<noteq> None"
    and complete: "rl_completeAndLegal l" and distinct: "distinct (map sel_id (er_checks facts))"
    and missing: "ar_missingObligationIds review = []"
    and props: "pe_propositionId ` set propositions = bq_id ` set (er_propositions facts)"
      "\<forall>e \<in> set propositions. pe_validation e = ''valid''"
    and arts: "ae_artifactId ` set artifacts = ba_id ` set (er_artifacts facts)"
      "\<forall>e \<in> set artifacts. ae_state e = ''satisfied''"
    and descs: "\<forall>e \<in> set descriptions. de_state e = ''satisfied'' \<or> de_state e = ''not-applicable''"
      "(\<exists>e \<in> set descriptions. bo_id ob \<in> set (de_obligationIds e)) \<longleftrightarrow>
       (\<exists>d \<in> set (eo_descriptionCoverage (in_observation input)). bo_id ob \<in> set (do_obligationIds d))"
    and facts: "facts = in_requirements input"
  shows "(oe_state e = ''satisfied'' \<or> oe_state e = ''not-applicable'') \<longleftrightarrow> obligation_earned input ob"
proof -
  let ?receipts = "obligationReceipts facts (rl_entries l) (bo_id ob)"
  let ?ps = "List.map_filter (last_by pe_propositionId propositions) (bo_propositionIds ob)"
  let ?as = "List.map_filter (last_by ae_artifactId artifacts) (bo_requiredEvidenceArtifactIds ob)"
  let ?ds = "filter (\<lambda>entry. bo_id ob \<in> set (de_obligationIds entry)) descriptions"
  let ?states = "map receiptState ?receipts @ map decisionState ?ps @ map ae_state ?as @ map de_state ?ds"
  have e: "oe_state e = fst (if length ?as \<noteq> length (bo_requiredEvidenceArtifactIds ob) \<or>
      length ?ps \<noteq> length (bo_propositionIds ob) then (''missing'', ''required-evidence-entry-missing'')
      else obligationVerdict ob ?states)"
    using entry missing by (auto simp: obligationEntry_def Let_def res_simps split: prod.splits)
  have lens: "length ?as = length (bo_requiredEvidenceArtifactIds ob) \<longleftrightarrow>
      set (bo_requiredEvidenceArtifactIds ob) \<subseteq> ba_id ` set (er_artifacts facts)"
    "length ?ps = length (bo_propositionIds ob) \<longleftrightarrow> set (bo_propositionIds ob) \<subseteq> bq_id ` set (er_propositions facts)"
    using props arts by (auto simp: map_filter_length last_by_None)
  have "receiptState r = ''satisfied''" if "r \<in> set ?receipts" for r
  proof -
    from that obtain selection where r: "r \<in> set (rl_entries l)" "selection \<in> set (er_checks facts)"
      "re_checkId r = sel_id selection" "requiredAt (re_phase r) selection" by (rule obligationReceipts_in)
    from receiptLedgers_facts(5) [OF ledger r(1) complete] obtain selection' where
        s: "selection' \<in> set (er_checks facts)" "re_checkId r = sel_id selection'"
        "requiredAt (re_phase r) selection' \<longrightarrow> receiptState r = ''satisfied''" by blast
    with r distinct have "selection' = selection" by (metis distinct_map inj_onD)
    with s r show ?thesis by simp
  qed
  moreover have "decisionState p = ''satisfied''" if "p \<in> set ?ps" for p
    using that props(2) by (auto simp: set_map_filter decisionState_def dest: last_by_Some)
  moreover have "ae_state p = ''satisfied''" if "p \<in> set ?as" for p
    using that arts(2) by (auto simp: set_map_filter dest: last_by_Some)
  ultimately have "set ?states \<subseteq> {''satisfied'', ''not-applicable''}" using descs(1) by auto
  note verdict = obligationVerdict_good [OF this, of ob]
  have receipts: "?receipts \<noteq> [] \<longleftrightarrow> (\<exists>c \<in> set (er_checks facts). bo_id ob \<in> set (sel_obligationIds c) \<and>
      (sel_baselineRequired c \<or> sel_finalRequired c))"
    by (rule obligationReceipts_nonempty) (rule receiptLedgers_facts(4) [OF ledger])
  have ds: "?ds \<noteq> [] \<longleftrightarrow> (\<exists>d \<in> set (eo_descriptionCoverage (in_observation input)). bo_id ob \<in> set (do_obligationIds d))"
    using descs(2) by (auto simp: filter_empty_conv)
  show ?thesis
  proof (cases "length ?as = length (bo_requiredEvidenceArtifactIds ob) \<and> length ?ps = length (bo_propositionIds ob)")
    case True
    then have "?as \<noteq> [] \<longleftrightarrow> bo_requiredEvidenceArtifactIds ob \<noteq> []" "?ps \<noteq> [] \<longleftrightarrow> bo_propositionIds ob \<noteq> []"
      by (metis length_0_conv)+
    with True lens verdict receipts ds show ?thesis
      unfolding e obligation_earned_def facts Let_def by auto
  next
    case False
    with lens show ?thesis unfolding e obligation_earned_def facts Let_def by auto
  qed
qed

section \<open>The assessment\<close>

lemma assertIdentities_distinct: "assertIdentities ids = Inr u \<Longrightarrow> distinct ids"
  by (simp add: assertIdentities_def res_simps)

lemma assertEvidenceInput_facts:
  assumes "assertEvidenceInput P input = Inr u"
  shows "distinct (map sel_id (er_checks (in_requirements input)))"
    and "distinct (map bq_id (er_propositions (in_requirements input)))"
    and "mapE (assertCheck (in_subject input)) (in_checks input) = Inr (map (\<lambda>_. ()) (in_checks input))"
    and "assertSubjects input = Inr ()"
proof -
  have unit: "mapE f xs = Inr us \<Longrightarrow> us = map (\<lambda>_. ()) xs" for f :: "'x \<Rightarrow> unit res" and xs us
    by (induction xs arbitrary: us) (auto simp: res_simps)
  from assms show "distinct (map sel_id (er_checks (in_requirements input)))"
      "distinct (map bq_id (er_propositions (in_requirements input)))"
      "assertSubjects input = Inr ()"
      "mapE (assertCheck (in_subject input)) (in_checks input) = Inr (map (\<lambda>_. ()) (in_checks input))"
    by (auto simp: assertEvidenceInput_def res_simps dest: assertIdentities_distinct unit)
qed

lemma assessment_parts:
  assumes "assessFoundationEvidenceV1 P input = Inr a"
  obtains receipt review uncertainty where
    "assertEvidenceInput P input = Inr ()"
    "date_parse (eo_evaluatedAt (in_observation input)) \<noteq> None"
    "receiptLedgers P (in_requirements input) (in_checks input) (eo_evaluatedAt (in_observation input)) = Inr receipt"
    "reviewJudgments P (in_review input) (in_requirements input) (rl_usedChecks receipt) = Inr review"
    "propositionLedger P (rf_reference (in_review input)) (in_requirements input) review = Inr (as_propositions a)"
    "artifactLedger P (eo_artifacts (in_observation input)) (in_requirements input) (es_candidate (in_subject input))
       (rl_usedChecks receipt) = Inr (as_artifacts a)"
    "descriptionLedger P (eo_descriptionCoverage (in_observation input)) (in_requirements input)
       (es_candidate (in_subject input)) = Inr (as_descriptions a)"
    "reviewerIndependence P input = Inr (as_independence a)"
    "obligationLedger P (in_requirements input) (rl_entries receipt) (as_propositions a) (as_artifacts a)
       (as_descriptions a) review = Inr (as_obligations a)"
    "uncertaintyLevel review (as_obligations a) (as_independence a) = Inr (as_uncertainty a)"
    "as_requiresMandateResolution a = reviewRequiresMandateResolutionV1 review"
    "as_receiptUse a = rl_entries receipt"
    "as_disposition a =
       (if reviewRequiresMandateResolutionV1 review then ''mandate-resolution-required''
        else if evidenceSupported input receipt review (as_propositions a) (as_artifacts a) (as_descriptions a)
          (as_independence a) (as_obligations a) then ''supported''
        else if un_level (as_uncertainty a) = ''unknown'' then ''indeterminate'' else ''unmet'')"
  using assms
  by (auto simp: assessFoundationEvidenceV1_def res_simps Let_def evidence_timestamp_def intro!: that)

lemma independence_facts:
  "reviewerIndependence P input = Inr es \<Longrightarrow> (\<forall>e \<in> set es. ie_state e = ''satisfied'') \<longleftrightarrow>
     in_contextSeparation input = ''distinct'' \<and> eo_reviewerSubjectDisposition (in_observation input) = ''exact-read-only''"
  by (auto simp: reviewerIndependence_def res_simps Let_def split: if_splits)

lemma supported_iff_earned:
  assumes "assessFoundationEvidenceV1 P input = Inr a"
  shows "as_disposition a = ''supported'' \<longleftrightarrow> evidence_earned input"
proof -
  from assms obtain receipt review uncertainty where
    input: "assertEvidenceInput P input = Inr ()"
    and time: "date_parse (eo_evaluatedAt (in_observation input)) \<noteq> None"
    and R: "receiptLedgers P (in_requirements input) (in_checks input) (eo_evaluatedAt (in_observation input)) = Inr receipt"
    and V: "reviewJudgments P (in_review input) (in_requirements input) (rl_usedChecks receipt) = Inr review"
    and Q: "propositionLedger P (rf_reference (in_review input)) (in_requirements input) review = Inr (as_propositions a)"
    and A: "artifactLedger P (eo_artifacts (in_observation input)) (in_requirements input) (es_candidate (in_subject input))
       (rl_usedChecks receipt) = Inr (as_artifacts a)"
    and D: "descriptionLedger P (eo_descriptionCoverage (in_observation input)) (in_requirements input)
       (es_candidate (in_subject input)) = Inr (as_descriptions a)"
    and I: "reviewerIndependence P input = Inr (as_independence a)"
    and B: "obligationLedger P (in_requirements input) (rl_entries receipt) (as_propositions a) (as_artifacts a)
       (as_descriptions a) review = Inr (as_obligations a)"
    and disp: "as_disposition a =
       (if reviewRequiresMandateResolutionV1 review then ''mandate-resolution-required''
        else if evidenceSupported input receipt review (as_propositions a) (as_artifacts a) (as_descriptions a)
          (as_independence a) (as_obligations a) then ''supported''
        else if un_level (as_uncertainty a) = ''unknown'' then ''indeterminate'' else ''unmet'')"
    by (rule assessment_parts)
  let ?facts = "in_requirements input" and ?rf = "in_review input" and ?ob = "in_observation input"
  note ids = assertEvidenceInput_facts [OF input]
  note rv = reviewJudgments_facts [OF V]
  note pl = propositionLedger_facts [OF Q ids(2)]
  have pids: "pe_propositionId ` set (as_propositions a) = bq_id ` set (er_propositions ?facts)"
  proof -
    have "rj_propositionId ` set (ar_judgments review) = rj_propositionId ` set (rf_judgments ?rf)"
      using rv(3) [of "\<lambda>p d u. p \<in> rj_propositionId ` set (rf_judgments ?rf)"]
        rv(3) [of "\<lambda>p d u. p \<in> rj_propositionId ` set (ar_judgments review)"] by auto
    then have "bq_id ` set (er_propositions ?facts) \<subseteq> rj_propositionId ` set (ar_judgments review)" using rv(10) by simp
    moreover have "rj_propositionId ` set (ar_judgments review) \<subseteq> bq_id ` set (er_propositions ?facts)" using pl(3) by auto
    ultimately show ?thesis unfolding pl(1) by (rule equalityI [rotated])
  qed
  have mand: "(\<not> reviewRequiresMandateResolutionV1 review \<and> ap_disposition (ar_mandateApplicability review) = ''applicable'' \<and>
      (\<forall>x \<in> set (ar_baselineApplicability review). ap_disposition x = ''applicable'') \<and>
      ar_overallUncertainty review \<noteq> ''unknown'' \<and> (\<forall>e \<in> set (as_propositions a). pe_validation e = ''valid'')) \<longleftrightarrow>
    aj_disposition (rf_mandateApplicability ?rf) = ''applicable'' \<and>
      (\<forall>x \<in> set (rf_baselineApplicability ?rf). aj_disposition x = ''applicable'') \<and>
      \<not> rf_mandateExcess ?rf \<and> rf_missingObligationIds ?rf = [] \<and>
      rf_overallUncertainty ?rf \<notin> {''material'', ''unknown''} \<and>
      (\<forall>j \<in> set (rf_judgments ?rf). judgment_earned (er_propositions ?facts) j)"
  proof -
    have "ar_missingObligationIds review = [] \<longleftrightarrow> rf_missingObligationIds ?rf = []" using rv(5) by (metis set_empty)
    moreover have "(\<forall>x \<in> set (ar_baselineApplicability review). ap_disposition x = ''applicable'') \<longrightarrow>
        (\<forall>x \<in> set (ar_baselineApplicability review). ap_disposition x \<noteq> ''insufficient'')" by auto
    moreover have "(\<forall>j \<in> set (ar_judgments review). rj_uncertainty j \<noteq> ''material'') \<and>
        (\<forall>e \<in> set (as_propositions a). pe_validation e = ''valid'') \<longleftrightarrow>
        (\<forall>j \<in> set (rf_judgments ?rf). judgment_earned (er_propositions ?facts) j)"
      unfolding pl(2) judgment_earned_def rv(3) [of "\<lambda>p d u. u \<noteq> ''material''"]
        rv(3) [of "\<lambda>p d u. d = ''accepted'' \<and> u \<in> {''none'', ''bounded''} \<or>
          d = ''not-applicable'' \<and> (\<exists>q \<in> set (er_propositions ?facts). bq_id q = p \<and>
            bq_allowNotApplicable q \<and> bq_notApplicableCondition q \<noteq> None)"] by blast
    ultimately show ?thesis
      using rv(1,4,6) rv(2) [of "\<lambda>d. d = ''applicable''"]
      by (auto simp: reviewRequiresMandateResolutionV1_def list_ex_iff)
  qed
  note rest = receiptLedgers_facts [OF R time] artifactLedger_facts [OF A] descriptionLedger_facts [OF D] independence_facts [OF I]
  have oblig: "(\<forall>e \<in> set (as_obligations a). oe_state e = ''satisfied'' \<or> oe_state e = ''not-applicable'') \<longleftrightarrow>
      (\<forall>ob \<in> set (er_obligations ?facts). obligation_earned input ob)"
    if good: "rl_completeAndLegal receipt" "rf_missingObligationIds ?rf = []"
      "\<forall>e \<in> set (as_propositions a). pe_validation e = ''valid''"
      "\<forall>e \<in> set (as_artifacts a). ae_state e = ''satisfied''"
      "\<forall>e \<in> set (as_descriptions a). de_state e = ''satisfied'' \<or> de_state e = ''not-applicable''"
  proof -
    from B obtain entries where L: "mapE (obligationEntry P ?facts (rl_entries receipt) (as_propositions a) (as_artifacts a)
        (as_descriptions a) review) (er_obligations ?facts) = Inr entries" and es: "as_obligations a = sort_on_units oe_id entries"
      by (auto simp: obligationLedger_def res_simps)
    have missing: "ar_missingObligationIds review = []" using rv(5) good(2) by simp
    show ?thesis
      unfolding es set_sort_on_units
    proof (rule mapE_ball [OF L])
      fix ob e assume "obligationEntry P ?facts (rl_entries receipt) (as_propositions a) (as_artifacts a)
        (as_descriptions a) review ob = Inr e"
      from obligationEntry_facts [OF this R time good(1) ids(1) missing pids good(3) rest(6) good(4,5) rest(9) refl]
      show "(oe_state e = ''satisfied'' \<or> oe_state e = ''not-applicable'') \<longleftrightarrow> obligation_earned input ob" .
    qed
  qed
  have combine: "(X \<and> C \<and> A \<and> D \<and> B \<and> I \<and> G) = (X' \<and> C' \<and> A' \<and> D' \<and> B' \<and> I' \<and> G)"
    if "X = X'" "C = C'" "A = A'" "D = D'" "I = I'" "X \<Longrightarrow> C \<Longrightarrow> A \<Longrightarrow> D \<Longrightarrow> B = B'" for X X' C C' A A' D D' B B' I I' G
    using that by blast
  have "as_disposition a = ''supported'' \<longleftrightarrow> \<not> reviewRequiresMandateResolutionV1 review \<and>
      evidenceSupported input receipt review (as_propositions a) (as_artifacts a) (as_descriptions a)
        (as_independence a) (as_obligations a)"
    unfolding disp by simp
  also have "\<dots> \<longleftrightarrow>
     (\<not> reviewRequiresMandateResolutionV1 review \<and> ap_disposition (ar_mandateApplicability review) = ''applicable'' \<and>
      (\<forall>x \<in> set (ar_baselineApplicability review). ap_disposition x = ''applicable'') \<and>
      ar_overallUncertainty review \<noteq> ''unknown'' \<and> (\<forall>e \<in> set (as_propositions a). pe_validation e = ''valid'')) \<and>
     rl_completeAndLegal receipt \<and> (\<forall>e \<in> set (as_artifacts a). ae_state e = ''satisfied'') \<and>
     (\<forall>e \<in> set (as_descriptions a). de_state e = ''satisfied'' \<or> de_state e = ''not-applicable'') \<and>
     (\<forall>e \<in> set (as_obligations a). oe_state e = ''satisfied'' \<or> oe_state e = ''not-applicable'') \<and>
     (\<forall>e \<in> set (as_independence a). ie_state e = ''satisfied'') \<and> diagnostics_of input = []"
    unfolding evidenceSupported_def list_all_iff by (simp only: conj_ac)
  also have "\<dots> \<longleftrightarrow>
     (aj_disposition (rf_mandateApplicability ?rf) = ''applicable'' \<and>
      (\<forall>x \<in> set (rf_baselineApplicability ?rf). aj_disposition x = ''applicable'') \<and>
      \<not> rf_mandateExcess ?rf \<and> rf_missingObligationIds ?rf = [] \<and>
      rf_overallUncertainty ?rf \<notin> {''material'', ''unknown''} \<and>
      (\<forall>j \<in> set (rf_judgments ?rf). judgment_earned (er_propositions ?facts) j)) \<and>
     (\<forall>selection \<in> set (er_checks ?facts). \<forall>phase \<in> {''baseline'', ''final''}.
         receipt_earned (in_checks input) (eo_evaluatedAt ?ob) selection phase) \<and>
     (\<forall>a \<in> set (er_artifacts ?facts). artifact_earned (eo_artifacts ?ob) a) \<and>
     (\<forall>d \<in> set (eo_descriptionCoverage ?ob). description_earned d) \<and>
     (\<forall>ob \<in> set (er_obligations ?facts). obligation_earned input ob) \<and>
     (in_contextSeparation input = ''distinct'' \<and> eo_reviewerSubjectDisposition ?ob = ''exact-read-only'') \<and>
     diagnostics_of input = []"
  proof (rule combine [OF mand rest(3) rest(7) rest(8) rest(10)])
    assume "\<not> reviewRequiresMandateResolutionV1 review \<and> ap_disposition (ar_mandateApplicability review) = ''applicable'' \<and>
      (\<forall>x \<in> set (ar_baselineApplicability review). ap_disposition x = ''applicable'') \<and>
      ar_overallUncertainty review \<noteq> ''unknown'' \<and> (\<forall>e \<in> set (as_propositions a). pe_validation e = ''valid'')"
    moreover from this have "rf_missingObligationIds ?rf = []" using mand by blast
    moreover assume "rl_completeAndLegal receipt" "\<forall>e \<in> set (as_artifacts a). ae_state e = ''satisfied''"
      "\<forall>e \<in> set (as_descriptions a). de_state e = ''satisfied'' \<or> de_state e = ''not-applicable''"
    ultimately show "(\<forall>e \<in> set (as_obligations a). oe_state e = ''satisfied'' \<or> oe_state e = ''not-applicable'') \<longleftrightarrow>
      (\<forall>ob \<in> set (er_obligations ?facts). obligation_earned input ob)"
      by (intro oblig) simp_all
  qed
  also have "\<dots> \<longleftrightarrow> evidence_earned input"
    unfolding evidence_earned_def Let_def by (simp only: conj_assoc)
  finally show ?thesis .
qed

end
