(* ===== verification/Evidence_Scenario.thy ===== *)
theory Evidence_Scenario
  imports Evidence_Support Lifecycle_Scenario
begin

text \<open>
  A concrete assessment: a Check, a diagnostic, and one proposition,
  artifact, description and obligation, with everything in order. The disposition and the uncertainty of the only judgment are left
  open, so that the same facts serve several examples.
\<close>

definition demo_target :: "string \<Rightarrow> target" where
  "demo_target kind = \<lparr>tgt_kind = kind, tgt_id = kind, tgt_revision = 1, tgt_digest = demo_digest\<rparr>"

definition demo_subject :: evidence_subject where
  "demo_subject = \<lparr>es_boundary = demo_target ''work-boundary'', es_candidate = demo_target ''candidate-revision'',
     es_seal = demo_target ''candidate-seal'', es_integration = demo_target ''integration-assessment'',
     es_parent = \<lparr>pb_commit = demo_commit, pb_tree = demo_commit, pb_snapshotDigest = demo_digest\<rparr>\<rparr>"

definition demo_check_definition :: check_definition where
  "demo_check_definition = \<lparr>cd_id = ''check.unit'', cd_revision = 1, cd_sourceDigest = demo_digest, cd_semanticDigest = demo_digest\<rparr>"

definition demo_binding :: check_binding where
  "demo_binding = \<lparr>cb_id = ''binding'', cb_digest = demo_digest, cb_implementationDigest = demo_digest\<rparr>"

definition demo_requirements :: evidence_requirements where
  "demo_requirements = \<lparr>
     er_checks = [\<lparr>sel_id = ''unit'', sel_definition = demo_check_definition, sel_bindings = [demo_binding],
       sel_modality = ''regression-guard'', sel_baselineRequired = False, sel_finalRequired = True,
       sel_obligationIds = [''o''], sel_environmentRequirements = []\<rparr>,
       \<lparr>sel_id = ''lint'', sel_definition = demo_check_definition, sel_bindings = [demo_binding],
       sel_modality = ''diagnostic'', sel_baselineRequired = False, sel_finalRequired = False,
       sel_obligationIds = [], sel_environmentRequirements = []\<rparr>],
     er_obligations = [\<lparr>bo_id = ''o'', bo_severity = ''required'', bo_requiredEvidenceArtifactIds = [''a''],
       bo_propositionIds = [''p'']\<rparr>],
     er_artifacts = [\<lparr>ba_id = ''a'', ba_path = ''m'', ba_mustChange = True, ba_obligationIds = [''o'']\<rparr>],
     er_propositions = [\<lparr>bq_id = ''p'', bq_obligationIds = [''o''], bq_allowNotApplicable = True,
       bq_notApplicableCondition = Some ''c''\<rparr>]\<rparr>"

definition demo_check :: retained_check where
  "demo_check = \<lparr>rc_reference = demo_target ''check-receipt'', rc_proofSubject = demo_target ''candidate-seal'',
     rc_phase = ''final'', rc_modality = ''regression-guard'', rc_disposition = ''pass'', rc_selectionId = ''unit'',
     rc_allocation = ''allocated'', rc_notRunAuthorization = None, rc_startedAt = Some demo_time,
     rc_finishedAt = Some demo_time, rc_definition = demo_check_definition, rc_binding = demo_binding,
     rc_requestedConditions = []\<rparr>"

definition demo_lint :: retained_check where
  "demo_lint = demo_check\<lparr>rc_reference := demo_target ''lint-receipt'', rc_modality := ''diagnostic'', rc_disposition := ''fail'',
     rc_selectionId := ''lint''\<rparr>"

definition demo_judgment :: "string \<Rightarrow> string \<Rightarrow> review_judgment" where
  "demo_judgment disposition uncertainty = \<lparr>rj_id = ''j'', rj_propositionId = ''p'', rj_disposition = disposition,
     rj_citationIds = [''c''], rj_inspectedSubjectIds = [''check-receipt''], rj_uncertainty = uncertainty,
     rj_limitationIds = [], rj_fragmentDigest = demo_digest\<rparr>"

definition demo_review :: "string \<Rightarrow> string \<Rightarrow> review_facts" where
  "demo_review disposition uncertainty = \<lparr>rf_reference = demo_target ''agent-work-product'', rf_subject = demo_subject,
     rf_citations = [\<lparr>ci_id = ''c'', ci_subjectId = ''check-receipt'', ci_subjectDigest = demo_digest,
       ci_subjectKind = ''evidence''\<rparr>],
     rf_mandateApplicability = \<lparr>aj_disposition = ''applicable'', aj_citationIds = [''c''], aj_rationale = ''r'',
       aj_fragmentDigest = demo_digest, aj_receiptId = None\<rparr>,
     rf_baselineApplicability = [], rf_judgments = [demo_judgment disposition uncertainty],
     rf_mandateExcess = False, rf_missingObligationIds = [], rf_overallUncertainty = ''none''\<rparr>"

definition demo_observation :: evidence_observation where
  "demo_observation = \<lparr>eo_evaluatedAt = demo_time,
     eo_artifacts = [\<lparr>ao_artifactId = ''a'', ao_fileKind = ''file'', ao_existence = ''present'', ao_change = ''added'',
       ao_contentDigest = Some demo_digest, ao_manifestDigest = None, ao_schemaValidation = ''valid'',
       ao_semanticValidation = ''valid'', ao_limitationIds = None\<rparr>],
     eo_descriptionCoverage = [\<lparr>do_path = ''m'', do_descriptionId = Some ''d'', do_selector = Some ''s'',
       do_ownership = ''exact'', do_implementationChange = ''changed'', do_descriptionChange = ''changed'',
       do_exclusionChange = ''none'', do_obligationIds = [''o'']\<rparr>],
     eo_reviewerSubjectDisposition = ''exact-read-only'', eo_diagnostics = None,
     eo_ruleSet = \<lparr>rr_id = ''lifecycle.evidence-packet-rule-set.foundation-v2'', rr_digest = demo_digest\<rparr>,
     eo_validator = \<lparr>rr_id = ''lifecycle-runtime-evidence-validator-v7'', rr_digest = demo_digest\<rparr>\<rparr>"

definition demo_evidence :: "string \<Rightarrow> string \<Rightarrow> evidence_input" where
  "demo_evidence disposition uncertainty = \<lparr>in_subject = demo_subject, in_requirements = demo_requirements,
     in_checks = [demo_lint, demo_check], in_review = demo_review disposition uncertainty, in_contextSeparation = ''distinct'',
     in_observationSubject = demo_subject, in_observation = demo_observation\<rparr>"

lemmas demo_evidence_defs = demo_target_def demo_subject_def demo_check_definition_def demo_binding_def
  demo_requirements_def demo_check_def demo_lint_def demo_judgment_def demo_review_def demo_observation_def demo_evidence_def

lemma sameJson_refl [simp]: "safe_numbers v \<Longrightarrow> sameJson v v = Inr True"
  by (simp add: sameJson_def canonicalJson_def)

lemmas evidence_text = evidence_id_def evidence_digest_def evidence_positiveInteger_def evidence_sortedIds_def
  is_digit_def is_lower_def is_upper_def is_alnum_def id_char_def safe_integer_def sortUniqueCodePoints_def sort_by_def
  digest_pattern

definition demo_local :: "string \<Rightarrow> string" where
  "demo_local prefix = prefix @ ''.'' @ replicate 64 CHR ''0''"

lemma demo_localId: "safe_numbers (JObj v) \<Longrightarrow> localId demo_platform prefix v = Inr (demo_local prefix)"
  by (simp add: localId_def demo_digestCanonical demo_digest_def demo_local_def)

lemma demo_local_id [simp]:
  "id_pattern (prefix @ ''.'') \<Longrightarrow> id_pattern (demo_local prefix)" "length (demo_local prefix) = length prefix + 65"
  by (cases prefix; simp add: demo_local_def list_all_iff id_char_def is_alnum_def is_digit_def is_lower_def is_upper_def)+

lemmas assessment_definitions = assessFoundationEvidenceV1_def assertEvidenceInput_def assertSubjects_def sameSubject_def
  evidence_assertReference_def evidence_sameReference_def assertCheck_def assertIdentities_def diagnostics_of_def
  FOUNDATION_EVIDENCE_RULE_SET_V7_def FOUNDATION_EVIDENCE_VALIDATOR_V7_def receiptLedgers_def coordinate_def last_by_def
  checkMatchesSelection_def receiptUse_def receiptFreshness_def requiredAt_def legalAt_def legalBaseline_def legalFinal_def
  isFoundationAuthorizedBaselinePostconditionV1_def evidence_timestamp_def sort_on_units_def strings_json_def
  reviewJudgments_def reviewCitation_def citationExact_def reviewApplicability_def reviewJudgment_def UNCERTAINTIES_def
  propositionLedger_def propositionEntry_def propositionValidation_def artifactLedger_def artifactEntry_def artifactIncoherent_def
  artifactState_def nullableDigest_def descriptionLedger_def descriptionEntry_def descriptionState_def nullable_check_def
  reviewerIndependence_def INDEPENDENCE_RULE_def obligationLedger_def obligationEntry_def obligationReceipts_def obligationVerdict_def
  receiptState_def decisionState_def uncertaintyLevel_def reviewRequiresMandateResolutionV1_def evidenceSupported_def
  evidence_singleLine_def path_pattern_def parent_segment_def utf16_length_def List.map_filter_def target_json_def
  evidence_subject_json_def parent_json_def resource_json_def

lemma demo_subjects: "assertSubjects (demo_evidence disposition uncertainty) = Inr ()"
  by (simp add: assessment_definitions demo_evidence_defs evidence_text demo_lengths Let_def
    del: canonicalize.simps canonical_form.simps cong: evaluation_congs)

lemma demo_input: "assertEvidenceInput demo_platform (demo_evidence disposition uncertainty) = Inr ()"
  apply (simp add: assertEvidenceInput_def demo_subjects)
  apply (simp add: assessment_definitions demo_evidence_defs demo_digestCanonical evidence_text Let_def FOUNDATION_RUNTIME_PROTOCOL_def
    del: canonicalize.simps canonical_form.simps cong: evaluation_congs)
  done

definition demo_ledger :: receipt_ledger where
  "demo_ledger = \<lparr>rl_entries =
      [\<lparr>re_id = demo_local ''receipt-use'', re_checkId = ''unit'', re_phase = ''baseline'', re_receiptId = None,
         re_use = ''excluded'', re_freshness = ''not-applicable'', re_subjectEquivalence = ''indeterminate'',
         re_ageMs = None, re_maximumAgeMs = None, re_reasonCode = ''receipt-not-required'',
         re_provenance = ''runtime-derived''\<rparr>,
       \<lparr>re_id = demo_local ''receipt-use'', re_checkId = ''unit'', re_phase = ''final'',
         re_receiptId = Some ''check-receipt'', re_use = ''executed'', re_freshness = ''fresh'',
         re_subjectEquivalence = ''exact'', re_ageMs = Some 0, re_maximumAgeMs = None,
         re_reasonCode = ''final-receipt-current'', re_provenance = ''runtime-derived''\<rparr>,
       \<lparr>re_id = demo_local ''receipt-use'', re_checkId = ''lint'', re_phase = ''baseline'', re_receiptId = None,
         re_use = ''excluded'', re_freshness = ''not-applicable'', re_subjectEquivalence = ''indeterminate'',
         re_ageMs = None, re_maximumAgeMs = None, re_reasonCode = ''receipt-not-required'',
         re_provenance = ''runtime-derived''\<rparr>,
       \<lparr>re_id = demo_local ''receipt-use'', re_checkId = ''lint'', re_phase = ''final'',
         re_receiptId = Some ''lint-receipt'', re_use = ''executed'', re_freshness = ''fresh'',
         re_subjectEquivalence = ''exact'', re_ageMs = Some 0, re_maximumAgeMs = None,
         re_reasonCode = ''final-receipt-current'', re_provenance = ''runtime-derived''\<rparr>],
     rl_usedChecks = [demo_check, demo_lint], rl_completeAndLegal = True\<rparr>"

lemma utf16_le_refl [simp]: "utf16_le s s"
  by (induction s) simp_all

lemma demo_receipts: "receiptLedgers demo_platform demo_requirements [demo_lint, demo_check] demo_time = Inr demo_ledger"
  by (simp add: demo_ledger_def assessment_definitions demo_evidence_defs demo_digestCanonical demo_date demo_localId
    evidence_text utf16_rank_def Let_def del: canonicalize.simps canonical_form.simps cong: evaluation_congs)

definition demo_assessed_review :: "string \<Rightarrow> string \<Rightarrow> assessed_review" where
  "demo_assessed_review disposition uncertainty = \<lparr>ar_mandateApplicability = \<lparr>ap_receiptId = None,
       ap_disposition = ''applicable'', ap_fragmentDigest = demo_digest\<rparr>,
     ar_baselineApplicability = [], ar_judgments = [demo_judgment disposition uncertainty],
     ar_mandateExcess = False, ar_missingObligationIds = [], ar_overallUncertainty = ''none''\<rparr>"

lemma demo_reviewed:
  assumes "disposition \<in> {''accepted'', ''rejected'', ''indeterminate'', ''not-applicable''}"
    and "uncertainty \<in> set UNCERTAINTIES"
  shows "reviewJudgments demo_platform (demo_review disposition uncertainty) demo_requirements [demo_check, demo_lint] =
    Inr (demo_assessed_review disposition uncertainty)"
proof -
  have "reviewJudgment demo_platform [\<lparr>ci_id = ''c'', ci_subjectId = ''check-receipt'', ci_subjectDigest = demo_digest,
       ci_subjectKind = ''evidence''\<rparr>] (demo_judgment disposition uncertainty) = Inr (demo_judgment disposition uncertainty)"
    using assms by (simp add: reviewJudgment_def demo_judgment_def last_by_def strings_json_def demo_digestCanonical evidence_text
      del: insert_iff)
  then show ?thesis
    by (simp add: reviewJudgments_def demo_review_def demo_assessed_review_def reviewCitation_def citationExact_def
      demo_check_def demo_lint_def demo_target_def reviewApplicability_def last_by_def evidence_text strings_json_def sort_on_units_def
      demo_requirements_def UNCERTAINTIES_def Let_def del: insert_iff) (simp add: demo_judgment_def)
qed

text \<open>The two judgments used: an acceptance, and a legal non-applicability of unknown uncertainty.\<close>

definition demo_propositions :: "string \<Rightarrow> string \<Rightarrow> proposition_entry list" where
  "demo_propositions disposition uncertainty = [\<lparr>pe_id = demo_local ''proposition-decision'', pe_propositionId = ''p'',
     pe_reviewerDisposition = disposition, pe_reviewWorkProductId = ''agent-work-product'',
     pe_fragmentDigest = demo_digest, pe_citationIds = [''c''], pe_inspectedSubjectIds = [''check-receipt''],
     pe_limitationIds = [], pe_uncertainty = uncertainty, pe_provenance = ''agent-proposed'', pe_validation = ''valid''\<rparr>]"

lemma demo_decided:
  assumes "(disposition, uncertainty) \<in> {(''accepted'', ''none''), (''not-applicable'', ''unknown'')}"
  shows "propositionLedger demo_platform (demo_target ''agent-work-product'') demo_requirements
    (demo_assessed_review disposition uncertainty) = Inr (demo_propositions disposition uncertainty)"
  using assms by (auto simp: propositionLedger_def propositionEntry_def propositionValidation_def demo_assessed_review_def
    demo_propositions_def demo_requirements_def demo_judgment_def demo_target_def last_by_def demo_localId)

definition demo_artifacts :: "artifact_entry list" where
  "demo_artifacts = [\<lparr>ae_id = demo_local ''artifact-ledger'', ae_artifactId = ''a'', ae_path = ''m'',
     ae_fileKind = ''file'', ae_existence = ''present'', ae_change = ''added'', ae_contentDigest = Some demo_digest,
     ae_manifestDigest = None, ae_schemaValidation = ''valid'', ae_semanticValidation = ''valid'',
     ae_obligationIds = [''o''], ae_sourceRecordIds = [''candidate-revision'', ''check-receipt''], ae_limitations = [],
     ae_state = ''satisfied'', ae_provenance = ''runtime-observed''\<rparr>]"

lemma demo_artifacts_found:
  "artifactLedger demo_platform (eo_artifacts demo_observation) demo_requirements (demo_target ''candidate-revision'') [demo_check, demo_lint]
    = Inr demo_artifacts"
  by (simp add: artifactLedger_def artifactEntry_def artifactIncoherent_def artifactState_def nullableDigest_def demo_artifacts_def
    demo_observation_def demo_requirements_def demo_check_def demo_lint_def demo_target_def last_by_def demo_localId sort_on_units_def evidence_text)

definition demo_descriptions :: "description_entry list" where
  "demo_descriptions = [\<lparr>de_id = demo_local ''description-ledger'', de_path = ''m'', de_descriptionId = Some ''d'',
     de_selector = Some ''s'', de_ownership = ''exact'', de_implementationChange = ''changed'',
     de_descriptionChange = ''changed'', de_exclusionChange = ''none'', de_obligationIds = [''o''],
     de_sourceRecordIds = [''candidate-revision''], de_state = ''satisfied'', de_provenance = ''runtime-observed''\<rparr>]"

lemma demo_described:
  "descriptionLedger demo_platform (eo_descriptionCoverage demo_observation) demo_requirements (demo_target ''candidate-revision'')
    = Inr demo_descriptions"
  by (simp add: descriptionLedger_def descriptionEntry_def descriptionState_def nullable_check_def evidence_singleLine_def
    path_pattern_def parent_segment_def utf16_length_def demo_descriptions_def demo_observation_def demo_requirements_def
    demo_target_def demo_localId sort_on_units_def evidence_text Let_def)

definition demo_obligations :: "obligation_entry list" where
  "demo_obligations = [\<lparr>oe_id = demo_local ''obligation-state'', oe_obligationId = ''o'', oe_state = ''satisfied'',
     oe_checkIds = [''unit''], oe_receiptIds = [''check-receipt''],
     oe_propositionDecisionIds = [demo_local ''proposition-decision''],
     oe_artifactLedgerIds = [demo_local ''artifact-ledger''], oe_reasonCode = ''evidence-satisfied'',
     oe_provenance = ''runtime-derived''\<rparr>]"

lemma demo_obliged:
  "obligationLedger demo_platform demo_requirements (rl_entries demo_ledger) (demo_propositions disposition uncertainty)
    demo_artifacts demo_descriptions (demo_assessed_review disposition uncertainty) = Inr demo_obligations"
  by (simp add: obligationLedger_def obligationEntry_def obligationReceipts_def obligationVerdict_def receiptState_def
    decisionState_def demo_requirements_def demo_ledger_def demo_propositions_def demo_artifacts_def demo_descriptions_def
    demo_assessed_review_def demo_obligations_def last_by_def List.map_filter_def demo_localId sort_on_units_def evidence_text
    evidence_sortedIds_def Let_def)

definition demo_assessment :: "string \<Rightarrow> string \<Rightarrow> string \<Rightarrow> string list \<Rightarrow> evidence_assessment" where
  "demo_assessment disposition uncertainty level items = \<lparr>as_disposition = ''supported'', as_requiresMandateResolution = False,
     as_artifacts = demo_artifacts, as_descriptions = demo_descriptions, as_receiptUse = rl_entries demo_ledger,
     as_mandateApplicability = \<lparr>ap_receiptId = None, ap_disposition = ''applicable'', ap_fragmentDigest = demo_digest\<rparr>,
     as_baselineApplicability = [],
     as_independence = [\<lparr>ie_id = demo_local ''independence'', ie_ruleId = INDEPENDENCE_RULE, ie_contextSeparation = ''distinct'',
       ie_subjectDisposition = ''exact-read-only'', ie_state = ''satisfied''\<rparr>],
     as_propositions = demo_propositions disposition uncertainty, as_obligations = demo_obligations,
     as_uncertainty = \<lparr>un_level = level, un_itemIds = items\<rparr>\<rparr>"

lemma demo_assessed:
  assumes "(disposition, uncertainty, level, items) \<in>
    {(''accepted'', ''none'', ''none'', []), (''not-applicable'', ''unknown'', ''unknown'', [''j''])}"
  shows "assessFoundationEvidenceV1 demo_platform (demo_evidence disposition uncertainty) =
    Inr (demo_assessment disposition uncertainty level items)"
proof -
  let ?in = "demo_evidence disposition uncertainty"
  have parts: "in_requirements ?in = demo_requirements" "in_observation ?in = demo_observation" "in_subject ?in = demo_subject"
    "in_checks ?in = [demo_lint, demo_check]" "in_review ?in = demo_review disposition uncertainty"
    "rf_reference (demo_review disposition uncertainty) = demo_target ''agent-work-product''"
    "eo_evaluatedAt demo_observation = demo_time" "es_candidate demo_subject = demo_target ''candidate-revision''"
    "rl_usedChecks demo_ledger = [demo_check, demo_lint]" "diagnostics_of ?in = []"
    by (simp_all add: demo_evidence_def demo_review_def demo_observation_def demo_subject_def demo_ledger_def diagnostics_of_def)
  have known: "disposition \<in> {''accepted'', ''rejected'', ''indeterminate'', ''not-applicable''}" "uncertainty \<in> set UNCERTAINTIES"
    "(disposition, uncertainty) \<in> {(''accepted'', ''none''), (''not-applicable'', ''unknown'')}"
    using assms by (auto simp: UNCERTAINTIES_def)
  have time: "evidence_timestamp demo_time = Inr demo_time" by (simp add: evidence_timestamp_def demo_date)
  have independence: "reviewerIndependence demo_platform ?in = Inr [\<lparr>ie_id = demo_local ''independence'', ie_ruleId = INDEPENDENCE_RULE,
       ie_contextSeparation = ''distinct'', ie_subjectDisposition = ''exact-read-only'', ie_state = ''satisfied''\<rparr>]"
    by (simp add: reviewerIndependence_def demo_evidence_def demo_observation_def demo_localId Let_def)
  have resolved: "\<not> reviewRequiresMandateResolutionV1 (demo_assessed_review disposition uncertainty)"
    using known(3) by (auto simp: reviewRequiresMandateResolutionV1_def demo_assessed_review_def demo_judgment_def)
  have level: "uncertaintyLevel (demo_assessed_review disposition uncertainty) demo_obligations
      [\<lparr>ie_id = demo_local ''independence'', ie_ruleId = INDEPENDENCE_RULE,
       ie_contextSeparation = ''distinct'', ie_subjectDisposition = ''exact-read-only'', ie_state = ''satisfied''\<rparr>]
      = Inr \<lparr>un_level = level, un_itemIds = items\<rparr>"
    using assms resolved by (auto simp: uncertaintyLevel_def demo_assessed_review_def demo_judgment_def demo_obligations_def
      evidence_text Let_def)
  have supported: "evidenceSupported ?in demo_ledger (demo_assessed_review disposition uncertainty)
      (demo_propositions disposition uncertainty) demo_artifacts demo_descriptions
      [\<lparr>ie_id = demo_local ''independence'', ie_ruleId = INDEPENDENCE_RULE,
       ie_contextSeparation = ''distinct'', ie_subjectDisposition = ''exact-read-only'', ie_state = ''satisfied''\<rparr>] demo_obligations"
    by (simp add: evidenceSupported_def parts demo_assessed_review_def demo_ledger_def demo_propositions_def demo_artifacts_def
      demo_descriptions_def demo_obligations_def)
  show ?thesis
    unfolding assessFoundationEvidenceV1_def demo_input bindE_simps Let_def parts time demo_receipts
      demo_reviewed [OF known(1,2)] demo_decided [OF known(3)] demo_artifacts_found demo_described independence demo_obliged level
    by (simp only: resolved supported demo_assessment_def if_True if_False) (simp add: demo_assessed_review_def)
qed

end
