(* ===== verification/Strict_Json.thy ===== *)
theory Strict_Json
  imports Canonical_Json
begin

text \<open>
  The reader of \<open>runtime/src/foundation/validation/strict-json.ts\<close> (\<open>parseStrictJson\<close>):
  JSON text without duplicate members, unpaired surrogates, unsafe integers or more values,
  depth, members or items than the caller admits. A position is the rest of the text; the
  offsets of messages are not modelled, so every \<open>fail\<close> of the source is \<open>malformed\<close>.
\<close>

section \<open>Numbers\<close>

text \<open>
  \<open>Number(text)\<close> of ECMAScript: the binary64 value nearest to the decimal, ties to even. A
  positive double is \<open>m * 2 ^ e\<close>; \<open>None\<close> is infinity. \<open>double_of n d\<close> rounds \<open>n / d\<close>.
\<close>

fun bit_length :: "nat \<Rightarrow> nat" where
  "bit_length n = (if n = 0 then 0 else Suc (bit_length (n div 2)))"

declare bit_length.simps [simp del]

definition ulp_exponent :: "nat \<Rightarrow> nat \<Rightarrow> int" where
  "ulp_exponent n d =
     (let a = int (bit_length n) - int (bit_length d);
          below = (if 0 \<le> a then d * 2 ^ nat a \<le> n else d \<le> n * 2 ^ nat (- a));
          e = (if below then a else a - 1)
      in max (- 1074) (e - 52))"

definition round_half_even :: "nat \<Rightarrow> nat \<Rightarrow> nat" where
  "round_half_even p q =
     (let k = p div q; r = p mod q in if q < 2 * r \<or> (2 * r = q \<and> odd k) then k + 1 else k)"

definition double_of :: "nat \<Rightarrow> nat \<Rightarrow> (nat \<times> int) option" where
  "double_of n d =
     (if n = 0 then Some (0, - 1074) else
      let e = ulp_exponent n d;
          k = (if 0 \<le> e then round_half_even n (d * 2 ^ nat e) else round_half_even (n * 2 ^ nat (- e)) d);
          (m, f) = (if k = 2 ^ 53 then (2 ^ 52, e + 1) else (k, e))
      in if 971 < f then None else Some (m, f))"

definition decimal_double :: "nat \<Rightarrow> int \<Rightarrow> (nat \<times> int) option" where
  "decimal_double m e = (if 0 \<le> e then double_of (m * 10 ^ nat e) 1 else double_of m (10 ^ nat (- e)))"

text \<open>
  \<open>Number::toString\<close> of a double that is not integral: the fewest digits that give the
  double back, the nearest such ones. \<open>digits_at\<close> looks at the decimals of \<open>k\<close> digits
  around \<open>p / q\<close>, which lies in \<open>[10 ^ (n - 1), 10 ^ n)\<close>.
\<close>

definition scaled :: "nat \<Rightarrow> nat \<Rightarrow> int \<Rightarrow> nat \<times> nat" where
  "scaled p q j = (if 0 \<le> j then (p * 10 ^ nat j, q) else (p, q * 10 ^ nat (- j)))"

definition digits_at :: "nat \<times> int \<Rightarrow> nat \<Rightarrow> nat \<Rightarrow> int \<Rightarrow> nat \<Rightarrow> (nat \<times> int) option" where
  "digits_at x p q n k =
     (let (a, b) = scaled p q (int k - n);
          s = a div b; r = a mod b;
          down = s \<noteq> 0 \<and> decimal_double s (n - int k) = Some x;
          up = decimal_double (s + 1) (n - int k) = Some x;
          t = (if down \<and> (\<not> up \<or> 2 * r < b \<or> (2 * r = b \<and> even s)) then s else s + 1)
      in if down \<or> up then Some (if t = 10 ^ k then (10 ^ (k - 1), n + 1) else (t, n)) else None)"

fun shortest_digits :: "nat \<times> int \<Rightarrow> nat \<Rightarrow> nat \<Rightarrow> int \<Rightarrow> nat list \<Rightarrow> nat \<times> int" where
  "shortest_digits x p q n [] = (p div q, n)"
| "shortest_digits x p q n (k # ks) =
     (case digits_at x p q n k of Some s \<Rightarrow> s | None \<Rightarrow> shortest_digits x p q n ks)"

fun decimal_places :: "nat \<Rightarrow> nat \<Rightarrow> nat \<Rightarrow> int \<Rightarrow> int" where
  "decimal_places 0 p q n = n"
| "decimal_places (Suc fuel) p q n =
     (if p < q then (if 10 * p < q then decimal_places fuel (10 * p) q (n - 1) else n)
      else decimal_places fuel p (10 * q) (n + 1))"

definition fraction_text :: "nat \<Rightarrow> int \<Rightarrow> string" where
  "fraction_text m e =
     (let p = (if 0 \<le> e then m * 2 ^ nat e else m); q = (if 0 \<le> e then 1 else 2 ^ nat (- e));
          (s, n) = shortest_digits (m, e) p q (decimal_places 400 p q 0) [1..<18];
          ds = show_nat s
      in if 0 < n \<and> n \<le> 21 then
           (if int (length ds) \<le> n then ds @ replicate (nat n - length ds) (CHR ''0'')
            else take (nat n) ds @ ''.'' @ drop (nat n) ds)
         else if - 6 < n \<and> n \<le> 0 then ''0.'' @ replicate (nat (- n)) (CHR ''0'') @ ds
         else (if length ds = 1 then ds else take 1 ds @ ''.'' @ drop 1 ds) @
              ''e'' @ (if n - 1 < 0 then ''-'' @ show_nat (nat (1 - n)) else ''+'' @ show_nat (nat (n - 1))))"

text \<open>The number a signed double is, as \<open>json\<close>: integral or not (\<open>Number.isInteger\<close>).\<close>

definition number_of_double :: "bool \<Rightarrow> nat \<Rightarrow> int \<Rightarrow> json" where
  "number_of_double negative m e =
     (if 0 \<le> e then JInt ((if negative then - 1 else 1) * int (m * 2 ^ nat e))
      else if m mod 2 ^ nat (- e) = 0 then JInt ((if negative then - 1 else 1) * int (m div 2 ^ nat (- e)))
      else JFrac ((if negative then ''-'' else []) @ fraction_text m e))"

text \<open>
  The numeral matched by \<open>/^-?(?:0|[1-9][0-9]*)(?:\.[0-9]+)?(?:[eE][+-]?[0-9]+)?/\<close>, and
  what follows it.
\<close>

record numeral =
  nm_negative :: bool
  nm_integer :: string
  nm_fraction :: string
  nm_exponent :: int

definition digits_nat :: "string \<Rightarrow> nat" where
  "digits_nat s = foldl (\<lambda>n c. 10 * n + (code c - 48)) 0 s"

definition scan_integer :: "string \<Rightarrow> (string \<times> string) option" where
  "scan_integer s = (case s of
       [] \<Rightarrow> None
     | c # r \<Rightarrow>
         if c = CHR ''0'' then Some (''0'', r)
         else if is_digit c then Some (takeWhile is_digit s, dropWhile is_digit s) else None)"

definition scan_fraction :: "string \<Rightarrow> string \<times> string" where
  "scan_fraction s = (case s of
       c # d # r \<Rightarrow>
         if c = CHR ''.'' \<and> is_digit d then (takeWhile is_digit (d # r), dropWhile is_digit (d # r)) else ([], s)
     | _ \<Rightarrow> ([], s))"

definition scan_exponent :: "string \<Rightarrow> int \<times> string" where
  "scan_exponent s = (case s of
       c # r \<Rightarrow>
         if c = CHR ''e'' \<or> c = CHR ''E'' then
           (let (sign, t) = (case r of
                  d # r' \<Rightarrow> if d = CHR ''+'' then (1, r') else if d = CHR ''-'' then (-1, r') else (1, r)
                | [] \<Rightarrow> (1, r));
                ds = takeWhile is_digit t
            in if ds = [] then (0, s) else (sign * int (digits_nat ds), dropWhile is_digit t))
         else (0, s)
     | [] \<Rightarrow> (0, s))"

definition scan_number :: "string \<Rightarrow> (numeral \<times> string) option" where
  "scan_number s =
     (let (negative, t) = (case s of c # r \<Rightarrow> if c = CHR ''-'' then (True, r) else (False, s) | [] \<Rightarrow> (False, s))
      in case scan_integer t of
           None \<Rightarrow> None
         | Some (ds, t1) \<Rightarrow>
             let (fs, t2) = scan_fraction t1; (e, t3) = scan_exponent t2
             in Some (\<lparr>nm_negative = negative, nm_integer = ds, nm_fraction = fs, nm_exponent = e\<rparr>, t3))"

definition number_value :: "numeral \<Rightarrow> json option" where
  "number_value x =
     map_option (\<lambda>(m, e). number_of_double (nm_negative x) m e)
       (decimal_double (digits_nat (nm_integer x @ nm_fraction x)) (nm_exponent x - int (length (nm_fraction x))))"

abbreviation malformed :: "'a res" where
  "malformed \<equiv> Inl (StrictJson ''parse'')"

definition numberValue :: "string \<Rightarrow> (json \<times> string) res" where
  "numberValue s = (case scan_number s of
       None \<Rightarrow> malformed
     | Some (x, r) \<Rightarrow>
         (case number_value x of
            None \<Rightarrow> malformed
          | Some (JInt i) \<Rightarrow> failIf (\<not> safe_integer i) (StrictJson ''parse'') (Inr (JInt i, r))
          | Some v \<Rightarrow> Inr (v, r)))"

section \<open>Strings\<close>

text \<open>The scan of \<open>stringValue\<close> after the opening quote: the encoded text up to the closing one.\<close>

definition is_hex :: "char \<Rightarrow> bool" where
  "is_hex c \<longleftrightarrow> is_hex_lower c \<or> 65 \<le> code c \<and> code c \<le> 70"

function scan_string :: "string \<Rightarrow> (string \<times> string) res" where
  "scan_string [] = malformed"
| "scan_string (c # s) =
     (if c = CHR 0x22 then Inr ([], s)
      else if c = CHR 0x5C then
        (case s of
           [] \<Rightarrow> malformed
         | e # t \<Rightarrow>
             if e = CHR ''u'' then
               failIf (length t < 4 \<or> \<not> list_all is_hex (take 4 t)) (StrictJson ''parse'')
                 (bindE (scan_string (drop 4 t)) (\<lambda>(b, r). Inr (c # e # take 4 t @ b, r)))
             else
               failIf (e \<notin> set (CHR 0x22 # CHR 0x5C # ''/bfnrt'')) (StrictJson ''parse'')
                 (bindE (scan_string t) (\<lambda>(b, r). Inr (c # e # b, r))))
      else failIf (code c \<le> 31) (StrictJson ''parse'')
        (bindE (scan_string s) (\<lambda>(b, r). Inr (c # b, r))))"
  by pat_completeness auto

termination by (relation "measure length") auto

text \<open>
  \<open>JSON.parse\<close> of a string literal: its bytes and, for \<open>\u\<close> escapes, its UTF-16 units.
\<close>

datatype piece = Byte char | Unit nat

definition hex_digit :: "char \<Rightarrow> nat" where
  "hex_digit c = (if is_digit c then code c - 48 else if 97 \<le> code c then code c - 87 else code c - 55)"

definition unescaped :: "char \<Rightarrow> char option" where
  "unescaped e = map_of
     [(CHR 0x22, CHR 0x22), (CHR 0x5C, CHR 0x5C), (CHR ''/'', CHR ''/''), (CHR ''b'', CHR 0x08),
      (CHR ''f'', CHR 0x0C), (CHR ''n'', CHR 0x0A), (CHR ''r'', CHR 0x0D), (CHR ''t'', CHR 0x09)] e"

function decode_string :: "string \<Rightarrow> piece list option" where
  "decode_string [] = Some []"
| "decode_string (c # s) =
     (if c = CHR 0x5C then
        (case s of
           [] \<Rightarrow> None
         | e # t \<Rightarrow>
             if e = CHR ''u'' then
               (if length t < 4 \<or> \<not> list_all is_hex (take 4 t) then None
                else map_option (Cons (Unit (foldl (\<lambda>n d. 16 * n + hex_digit d) 0 (take 4 t))))
                       (decode_string (drop 4 t)))
             else Option.bind (unescaped e) (\<lambda>b. map_option (Cons (Byte b)) (decode_string t)))
      else if c = CHR 0x22 \<or> code c < 32 then None
      else map_option (Cons (Byte c)) (decode_string s))"
  by pat_completeness auto

termination by (relation "measure length") auto

text \<open>
  \<open>validUnicodeScalars\<close>, and the UTF-8 bytes of a valid string. Text is well-formed, so only
  escapes can bring an unpaired surrogate.
\<close>

definition high_surrogate :: "nat \<Rightarrow> bool" where
  "high_surrogate u \<longleftrightarrow> 0xD800 \<le> u \<and> u \<le> 0xDBFF"

definition low_surrogate :: "nat \<Rightarrow> bool" where
  "low_surrogate u \<longleftrightarrow> 0xDC00 \<le> u \<and> u \<le> 0xDFFF"

fun validUnicodeScalars :: "piece list \<Rightarrow> bool" where
  "validUnicodeScalars [] = True"
| "validUnicodeScalars (Byte c # ps) = validUnicodeScalars ps"
| "validUnicodeScalars (Unit u # ps) =
     (if high_surrogate u then
        (case ps of Unit w # ps' \<Rightarrow> low_surrogate w \<and> validUnicodeScalars ps' | _ \<Rightarrow> False)
      else \<not> low_surrogate u \<and> validUnicodeScalars ps)"

definition utf8 :: "nat \<Rightarrow> string" where
  "utf8 u =
     (if u < 0x80 then [char_of u]
      else if u < 0x800 then [char_of (0xC0 + u div 64), char_of (0x80 + u mod 64)]
      else if u < 0x10000 then [char_of (0xE0 + u div 4096), char_of (0x80 + u div 64 mod 64), char_of (0x80 + u mod 64)]
      else [char_of (0xF0 + u div 262144), char_of (0x80 + u div 4096 mod 64), char_of (0x80 + u div 64 mod 64),
        char_of (0x80 + u mod 64)])"

fun string_bytes :: "piece list \<Rightarrow> string" where
  "string_bytes [] = []"
| "string_bytes (Byte c # ps) = c # string_bytes ps"
| "string_bytes (Unit u # ps) =
     (case ps of
        Unit w # ps' \<Rightarrow>
          (if high_surrogate u then utf8 (0x10000 + (u - 0xD800) * 1024 + (w - 0xDC00)) @ string_bytes ps'
           else utf8 u @ string_bytes ps)
      | _ \<Rightarrow> utf8 u @ string_bytes ps)"

definition stringValue :: "string \<Rightarrow> (string \<times> string) res" where
  "stringValue s = (case s of
       [] \<Rightarrow> malformed
     | c # t \<Rightarrow>
         failIf (c \<noteq> CHR 0x22) (StrictJson ''parse'')
         (bindE (scan_string t) (\<lambda>(encoded, r).
            case decode_string encoded of
              None \<Rightarrow> malformed
            | Some parsed \<Rightarrow>
                failIf (\<not> validUnicodeScalars parsed) (StrictJson ''parse'') (Inr (string_bytes parsed, r)))))"

section \<open>Values\<close>

record json_limits =
  jl_maximumBytes :: int
  jl_maximumDepth :: int
  jl_maximumNodes :: int
  jl_maximumObjectProperties :: int
  jl_maximumArrayItems :: int

definition is_space :: "char \<Rightarrow> bool" where
  "is_space c \<longleftrightarrow> c \<in> {CHR 0x09, CHR 0x0A, CHR 0x0D, CHR 0x20}"

definition whitespace :: "string \<Rightarrow> string" where
  "whitespace s = dropWhile is_space s"

definition literal :: "string \<Rightarrow> json \<Rightarrow> string \<Rightarrow> (json \<times> string) res" where
  "literal token v s = failIf (take (length token) s \<noteq> token) (StrictJson ''parse'') (Inr (v, drop (length token) s))"

text \<open>
  \<open>value\<close>, and the loops of \<open>arrayValue\<close> and \<open>objectValue\<close> on the items read so far. The
  last component counts the values (\<open>nodes\<close>).
\<close>

type_synonym reading = "(json \<times> string \<times> nat) res"

function (sequential) read_value :: "json_limits \<Rightarrow> nat \<Rightarrow> string \<Rightarrow> nat \<Rightarrow> reading"
  and read_items :: "json_limits \<Rightarrow> nat \<Rightarrow> json list \<Rightarrow> string \<Rightarrow> nat \<Rightarrow> reading"
  and read_members :: "json_limits \<Rightarrow> nat \<Rightarrow> jobject \<Rightarrow> string \<Rightarrow> nat \<Rightarrow> reading"
where
  "read_value L depth text n =
     failIf (int (Suc n) > jl_maximumNodes L) (StrictJson ''parse'')
     (failIf (int depth > jl_maximumDepth L) (StrictJson ''parse'')
     (case whitespace text of
        [] \<Rightarrow> malformed
      | c # s \<Rightarrow>
          if c = CHR ''{'' then
            (case whitespace s of
               [] \<Rightarrow> malformed
             | d # t \<Rightarrow> if d = CHR ''}'' then Inr (JObj [], t, Suc n) else read_members L depth [] (d # t) (Suc n))
          else if c = CHR ''['' then
            (case whitespace s of
               [] \<Rightarrow> malformed
             | d # t \<Rightarrow> if d = CHR '']'' then Inr (JArr [], t, Suc n) else read_items L depth [] (d # t) (Suc n))
          else if c = CHR 0x22 then bindE (stringValue (c # s)) (\<lambda>(v, r). Inr (JStr v, r, Suc n))
          else if c = CHR ''t'' then bindE (literal ''true'' (JBool True) (c # s)) (\<lambda>(v, r). Inr (v, r, Suc n))
          else if c = CHR ''f'' then bindE (literal ''false'' (JBool False) (c # s)) (\<lambda>(v, r). Inr (v, r, Suc n))
          else if c = CHR ''n'' then bindE (literal ''null'' JNull (c # s)) (\<lambda>(v, r). Inr (v, r, Suc n))
          else bindE (numberValue (c # s)) (\<lambda>(v, r). Inr (v, r, Suc n))))"
| "read_items L depth result text n =
     failIf (text = []) (StrictJson ''parse'')
     (failIf (int (length result) \<ge> jl_maximumArrayItems L) (StrictJson ''parse'')
     (bindE (read_value L (Suc depth) text n) (\<lambda>(v, r, n').
        case whitespace r of
          [] \<Rightarrow> malformed
        | c # s \<Rightarrow>
            if c = CHR '']'' then Inr (JArr (result @ [v]), s, n')
            else if c \<noteq> CHR '','' then malformed
            else read_items L depth (result @ [v]) (whitespace s) n')))"
| "read_members L depth result text n =
     failIf (text = []) (StrictJson ''parse'')
     (failIf (int (length result) \<ge> jl_maximumObjectProperties L) (StrictJson ''parse'')
     (bindE (stringValue text) (\<lambda>(key, r0).
        failIf (hasOwn result key) (StrictJson ''parse'')
        (case whitespace r0 of
           [] \<Rightarrow> malformed
         | c0 # s0 \<Rightarrow>
             failIf (c0 \<noteq> CHR '':'') (StrictJson ''parse'')
             (bindE (read_value L (Suc depth) (whitespace s0) n) (\<lambda>(v, r, n').
                case whitespace r of
                  [] \<Rightarrow> malformed
                | c # s \<Rightarrow>
                    if c = CHR ''}'' then Inr (JObj (result @ [(key, v)]), s, n')
                    else if c \<noteq> CHR '','' then malformed
                    else read_members L depth (result @ [(key, v)]) (whitespace s) n'))))))"
  by pat_completeness auto

text \<open>Every value read is taken from the text, so the reader comes to an end.\<close>

lemma length_whitespace: "length (whitespace s) \<le> length s"
  by (simp add: whitespace_def length_dropWhile_le)

lemma whitespace_shorter: "whitespace s = c # t \<Longrightarrow> length t < length s"
  using length_whitespace [of s] by simp

lemma scan_string_shorter: "scan_string s = Inr (b, r) \<Longrightarrow> length r < length s"
  by (induction s arbitrary: b r rule: scan_string.induct)
    (fastforce simp: res_simps split: if_splits list.splits)+

lemma stringValue_shorter: "stringValue s = Inr (v, r) \<Longrightarrow> length r < length s"
  using scan_string_shorter by (fastforce simp: stringValue_def res_simps split: list.splits option.splits)

lemma literal_shorter: "literal token v s = Inr (w, r) \<Longrightarrow> token \<noteq> [] \<Longrightarrow> s \<noteq> [] \<Longrightarrow> length r < length s"
  by (auto simp: literal_def res_simps)

lemma scan_integer_shorter: "scan_integer s = Some (ds, r) \<Longrightarrow> length r < length s"
  by (auto simp: scan_integer_def length_dropWhile_le le_imp_less_Suc split: list.splits if_splits)

lemma scan_fraction_shorter: "length (snd (scan_fraction s)) \<le> length s"
  by (auto simp: scan_fraction_def length_dropWhile_le le_SucI split: list.splits)

lemma scan_exponent_shorter: "length (snd (scan_exponent s)) \<le> length s"
  by (auto simp: scan_exponent_def Let_def length_dropWhile_le le_SucI split: list.splits)

lemma scan_number_shorter: "scan_number s = Some (x, r) \<Longrightarrow> length r < length s"
proof -
  assume *: "scan_number s = Some (x, r)"
  obtain negative t where t: "(case s of c # r \<Rightarrow> if c = CHR ''-'' then (True, r) else (False, s) | [] \<Rightarrow> (False, s)) = (negative, t)"
    by fastforce
  then have "length t \<le> length s" by (auto split: list.splits if_splits)
  moreover obtain ds t1 where "scan_integer t = Some (ds, t1)" and "r = snd (scan_exponent (snd (scan_fraction t1)))"
    using * t by (auto simp: scan_number_def split: option.splits prod.splits)
  ultimately show ?thesis
    using scan_integer_shorter [of t ds t1] scan_fraction_shorter [of t1] scan_exponent_shorter [of "snd (scan_fraction t1)"]
    by simp
qed

lemma numberValue_shorter: "numberValue s = Inr (v, r) \<Longrightarrow> length r < length s"
  using scan_number_shorter by (fastforce simp: numberValue_def res_simps split: option.splits json.splits)

lemma list_case_Inr:
  "(case xs of [] \<Rightarrow> Inl e | c # s \<Rightarrow> f c s) = Inr y \<longleftrightarrow> (\<exists>c s. xs = c # s \<and> f c s = Inr y)"
  by (cases xs) auto

lemmas read_inversion = res_simps list_case_Inr

lemma whitespace_skips:
  "whitespace s = c # t \<Longrightarrow> length t < length s \<and> length (whitespace t) < length s"
  using whitespace_shorter [of s c t] length_whitespace [of t] by simp

lemmas text_shorter = whitespace_shorter stringValue_shorter literal_shorter numberValue_shorter

lemma read_shorter_dom:
  "read_value_read_items_read_members_dom (Inl (L, depth, t, n)) \<Longrightarrow>
     read_value L depth t n = Inr (v, r, n') \<Longrightarrow> length r < length t"
  "read_value_read_items_read_members_dom (Inr (Inl (L, depth, vs, t, n))) \<Longrightarrow>
     read_items L depth vs t n = Inr (v, r, n') \<Longrightarrow> length r < length t"
  "read_value_read_items_read_members_dom (Inr (Inr (L, depth, ms, t, n))) \<Longrightarrow>
     read_members L depth ms t n = Inr (v, r, n') \<Longrightarrow> length r < length t"
proof (induction L depth t n and L depth vs t n and L depth ms t n arbitrary: v r n' and v r n' and v r n'
    rule: read_value_read_items_read_members.pinduct)
  case (1 L depth t n)
  note members = "1.IH"(1) and items = "1.IH"(2)
  have "whitespace t \<noteq> []"
    using "1.prems" by (auto simp: read_value.psimps [OF "1.hyps"] res_simps)
  then obtain c s where w: "whitespace t = c # s" by (cases "whitespace t") auto
  note shorter = whitespace_shorter [OF w] and shorter' = length_whitespace [of s] length_whitespace [of t]
  have "length r < length (c # s)"
    using "1.prems" w shorter' apply (simp add: read_value.psimps [OF "1.hyps"] res_simps del: of_nat_Suc split: list.splits if_splits)
    by (fastforce dest: members [OF _ _ w _ _] items [OF _ _ w _ _ _] text_shorter)+
  then show ?case using shorter by simp
next
  case (2 L depth result t n)
  note IH = "2.IH"(1) and loop = "2.IH"(2)
  from "2.prems" obtain v1 r1 n1 c s where t: "t \<noteq> []" and room: "\<not> jl_maximumArrayItems L \<le> int (length result)"
    and item: "read_value L (Suc depth) t n = Inr (v1, r1, n1)" and w: "whitespace r1 = c # s"
    and rest: "(if c = CHR '']'' then Inr (JArr (result @ [v1]), s, n1) else if c \<noteq> CHR '','' then malformed
      else read_items L depth (result @ [v1]) (whitespace s) n1) = Inr (v, r, n')"
    by (auto simp: read_items.psimps [OF "2.hyps"] read_inversion)
  have "length r \<le> length s"
    using rest loop [OF t room item refl refl w] length_whitespace [of s] by (fastforce split: if_splits)
  then show ?case
    using IH [OF t room item] whitespace_shorter [OF w] by simp
next
  case (3 L depth result t n)
  note IH = "3.IH"(1) and loop = "3.IH"(2)
  from "3.prems" obtain key r0 s0 v1 r1 n1 c s where t: "t \<noteq> []"
    and room: "\<not> jl_maximumObjectProperties L \<le> int (length result)"
    and key: "stringValue t = Inr (key, r0)" and fresh: "\<not> hasOwn result key"
    and colon: "whitespace r0 = CHR '':'' # s0"
    and item: "read_value L (Suc depth) (whitespace s0) n = Inr (v1, r1, n1)" and w: "whitespace r1 = c # s"
    and rest: "(if c = CHR ''}'' then Inr (JObj (result @ [(key, v1)]), s, n1) else if c \<noteq> CHR '','' then malformed
      else read_members L depth (result @ [(key, v1)]) (whitespace s) n1) = Inr (v, r, n')"
    by (auto simp: read_members.psimps [OF "3.hyps"] read_inversion)
  have "length r \<le> length s"
    using rest loop [OF t room key refl fresh colon _ item refl refl w] length_whitespace [of s] by (fastforce split: if_splits)
  then show ?case
    using IH [OF t room key refl fresh colon _ item] whitespace_shorter [OF w] whitespace_shorter [OF colon]
      length_whitespace [of s0] stringValue_shorter [OF key] by simp
qed

lemmas read_shorter = read_shorter_dom

termination read_value
  apply (relation "measures [\<lambda>x. case x of Inl (L, depth, t, n) \<Rightarrow> length t | Inr (Inl (L, depth, vs, t, n)) \<Rightarrow> length t
      | Inr (Inr (L, depth, ms, t, n)) \<Rightarrow> length t,
    \<lambda>x. case x of Inl _ \<Rightarrow> 0 | Inr _ \<Rightarrow> 1]")
  apply simp_all
      apply (auto dest!: read_shorter_dom stringValue_shorter whitespace_skips)
  done

declare read_value.simps [simp del] read_items.simps [simp del] read_members.simps [simp del]

section \<open>The whole text\<close>

text \<open>\<open>StrictJsonOptions\<close> without the name of the source; an absent limit has its default.\<close>

record json_options =
  jo_maximumBytes :: "int option"
  jo_maximumDepth :: "int option"
  jo_maximumNodes :: "int option"
  jo_maximumObjectProperties :: "int option"
  jo_maximumArrayItems :: "int option"

definition DEFAULT_MAXIMUM_DEPTH :: int where "DEFAULT_MAXIMUM_DEPTH = 256"
definition DEFAULT_MAXIMUM_NODES :: int where "DEFAULT_MAXIMUM_NODES = 1000000"
definition DEFAULT_MAXIMUM_OBJECT_PROPERTIES :: int where "DEFAULT_MAXIMUM_OBJECT_PROPERTIES = 100000"
definition DEFAULT_MAXIMUM_ARRAY_ITEMS :: int where "DEFAULT_MAXIMUM_ARRAY_ITEMS = 100000"

definition limit_or :: "int \<Rightarrow> int option \<Rightarrow> int" where
  "limit_or d v = (case v of None \<Rightarrow> d | Some n \<Rightarrow> n)"

definition json_limits_of :: "json_options \<Rightarrow> json_limits" where
  "json_limits_of o' =
     \<lparr>jl_maximumBytes = limit_or (4 * 1024 * 1024) (jo_maximumBytes o'),
      jl_maximumDepth = limit_or DEFAULT_MAXIMUM_DEPTH (jo_maximumDepth o'),
      jl_maximumNodes = limit_or DEFAULT_MAXIMUM_NODES (jo_maximumNodes o'),
      jl_maximumObjectProperties = limit_or DEFAULT_MAXIMUM_OBJECT_PROPERTIES (jo_maximumObjectProperties o'),
      jl_maximumArrayItems = limit_or DEFAULT_MAXIMUM_ARRAY_ITEMS (jo_maximumArrayItems o')\<rparr>"

definition limits_ok :: "json_limits \<Rightarrow> bool" where
  "limits_ok L \<longleftrightarrow>
     list_all (\<lambda>n. safe_integer n \<and> 1 \<le> n)
       [jl_maximumBytes L, jl_maximumDepth L, jl_maximumNodes L, jl_maximumObjectProperties L, jl_maximumArrayItems L]"

definition parseStrictJson :: "string \<Rightarrow> json_options \<Rightarrow> json res" where
  "parseStrictJson text options =
     (let L = json_limits_of options in
      failIf (\<not> limits_ok L) (StrictJson ''limit'')
      (failIf (int (length text) > jl_maximumBytes L) (StrictJson ''size'')
      (failIf (CHR 0x00 \<in> set text) (StrictJson ''nul'')
      (bindE (read_value L 1 text 0) (\<lambda>(parsed, r, _).
         failIf (whitespace r \<noteq> []) (StrictJson ''parse'') (Inr parsed))))))"

end
