(* ===== verification/Strict_Reader.thy ===== *)
theory Strict_Reader
  imports Strict_Json Bounded_Json
begin

text \<open>
  What the strict reader accepts and what it makes of it: every value it returns is
  well formed and within the limits, and it reads the canonical text of a value back as
  that value in canonical form. So canonical text determines the value.
\<close>

section \<open>Values within the limits\<close>

fun fits :: "json_limits \<Rightarrow> nat \<Rightarrow> json \<Rightarrow> bool" where
  "fits L depth (JArr vs) \<longleftrightarrow>
     int depth \<le> jl_maximumDepth L \<and> (vs \<noteq> [] \<longrightarrow> int (length vs) \<le> jl_maximumArrayItems L) \<and>
     (\<forall>v \<in> set vs. fits L (Suc depth) v)"
| "fits L depth (JObj ms) \<longleftrightarrow>
     int depth \<le> jl_maximumDepth L \<and> (ms \<noteq> [] \<longrightarrow> int (length ms) \<le> jl_maximumObjectProperties L) \<and>
     (\<forall>m \<in> set ms. fits L (Suc depth) (snd m))"
| "fits L depth v \<longleftrightarrow> int depth \<le> jl_maximumDepth L"

definition sound :: "json_limits \<Rightarrow> nat \<Rightarrow> json \<Rightarrow> bool" where
  "sound L depth v \<longleftrightarrow> wf_json v \<and> safe_numbers v \<and> fits L depth v"

lemma sound_simps [simp]:
  "sound L depth JNull \<longleftrightarrow> int depth \<le> jl_maximumDepth L"
  "sound L depth (JBool b) \<longleftrightarrow> int depth \<le> jl_maximumDepth L"
  "sound L depth (JStr s) \<longleftrightarrow> int depth \<le> jl_maximumDepth L"
  "sound L depth (JFrac t) \<longleftrightarrow> int depth \<le> jl_maximumDepth L"
  "sound L depth (JInt i) \<longleftrightarrow> safe_integer i \<and> int depth \<le> jl_maximumDepth L"
  "sound L depth (JArr vs) \<longleftrightarrow>
     int depth \<le> jl_maximumDepth L \<and> (vs \<noteq> [] \<longrightarrow> int (length vs) \<le> jl_maximumArrayItems L) \<and>
     (\<forall>v \<in> set vs. sound L (Suc depth) v)"
  "sound L depth (JObj ms) \<longleftrightarrow>
     int depth \<le> jl_maximumDepth L \<and> (ms \<noteq> [] \<longrightarrow> int (length ms) \<le> jl_maximumObjectProperties L) \<and>
     distinct (map fst ms) \<and> (\<forall>m \<in> set ms. sound L (Suc depth) (snd m))"
  by (auto simp: sound_def)

definition counted :: "json_limits \<Rightarrow> nat \<Rightarrow> nat \<Rightarrow> nat \<Rightarrow> bool" where
  "counted L n k n' \<longleftrightarrow> n' = n + k \<and> int n' \<le> jl_maximumNodes L"

lemma numberValue_sound:
  "numberValue s = Inr (v, r) \<Longrightarrow> (\<exists>i. v = JInt i \<and> safe_integer i) \<or> (\<exists>t. v = JFrac t)"
proof -
  assume read: "numberValue s = Inr (v, r)"
  then obtain x where x: "scan_number s = Some (x, r)"
    by (auto simp: numberValue_def res_simps split: option.splits json.splits)
  with read have v: "number_value x = Some v" and safe: "\<forall>i. v = JInt i \<longrightarrow> safe_integer i"
    by (auto simp: numberValue_def res_simps split: option.splits json.splits)
  from v obtain m e where "v = number_of_double (nm_negative x) m e" by (auto simp: number_value_def)
  with safe show ?thesis by (auto simp: number_of_double_def split: if_splits)
qed

lemma literal_Inr: "literal token v s = Inr (w, r) \<Longrightarrow> w = v"
  by (simp add: literal_def res_simps)

lemma read_sound:
  "read_value L depth t n = Inr (v, r, n') \<Longrightarrow> sound L depth v \<and> counted L n (json_nodes v) n'"
  "read_items L depth result t n = Inr (v, r, n') \<Longrightarrow> int depth \<le> jl_maximumDepth L \<Longrightarrow>
     \<forall>v \<in> set result. sound L (Suc depth) v \<Longrightarrow>
     \<exists>vs. v = JArr (result @ vs) \<and> vs \<noteq> [] \<and> sound L depth v \<and> counted L n (sum_list (map json_nodes vs)) n'"
  "read_members L depth members t n = Inr (v, r, n') \<Longrightarrow> int depth \<le> jl_maximumDepth L \<Longrightarrow>
     distinct (map fst members) \<Longrightarrow> \<forall>m \<in> set members. sound L (Suc depth) (snd m) \<Longrightarrow>
     \<exists>ms. v = JObj (members @ ms) \<and> ms \<noteq> [] \<and> sound L depth v \<and>
       counted L n (sum_list (map (\<lambda>m. json_nodes (snd m)) ms)) n'"
proof (induction L depth t n and L depth result t n and L depth members t n arbitrary: v r n' and v r n' and v r n'
    rule: read_value_read_items_read_members.induct)
  case (1 L depth t n)
  note members = "1.IH"(1) and items = "1.IH"(2)
  from "1.prems" obtain c s where w: "whitespace t = c # s"
    and bounds: "\<not> jl_maximumNodes L < int (Suc n)" "\<not> jl_maximumDepth L < int depth"
    by (auto simp: read_value.simps [of L depth t n] read_inversion)
  consider "c = CHR ''{''" | "c = CHR ''[''" | "c \<noteq> CHR ''{''" "c \<noteq> CHR ''[''" by blast
  then show ?case
  proof cases
    case 1
    with "1.prems" w bounds obtain d u where w': "whitespace s = d # u"
      and rest: "(if d = CHR ''}'' then Inr (JObj [], u, Suc n) else read_members L depth [] (d # u) (Suc n)) = Inr (v, r, n')"
      by (auto simp: read_value.simps [of L depth t n] read_inversion)
    show ?thesis
    proof (cases "d = CHR ''}''")
      case True
      with rest bounds show ?thesis by (auto simp: counted_def)
    next
      case False
      with rest have "read_members L depth [] (d # u) (Suc n) = Inr (v, r, n')" by simp
      from members [OF bounds w 1 w' False this] bounds show ?thesis by (auto simp: counted_def)
    qed
  next
    case 2
    with "1.prems" w bounds obtain d u where w': "whitespace s = d # u"
      and rest: "(if d = CHR '']'' then Inr (JArr [], u, Suc n) else read_items L depth [] (d # u) (Suc n)) = Inr (v, r, n')"
      by (auto simp: read_value.simps [of L depth t n] read_inversion)
    show ?thesis
    proof (cases "d = CHR '']''")
      case True
      with rest bounds show ?thesis by (auto simp: counted_def)
    next
      case False
      with rest have "read_items L depth [] (d # u) (Suc n) = Inr (v, r, n')" by simp
      from items [OF bounds w _ 2 w' False this] bounds 2 show ?thesis by (auto simp: counted_def)
    qed
  next
    case 3
    with "1.prems" w bounds show ?thesis
      by (auto simp: read_value.simps [of L depth t n] read_inversion counted_def split: if_splits dest!: literal_Inr numberValue_sound)
  qed
next
  case (2 L depth result t n)
  from "2.prems" obtain v1 r1 n1 c s where t: "t \<noteq> []" and room: "\<not> jl_maximumArrayItems L \<le> int (length result)"
    and item: "read_value L (Suc depth) t n = Inr (v1, r1, n1)" and w: "whitespace r1 = c # s"
    and rest: "(if c = CHR '']'' then Inr (JArr (result @ [v1]), s, n1) else if c \<noteq> CHR '','' then malformed
      else read_items L depth (result @ [v1]) (whitespace s) n1) = Inr (v, r, n')"
    by (auto simp: read_items.simps [of L depth result t n] read_inversion)
  note one = "2.IH"(1) [OF t room item]
  show ?case
  proof (cases "c = CHR '']''")
    case True
    with rest one room "2.prems" show ?thesis
      by (auto intro!: exI [of _ "[v1]"])
  next
    case False
    with rest have "c = CHR '',''" by (auto split: if_splits)
    with rest False "2.IH"(2) [OF t room item refl refl w False, of v r n'] "2.prems" one
    obtain vs where "v = JArr (result @ v1 # vs)" "vs \<noteq> []" "sound L depth v" "counted L n1 (sum_list (map json_nodes vs)) n'"
      by auto
    with one show ?thesis by (intro exI [of _ "v1 # vs"]) (auto simp: counted_def split: if_splits)
  qed
next
  case (3 L depth members t n)
  from "3.prems" obtain key r0 s0 v1 r1 n1 c s where t: "t \<noteq> []"
    and room: "\<not> jl_maximumObjectProperties L \<le> int (length members)"
    and key: "stringValue t = Inr (key, r0)" and fresh: "\<not> hasOwn members key"
    and colon: "whitespace r0 = CHR '':'' # s0"
    and item: "read_value L (Suc depth) (whitespace s0) n = Inr (v1, r1, n1)" and w: "whitespace r1 = c # s"
    and rest: "(if c = CHR ''}'' then Inr (JObj (members @ [(key, v1)]), s, n1) else if c \<noteq> CHR '','' then malformed
      else read_members L depth (members @ [(key, v1)]) (whitespace s) n1) = Inr (v, r, n')"
    by (auto simp: read_members.simps [of L depth members t n] read_inversion)
  note one = "3.IH"(1) [OF t room key refl fresh colon _ item]
  have unused: "key \<notin> fst ` set members" using fresh by (simp add: hasOwn_iff)
  show ?case
  proof (cases "c = CHR ''}''")
    case True
    with rest one room "3.prems" unused show ?thesis
      by (auto intro!: exI [of _ "[(key, v1)]"])
  next
    case False
    with rest have "c = CHR '',''" by (auto split: if_splits)
    with rest False "3.IH"(2) [OF t room key refl fresh colon _ item refl refl w False, of v r n'] "3.prems" one unused
    obtain ms where "v = JObj (members @ (key, v1) # ms)" "ms \<noteq> []" "sound L depth v"
      "counted L n1 (sum_list (map (\<lambda>m. json_nodes (snd m)) ms)) n'"
      by auto
    with one show ?thesis by (intro exI [of _ "(key, v1) # ms"]) (auto simp: counted_def split: if_splits)
  qed
qed

lemma strict_value_is_sound:
  assumes "parseStrictJson t options = Inr v"
  shows "wf_json v" and "safe_numbers v" and "fits (json_limits_of options) 1 v"
    and "int (json_nodes v) \<le> jl_maximumNodes (json_limits_of options)"
  using assms read_sound(1) [of "json_limits_of options" 1 t 0]
  by (auto simp: parseStrictJson_def Let_def res_simps sound_def counted_def)

text \<open>Reading moves on: what is read takes at least one character of the text for each of its values.\<close>

lemma read_progress:
  "read_value L depth t n = Inr (v, r, n') \<Longrightarrow> json_nodes v + length r \<le> length t"
  "read_items L depth result t n = Inr (v, r, n') \<Longrightarrow>
     \<exists>vs. v = JArr (result @ vs) \<and> sum_list (map json_nodes vs) + length r < length t"
  "read_members L depth members t n = Inr (v, r, n') \<Longrightarrow>
     \<exists>ms. v = JObj (members @ ms) \<and> sum_list (map (\<lambda>m. json_nodes (snd m)) ms) + length r < length t"
proof (induction L depth t n and L depth result t n and L depth members t n arbitrary: v r n' and v r n' and v r n'
    rule: read_value_read_items_read_members.induct)
  case (1 L depth t n)
  note members = "1.IH"(1) and items = "1.IH"(2)
  from "1.prems" obtain c s where w: "whitespace t = c # s"
    and bounds: "\<not> jl_maximumNodes L < int (Suc n)" "\<not> jl_maximumDepth L < int depth"
    by (auto simp: read_value.simps [of L depth t n] read_inversion)
  have short: "length (whitespace s) < length t" using whitespace_skips [OF w] by simp
  consider "c = CHR ''{''" | "c = CHR ''[''" | "c \<noteq> CHR ''{''" "c \<noteq> CHR ''[''" by blast
  then show ?case
  proof cases
    case 1
    with "1.prems" w bounds obtain d u where w': "whitespace s = d # u"
      and rest: "(if d = CHR ''}'' then Inr (JObj [], u, Suc n) else read_members L depth [] (d # u) (Suc n)) = Inr (v, r, n')"
      by (auto simp: read_value.simps [of L depth t n] read_inversion)
    then show ?thesis using members [OF bounds w 1 w'] short by (fastforce split: if_splits)
  next
    case 2
    with "1.prems" w bounds obtain d u where w': "whitespace s = d # u"
      and rest: "(if d = CHR '']'' then Inr (JArr [], u, Suc n) else read_items L depth [] (d # u) (Suc n)) = Inr (v, r, n')"
      by (auto simp: read_value.simps [of L depth t n] read_inversion)
    then show ?thesis using items [OF bounds w _ 2 w'] 2 short by (fastforce split: if_splits)
  next
    case 3
    with "1.prems" w bounds have "json_nodes v = 1"
      by (auto simp: read_value.simps [of L depth t n] read_inversion split: if_splits dest!: literal_Inr numberValue_sound)
    moreover from "1.prems" w bounds 3 have "length r < length (c # s)"
      by (auto simp: read_value.simps [of L depth t n] read_inversion split: if_splits dest!: text_shorter)
    ultimately show ?thesis using whitespace_shorter [OF w] by simp
  qed
next
  case (2 L depth result t n)
  from "2.prems" obtain v1 r1 n1 c s where t: "t \<noteq> []" and room: "\<not> jl_maximumArrayItems L \<le> int (length result)"
    and item: "read_value L (Suc depth) t n = Inr (v1, r1, n1)" and w: "whitespace r1 = c # s"
    and rest: "(if c = CHR '']'' then Inr (JArr (result @ [v1]), s, n1) else if c \<noteq> CHR '','' then malformed
      else read_items L depth (result @ [v1]) (whitespace s) n1) = Inr (v, r, n')"
    by (auto simp: read_items.simps [of L depth result t n] read_inversion)
  note one = "2.IH"(1) [OF t room item] and skips = whitespace_skips [OF w]
  show ?case
  proof (cases "c = CHR '']''")
    case True
    with rest one skips show ?thesis by (intro exI [of _ "[v1]"]) auto
  next
    case False
    with rest have "c = CHR '',''" by (auto split: if_splits)
    with rest "2.IH"(2) [OF t room item refl refl w False, of v r n']
    obtain vs where "v = JArr (result @ v1 # vs)" "sum_list (map json_nodes vs) + length r < length (whitespace s)" by auto
    with one skips show ?thesis by (intro exI [of _ "v1 # vs"]) auto
  qed
next
  case (3 L depth members t n)
  from "3.prems" obtain key r0 s0 v1 r1 n1 c s where t: "t \<noteq> []"
    and room: "\<not> jl_maximumObjectProperties L \<le> int (length members)"
    and key: "stringValue t = Inr (key, r0)" and fresh: "\<not> hasOwn members key"
    and colon: "whitespace r0 = CHR '':'' # s0"
    and item: "read_value L (Suc depth) (whitespace s0) n = Inr (v1, r1, n1)" and w: "whitespace r1 = c # s"
    and rest: "(if c = CHR ''}'' then Inr (JObj (members @ [(key, v1)]), s, n1) else if c \<noteq> CHR '','' then malformed
      else read_members L depth (members @ [(key, v1)]) (whitespace s) n1) = Inr (v, r, n')"
    by (auto simp: read_members.simps [of L depth members t n] read_inversion)
  note one = "3.IH"(1) [OF t room key refl fresh colon _ item] and skips = whitespace_skips [OF w]
    and before = stringValue_shorter [OF key] whitespace_skips [OF colon]
  show ?case
  proof (cases "c = CHR ''}''")
    case True
    with rest one skips before show ?thesis by (intro exI [of _ "[(key, v1)]"]) auto
  next
    case False
    with rest have "c = CHR '',''" by (auto split: if_splits)
    with rest "3.IH"(2) [OF t room key refl fresh colon _ item refl refl w False, of v r n']
    obtain ms where "v = JObj (members @ (key, v1) # ms)"
      "sum_list (map (\<lambda>m. json_nodes (snd m)) ms) + length r < length (whitespace s)" by auto
    with one skips before show ?thesis by (intro exI [of _ "(key, v1) # ms"]) auto
  qed
qed

section \<open>Canonical numbers\<close>

text \<open>What may follow a number in canonical text.\<close>

definition stops :: "string \<Rightarrow> bool" where
  "stops r \<longleftrightarrow> r = [] \<or> hd r \<in> {CHR '','', CHR '']'', CHR ''}''}"

lemma stops_cases: "stops r \<Longrightarrow> (r = [] \<Longrightarrow> P) \<Longrightarrow> (\<And>s. r = CHR '','' # s \<Longrightarrow> P) \<Longrightarrow>
    (\<And>s. r = CHR '']'' # s \<Longrightarrow> P) \<Longrightarrow> (\<And>s. r = CHR ''}'' # s \<Longrightarrow> P) \<Longrightarrow> P"
  by (cases r) (auto simp: stops_def)

lemma code_digit: "d < 10 \<Longrightarrow> code (digit_char d) = 48 + d"
  by (simp add: digit_char_def take_bit_nat_eq_self)

lemma digit_char_0: "digit_char 0 = CHR ''0''"
proof -
  have "of_char (CHR ''0'') = (48 :: nat)" by simp
  then show ?thesis by (metis add.right_neutral char_of_char digit_char_def)
qed

lemma is_digit_char [simp]: "d < 10 \<Longrightarrow> is_digit (digit_char d)"
  by (simp add: is_digit_def code_digit)

lemma digits_nat_snoc: "digits_nat (s @ [c]) = 10 * digits_nat s + (code c - 48)"
  by (simp add: digits_nat_def)

lemma show_nat_digits: "list_all is_digit (show_nat n)"
  by (induction n rule: show_nat.induct) (subst show_nat.simps, auto)

lemma digits_nat_show: "digits_nat (show_nat n) = n"
proof (induction n rule: show_nat.induct)
  case (1 n)
  show ?case
  proof (cases "n < 10")
    case True
    then show ?thesis by (subst show_nat.simps) (simp add: digits_nat_def code_digit)
  next
    case False
    then have "digits_nat (show_nat n) = digits_nat (show_nat (n div 10) @ [digit_char (n mod 10)])"
      by (subst show_nat.simps) simp
    also have "\<dots> = 10 * digits_nat (show_nat (n div 10)) + n mod 10"
      by (simp only: digits_nat_snoc) (simp add: code_digit)
    finally show ?thesis using 1 False by simp
  qed
qed

lemma show_nat_head: "\<exists>c s. show_nat n = c # s \<and> is_digit c \<and> (c = CHR ''0'' \<longrightarrow> n = 0)"
proof (induction n rule: show_nat.induct)
  case (1 n)
  show ?case
  proof (cases "n < 10")
    case True
    have "digit_char n = CHR ''0'' \<Longrightarrow> n = 0"
      using code_digit [OF True] by (auto dest: arg_cong [where f = "of_char :: char \<Rightarrow> nat"])
    with True show ?thesis by (subst show_nat.simps) auto
  next
    case False
    with 1 obtain c s where "show_nat (n div 10) = c # s" "is_digit c" "c = CHR ''0'' \<longrightarrow> n div 10 = 0" by blast
    with False show ?thesis by (subst show_nat.simps) auto
  qed
qed

lemma takeWhile_stops: "list_all is_digit ds \<Longrightarrow> stops r \<Longrightarrow> takeWhile is_digit (ds @ r) = ds"
  "list_all is_digit ds \<Longrightarrow> stops r \<Longrightarrow> dropWhile is_digit (ds @ r) = r"
  by (induction ds) (auto elim!: stops_cases simp: is_digit_def)

lemma scan_integer_show: "stops r \<Longrightarrow> scan_integer (show_nat n @ r) = Some (show_nat n, r)"
proof -
  assume r: "stops r"
  obtain c s where cs: "show_nat n = c # s" and dig: "is_digit c" and zero: "c = CHR ''0'' \<longrightarrow> n = 0"
    using show_nat_head by blast
  show ?thesis
  proof (cases "c = CHR ''0''")
    case True
    then have "n = 0" using zero by simp
    then have "show_nat n = ''0''" by (subst show_nat.simps) (simp add: digit_char_0)
    then show ?thesis by (simp add: scan_integer_def)
  next
    case False
    have "takeWhile is_digit (show_nat n @ r) = show_nat n" "dropWhile is_digit (show_nat n @ r) = r"
      by (rule takeWhile_stops [OF show_nat_digits r])+
    then show ?thesis using cs dig False by (simp add: scan_integer_def)
  qed
qed

lemma scan_rest_stops: "stops r \<Longrightarrow> scan_fraction r = ([], r)" "stops r \<Longrightarrow> scan_exponent r = (0, r)"
  by (auto elim!: stops_cases simp: scan_fraction_def scan_exponent_def split: list.splits)

lemma scan_number_show:
  assumes "stops r"
  shows "scan_number (show_int i @ r) =
    Some (\<lparr>nm_negative = i < 0, nm_integer = show_nat (nat \<bar>i\<bar>), nm_fraction = [], nm_exponent = 0\<rparr>, r)"
proof -
  obtain c s where cs: "show_nat (nat i) = c # s" "is_digit c" using show_nat_head by blast
  then have "c \<noteq> CHR ''-''" by (auto simp: is_digit_def)
  with cs assms show ?thesis
    using scan_integer_show [OF assms, of "nat i"] scan_integer_show [OF assms, of "nat (- i)"]
    by (auto simp: scan_number_def show_int_def scan_rest_stops)
qed

text \<open>A double holds every integer below \<open>2 ^ 53\<close> exactly.\<close>

lemma bit_length_bounds: "0 < n \<Longrightarrow> 0 < bit_length n \<and> 2 ^ (bit_length n - 1) \<le> n \<and> n < 2 ^ bit_length n"
proof (induction n rule: bit_length.induct)
  case (1 n)
  show ?case
  proof (cases "n div 2 = 0")
    case True
    then have "n = 1" using "1.prems" by auto
    then show ?thesis by (simp add: bit_length.simps)
  next
    case False
    with 1 have *: "0 < bit_length (n div 2)" "2 ^ (bit_length (n div 2) - 1) \<le> n div 2" "n div 2 < 2 ^ bit_length (n div 2)"
      by auto
    have b: "bit_length n = Suc (bit_length (n div 2))"
      using "1.prems" by (subst bit_length.simps) simp
    have "(2 :: nat) ^ bit_length (n div 2) = 2 * 2 ^ (bit_length (n div 2) - 1)"
      using *(1) by (cases "bit_length (n div 2)") auto
    then have "2 ^ bit_length (n div 2) \<le> n" using *(2) by linarith
    moreover have "n < 2 * 2 ^ bit_length (n div 2)" using *(3) by linarith
    ultimately show ?thesis using b by simp
  qed
qed

lemma ulp_exponent_integer:
  assumes "0 < n" and "n < 2 ^ 53"
  obtains k where "k \<le> 52" and "ulp_exponent n 1 = - int k" and "n * 2 ^ k < 2 ^ 53"
proof -
  let ?a = "bit_length n - 1"
  have fl: "0 < bit_length n" "2 ^ ?a \<le> n" "n < 2 ^ Suc ?a"
    using bit_length_bounds [OF assms(1)] by auto
  have small: "?a \<le> 52"
  proof (rule ccontr)
    assume "\<not> ?a \<le> 52"
    then have "(2 :: nat) ^ 53 \<le> 2 ^ ?a" by (intro power_increasing) auto
    with fl assms show False by simp
  qed
  have one: "bit_length (Suc 0) = Suc 0" by (simp add: bit_length.simps)
  have "ulp_exponent n 1 = int ?a - 52"
    using fl small by (simp add: ulp_exponent_def one Let_def nat_diff_distrib of_nat_diff)
  then have e: "ulp_exponent n 1 = - int (52 - ?a)" using small by simp
  have "n * 2 ^ (52 - ?a) < 2 ^ Suc ?a * 2 ^ (52 - ?a)" using fl by simp
  also have "\<dots> = 2 ^ 53" using small by (simp add: power_add [symmetric] flip: power_Suc)
  finally show ?thesis using that [of "52 - ?a"] e by simp
qed

lemma round_half_even_1 [simp]: "round_half_even n (Suc 0) = n"
  by (simp add: round_half_even_def)

lemma integer_double:
  assumes "n < 2 ^ 53"
  shows "\<exists>m k. decimal_double n 0 = Some (m, - int k) \<and> m = n * 2 ^ k"
proof (cases "n = 0")
  case True
  then show ?thesis by (auto simp: decimal_double_def double_of_def intro!: exI [of _ "1074 :: nat"])
next
  case False
  then obtain k where k: "ulp_exponent n 1 = - int k" "n * 2 ^ k < 2 ^ 53"
    using ulp_exponent_integer assms by (metis neq0_conv)
  with False show ?thesis
    by (cases "k = 0") (auto simp: decimal_double_def double_of_def Let_def intro!: exI [of _ k])
qed

lemma numberValue_show:
  assumes "safe_integer i" and "stops r"
  shows "numberValue (show_int i @ r) = Inr (JInt i, r)"
proof -
  have "nat \<bar>i\<bar> < 2 ^ 53" using assms(1) by (auto simp: safe_integer_def)
  then obtain m k where "decimal_double (nat \<bar>i\<bar>) 0 = Some (m, - int k)" "m = nat \<bar>i\<bar> * 2 ^ k"
    using integer_double by blast
  then have "number_value \<lparr>nm_negative = i < 0, nm_integer = show_nat (nat \<bar>i\<bar>), nm_fraction = [], nm_exponent = 0\<rparr>
      = Some (JInt i)"
    by (cases "k = 0") (auto simp: number_value_def digits_nat_show number_of_double_def)
  with assms show ?thesis by (simp add: numberValue_def scan_number_show)
qed

end
