(* ===== verification/Strict_Roundtrip.thy ===== *)
theory Strict_Roundtrip
  imports Strict_Reader "HOL-Library.Multiset"
begin

text \<open>
  The strict reader on canonical text: it reads the text \<open>canonicalize\<close> writes back as the
  value in canonical form, so two values with the same canonical text, or with canonical
  texts of equal digests, are the same up to the order of their members.
\<close>

section \<open>Canonical fractions\<close>

definition number_text :: "string \<Rightarrow> bool" where
  "number_text t \<longleftrightarrow>
     (case scan_number t of Some (x, r) \<Rightarrow> r = [] \<and> number_value x = Some (JFrac t) | None \<Rightarrow> False)"

lemma digits_append:
  assumes "stops r"
  shows "takeWhile is_digit (t @ r) = takeWhile is_digit t" "dropWhile is_digit (t @ r) = dropWhile is_digit t @ r"
  using assms by (induction t) (auto elim!: stops_cases simp: is_digit_def)

lemma scan_integer_append:
  "stops r \<Longrightarrow> scan_integer t = Some (ds, u) \<Longrightarrow> scan_integer (t @ r) = Some (ds, u @ r)"
  using digits_append [of r t] by (auto simp: scan_integer_def split: list.splits if_splits)

lemma stops_not_digit: "stops (d # r) \<Longrightarrow> \<not> is_digit d"
  by (auto simp: stops_def is_digit_def)

lemma scan_fraction_append:
  assumes "stops r"
  shows "scan_fraction (t @ r) = (fst (scan_fraction t), snd (scan_fraction t) @ r)"
proof (cases t)
  case Nil
  with assms show ?thesis by (simp add: scan_rest_stops) (simp add: scan_fraction_def)
next
  case (Cons c u)
  then show ?thesis
    using assms digits_append [OF assms, of u] stops_not_digit
    by (cases u; cases r) (auto simp: scan_fraction_def)
qed

lemma scan_exponent_append:
  assumes "stops r"
  shows "scan_exponent (t @ r) = (fst (scan_exponent t), snd (scan_exponent t) @ r)"
proof (cases t)
  case Nil
  with assms show ?thesis by (simp add: scan_rest_stops) (simp add: scan_exponent_def)
next
  case (Cons c u)
  note digits = digits_append [OF assms]
  show ?thesis
  proof (cases u)
    case Nil
    have "takeWhile is_digit r = []" using digits(1) [of "[]"] by simp
    with Nil Cons assms show ?thesis
      by (auto simp: scan_exponent_def Let_def split: list.splits elim!: stops_cases)
  next
    case (Cons d w)
    with \<open>t = c # u\<close> show ?thesis
      using digits(1) [of w] digits(2) [of w] digits(1) [of u] digits(2) [of u]
      by (auto simp: scan_exponent_def Let_def)
  qed
qed

lemma scan_number_append:
  assumes "scan_number t = Some (x, u)" and "stops r"
  shows "scan_number (t @ r) = Some (x, u @ r)"
proof -
  let ?sign = "\<lambda>s. case s of c # r \<Rightarrow> if c = CHR ''-'' then (True, r) else (False, s) | [] \<Rightarrow> (False, s)"
  obtain negative t0 where sign: "?sign t = (negative, t0)" by fastforce
  then obtain ds t1 where int: "scan_integer t0 = Some (ds, t1)"
    and rest: "x = \<lparr>nm_negative = negative, nm_integer = ds, nm_fraction = fst (scan_fraction t1),
        nm_exponent = fst (scan_exponent (snd (scan_fraction t1)))\<rparr>"
      "u = snd (scan_exponent (snd (scan_fraction t1)))"
    using assms(1) by (auto simp: scan_number_def split: option.splits prod.splits)
  from int have "t0 \<noteq> []" by (auto simp: scan_integer_def)
  with sign have "?sign (t @ r) = (negative, t0 @ r)" by (auto split: list.splits if_splits)
  with rest show ?thesis
    using scan_integer_append [OF assms(2) int] scan_fraction_append [OF assms(2), of t1]
      scan_exponent_append [OF assms(2), of "snd (scan_fraction t1)"]
    by (simp add: scan_number_def split: prod.splits)
qed

definition number_char :: "char \<Rightarrow> bool" where
  "number_char c \<longleftrightarrow> is_digit c \<or> c \<in> set ''-+.eE''"

lemma takeWhile_all: "\<forall>c \<in> set (takeWhile P s). P c"
  by (auto dest: set_takeWhileD)

lemma set_split: "set s = set (takeWhile P s) \<union> set (dropWhile P s)"
  by (metis set_append takeWhile_dropWhile_id)

lemma scan_number_chars:
  assumes "scan_number t = Some (x, u)"
  shows "\<forall>c \<in> set t. number_char c \<or> c \<in> set u" and "t \<noteq> []" and "hd t = CHR ''-'' \<or> is_digit (hd t)"
proof -
  let ?sign = "\<lambda>s. case s of c # r \<Rightarrow> if c = CHR ''-'' then (True, r) else (False, s) | [] \<Rightarrow> (False, s)"
  obtain negative t0 where sign: "?sign t = (negative, t0)" by fastforce
  then obtain ds t1 where int: "scan_integer t0 = Some (ds, t1)"
    and u: "u = snd (scan_exponent (snd (scan_fraction t1)))"
    using assms(1) by (auto simp: scan_number_def split: option.splits prod.splits)
  have fr: "\<forall>c \<in> set t1. number_char c \<or> c \<in> set (snd (scan_fraction t1))"
    by (auto simp: scan_fraction_def number_char_def split: list.splits)
      (metis Un_iff set_split set_takeWhileD)+
  have ex: "\<forall>c \<in> set s. number_char c \<or> c \<in> set (snd (scan_exponent s))" for s
    by (auto simp: scan_exponent_def number_char_def Let_def split: list.splits)
      (metis Un_iff set_split set_takeWhileD)+
  have i: "\<forall>c \<in> set t0. number_char c \<or> c \<in> set t1" "t0 \<noteq> []" "is_digit (hd t0)"
  proof -
    have zero: "is_digit (CHR ''0'')" by (simp add: is_digit_def)
    show "t0 \<noteq> []" "is_digit (hd t0)"
      using int zero by (auto simp: scan_integer_def split: list.splits if_splits)
    have "c \<in> set t1 \<or> is_digit c" if "c \<in> set t0" for c
    proof (cases "hd t0 = CHR ''0''")
      case True
      with int that zero show ?thesis by (auto simp: scan_integer_def split: list.splits)
    next
      case False
      with int have "t1 = dropWhile is_digit t0" by (auto simp: scan_integer_def split: list.splits if_splits)
      with that show ?thesis by (metis Un_iff set_split set_takeWhileD)
    qed
    then show "\<forall>c \<in> set t0. number_char c \<or> c \<in> set t1" by (auto simp: number_char_def)
  qed
  show "\<forall>c \<in> set t. number_char c \<or> c \<in> set u"
  proof
    fix c assume "c \<in> set t"
    with sign have "number_char c \<or> c \<in> set t0"
      by (auto simp: number_char_def split: list.splits if_splits)
    with i fr ex [of "snd (scan_fraction t1)"] u show "number_char c \<or> c \<in> set u" by blast
  qed
  show "t \<noteq> []" using sign i by auto
  show "hd t = CHR ''-'' \<or> is_digit (hd t)"
    using sign i by (auto split: list.splits if_splits)
qed

lemma numberValue_fraction:
  assumes "number_text t" and "stops r"
  shows "numberValue (t @ r) = Inr (JFrac t, r)"
proof -
  obtain x where "scan_number t = Some (x, [])" "number_value x = Some (JFrac t)"
    using assms(1) by (auto simp: number_text_def split: option.splits)
  with scan_number_append [OF _ assms(2)] show ?thesis by (fastforce simp: numberValue_def)
qed

section \<open>Strings\<close>

lemma hex_char_simps:
  assumes "d < 16"
  shows "is_hex (hex_char d)" and "hex_digit (hex_char d) = d"
proof -
  have "code (hex_char d) = (if d < 10 then 48 + d else 87 + d)"
    using assms by (auto simp: hex_char_def take_bit_nat_eq_self)
  with assms show "is_hex (hex_char d)" "hex_digit (hex_char d) = d"
    by (auto simp: is_hex_def is_hex_lower_def is_digit_def hex_digit_def)
qed

lemma is_hex_0 [simp]: "is_hex (CHR ''0'')" "hex_digit (CHR ''0'') = 0"
  by (simp_all add: is_hex_def is_hex_lower_def is_digit_def hex_digit_def)

lemma scan_escape_char:
  "scan_string (escape_char c @ t) = bindE (scan_string t) (\<lambda>(b, r). Inr (escape_char c @ b, r))"
proof (cases "code c < 32")
  case True
  then have "code c div 16 < 16" "code c mod 16 < 16" by auto
  then show ?thesis
    by (auto simp: escape_char_def hex_char_simps bindE_def split: sum.splits)
next
  case False
  then show ?thesis by (auto simp: escape_char_def)
qed

lemma scan_escaped:
  "scan_string (concat (map escape_char s) @ CHR 0x22 # r) = Inr (concat (map escape_char s), r)"
  by (induction s) (simp_all del: scan_string.simps add: scan_escape_char, simp)

definition piece_of :: "char \<Rightarrow> piece" where
  "piece_of c = (if length (escape_char c) = 6 then Unit (code c) else Byte c)"

lemma decode_escape_char:
  "decode_string (escape_char c @ t) = map_option (Cons (piece_of c)) (decode_string t)"
proof (cases "code c < 32")
  case True
  then have "code c div 16 < 16" "code c mod 16 < 16" by auto
  then show ?thesis
    by (auto simp: escape_char_def hex_char_simps piece_of_def unescaped_def)
next
  case False
  then show ?thesis by (auto simp: escape_char_def piece_of_def unescaped_def)
qed

lemma decode_escaped: "decode_string (concat (map escape_char s)) = Some (map piece_of s)"
  by (induction s) (simp_all del: decode_string.simps(2) add: decode_escape_char)

lemma piece_of_cases: "piece_of c = Byte c \<or> piece_of c = Unit (code c) \<and> code c < 32"
  by (auto simp: piece_of_def escape_char_def)

lemma pieces_valid: "validUnicodeScalars (map piece_of s)"
proof (induction s)
  case (Cons c s)
  then show ?case
    using piece_of_cases [of c] by (auto simp: high_surrogate_def low_surrogate_def)
qed simp

lemma string_bytes_unit: "\<not> high_surrogate u \<Longrightarrow> string_bytes (Unit u # ps) = utf8 u @ string_bytes ps"
  by (auto split: list.splits piece.splits)

lemma string_bytes_pieces: "string_bytes (map piece_of s) = s"
proof (induction s)
  case (Cons c s)
  then show ?case
    using piece_of_cases [of c] by (auto simp: string_bytes_unit high_surrogate_def utf8_def simp del: string_bytes.simps(3))
qed simp

lemma stringValue_quote: "stringValue (quote s @ r) = Inr (s, r)"
  by (simp add: stringValue_def quote_def scan_escaped decode_escaped pieces_valid string_bytes_pieces)

section \<open>Values\<close>

text \<open>Values canonical JSON is defined on: safe integers, fractions in ECMAScript's own text.\<close>

fun canonical_numbers :: "json \<Rightarrow> bool" where
  "canonical_numbers (JInt i) \<longleftrightarrow> safe_integer i"
| "canonical_numbers (JFrac t) \<longleftrightarrow> number_text t"
| "canonical_numbers (JArr vs) \<longleftrightarrow> (\<forall>v \<in> set vs. canonical_numbers v)"
| "canonical_numbers (JObj ms) \<longleftrightarrow> (\<forall>m \<in> set ms. canonical_numbers (snd m))"
| "canonical_numbers v \<longleftrightarrow> True"

definition readable :: "json_limits \<Rightarrow> nat \<Rightarrow> json \<Rightarrow> bool" where
  "readable L depth v \<longleftrightarrow> wf_json v \<and> canonical_numbers v \<and> fits L depth v"

lemma space_facts [simp]:
  "\<not> is_space (CHR 0x22)" "\<not> is_space (CHR ''{'')" "\<not> is_space (CHR ''['')" "\<not> is_space (CHR '','')"
  "\<not> is_space (CHR ''}'')" "\<not> is_space (CHR '']'')" "\<not> is_space (CHR '':'')" "\<not> is_space (CHR ''t'')"
  "\<not> is_space (CHR ''f'')" "\<not> is_space (CHR ''n'')" "\<not> is_space (CHR ''-'')"
  by (simp_all add: is_space_def)

lemma whitespace_same [simp]: "\<not> is_space c \<Longrightarrow> whitespace (c # s) = c # s"
  by (simp add: whitespace_def)

lemma quote_head: "quote s = CHR 0x22 # concat (map escape_char s) @ [CHR 0x22]"
  by (simp add: quote_def)

lemma show_int_head: "\<exists>c s. show_int i = c # s \<and> (c = CHR ''-'' \<or> is_digit c)"
  using show_nat_head [of "nat i"] by (auto simp: show_int_def)

lemma number_text_head: "number_text t \<Longrightarrow> \<exists>c s. t = c # s \<and> (c = CHR ''-'' \<or> is_digit c)"
  using scan_number_chars [of t] by (cases t) (auto simp: number_text_def split: option.splits)

lemma read_number:
  assumes "c = CHR ''-'' \<or> is_digit c" and "numberValue (c # s) = Inr (v, r)"
    and "int (Suc n) \<le> jl_maximumNodes L" and "int depth \<le> jl_maximumDepth L"
  shows "read_value L depth (c # s) n = Inr (v, r, Suc n)"
proof -
  have "\<not> is_space c" "c \<noteq> CHR ''{''" "c \<noteq> CHR ''[''" "c \<noteq> CHR 0x22" "c \<noteq> CHR ''t''" "c \<noteq> CHR ''f''" "c \<noteq> CHR ''n''"
    using assms(1) by (auto simp: is_digit_def is_space_def)
  with assms show ?thesis by (simp add: read_value.simps [of L depth "c # s" n] not_less)
qed

lemma read_constant:
  assumes "int (Suc n) \<le> jl_maximumNodes L" and "int depth \<le> jl_maximumDepth L"
  shows "read_value L depth (CHR ''n'' # CHR ''u'' # CHR ''l'' # CHR ''l'' # r) n = Inr (JNull, r, Suc n)"
    and "read_value L depth (CHR ''t'' # CHR ''r'' # CHR ''u'' # CHR ''e'' # r) n = Inr (JBool True, r, Suc n)"
    and "read_value L depth (CHR ''f'' # CHR ''a'' # CHR ''l'' # CHR ''s'' # CHR ''e'' # r) n = Inr (JBool False, r, Suc n)"
  using assms by (simp_all add: read_value.simps [of L depth "c # t" n for c t] literal_def not_less)

lemma rendered_head: "canonical_numbers v \<Longrightarrow> \<exists>c s. rendered v = c # s \<and> \<not> is_space c \<and> c \<noteq> CHR '']'' \<and> c \<noteq> CHR ''}''"
proof (cases v)
  case (JInt i)
  then show ?thesis using show_int_head [of i] by (auto simp: is_digit_def is_space_def)
next
  case (JFrac t)
  moreover assume "canonical_numbers v"
  ultimately show ?thesis using number_text_head [of t] by (auto simp: is_digit_def is_space_def)
qed (auto simp: quote_head)

lemma whitespace_rendered [simp]: "canonical_numbers v \<Longrightarrow> whitespace (rendered v @ r) = rendered v @ r"
  using rendered_head [of v] by auto

lemma stops_simps [simp]: "stops []" "stops (CHR '','' # r)" "stops (CHR '']'' # r)" "stops (CHR ''}'' # r)"
  by (simp_all add: stops_def)

abbreviation reads :: "json_limits \<Rightarrow> nat \<Rightarrow> json \<Rightarrow> bool" where
  "reads L depth v \<equiv> \<forall>r n. stops r \<longrightarrow> int (n + json_nodes v) \<le> jl_maximumNodes L \<longrightarrow>
     read_value L depth (rendered v @ r) n = Inr (v, r, n + json_nodes v)"

lemma read_items_rendered:
  assumes "vs \<noteq> []" and "\<forall>v \<in> set vs. canonical_numbers v \<and> reads L (Suc depth) v"
    and "int (length result + length vs) \<le> jl_maximumArrayItems L"
    and "int (n + sum_list (map json_nodes vs)) \<le> jl_maximumNodes L"
  shows "read_items L depth result (join_commas (map rendered vs) @ CHR '']'' # r) n =
    Inr (JArr (result @ vs), r, n + sum_list (map json_nodes vs))"
  using assms
proof (induction vs arbitrary: result n)
  case (Cons v vs)
  have nonempty: "rendered v \<noteq> []" using rendered_head [of v] Cons.prems by auto
  show ?case
  proof (cases vs)
    case Nil
    with Cons.prems nonempty show ?thesis
      by (simp add: read_items.simps [of L depth result "rendered v @ CHR '']'' # r" n])
  next
    case (Cons w ws)
    let ?t = "join_commas (map rendered (w # ws)) @ CHR '']'' # r"
    have ws: "whitespace ?t = ?t"
      using rendered_head [of w] Cons.prems Cons by (cases ws) auto
    have item: "read_value L (Suc depth) (rendered v @ CHR '','' # ?t) n = Inr (v, CHR '','' # ?t, n + json_nodes v)"
      using Cons.prems by simp
    have "read_items L depth result (rendered v @ CHR '','' # ?t) n
        = read_items L depth (result @ [v]) ?t (n + json_nodes v)"
      using Cons.prems(3) Cons nonempty ws item
      by (simp add: read_items.simps [of L depth result "rendered v @ CHR '','' # ?t" n] del: join_commas.simps list.map)
    also have "\<dots> = Inr (JArr ((result @ [v]) @ vs), r, n + json_nodes v + sum_list (map json_nodes vs))"
      unfolding Cons [symmetric] using Cons.prems Cons by (intro Cons.IH) auto
    finally show ?thesis using Cons by simp
  qed
qed simp

abbreviation member_text :: "string \<times> json \<Rightarrow> string" where
  "member_text m \<equiv> quote (fst m) @ CHR '':'' # rendered (snd m)"

lemma read_members_rendered:
  assumes "ms \<noteq> []" and "\<forall>m \<in> set ms. canonical_numbers (snd m) \<and> reads L (Suc depth) (snd m)"
    and "distinct (map fst (members @ ms))"
    and "int (length members + length ms) \<le> jl_maximumObjectProperties L"
    and "int (n + sum_list (map (\<lambda>m. json_nodes (snd m)) ms)) \<le> jl_maximumNodes L"
  shows "read_members L depth members (join_commas (map member_text ms) @ CHR ''}'' # r) n =
    Inr (JObj (members @ ms), r, n + sum_list (map (\<lambda>m. json_nodes (snd m)) ms))"
  using assms
proof (induction ms arbitrary: members n)
  case (Cons m ms)
  obtain k v where m: "m = (k, v)" by (cases m)
  have fresh: "\<not> hasOwn members k" using Cons.prems m by (auto simp: hasOwn_iff)
  have key: "stringValue (quote k @ t) = Inr (k, t)" for t by (rule stringValue_quote)
  have nonempty: "quote k @ t \<noteq> []" for t by (simp add: quote_head)
  show ?case
  proof (cases ms)
    case Nil
    with Cons.prems m fresh key nonempty show ?thesis
      by (simp add: read_members.simps [of L depth members "quote k @ CHR '':'' # rendered v @ CHR ''}'' # r" n])
  next
    case (Cons m' ms')
    let ?t = "join_commas (map member_text (m' # ms')) @ CHR ''}'' # r"
    have ws: "whitespace ?t = ?t"
      by (cases ms') (simp_all add: quote_head)
    have item: "read_value L (Suc depth) (rendered v @ CHR '','' # ?t) n = Inr (v, CHR '','' # ?t, n + json_nodes v)"
      and skip: "whitespace (rendered v @ CHR '','' # ?t) = rendered v @ CHR '','' # ?t"
      using Cons.prems m by simp_all
    have "read_members L depth members (quote k @ CHR '':'' # rendered v @ CHR '','' # ?t) n
        = read_members L depth (members @ [(k, v)]) ?t (n + json_nodes v)"
      using Cons.prems(4) Cons m fresh key nonempty ws item skip
      by (simp add: read_members.simps [of L depth members "quote k @ CHR '':'' # rendered v @ CHR '','' # ?t" n]
        del: join_commas.simps list.map)
    also have "\<dots> = Inr (JObj ((members @ [(k, v)]) @ ms), r, n + json_nodes v + sum_list (map (\<lambda>m. json_nodes (snd m)) ms))"
      unfolding Cons [symmetric] using Cons.prems Cons m by (intro Cons.IH) auto
    finally show ?thesis using Cons m by simp
  qed
qed simp

lemma read_rendered: "readable L depth v \<Longrightarrow> reads L depth v"
proof (induction v arbitrary: depth)
  case (JInt i)
  obtain c s where "show_int i = c # s" "c = CHR ''-'' \<or> is_digit c" using show_int_head by blast
  with JInt show ?case
    using numberValue_show [of i] by (auto simp: readable_def intro!: read_number)
next
  case (JFrac t)
  then obtain c s where "t = c # s" "c = CHR ''-'' \<or> is_digit c" using number_text_head [of t] by (auto simp: readable_def)
  with JFrac show ?case
    using numberValue_fraction [of t] by (auto simp: readable_def intro!: read_number)
next
  case (JStr s)
  then show ?case
    using stringValue_quote [of s]
    by (auto simp: readable_def quote_head read_value.simps [of L depth "CHR 0x22 # t" n for t n] not_less)
next
  case (JArr vs)
  show ?case
  proof (cases "vs = []")
    case True
    with JArr.prems show ?thesis
      by (auto simp: readable_def read_value.simps [of L depth "CHR ''['' # t" n for t n] not_less)
  next
    case False
    have items: "\<forall>v \<in> set vs. canonical_numbers v \<and> reads L (Suc depth) v"
      using JArr by (auto simp: readable_def)
    obtain v vs' where vs: "vs = v # vs'" using False by (cases vs) auto
    show ?thesis
    proof (intro allI impI)
      fix r n assume "stops r" and nodes: "int (n + json_nodes (JArr vs)) \<le> jl_maximumNodes L"
      let ?t = "join_commas (map rendered vs) @ CHR '']'' # r"
      obtain c s where t: "?t = c # s" "\<not> is_space c" "c \<noteq> CHR '']''"
        using items vs rendered_head [of v] by (cases vs') auto
      have "read_value L depth (CHR ''['' # ?t) n = read_items L depth [] ?t (Suc n)"
        using JArr.prems nodes t by (simp add: read_value.simps [of L depth "CHR ''['' # t" n for t] readable_def not_less)
      also have "\<dots> = Inr (JArr ([] @ vs), r, Suc n + sum_list (map json_nodes vs))"
        using JArr.prems nodes False items by (intro read_items_rendered) (auto simp: readable_def)
      finally show "read_value L depth (rendered (JArr vs) @ r) n = Inr (JArr vs, r, n + json_nodes (JArr vs))" by simp
    qed
  qed
next
  case (JObj ms)
  show ?case
  proof (cases "ms = []")
    case True
    with JObj.prems show ?thesis
      by (auto simp: readable_def read_value.simps [of L depth "CHR ''{'' # t" n for t n] not_less)
  next
    case False
    have items: "\<forall>m \<in> set ms. canonical_numbers (snd m) \<and> reads L (Suc depth) (snd m)"
      using JObj by (fastforce simp: readable_def snds.simps)
    show ?thesis
    proof (intro allI impI)
      fix r n assume "stops r" and nodes: "int (n + json_nodes (JObj ms)) \<le> jl_maximumNodes L"
      let ?t = "join_commas (map member_text ms) @ CHR ''}'' # r"
      obtain c s where t: "?t = c # s" "\<not> is_space c" "c \<noteq> CHR ''}''"
        using False by (cases ms; cases "tl ms") (auto simp: quote_head)
      have "read_value L depth (CHR ''{'' # ?t) n = read_members L depth [] ?t (Suc n)"
        using JObj.prems nodes t by (simp add: read_value.simps [of L depth "CHR ''{'' # t" n for t] readable_def not_less)
      also have "\<dots> = Inr (JObj ([] @ ms), r, Suc n + sum_list (map (\<lambda>m. json_nodes (snd m)) ms))"
        using JObj.prems nodes False items by (intro read_members_rendered) (auto simp: readable_def)
      finally show "read_value L depth (rendered (JObj ms) @ r) n = Inr (JObj ms, r, n + json_nodes (JObj ms))"
        by (simp add: case_prod_unfold)
    qed
  qed
qed (auto simp: readable_def read_constant)

section \<open>Canonical text\<close>

lemma canonical_numbers_form [simp]: "canonical_numbers (canonical_form v) = canonical_numbers v"
  by (induction v) (auto simp: case_prod_unfold)

lemma json_nodes_form [simp]: "json_nodes (canonical_form v) = json_nodes v"
proof (induction v)
  case (JArr vs)
  then show ?case by (simp add: comp_def) (intro arg_cong [where f = sum_list] map_cong, auto)
next
  case (JObj ms)
  then have "map (\<lambda>m. json_nodes (canonical_form (snd m))) ms = map (\<lambda>m. json_nodes (snd m)) ms"
    by (auto simp: snds.simps)
  then show ?case by (simp add: comp_def case_prod_unfold del: map_eq_conv)
qed simp_all

lemma sort_by_Nil [simp]: "sort_by le xs = [] \<longleftrightarrow> xs = []"
  by (metis length_0_conv length_sort_by)

lemma fits_form [simp]: "fits L depth (canonical_form v) = fits L depth v"
proof (induction v arbitrary: depth)
  case (JObj ms)
  then have "(\<forall>m \<in> set ms. fits L (Suc depth) (canonical_form (snd m))) = (\<forall>m \<in> set ms. fits L (Suc depth) (snd m))"
    by (auto simp: snds.simps)
  then show ?case by (simp add: case_prod_unfold)
qed simp_all

lemma mset_insert_by: "mset (insert_by le x xs) = add_mset x (mset xs)"
  by (induction xs) auto

lemma mset_sort_by [simp]: "mset (sort_by le xs) = mset xs"
  by (induction xs) (simp_all add: sort_by_def mset_insert_by)

lemma distinct_map_sort_by [simp]: "distinct (map f (sort_by le xs)) = distinct (map f xs)"
  by (metis mset_map mset_sort_by mset_eq_imp_distinct_iff)

lemma wf_json_form [simp]: "wf_json (canonical_form v) = wf_json v"
proof (induction v)
  case (JObj ms)
  then show ?case by (auto simp: case_prod_unfold comp_def snds.simps)
qed simp_all

lemma escaped_printable: "x \<in> set (escape_char c) \<Longrightarrow> 32 \<le> code x"
proof -
  have hex: "32 \<le> code (hex_char d)" if "d < 16" for d
    using that by (auto simp: hex_char_def take_bit_nat_eq_self)
  assume "x \<in> set (escape_char c)"
  then show ?thesis
  proof (cases "code c < 32")
    case True
    then have "code c div 16 < 16" "code c mod 16 < 16" by auto
    from hex [OF this(1)] hex [OF this(2)] \<open>x \<in> set (escape_char c)\<close> True show ?thesis
      by (auto simp: escape_char_def split: if_splits)
  next
    case False
    with \<open>x \<in> set (escape_char c)\<close> show ?thesis by (auto simp: escape_char_def split: if_splits)
  qed
qed

lemma quote_printable: "x \<in> set (quote s) \<Longrightarrow> 32 \<le> code x"
  by (auto simp: quote_def dest: escaped_printable)

lemma join_commas_set: "x \<in> set (join_commas ts) \<Longrightarrow> x = CHR '','' \<or> (\<exists>t \<in> set ts. x \<in> set t)"
  by (induction ts rule: join_commas.induct) auto

lemma number_char_printable: "number_char x \<Longrightarrow> 32 \<le> code x"
  by (auto simp: number_char_def is_digit_def)

lemma show_int_printable: "x \<in> set (show_int i) \<Longrightarrow> 32 \<le> code x"
  using show_nat_digits [of "nat i"] show_nat_digits [of "nat (- i)"]
  by (auto simp: show_int_def list_all_iff is_digit_def split: if_splits)

lemma rendered_printable: "canonical_numbers v \<Longrightarrow> x \<in> set (rendered v) \<Longrightarrow> 32 \<le> code x"
proof (induction v)
  case (JInt i)
  then show ?case by (simp add: show_int_printable)
next
  case (JFrac t)
  then show ?case
    using scan_number_chars(1) [of t] number_char_printable
    by (fastforce simp: number_text_def split: option.splits)
next
  case (JStr s)
  then show ?case by (simp add: quote_printable)
next
  case (JArr vs)
  then show ?case by (auto dest!: join_commas_set)
next
  case (JObj ms)
  then show ?case by (fastforce simp: snds.simps dest!: join_commas_set dest: quote_printable)
qed (auto split: if_splits)

lemma strict_reads_canonical:
  assumes "wf_json v" and "canonical_numbers v"
    and "limits_ok (json_limits_of options)" and "fits (json_limits_of options) 1 v"
    and "int (json_nodes v) \<le> jl_maximumNodes (json_limits_of options)"
    and "int (length (canonicalize v)) \<le> jl_maximumBytes (json_limits_of options)"
  shows "parseStrictJson (canonicalize v) options = Inr (canonical_form v)"
proof -
  let ?L = "json_limits_of options"
  have "readable ?L 1 (canonical_form v)" using assms by (simp add: readable_def)
  then have "read_value ?L 1 (rendered (canonical_form v) @ []) 0 = Inr (canonical_form v, [], 0 + json_nodes (canonical_form v))"
    using assms(5) by (intro read_rendered [rule_format]) simp_all
  moreover have "CHR 0x00 \<notin> set (rendered (canonical_form v))"
    using rendered_printable [of "canonical_form v" "CHR 0x00"] assms(2) by auto
  ultimately show ?thesis
    using assms(3,6) by (simp add: parseStrictJson_def Let_def canonicalize_form not_less whitespace_def)
qed

lemma sum_list_length: "(\<And>x. x \<in> set xs \<Longrightarrow> 0 < f x) \<Longrightarrow> length xs \<le> sum_list (map (f :: _ \<Rightarrow> nat) xs)"
  by (induction xs) fastforce+

lemma fits_by_size:
  "int (depth + json_nodes v) \<le> jl_maximumDepth L + 1 \<Longrightarrow> int (json_nodes v) \<le> jl_maximumArrayItems L \<Longrightarrow>
    int (json_nodes v) \<le> jl_maximumObjectProperties L \<Longrightarrow> fits L depth v"
proof (induction v arbitrary: depth)
  case (JArr vs)
  have "json_nodes v \<le> sum_list (map json_nodes vs)" if "v \<in> set vs" for v
    using that by (intro member_le_sum_list) auto
  with JArr show ?case using sum_list_length [of vs json_nodes] by fastforce
next
  case (JObj ms)
  have "json_nodes (snd m) \<le> sum_list (map (\<lambda>m. json_nodes (snd m)) ms)" if "m \<in> set ms" for m
    using that by (intro member_le_sum_list) auto
  with JObj show ?case using sum_list_length [of ms "\<lambda>m. json_nodes (snd m)"] by (fastforce simp: snds.simps)
qed auto

lemma canonicalize_inject:
  assumes "canonicalize v = canonicalize w"
    and "wf_json v" and "canonical_numbers v" and "wf_json w" and "canonical_numbers w"
  shows "canonical_form v = canonical_form w"
proof -
  define k where "k = int (json_nodes v + json_nodes w)"
  define L where "L = \<lparr>jl_maximumBytes = 0, jl_maximumDepth = k, jl_maximumNodes = k,
    jl_maximumObjectProperties = k, jl_maximumArrayItems = k\<rparr>"
  have read: "read_value L 1 (canonicalize u @ []) 0 = Inr (canonical_form u, [], json_nodes u)"
    if "u \<in> {v, w}" for u
  proof -
    have "readable L 1 (canonical_form u)"
      using assms that by (auto simp: readable_def L_def k_def intro!: fits_by_size)
    from read_rendered [OF this, rule_format, of "[]" 0] that show ?thesis
      by (auto simp: canonicalize_form L_def k_def)
  qed
  show ?thesis using read [of v] read [of w] assms(1) by simp
qed

end
