(* ===== verification/Json_Order.thy ===== *)
theory Json_Order
  imports Strict_Roundtrip
begin

text \<open>
  The two orders of strings are total orders, so sorting by distinct keys does not depend on
  the order of the input: canonical text and canonical form forget the order of members and
  nothing else.
\<close>

section \<open>Total orders\<close>

lemma utf16_rank_inject: "utf16_rank a = utf16_rank b \<longleftrightarrow> a = b"
proof
  assume "utf16_rank a = utf16_rank b"
  then have "code a = code b"
    by (auto simp: utf16_rank_def simp del: of_char_eq_iff split: if_splits)
  then show "a = b" by simp
qed simp

lemma utf16_le_Nil: "utf16_le a [] \<longleftrightarrow> a = []"
  by (cases a) simp_all

lemma utf16_le_antisym: "utf16_le a b \<Longrightarrow> utf16_le b a \<Longrightarrow> a = b"
  by (induction a b rule: utf16_le.induct) (auto simp: utf16_rank_inject utf16_le_Nil split: if_splits)

lemma utf16_le_total: "utf16_le a b \<or> utf16_le b a"
  by (induction a b rule: utf16_le.induct) (auto split: if_splits)

lemma utf16_le_trans: "utf16_le a b \<Longrightarrow> utf16_le b c \<Longrightarrow> utf16_le a c"
proof (induction a b arbitrary: c rule: utf16_le.induct)
  case (3 a as b bs)
  then show ?case by (cases c) (auto split: if_splits)
qed auto

text \<open>An order on keys, as the sorts of the program use it.\<close>

locale key_order =
  fixes le :: "'k \<Rightarrow> 'k \<Rightarrow> bool"
  assumes antisym: "le a b \<Longrightarrow> le b a \<Longrightarrow> a = b"
    and total: "le a b \<or> le b a"
    and trans: "le a b \<Longrightarrow> le b c \<Longrightarrow> le a c"
begin

abbreviation sort_on :: "('a \<Rightarrow> 'k) \<Rightarrow> 'a list \<Rightarrow> 'a list" where
  "sort_on key \<equiv> sort_by (\<lambda>x y. le (key x) (key y))"

lemma sorted_insert: "sorted_wrt (\<lambda>x y. le (key x) (key y)) xs \<Longrightarrow>
    sorted_wrt (\<lambda>x y. le (key x) (key y)) (insert_by (\<lambda>x y. le (key x) (key y)) x xs)"
proof (induction xs)
  case (Cons a xs)
  then show ?case using total [of "key x" "key a"] by (auto intro: trans)
qed simp

lemma sorted_sort: "sorted_wrt (\<lambda>x y. le (key x) (key y)) (sort_on key xs)"
  by (induction xs) (simp_all add: sort_by_def sorted_insert)

lemma sorted_unique:
  "sorted_wrt (\<lambda>x y. le (key x) (key y)) xs \<Longrightarrow> sorted_wrt (\<lambda>x y. le (key x) (key y)) ys \<Longrightarrow>
    distinct (map key xs) \<Longrightarrow> mset xs = mset ys \<Longrightarrow> xs = ys"
proof (induction xs arbitrary: ys)
  case (Cons x xs)
  then obtain y zs where ys: "ys = y # zs" by (cases ys) auto
  have "x = y"
  proof (rule ccontr)
    assume "x \<noteq> y"
    from Cons.prems(4) have "set (x # xs) = set ys" by (metis set_mset_mset)
    with ys \<open>x \<noteq> y\<close> have "x \<in> set zs" "y \<in> set xs" by auto
    then have "key x = key y" using Cons.prems(1,2) ys antisym by auto
    with \<open>y \<in> set xs\<close> Cons.prems(3) show False by (metis distinct.simps(2) image_eqI list.set_map list.simps(9))
  qed
  with Cons ys show ?case by auto
qed simp

lemma sort_on_permutation:
  assumes "mset xs = mset ys" and "distinct (map key xs)"
  shows "sort_on key xs = sort_on key ys"
  using assms by (intro sorted_unique [of key] sorted_sort) simp_all

end

interpretation units: key_order utf16_le
proof
  fix a b c
  show "a = b" if "utf16_le a b" "utf16_le b a" using that by (rule utf16_le_antisym)
  show "utf16_le a b \<or> utf16_le b a" by (rule utf16_le_total)
  show "utf16_le a c" if "utf16_le a b" "utf16_le b c" using that by (rule utf16_le_trans)
qed

interpretation points: key_order "\<lambda>a b. compareCodePoints a b \<le> 0"
proof
  fix a b c
  show "a = b" if "compareCodePoints a b \<le> 0" "compareCodePoints b a \<le> 0"
    using that compareCodePoints_antisym [of a b] by (metis add_nonpos_eq_0_iff compareCodePoints_eq_0)
  show "compareCodePoints a b \<le> 0 \<or> compareCodePoints b a \<le> 0"
    using compareCodePoints_antisym [of a b] by linarith
  show "compareCodePoints a c \<le> 0" if "compareCodePoints a b \<le> 0" "compareCodePoints b c \<le> 0"
    using that by (rule compareCodePoints_trans)
qed

section \<open>Equality up to the order of members\<close>

function json_same :: "json \<Rightarrow> json \<Rightarrow> bool" where
  "json_same v w =
     (case (v, w) of
        (JArr vs, JArr ws) \<Rightarrow> length vs = length ws \<and> (\<forall>(a, b) \<in> set (zip vs ws). json_same a b)
      | (JObj ms, JObj ns) \<Rightarrow> length ms = length ns \<and>
          (\<forall>m \<in> set ms. case map_of ns (fst m) of None \<Rightarrow> False | Some b \<Rightarrow> json_same (snd m) b)
      | _ \<Rightarrow> v = w)"
  by pat_completeness auto

termination
proof (relation "measure (\<lambda>(v, w). size v)", goal_cases)
  case (2 v w x y vs ws z a b)
  then have "a \<in> set vs" by (auto dest: set_zip_leftD)
  then have "size a \<le> size_list size vs" by (rule size_list_estimation') simp
  with 2 show ?case by auto
next
  case (3 v w x y ms ns m)
  have "size (snd m) \<le> size_list (size_prod (\<lambda>_. 0) size) ms"
    by (rule size_list_estimation' [of m]) (use 3 in \<open>auto simp: prod.size_gen(1) [of _ _ "fst m" "snd m", simplified]\<close>)
  with 3 show ?case by auto
qed simp

declare json_same.simps [simp del]

lemma list_all2_zip: "list_all2 R vs ws \<longleftrightarrow> length vs = length ws \<and> (\<forall>(a, b) \<in> set (zip vs ws). R a b)"
  by (auto simp: list_all2_iff)

definition formed :: "jobject \<Rightarrow> jobject" where
  "formed ms = map (\<lambda>(k, v). (k, canonical_form v)) ms"

lemma formed_keys [simp]: "map fst (formed ms) = map fst ms"
  by (simp add: formed_def case_prod_unfold comp_def)

lemma form_object: "canonical_form (JObj ms) = JObj (units.sort_on fst (formed ms))"
  by (simp add: formed_def)

lemma map_of_formed: "map_of (formed ms) k = map_option canonical_form (map_of ms k)"
  by (induction ms) (auto simp: formed_def)

lemma form_object_eq:
  assumes "distinct (map fst ms)" and "distinct (map fst ns)"
  shows "canonical_form (JObj ms) = canonical_form (JObj ns) \<longleftrightarrow> length ms = length ns \<and>
    (\<forall>m \<in> set ms. \<exists>w. map_of ns (fst m) = Some w \<and> canonical_form (snd m) = canonical_form w)"
proof -
  have "canonical_form (JObj ms) = canonical_form (JObj ns) \<longleftrightarrow> mset (formed ms) = mset (formed ns)"
    unfolding form_object json.inject
    using units.sort_on_permutation [of "formed ms" "formed ns" fst] assms(1)
    by (metis formed_keys mset_sort_by)
  also have "\<dots> \<longleftrightarrow> set (formed ms) = set (formed ns)"
    using assms by (intro set_eq_iff_mset_eq_distinct [symmetric]) (metis distinct_map formed_keys)+
  also have "\<dots> \<longleftrightarrow> length ms = length ns \<and> set (formed ms) \<subseteq> set (formed ns)"
  proof
    have card: "card (set (formed ks)) = length ks" if "distinct (map fst ks)" for ks
      using that by (metis distinct_card distinct_map formed_def formed_keys length_map)
    show "length ms = length ns \<and> set (formed ms) \<subseteq> set (formed ns)" if "set (formed ms) = set (formed ns)"
      using that card assms by (metis order_refl)
    show "set (formed ms) = set (formed ns)" if "length ms = length ns \<and> set (formed ms) \<subseteq> set (formed ns)"
      using that card assms by (metis card_subset_eq finite_set)
  qed
  also have "set (formed ms) \<subseteq> set (formed ns) \<longleftrightarrow>
      (\<forall>m \<in> set ms. \<exists>w. map_of ns (fst m) = Some w \<and> canonical_form (snd m) = canonical_form w)"
  proof -
    have "(k, u) \<in> set (formed ns) \<longleftrightarrow> (\<exists>w. map_of ns k = Some w \<and> u = canonical_form w)" for k u
      using map_of_formed [of ns k] assms(2) by (metis (no_types, lifting) formed_keys map_of_eq_Some_iff map_option_eq_Some)
    then show ?thesis unfolding formed_def [of ms] by (auto simp: subset_eq)
  qed
  finally show ?thesis .
qed

lemma canonical_form_same: "wf_json v \<Longrightarrow> wf_json w \<Longrightarrow> canonical_form v = canonical_form w \<longleftrightarrow> json_same v w"
proof (induction v w rule: json_same.induct)
  case (1 v w)
  note items = "1.IH"(1) and members = "1.IH"(2)
  show ?case
  proof (cases v)
    case v: (JArr vs)
    show ?thesis
    proof (cases w)
      case w: (JArr ws)
      have "a \<in> set vs \<and> b \<in> set ws" if "(a, b) \<in> set (zip vs ws)" for a b
        using that by (auto dest: set_zip_leftD set_zip_rightD)
      then have "(canonical_form a = canonical_form b) = json_same a b" if "(a, b) \<in> set (zip vs ws)" for a b
        using that items [of v w vs ws "(a, b)" a b] "1.prems" v w by auto
      moreover have "canonical_form v = canonical_form w \<longleftrightarrow> list_all2 (\<lambda>a b. canonical_form a = canonical_form b) vs ws"
        by (simp add: v w list.rel_eq [symmetric] list_all2_map1 list_all2_map2)
      ultimately show ?thesis unfolding json_same.simps [of v w] by (auto simp: v w list_all2_zip)
    qed (simp_all add: v json_same.simps)
  next
    case v: (JObj ms)
    show ?thesis
    proof (cases w)
      case w: (JObj ns)
      have "(canonical_form (snd m) = canonical_form b) = json_same (snd m) b"
        if "m \<in> set ms" "map_of ns (fst m) = Some b" for m b
      proof -
        have "wf_json b" using map_of_SomeD [OF that(2)] "1.prems" w by auto
        then show ?thesis using that members [of v w ms ns m b] "1.prems" v w by auto
      qed
      then have "(\<exists>b. map_of ns (fst m) = Some b \<and> canonical_form (snd m) = canonical_form b) =
          (case map_of ns (fst m) of None \<Rightarrow> False | Some b \<Rightarrow> json_same (snd m) b)" if "m \<in> set ms" for m
        using that by (cases "map_of ns (fst m)") (auto simp del: map_of_eq_Some_iff)
      moreover have "distinct (map fst ms)" "distinct (map fst ns)" using "1.prems" v w by simp_all
      ultimately show ?thesis
        unfolding v w json_same.simps [of "JObj ms" "JObj ns"] by (simp only: form_object_eq split: prod.split json.split) simp
    qed (simp_all add: v json_same.simps)
  qed (cases w; simp add: json_same.simps)+
qed

lemma canonicalize_same:
  assumes "wf_json v" and "canonical_numbers v" and "wf_json w" and "canonical_numbers w"
  shows "canonicalize v = canonicalize w \<longleftrightarrow> json_same v w"
proof -
  have "canonicalize v = canonicalize w \<longleftrightarrow> canonical_form v = canonical_form w"
    using canonicalize_inject [of v w] assms by (auto simp: canonicalize_form)
  with canonical_form_same assms show ?thesis by simp
qed

end
