(* ===== verification/Evidence_Order.thy ===== *)
theory Evidence_Order
  imports Evidence_Support Json_Order
begin

text \<open>
  The assessment does not depend on the order in which the Check Receipts are listed, and
  what it says about uncertainty follows from the review.
\<close>

lemma mapE_ok: "(\<exists>ys. mapE f xs = Inr ys) \<longleftrightarrow> (\<forall>x \<in> set xs. \<exists>y. f x = Inr y)"
  by (induction xs) (auto simp: res_simps)

lemma mapE_units: "(mapE f xs = Inr us) \<longleftrightarrow> us = map (\<lambda>_. ()) xs \<and> (\<forall>x \<in> set xs. f x = Inr ())"
  by (induction xs arbitrary: us) (auto simp: res_simps)

lemma find_coordinate:
  assumes "distinct (map key xs)" and "mset xs = mset ys"
  shows "find (\<lambda>x. key x = k) xs = find (\<lambda>x. key x = k) ys"
proof -
  have "distinct (map key ys)" using assms by (metis mset_eq_imp_distinct_iff mset_map)
  then have "find (\<lambda>x. key x = k) xs = Some x \<longleftrightarrow> find (\<lambda>x. key x = k) ys = Some x" for x
    using assms find_distinct by (metis set_mset_mset)
  then show ?thesis by (metis not_None_eq)
qed

lemma receiptLedgers_permutation:
  assumes "receiptLedgers P facts checks evaluatedAt = Inr l" and perm: "mset checks = mset checks'"
    and "distinct (map (\<lambda>c. tgt_id (rc_reference c)) checks)"
  shows "receiptLedgers P facts checks' evaluatedAt = Inr l"
proof -
  let ?match = "\<lambda>check. case last_by sel_id (er_checks facts) (rc_selectionId check) of
          None \<Rightarrow> Inl (EvidencePacket ''check'')
        | Some selection \<Rightarrow> checkMatchesSelection P check selection"
  have same: "set checks' = set checks" using perm by (metis set_mset_mset)
  from assms(1) obtain uses where dist: "distinct (map coordinate checks)"
    and match: "\<forall>c \<in> set checks. ?match c = Inr ()"
    and uses: "mapE (\<lambda>(selection, phase). receiptUse P checks evaluatedAt selection phase)
        (List.product (er_checks facts) [''baseline'', ''final'']) = Inr uses"
    and l: "l = \<lparr>rl_entries = sort_on_units re_id (map fst uses),
       rl_usedChecks = sort_on_units (\<lambda>c. tgt_id (rc_reference c)) checks,
       rl_completeAndLegal = list_all snd uses\<rparr>"
    by (auto simp: receiptLedgers_def res_simps mapE_units)
  have "distinct (map coordinate checks')" using dist perm by (metis mset_eq_imp_distinct_iff mset_map)
  moreover have "mapE ?match checks' = Inr (map (\<lambda>_. ()) checks')"
    using match same by (simp add: mapE_units)
  moreover have "(\<lambda>(selection, phase). receiptUse P checks' evaluatedAt selection phase) =
      (\<lambda>(selection, phase). receiptUse P checks evaluatedAt selection phase)"
    by (intro ext) (auto simp: receiptUse_def find_coordinate [OF dist perm])
  moreover have "sort_on_units (\<lambda>c. tgt_id (rc_reference c)) checks' = sort_on_units (\<lambda>c. tgt_id (rc_reference c)) checks"
    unfolding sort_on_units_def by (rule units.sort_on_permutation [OF perm assms(3), symmetric])
  ultimately show ?thesis using uses l by (simp add: receiptLedgers_def)
qed

lemma assertEvidenceInput_permutation:
  assumes "assertEvidenceInput P input = Inr u" and "mset (in_checks input) = mset checks'"
  shows "assertEvidenceInput P (input\<lparr>in_checks := checks'\<rparr>) = Inr u"
proof -
  have "set checks' = set (in_checks input)" "length checks' = length (in_checks input)"
    using assms(2) by (metis set_mset_mset, metis size_mset)
  moreover have "assertSubjects (input\<lparr>in_checks := checks'\<rparr>) = assertSubjects input"
    "diagnostics_of (input\<lparr>in_checks := checks'\<rparr>) = diagnostics_of input"
    by (simp_all add: assertSubjects_def diagnostics_of_def)
  ultimately show ?thesis using assms(1)
    by (auto simp: assertEvidenceInput_def res_simps mapE_units)
qed

lemma assessment_permutation:
  assumes "assessFoundationEvidenceV1 P input = Inr a" and perm: "mset (in_checks input) = mset checks'"
    and ids: "distinct (map (\<lambda>c. tgt_id (rc_reference c)) (in_checks input))"
  shows "assessFoundationEvidenceV1 P (input\<lparr>in_checks := checks'\<rparr>) = Inr a"
proof -
  have same: "reviewerIndependence P (input\<lparr>in_checks := checks'\<rparr>) = reviewerIndependence P input"
    "evidenceSupported (input\<lparr>in_checks := checks'\<rparr>) l v ps as ds is os = evidenceSupported input l v ps as ds is os"
    for l v ps as ds "is" os
    by (auto simp: reviewerIndependence_def evidenceSupported_def diagnostics_of_def fun_eq_iff)
  from assms(1) obtain r where r: "receiptLedgers P (in_requirements input) (in_checks input) (eo_evaluatedAt (in_observation input)) = Inr r"
    and i: "assertEvidenceInput P input = Inr ()" and t: "date_parse (eo_evaluatedAt (in_observation input)) \<noteq> None"
    by (rule assessment_parts)
  have "evidence_timestamp (eo_evaluatedAt (in_observation input)) = Inr (eo_evaluatedAt (in_observation input))"
    using t by (simp add: evidence_timestamp_def failIf_def)
  then have "assessFoundationEvidenceV1 P (input\<lparr>in_checks := checks'\<rparr>) = assessFoundationEvidenceV1 P input"
    using receiptLedgers_permutation [OF r perm ids] r assertEvidenceInput_permutation [OF i perm] i same
    by (simp add: assessFoundationEvidenceV1_def Let_def cong: if_cong)
  with assms(1) show ?thesis by simp
qed

section \<open>Uncertainty\<close>

lemma bind_Inr_last: "bindE m (\<lambda>x. Inr (f x)) = Inr y \<Longrightarrow> \<exists>x. y = f x"
  by (auto simp: bindE_eq_Inr)

lemma supported_uncertainty:
  assumes "assessFoundationEvidenceV1 P input = Inr a" and "as_disposition a = ''supported''"
  shows "un_level (as_uncertainty a) =
    (if \<exists>j \<in> set (rf_judgments (in_review input)). rj_uncertainty j = ''unknown'' then ''unknown''
     else if rf_overallUncertainty (in_review input) = ''bounded'' \<or>
       (\<exists>j \<in> set (rf_judgments (in_review input)). rj_uncertainty j = ''bounded'') then ''bounded''
     else ''none'')"
proof -
  from assms(1) obtain receipt review where
      V: "reviewJudgments P (in_review input) (in_requirements input) (rl_usedChecks receipt) = Inr review"
    and U: "uncertaintyLevel review (as_obligations a) (as_independence a) = Inr (as_uncertainty a)"
    and disp: "as_disposition a =
       (if reviewRequiresMandateResolutionV1 review then ''mandate-resolution-required''
        else if evidenceSupported input receipt review (as_propositions a) (as_artifacts a) (as_descriptions a)
          (as_independence a) (as_obligations a) then ''supported''
        else if un_level (as_uncertainty a) = ''unknown'' then ''indeterminate'' else ''unmet'')"
    by (rule assessment_parts)
  note rv = reviewJudgments_facts [OF V]
  from disp assms(2) have nr: "\<not> reviewRequiresMandateResolutionV1 review"
    and S: "evidenceSupported input receipt review (as_propositions a) (as_artifacts a) (as_descriptions a)
          (as_independence a) (as_obligations a)"
    by (auto split: if_splits)
  have j: "(\<exists>j \<in> set (ar_judgments review). rj_uncertainty j = u) \<longleftrightarrow>
      (\<exists>j \<in> set (rf_judgments (in_review input)). rj_uncertainty j = u)" for u
    using rv(3) [of "\<lambda>_ _ w. w \<noteq> u"] by blast
  have j': "u \<in> set (map rj_uncertainty (ar_judgments review)) \<longleftrightarrow>
      (\<exists>j \<in> set (rf_judgments (in_review input)). rj_uncertainty j = u)" for u
    using j [of u] by auto
  from S have mandate: "ap_disposition (ar_mandateApplicability review) \<noteq> ''indeterminate''"
    and baseline: "\<not> list_ex (\<lambda>a. ap_disposition a = ''indeterminate'') (ar_baselineApplicability review)"
    and overall: "ar_overallUncertainty review \<noteq> ''unknown''"
    and obligations: "\<not> list_ex (\<lambda>e. oe_state e \<in> {''indeterminate'', ''missing'', ''stale'', ''unsupported''}) (as_obligations a)"
    and independent: "\<not> list_ex (\<lambda>e. ie_state e = ''indeterminate'') (as_independence a)"
    by (auto simp: evidenceSupported_def list_ex_iff list_all_iff)
  let ?level = "if ''unknown'' \<in> set (map rj_uncertainty (ar_judgments review)) then ''unknown''
      else if ar_overallUncertainty review = ''bounded'' \<or> ''bounded'' \<in> set (map rj_uncertainty (ar_judgments review))
        then ''bounded'' else ''none''"
  have "uncertaintyLevel review (as_obligations a) (as_independence a) =
      bindE (evidence_sortedIds 4096 (map rj_id (filter (\<lambda>j. rj_uncertainty j \<noteq> ''none'') (ar_judgments review)) @
            map oe_id (filter (\<lambda>e. oe_state e \<noteq> ''satisfied'' \<and> oe_state e \<noteq> ''not-applicable'') (as_obligations a)) @
            map ie_id (filter (\<lambda>e. ie_state e \<noteq> ''satisfied'') (as_independence a))))
        (\<lambda>itemIds. Inr \<lparr>un_level = ?level, un_itemIds = itemIds\<rparr>)"
    unfolding uncertaintyLevel_def Let_def
    by (simp only: nr mandate baseline overall obligations independent simp_thms if_False)
  from bind_Inr_last [OF trans [OF this [symmetric] U]]
  obtain ids where "as_uncertainty a = \<lparr>un_level = ?level, un_itemIds = ids\<rparr>" by (elim exE)
  then have "un_level (as_uncertainty a) = ?level" by simp
  then show ?thesis unfolding j' rv(6) .
qed

end
