(* ===== verification/Evidence_Paths.thy ===== *)
theory Evidence_Paths
  imports Evidence_Facts
begin

text \<open>
  What \<open>PATH_PATTERN\<close> admits: on text without U+2028 and U+2029, paths whose segments are
  neither empty (but for a last one) nor a parent; after the first of these separators,
  anything without control characters.
\<close>

fun segments :: "nat list \<Rightarrow> nat list list" where
  "segments [] = [[]]"
| "segments (a # s) = (if a = 47 then [] # segments s else (a # hd (segments s)) # tl (segments s))"

fun separators :: "nat list \<Rightarrow> bool" where
  "separators [] = False"
| "separators (a # s) = (at_line_separator (a # s) \<or> separators s)"

definition printable :: "nat list \<Rightarrow> bool" where
  "printable s \<longleftrightarrow> list_all (\<lambda>a. 32 \<le> a \<and> a \<noteq> 127) s"

lemma segments_nonempty [simp]: "segments s \<noteq> []"
  by (cases s) simp_all

lemma segments_cons: "a \<noteq> 47 \<Longrightarrow> \<exists>x xs. segments s = x # xs \<and> segments (a # s) = (a # x) # xs"
  by (cases "segments s") simp_all

lemma parent_segment_iff: "parent_segment s \<longleftrightarrow> hd (segments s) = [46, 46]"
proof -
  consider "s = []" | a where "s = [a]" | a b r where "s = a # b # r" by (cases s rule: remdups_adj.cases) auto
  then show ?thesis
  proof cases
    case 3
    have "hd (segments r) = [] \<longleftrightarrow> r = [] \<or> hd r = 47" by (cases r) auto
    with 3 show ?thesis by (auto simp: parent_segment_def)
  qed (auto simp: parent_segment_def)
qed

lemma ahead_parent:
  "\<not> separators s \<Longrightarrow> ahead (\<lambda>r. r \<noteq> [] \<and> hd r = 47 \<and> parent_segment (tl r)) s \<longleftrightarrow> [46, 46] \<in> set (tl (segments s))"
proof (induction s)
  case (Cons a s)
  obtain x xs where "segments s = x # xs" by (cases "segments s") auto
  with Cons show ?case by (auto simp: parent_segment_iff)
qed simp

lemma ahead_empty:
  "\<not> separators s \<Longrightarrow> ahead (\<lambda>r. take 2 r = [47, 47]) s \<longleftrightarrow> [] \<in> set (tl (butlast (segments s)))"
proof (induction s)
  case (Cons a s)
  obtain x xs where x: "segments s = x # xs" by (cases "segments s") auto
  have "take 2 (a # s) = [47, 47] \<longleftrightarrow> a = 47 \<and> x = [] \<and> xs \<noteq> []"
    using x by (cases s) (auto split: if_splits)
  with Cons x show ?case by (cases xs) auto
qed simp

lemma path_pattern_segments:
  assumes "\<not> separators (map of_char value)"
  shows "path_pattern value \<longleftrightarrow> value \<noteq> [] \<and> [] \<notin> set (butlast (segments (map of_char value))) \<and>
    [46, 46] \<notin> set (segments (map of_char value)) \<and> printable (map of_char value)"
proof (cases "value")
  case (Cons c cs)
  let ?s = "map of_char value :: nat list"
  obtain x xs where x: "segments ?s = x # xs" by (cases "segments ?s") auto
  have head: "hd ?s = 47 \<longleftrightarrow> x = [] \<and> xs \<noteq> []" and alone: "xs = [] \<Longrightarrow> x \<noteq> []"
    using x Cons by (auto split: if_splits)
  have "[] \<in> set (butlast (x # xs)) \<longleftrightarrow> x = [] \<and> xs \<noteq> [] \<or> [] \<in> set (tl (butlast (x # xs)))"
    by auto
  with head show ?thesis
    using ahead_parent [OF assms] ahead_empty [OF assms] x Cons
    by (simp add: path_pattern_def Let_def parent_segment_iff printable_def del: list.simps segments.simps) auto
qed (simp add: path_pattern_def)

text \<open>After a line separator nothing but control characters is refused.\<close>

lemma path_pattern_separator:
  assumes "map of_char separator = [226, 128, 168 :: nat] \<or> map of_char separator = [226, 128, 169 :: nat]"
  shows "path_pattern (''a'' @ separator @ rest) \<longleftrightarrow> printable (map of_char rest)"
  using assms by (auto simp: path_pattern_def Let_def parent_segment_def printable_def)

end
