(* ===== verification/Json_Scenario.thy ===== *)
theory Json_Scenario
  imports Json_Order
begin

text \<open>A JSON value, its canonical text and the default options of the reader.\<close>

definition default_options :: json_options where
  "default_options = \<lparr>jo_maximumBytes = None, jo_maximumDepth = None, jo_maximumNodes = None,
     jo_maximumObjectProperties = None, jo_maximumArrayItems = None\<rparr>"

definition demo_value :: json where
  "demo_value = JObj [(''b'', JArr [JInt 1, JNull]), (''a'', JStr ''x'')]"

definition demo_text :: string where
  "demo_text = CHR ''{'' # CHR 0x22 # ''a'' @ CHR 0x22 # '':'' @ CHR 0x22 # ''x'' @ CHR 0x22 # '','' @
     CHR 0x22 # ''b'' @ CHR 0x22 # '':[1,null]}''"

lemmas default_limits = default_options_def json_limits_of_def limits_ok_def limit_or_def safe_integer_def
  DEFAULT_MAXIMUM_DEPTH_def DEFAULT_MAXIMUM_NODES_def DEFAULT_MAXIMUM_OBJECT_PROPERTIES_def DEFAULT_MAXIMUM_ARRAY_ITEMS_def

lemma digit_char_1: "digit_char (Suc 0) = CHR ''1''"
  using char_of_char [of "CHR ''1''"] by (simp add: digit_char_def)

lemma demo_canonical: "canonicalize demo_value = demo_text"
  by (simp add: demo_value_def demo_text_def quote_def escape_char_def show_int_def show_nat.simps digit_char_1 sort_by_def
    utf16_rank_def)

lemma demo_form: "canonical_form demo_value = JObj [(''a'', JStr ''x''), (''b'', JArr [JInt 1, JNull])]"
  by (simp add: demo_value_def sort_by_def utf16_rank_def)

lemma demo_value_facts:
  "wf_json demo_value" "canonical_numbers demo_value" "limits_ok (json_limits_of default_options)"
  "fits (json_limits_of default_options) 1 demo_value"
  "int (json_nodes demo_value) \<le> jl_maximumNodes (json_limits_of default_options)"
  "int (length demo_text) \<le> jl_maximumBytes (json_limits_of default_options)"
  by (simp_all add: demo_value_def demo_text_def default_limits)

lemma demo_read: "parseStrictJson demo_text default_options = Inr (canonical_form demo_value)"
  using strict_reads_canonical [of demo_value default_options] demo_value_facts by (simp add: demo_canonical)

lemma demo_same: "json_same demo_value (canonical_form demo_value)"
  by (simp add: canonical_form_same [symmetric] demo_value_facts) (simp add: demo_form sort_by_def utf16_rank_def)

end
