(* ===== verification/Component_Search.thy ===== *)
theory Component_Search
  imports Js_Values Lifecycle_Prelude
begin

text \<open>
  The search for strongly connected components of \<open>runtime/src/foundation/knowledge/relationships.ts\<close>
  (\<open>stronglyConnectedComponents\<close>, \<open>cyclicComponents\<close>): Kosaraju's two traversals with explicit
  stacks, the top of a stack first. An adjacency is a \<open>Map\<close> from identities to lists.
\<close>

section \<open>The search\<close>

type_synonym adjacency = "string list jsmap"

definition neighbours :: "adjacency \<Rightarrow> string \<Rightarrow> string list" where
  "neighbours adjacency v = (case map_of adjacency v of None \<Rightarrow> [] | Some ws \<Rightarrow> ws)"

definition code_point_le :: "string \<Rightarrow> string \<Rightarrow> bool" where
  "code_point_le a b \<longleftrightarrow> compareCodePoints a b \<le> 0"

text \<open>The nodes of a graph: keys and neighbours.\<close>

definition graph_nodes :: "adjacency \<Rightarrow> string set" where
  "graph_nodes adjacency = set (map fst adjacency) \<union> set (concat (map snd adjacency))"

lemma finite_graph_nodes [simp]: "finite (graph_nodes adjacency)"
  by (simp add: graph_nodes_def)

lemma neighbours_nodes: "w \<in> set (neighbours adjacency v) \<Longrightarrow> w \<in> graph_nodes adjacency"
proof -
  assume "w \<in> set (neighbours adjacency v)"
  then obtain ws where "map_of adjacency v = Some ws" "w \<in> set ws"
    by (cases "map_of adjacency v") (auto simp: neighbours_def)
  then have "(v, ws) \<in> set adjacency" "w \<in> set ws" by (auto dest: map_of_SomeD)
  then show ?thesis by (force simp: graph_nodes_def)
qed

record frame =
  fr_node :: string
  fr_next :: nat

text \<open>The inner loop of the first traversal, on what it has visited, the order so far and the stack.\<close>

function finish_from :: "adjacency \<Rightarrow> string set \<Rightarrow> string list \<Rightarrow> frame list \<Rightarrow> string set \<times> string list" where
  "finish_from adjacency visited order [] = (visited, order)"
| "finish_from adjacency visited order (frame # stack) =
     (let ws = neighbours adjacency (fr_node frame) in
      if fr_next frame < length ws then
        (let next = ws ! fr_next frame; stack' = frame\<lparr>fr_next := Suc (fr_next frame)\<rparr> # stack in
         if next \<notin> visited
           then finish_from adjacency (insert next visited) order (\<lparr>fr_node = next, fr_next = 0\<rparr> # stack')
         else finish_from adjacency visited order stack')
      else finish_from adjacency visited (order @ [fr_node frame]) stack)"
  by pat_completeness auto

termination
proof (relation "measures [\<lambda>(adjacency, visited, order, stack). card (graph_nodes adjacency - visited),
    \<lambda>(adjacency, visited, order, stack).
      sum_list (map (\<lambda>f. Suc (length (neighbours adjacency (fr_node f)) - fr_next f)) stack)]", goal_cases)
  case (2 adjacency visited order frame stack ws w stack')
  then have "w \<in> set ws" by simp
  then have "w \<in> graph_nodes adjacency - visited" using 2 neighbours_nodes by blast
  then have "card (graph_nodes adjacency - insert w visited) < card (graph_nodes adjacency - visited)"
    by (metis Diff_insert card_Diff1_less finite_Diff finite_graph_nodes)
  then show ?case by simp
qed auto

declare finish_from.simps(2) [simp del]

definition finish_order :: "adjacency \<Rightarrow> string list \<Rightarrow> string set \<times> string list" where
  "finish_order adjacency nodes =
     foldl (\<lambda>(visited, order) start.
       if start \<in> visited then (visited, order)
       else finish_from adjacency (insert start visited) order [\<lparr>fr_node = start, fr_next = 0\<rparr>]) ({}, []) nodes"

text \<open>The reversed adjacency.\<close>

definition add_reverse :: "string \<Rightarrow> adjacency \<Rightarrow> string \<Rightarrow> adjacency" where
  "add_reverse source reverse target = AList.update target (neighbours reverse target @ [source]) reverse"

definition reverse_adjacency :: "adjacency \<Rightarrow> string list \<Rightarrow> adjacency" where
  "reverse_adjacency adjacency nodes =
     map (\<lambda>(node, values). (node, sort_by code_point_le values))
       (foldl (\<lambda>reverse (source, targets). foldl (add_reverse source) reverse targets)
         (foldl (\<lambda>reverse node. AList.update node [] reverse) [] nodes) adjacency)"

text \<open>The inner loop of the second traversal.\<close>

definition push_unvisited :: "string set \<times> string list \<Rightarrow> string \<Rightarrow> string set \<times> string list" where
  "push_unvisited = (\<lambda>(visited, stack) next.
     if next \<notin> visited then (insert next visited, next # stack) else (visited, stack))"

lemma push_unvisited_measure:
  assumes "set ws \<subseteq> U" and "finite U" and "foldl push_unvisited (visited, stack) ws = (visited', stack')"
  shows "card (U - visited') + length stack' = card (U - visited) + length stack"
  using assms(1,3)
proof (induction ws arbitrary: visited stack)
  case (Cons w ws)
  show ?case
  proof (cases "w \<in> visited")
    case True
    with Cons show ?thesis by (simp add: push_unvisited_def)
  next
    case False
    with Cons.prems have "w \<in> U - visited" by simp
    then have "Suc (card (U - insert w visited)) = card (U - visited)"
      using assms(2) by (metis Diff_insert card_Suc_Diff1 finite_Diff)
    with Cons.IH [of "insert w visited" "w # stack"] Cons.prems False show ?thesis
      by (simp add: push_unvisited_def)
  qed
qed simp

function collect_from :: "adjacency \<Rightarrow> string set \<Rightarrow> string list \<Rightarrow> string list \<Rightarrow> string set \<times> string list" where
  "collect_from reverse visited component [] = (visited, component)"
| "collect_from reverse visited component (node # stack) =
     (let (visited', stack') = foldl push_unvisited (visited, stack) (rev (neighbours reverse node))
      in collect_from reverse visited' (component @ [node]) stack')"
  by pat_completeness auto

termination
proof (relation "measure (\<lambda>(reverse, visited, component, stack). card (graph_nodes reverse - visited) + length stack)",
    goal_cases)
  case (2 reverse visited component node stack p visited' stack')
  then have "foldl push_unvisited (visited, stack) (rev (neighbours reverse node)) = (visited', stack')" by simp
  moreover have "set (rev (neighbours reverse node)) \<subseteq> graph_nodes reverse" by (auto intro: neighbours_nodes)
  ultimately show ?case using push_unvisited_measure [of "rev (neighbours reverse node)" "graph_nodes reverse"] by simp
qed simp

declare collect_from.simps(2) [simp del]

definition components_from :: "adjacency \<Rightarrow> string list \<Rightarrow> string set \<times> string list list" where
  "components_from reverse order =
     foldl (\<lambda>(visited, components) start.
       if start \<in> visited then (visited, components)
       else (let (visited', component) = collect_from reverse (insert start visited) [] [start]
             in (visited', components @ [sort_by code_point_le component]))) ({}, []) (rev order)"

text \<open>\<open>component.join("\0")\<close>\<close>

definition joined :: "string list \<Rightarrow> string" where
  "joined component = concat (map (\<lambda>(i, v). if i = 0 then v else CHR 0x00 # v) (enumerate 0 component))"

definition stronglyConnectedComponents :: "adjacency \<Rightarrow> string list list" where
  "stronglyConnectedComponents adjacency =
     (let nodes = sort_by code_point_le (map fst adjacency);
          (visited, order) = finish_order adjacency nodes;
          (visited', components) = components_from (reverse_adjacency adjacency nodes) order
      in sort_by (\<lambda>l r. code_point_le (joined l) (joined r)) components)"

definition cyclicComponents :: "adjacency \<Rightarrow> string list list" where
  "cyclicComponents adjacency =
     filter (\<lambda>component. length component > 1 \<or>
       (length component = 1 \<and> hd component \<in> set (neighbours adjacency (hd component))))
       (stronglyConnectedComponents adjacency)"

end
