(* ===== verification/Knowledge_Facts.thy ===== *)
theory Knowledge_Facts
  imports Component_Search Canonical_Json
begin

text \<open>
  The data of Knowledge (\<open>runtime/src/foundation/knowledge/types.ts\<close>) and the collector of
  diagnostics (\<open>validation/result.ts\<close>, \<open>DiagnosticCollector.add\<close>). The kind of a record is
  the variant of its specification, as its parser establishes. The members no modelled
  operation reads (sources, extensions, canonical value, text and headings) are left out, and
  so are the message and the facts of a diagnostic, which only display them.
\<close>

section \<open>Records\<close>

datatype knowledge_kind =
  BehaviorKind | AssuranceKind | BlueprintKind | DescriptionKind | CheckKind | DisciplineKind

datatype knowledge_status = DraftStatus | CurrentStatus | SupersededStatus | RetiredStatus

datatype relationship_type = Refines | Constrains | Realizes | VerifiedBy | DependsOn | RelatedTo

fun relationship_name :: "relationship_type \<Rightarrow> string" where
  "relationship_name Refines = ''refines''"
| "relationship_name Constrains = ''constrains''"
| "relationship_name Realizes = ''realizes''"
| "relationship_name VerifiedBy = ''verified-by''"
| "relationship_name DependsOn = ''depends-on''"
| "relationship_name RelatedTo = ''related-to''"

fun status_name :: "knowledge_status \<Rightarrow> string" where
  "status_name DraftStatus = ''draft''"
| "status_name CurrentStatus = ''current''"
| "status_name SupersededStatus = ''superseded''"
| "status_name RetiredStatus = ''retired''"

record knowledge_relationship =
  kl_type :: relationship_type
  kl_target :: string
  kl_required :: bool
  kl_scope :: "string option"
  kl_rationale :: "string option"

datatype conflict_type = BehaviorInclusionExclusion | AssuranceLimit | BlueprintConstraint

fun conflict_name :: "conflict_type \<Rightarrow> string" where
  "conflict_name BehaviorInclusionExclusion = ''behavior-inclusion-exclusion''"
| "conflict_name AssuranceLimit = ''assurance-limit''"
| "conflict_name BlueprintConstraint = ''blueprint-constraint''"

record declared_conflict =
  dc_type :: conflict_type
  dc_target :: string
  dc_localFact :: string
  dc_targetFact :: string

record revision_identity =
  rvi_id :: string
  rvi_revision :: int
  rvi_sourceDigest :: string
  rvi_semanticDigest :: string

record behavior_spec =
  bs_outcome :: string
  bs_actors :: "string list"
  bs_conditions :: "string list"
  bs_included :: "string list"
  bs_excluded :: "string list"
  bs_examples :: "string list"
  bs_falsifiers :: "string list"

record assurance_spec =
  as_obligation :: string
  as_scope :: "string list"
  as_failureModes :: "string list"
  as_limits :: "string list"
  as_degradation :: "string list"
  as_falsifiers :: "string list"

record blueprint_spec =
  bl_decision :: string
  bl_scope :: "string list"
  bl_components :: "string list"
  bl_constraints :: "string list"
  bl_interfaces :: "string list"
  bl_dataFlows :: "string list"
  bl_tradeoffs :: "string list"
  bl_evolution :: "string list"

text \<open>\<open>FoundationCoverageSelector\<close>; its role is always \<open>primary\<close>.\<close>

datatype selector_mode = FileMode | TreeMode

fun mode_name :: "selector_mode \<Rightarrow> string" where
  "mode_name FileMode = ''file''"
| "mode_name TreeMode = ''tree''"

record coverage_selector =
  cs_path :: string
  cs_mode :: selector_mode
  cs_exclude :: "string list"

record description_spec =
  ds_responsibility :: string
  ds_coverage :: "coverage_selector list"
  ds_behavior :: "string list"
  ds_boundaries :: "string list"
  ds_invariants :: "string list"
  ds_dependencies :: "string list"
  ds_failure :: "string list"
  ds_rationale :: "string list"

record discipline_spec =
  dp_practice :: string
  dp_appliesWhen :: "string list"
  dp_doesNotApplyWhen :: "string list"
  dp_guidance :: "string list"
  dp_verification :: "string list"

text \<open>The specification of a Check is read by its bindings only, which are not modelled.\<close>

datatype knowledge_spec =
    BehaviorSpec behavior_spec
  | AssuranceSpec assurance_spec
  | BlueprintSpec blueprint_spec
  | DescriptionSpec description_spec
  | CheckSpec
  | DisciplineSpec discipline_spec

record front_matter =
  fm_id :: string
  fm_title :: string
  fm_status :: knowledge_status
  fm_revision :: int
  fm_supersedes :: "revision_identity option"
  fm_summary :: string
  fm_owners :: "string list"
  fm_relationships :: "knowledge_relationship list"
  fm_conflicts :: "declared_conflict list"
  fm_tags :: "string list"
  fm_spec :: knowledge_spec

definition fm_kind :: "front_matter \<Rightarrow> knowledge_kind" where
  "fm_kind fm = (case fm_spec fm of
       BehaviorSpec _ \<Rightarrow> BehaviorKind
     | AssuranceSpec _ \<Rightarrow> AssuranceKind
     | BlueprintSpec _ \<Rightarrow> BlueprintKind
     | DescriptionSpec _ \<Rightarrow> DescriptionKind
     | CheckSpec \<Rightarrow> CheckKind
     | DisciplineSpec _ \<Rightarrow> DisciplineKind)"

record knowledge_record =
  kr_path :: string
  kr_objectId :: string
  kr_frontMatter :: front_matter
  kr_sourceDigest :: string
  kr_semanticDigest :: string

abbreviation kr_id :: "knowledge_record \<Rightarrow> string" where "kr_id r \<equiv> fm_id (kr_frontMatter r)"
abbreviation kr_revision :: "knowledge_record \<Rightarrow> int" where "kr_revision r \<equiv> fm_revision (kr_frontMatter r)"
abbreviation kr_status :: "knowledge_record \<Rightarrow> knowledge_status" where "kr_status r \<equiv> fm_status (kr_frontMatter r)"
abbreviation kr_kind :: "knowledge_record \<Rightarrow> knowledge_kind" where "kr_kind r \<equiv> fm_kind (kr_frontMatter r)"

section \<open>Diagnostics\<close>

datatype severity = SeverityError | SeverityWarning | SeverityInformation

record diagnostic_related =
  dr_kind :: string
  dr_id :: string

record diagnostic =
  dg_stage :: string
  dg_code :: string
  dg_severity :: severity
  dg_path :: "string option"
  dg_related :: "diagnostic_related list"

type_synonym collector = "diagnostic list"

definition related :: "string \<Rightarrow> diagnostic_related" where
  "related value = \<lparr>dr_kind = (if CHR ''/'' \<in> set value then ''repository-path'' else ''identity''), dr_id = value\<rparr>"

definition related_le :: "diagnostic_related \<Rightarrow> diagnostic_related \<Rightarrow> bool" where
  "related_le l r \<longleftrightarrow> compareCodePoints (dr_kind l) (dr_kind r) < 0 \<or>
     (dr_kind l = dr_kind r \<and> code_point_le (dr_id l) (dr_id r))"

definition add_diagnostic ::
  "string \<Rightarrow> string \<Rightarrow> severity \<Rightarrow> string option \<Rightarrow> string list \<Rightarrow> collector \<Rightarrow> collector" where
  "add_diagnostic stage dcode severity path others collector =
     collector @ [\<lparr>dg_stage = stage, dg_code = dcode, dg_severity = severity, dg_path = path,
       dg_related = sort_by related_le (map related (sortUniqueCodePoints others))\<rparr>]"

text \<open>A statement under a condition.\<close>

definition when_do :: "bool \<Rightarrow> ('s \<Rightarrow> 's) \<Rightarrow> 's \<Rightarrow> 's" where
  "when_do condition f s = (if condition then f s else s)"

section \<open>Texts\<close>

text \<open>\<open>revision.toString().padStart(10, "0")\<close>, and texts joined by NUL.\<close>

definition padded :: "int \<Rightarrow> string" where
  "padded n = (let s = show_int n in replicate (10 - length s) (CHR ''0'') @ s)"

definition nul_joined :: "string list \<Rightarrow> string" where
  "nul_joined = joined"

section \<open>Limits\<close>

text \<open>The limits on the graph, of \<open>FOUNDATION_REPOSITORY_KNOWLEDGE_LIMITS\<close>.\<close>

record knowledge_limits =
  lm_maximumGraphNodes :: nat
  lm_maximumGraphEdges :: nat
  lm_maximumNodeDegree :: nat

definition FOUNDATION_REPOSITORY_KNOWLEDGE_LIMITS :: knowledge_limits where
  "FOUNDATION_REPOSITORY_KNOWLEDGE_LIMITS = \<lparr>lm_maximumGraphNodes = 65536, lm_maximumGraphEdges = 262144,
     lm_maximumNodeDegree = 4096\<rparr>"

definition limits_or_default :: "knowledge_limits option \<Rightarrow> knowledge_limits" where
  "limits_or_default limits = (case limits of None \<Rightarrow> FOUNDATION_REPOSITORY_KNOWLEDGE_LIMITS | Some l \<Rightarrow> l)"

end
