(* ===== verification/Knowledge_Revisions.thy ===== *)
theory Knowledge_Revisions
  imports Knowledge_Facts
begin

text \<open>
  The revisions of Knowledge records (\<open>runtime/src/foundation/knowledge/revisions.ts\<close>): the
  indexes of a set of records and the diagnostics on their chains. Records are told apart by
  value, which is their identity since no two have the same path.
\<close>

fun kind_order :: "knowledge_kind \<Rightarrow> int" where
  "kind_order BehaviorKind = 0"
| "kind_order AssuranceKind = 1"
| "kind_order BlueprintKind = 2"
| "kind_order DescriptionKind = 3"
| "kind_order CheckKind = 4"
| "kind_order DisciplineKind = 5"

definition recordIdentityRevision :: "knowledge_record \<Rightarrow> string" where
  "recordIdentityRevision r = kr_id r @ ''@'' @ show_int (kr_revision r)"

text \<open>\<open>a || b\<close> on the results of comparisons.\<close>

definition or_else :: "int \<Rightarrow> int \<Rightarrow> int" where
  "or_else a b = (if a = 0 then b else a)"

definition compareKnowledgeRecords :: "knowledge_record \<Rightarrow> knowledge_record \<Rightarrow> int" where
  "compareKnowledgeRecords l r =
     or_else (kind_order (kr_kind l) - kind_order (kr_kind r))
    (or_else (compareCodePoints (kr_id l) (kr_id r))
    (or_else (kr_revision l - kr_revision r)
             (compareCodePoints (kr_path l) (kr_path r))))"

definition revision_le :: "knowledge_record \<Rightarrow> knowledge_record \<Rightarrow> bool" where
  "revision_le l r \<longleftrightarrow> or_else (kr_revision l - kr_revision r) (compareCodePoints (kr_path l) (kr_path r)) \<le> 0"

definition append_value :: "string \<Rightarrow> 'v \<Rightarrow> 'v list jsmap \<Rightarrow> 'v list jsmap" where
  "append_value k v m = AList.update k ((case map_of m k of None \<Rightarrow> [] | Some vs \<Rightarrow> vs) @ [v]) m"

definition sorted_entries :: "'v jsmap \<Rightarrow> 'v jsmap" where
  "sorted_entries m = sort_by (\<lambda>l r. code_point_le (fst l) (fst r)) m"

text \<open>The first loop: every revision once.\<close>

definition index_record ::
  "collector \<times> knowledge_record jsmap \<times> knowledge_record list jsmap \<Rightarrow> knowledge_record \<Rightarrow>
     collector \<times> knowledge_record jsmap \<times> knowledge_record list jsmap" where
  "index_record = (\<lambda>(collector, byIdentityRevision, revisionsByIdentity) r.
     let key = recordIdentityRevision r in
     case map_of byIdentityRevision key of
       Some prior \<Rightarrow>
         (add_diagnostic ''revision'' ''lifecycle.knowledge.id-duplicate'' SeverityError (Some (kr_path r)) [kr_path prior] collector,
          byIdentityRevision, revisionsByIdentity)
     | None \<Rightarrow>
         (collector, AList.update key r byIdentityRevision, append_value (kr_id r) r revisionsByIdentity))"

definition supersedes_exactly :: "string \<Rightarrow> knowledge_record \<Rightarrow> knowledge_record \<Rightarrow> bool" where
  "supersedes_exactly identity r previous \<longleftrightarrow>
     fm_supersedes (kr_frontMatter r) = Some \<lparr>rvi_id = identity, rvi_revision = kr_revision previous,
       rvi_sourceDigest = kr_sourceDigest previous, rvi_semanticDigest = kr_semanticDigest previous\<rparr>"

text \<open>One step along the sorted revisions of an identity.\<close>

definition check_revision :: "string \<Rightarrow> knowledge_record list \<Rightarrow> collector \<Rightarrow> nat \<Rightarrow> collector" where
  "check_revision identity revisions collector index =
     (let r = revisions ! index in
      if kr_kind r = DisciplineKind then collector
      else
        (let c1 = when_do (kr_revision r \<noteq> int index + 1)
               (add_diagnostic ''revision'' ''lifecycle.knowledge.revision-gap'' SeverityError (Some (kr_path r)) []) collector
         in if index = 0 then c1
         else
           (let previous = revisions ! (index - 1);
                c2 = when_do (\<not> supersedes_exactly identity r previous)
                  (add_diagnostic ''revision'' ''lifecycle.knowledge.supersession-invalid'' SeverityError (Some (kr_path r))
                    [kr_path previous]) c1
            in when_do (kr_status r = CurrentStatus \<and> kr_status previous \<noteq> SupersededStatus)
                 (add_diagnostic ''revision'' ''lifecycle.knowledge.supersession-invalid'' SeverityError (Some (kr_path previous))
                   [kr_path r]) c2)))"

definition currents_of :: "knowledge_record list \<Rightarrow> knowledge_record list" where
  "currents_of revisions = filter (\<lambda>r. kr_status r = CurrentStatus) revisions"

definition check_currents ::
  "string \<Rightarrow> knowledge_record list \<Rightarrow> collector \<times> knowledge_record jsmap \<Rightarrow> collector \<times> knowledge_record jsmap" where
  "check_currents identity revisions = (\<lambda>(collector, currentByIdentity).
     let currents = currents_of revisions in
     if length currents > 1 then
       (foldl (\<lambda>c r. add_diagnostic ''revision'' ''lifecycle.knowledge.current-duplicate'' SeverityError (Some (kr_path r))
          (map kr_path (filter (\<lambda>entry. entry \<noteq> r) currents)) c) collector currents, currentByIdentity)
     else if length currents = 1 then
       (let current = hd currents;
            later = filter (\<lambda>r. kr_revision r > kr_revision current) revisions
        in (when_do (list_ex (\<lambda>r. kr_kind r = DisciplineKind \<or> kr_status r \<noteq> DraftStatus) later)
              (add_diagnostic ''revision'' ''lifecycle.knowledge.current-not-latest'' SeverityError (Some (kr_path current))
                [kr_path (last revisions)]) collector,
            AList.update identity current currentByIdentity))
     else (collector, currentByIdentity))"

definition check_identity ::
  "collector \<times> knowledge_record jsmap \<Rightarrow> string \<times> knowledge_record list \<Rightarrow> collector \<times> knowledge_record jsmap" where
  "check_identity = (\<lambda>(collector, currentByIdentity) (identity, revisions).
     check_currents identity revisions
       (foldl (check_revision identity revisions) collector [0..<length revisions], currentByIdentity))"

record revision_indexes =
  ri_byIdentityRevision :: "knowledge_record jsmap"
  ri_revisionsByIdentity :: "knowledge_record list jsmap"
  ri_currentByIdentity :: "knowledge_record jsmap"
  ri_currentRecords :: "knowledge_record list"
  ri_historicalRecords :: "knowledge_record list"

definition buildRevisionIndexes :: "knowledge_record list \<Rightarrow> collector \<Rightarrow> collector \<times> revision_indexes" where
  "buildRevisionIndexes records collector =
     (let (c1, byIdentityRevision, unsorted) = foldl index_record (collector, [], []) records;
          revisionsByIdentity = map (\<lambda>(k, vs). (k, sort_by revision_le vs)) (sorted_entries unsorted);
          (c2, currentByIdentity) = foldl check_identity (c1, []) revisionsByIdentity;
          currentRecords = sort_by (\<lambda>l r. code_point_le (kr_id l) (kr_id r)) (map snd currentByIdentity);
          currentKeys = map recordIdentityRevision currentRecords
      in (c2, \<lparr>ri_byIdentityRevision = byIdentityRevision, ri_revisionsByIdentity = revisionsByIdentity,
            ri_currentByIdentity = currentByIdentity, ri_currentRecords = currentRecords,
            ri_historicalRecords = sort_by (\<lambda>l r. compareKnowledgeRecords l r \<le> 0)
              (filter (\<lambda>r. recordIdentityRevision r \<notin> set currentKeys) records)\<rparr>))"

end
