(* ===== verification/Knowledge_Relationships.thy ===== *)
theory Knowledge_Relationships
  imports Knowledge_Revisions
begin

text \<open>
  The graph of Knowledge (\<open>runtime/src/foundation/knowledge/relationships.ts\<close>): the edges the
  records declare, with their diagnostics, and the validation of the graph they form.
\<close>

definition ALLOWED_sources :: "relationship_type \<Rightarrow> knowledge_kind list" where
  "ALLOWED_sources t = (case t of
       Refines \<Rightarrow> [BehaviorKind, AssuranceKind, BlueprintKind, CheckKind]
     | Constrains \<Rightarrow> [AssuranceKind]
     | Realizes \<Rightarrow> [BlueprintKind, DescriptionKind]
     | VerifiedBy \<Rightarrow> [BehaviorKind, AssuranceKind, BlueprintKind, DescriptionKind, CheckKind]
     | DependsOn \<Rightarrow> [BlueprintKind, DescriptionKind]
     | RelatedTo \<Rightarrow> [BehaviorKind, AssuranceKind, BlueprintKind, DescriptionKind, CheckKind, DisciplineKind])"

definition ALLOWED_targets :: "relationship_type \<Rightarrow> knowledge_kind list" where
  "ALLOWED_targets t = (case t of
       Refines \<Rightarrow> [BehaviorKind, AssuranceKind, BlueprintKind, CheckKind]
     | Constrains \<Rightarrow> [BehaviorKind, AssuranceKind, BlueprintKind, DescriptionKind]
     | Realizes \<Rightarrow> [BehaviorKind, AssuranceKind, BlueprintKind, DescriptionKind]
     | VerifiedBy \<Rightarrow> [CheckKind]
     | DependsOn \<Rightarrow> [BlueprintKind, DescriptionKind]
     | RelatedTo \<Rightarrow> [BehaviorKind, AssuranceKind, BlueprintKind, DescriptionKind, CheckKind, DisciplineKind])"

definition ALLOWED_sameKind :: "relationship_type \<Rightarrow> bool" where
  "ALLOWED_sameKind t \<longleftrightarrow> t = Refines"

definition recordKey :: "knowledge_record \<Rightarrow> string" where
  "recordKey r = nul_joined [kr_id r, padded (kr_revision r), kr_path r]"

definition legalEdge :: "knowledge_record \<Rightarrow> knowledge_record \<Rightarrow> relationship_type \<Rightarrow> bool" where
  "legalEdge source target t =
     (if kr_kind source \<notin> set (ALLOWED_sources t) \<or> kr_kind target \<notin> set (ALLOWED_targets t) then False
      else if ALLOWED_sameKind t \<and> kr_kind source \<noteq> kr_kind target then False
      else if t = Realizes \<and> kr_kind source = BlueprintKind \<and> kr_kind target = DescriptionKind then False
      else True)"

definition latest_le :: "knowledge_record \<Rightarrow> knowledge_record \<Rightarrow> bool" where
  "latest_le l r \<longleftrightarrow> or_else (kr_revision r - kr_revision l) (compareCodePoints (kr_path l) (kr_path r)) \<le> 0"

definition latestRevision :: "knowledge_record list jsmap \<Rightarrow> string \<Rightarrow> knowledge_record option" where
  "latestRevision revisionsByIdentity identity =
     (case map_of revisionsByIdentity identity of
        None \<Rightarrow> None
      | Some revisions \<Rightarrow> if revisions = [] then None else Some (hd (sort_by latest_le revisions)))"

section \<open>Edges\<close>

record relationship_edge =
  ed_source :: string
  ed_sourceRevision :: int
  ed_sourcePath :: string
  ed_sourceSemanticDigest :: string
  ed_type :: relationship_type
  ed_target :: string
  ed_targetRevision :: "int option"
  ed_targetStatus :: "knowledge_status option"
  ed_targetSemanticDigest :: "string option"
  ed_required :: bool
  ed_scope :: "string option"
  ed_digest :: string

definition nullable :: "('a \<Rightarrow> json) \<Rightarrow> 'a option \<Rightarrow> json" where
  "nullable f v = (case v of None \<Rightarrow> JNull | Some x \<Rightarrow> f x)"

text \<open>The object an edge's digest is taken of.\<close>

definition edge_subject :: "knowledge_record \<Rightarrow> knowledge_relationship \<Rightarrow> knowledge_record option \<Rightarrow> json" where
  "edge_subject source l target = JObj
     [(''source'', JStr (kr_id source)), (''sourceRevision'', JInt (kr_revision source)),
      (''sourcePath'', JStr (kr_path source)), (''sourceSemanticDigest'', JStr (kr_semanticDigest source)),
      (''type'', JStr (relationship_name (kl_type l))), (''target'', JStr (kl_target l)),
      (''targetRevision'', nullable (\<lambda>t. JInt (kr_revision t)) target),
      (''targetStatus'', nullable (\<lambda>t. JStr (status_name (kr_status t))) target),
      (''targetSemanticDigest'', nullable (\<lambda>t. JStr (kr_semanticDigest t)) target),
      (''required'', JBool (kl_required l)), (''scope'', nullable JStr (kl_scope l))]"

definition edge_of ::
  "platform \<Rightarrow> knowledge_record \<Rightarrow> knowledge_relationship \<Rightarrow> knowledge_record option \<Rightarrow> relationship_edge res" where
  "edge_of P source l target =
     bindE (digestCanonical P (edge_subject source l target)) (\<lambda>d.
     Inr \<lparr>ed_source = kr_id source, ed_sourceRevision = kr_revision source, ed_sourcePath = kr_path source,
       ed_sourceSemanticDigest = kr_semanticDigest source, ed_type = kl_type l, ed_target = kl_target l,
       ed_targetRevision = map_option (\<lambda>t. kr_revision t) target, ed_targetStatus = map_option (\<lambda>t. kr_status t) target,
       ed_targetSemanticDigest = map_option kr_semanticDigest target, ed_required = kl_required l,
       ed_scope = kl_scope l, ed_digest = d\<rparr>)"

text \<open>The diagnostics on a relationship whose current target is \<open>current\<close>, its latest one \<open>historical\<close>.\<close>

definition target_diagnostics ::
  "knowledge_record \<Rightarrow> bool \<Rightarrow> knowledge_relationship \<Rightarrow> knowledge_record option \<Rightarrow> knowledge_record option \<Rightarrow>
     collector \<Rightarrow> collector" where
  "target_diagnostics source sourceIsCurrent l current historical collector =
     (let others = (case historical of None \<Rightarrow> [kl_target l] | Some h \<Rightarrow> [kr_path h]);
          path = Some (kr_path source)
      in if sourceIsCurrent \<and> kl_required l \<and> current = None then
           add_diagnostic ''relationships'' ''lifecycle.relationship.target-missing'' SeverityError path others collector
         else if \<not> kl_required l \<and> current = None then
           add_diagnostic ''relationships''
             (if historical = None then ''lifecycle.relationship.optional-target-missing''
              else ''lifecycle.relationship.optional-target-historical'') SeverityWarning path others collector
         else if \<not> sourceIsCurrent \<and> kl_required l \<and> current = None then
           add_diagnostic ''relationships'' ''lifecycle.relationship.historical-target-unresolved'' SeverityWarning path others
             collector
         else collector)"

text \<open>What is threaded through the relationships of one record: diagnostics, edges and the keys seen.\<close>

record edge_state =
  gb_collector :: collector
  gb_edges :: "relationship_edge list"
  gb_bounded :: bool

definition relationship_step ::
  "platform \<Rightarrow> knowledge_record list jsmap \<Rightarrow> knowledge_record jsmap \<Rightarrow> knowledge_record \<Rightarrow> knowledge_relationship \<Rightarrow>
     collector \<Rightarrow> (collector \<times> relationship_edge) res" where
  "relationship_step P revisionsByIdentity currentByIdentity source l collector =
     (let sourceIsCurrent = (map_of currentByIdentity (kr_id source) = Some source);
          current = map_of currentByIdentity (kl_target l);
          historical = (if current = None then latestRevision revisionsByIdentity (kl_target l) else None);
          target = (if current = None then historical else current);
          path = Some (kr_path source);
          c1 = target_diagnostics source sourceIsCurrent l current historical collector;
          c2 = (case target of
              None \<Rightarrow> c1
            | Some t \<Rightarrow> when_do (\<not> legalEdge source t (kl_type l))
                (add_diagnostic ''relationships'' ''lifecycle.relationship.kind-invalid'' SeverityError path [kr_path t]) c1);
          c3 = when_do (kr_id source = kl_target l \<and> kl_type l \<noteq> DependsOn \<and> kl_type l \<noteq> RelatedTo)
            (add_diagnostic ''relationships'' ''lifecycle.relationship.self'' SeverityError path []) c2
      in bindE (edge_of P source l target) (\<lambda>edge. Inr (c3, edge)))"

fun relationship_loop ::
  "platform \<Rightarrow> nat \<Rightarrow> knowledge_record list jsmap \<Rightarrow> knowledge_record jsmap \<Rightarrow> knowledge_record \<Rightarrow>
     (relationship_type \<times> string) list \<Rightarrow> knowledge_relationship list \<Rightarrow> edge_state \<Rightarrow> edge_state res" where
  "relationship_loop P maximum revisionsByIdentity currentByIdentity source seen [] s = Inr s"
| "relationship_loop P maximum revisionsByIdentity currentByIdentity source seen (l # ls) s =
     (if length (gb_edges s) \<ge> maximum then
        Inr (s\<lparr>gb_collector := add_diagnostic ''relationships'' ''lifecycle.knowledge.limit-exceeded'' SeverityError
           (Some (kr_path source)) [] (gb_collector s), gb_bounded := False\<rparr>)
      else if (kl_type l, kl_target l) \<in> set seen then
        relationship_loop P maximum revisionsByIdentity currentByIdentity source seen ls
          (s\<lparr>gb_collector := add_diagnostic ''relationships'' ''lifecycle.relationship.duplicate'' SeverityError
             (Some (kr_path source)) [] (gb_collector s)\<rparr>)
      else
        bindE (relationship_step P revisionsByIdentity currentByIdentity source l (gb_collector s)) (\<lambda>(collector, edge).
        relationship_loop P maximum revisionsByIdentity currentByIdentity source ((kl_type l, kl_target l) # seen) ls
          (s\<lparr>gb_collector := collector, gb_edges := gb_edges s @ [edge]\<rparr>)))"

fun records_loop ::
  "platform \<Rightarrow> nat \<Rightarrow> knowledge_record list jsmap \<Rightarrow> knowledge_record jsmap \<Rightarrow> knowledge_record list \<Rightarrow> edge_state \<Rightarrow>
     edge_state res" where
  "records_loop P maximum revisionsByIdentity currentByIdentity [] s = Inr s"
| "records_loop P maximum revisionsByIdentity currentByIdentity (source # sources) s =
     bindE (relationship_loop P maximum revisionsByIdentity currentByIdentity source []
        (fm_relationships (kr_frontMatter source)) s) (\<lambda>s'.
     if \<not> gb_bounded s' then Inr s'
     else records_loop P maximum revisionsByIdentity currentByIdentity sources s')"

definition edge_key :: "relationship_edge \<Rightarrow> string" where
  "edge_key e = nul_joined [ed_source e, padded (ed_sourceRevision e), relationship_name (ed_type e), ed_target e]"

definition buildRelationshipEdges ::
  "platform \<Rightarrow> knowledge_record list \<Rightarrow> knowledge_record list jsmap \<Rightarrow> knowledge_record jsmap \<Rightarrow> knowledge_limits option \<Rightarrow>
     collector \<Rightarrow> (collector \<times> relationship_edge list) res" where
  "buildRelationshipEdges P records revisionsByIdentity currentByIdentity limits collector =
     bindE (records_loop P (lm_maximumGraphEdges (limits_or_default limits)) revisionsByIdentity currentByIdentity
        (sort_by (\<lambda>l r. code_point_le (recordKey l) (recordKey r)) records)
        \<lparr>gb_collector = collector, gb_edges = [], gb_bounded = True\<rparr>) (\<lambda>s.
     Inr (gb_collector s, sort_by (\<lambda>l r. code_point_le (edge_key l) (edge_key r)) (gb_edges s)))"

section \<open>The graph\<close>

definition revision_of :: "knowledge_record jsmap \<Rightarrow> string \<Rightarrow> int option" where
  "revision_of current identity = map_option (\<lambda>r. kr_revision r) (map_of current identity)"

text \<open>Whether \<open>adjacencyFor\<close> takes an edge.\<close>

definition adjacency_edge ::
  "knowledge_record jsmap \<Rightarrow> relationship_type \<Rightarrow> bool \<Rightarrow> relationship_edge \<Rightarrow> bool" where
  "adjacency_edge current t requiredOnly e =
     (case (map_of current (ed_source e), map_of current (ed_target e)) of
        (Some source, Some target) \<Rightarrow>
          ed_type e = t \<and> ed_sourceRevision e = kr_revision source \<and> ed_targetRevision e = Some (kr_revision target) \<and>
          \<not> (requiredOnly \<and> \<not> ed_required e) \<and>
          \<not> (t = VerifiedBy \<and> (kr_kind source \<noteq> CheckKind \<or> kr_kind target \<noteq> CheckKind))
      | _ \<Rightarrow> False)"

definition add_edge :: "adjacency \<Rightarrow> relationship_edge \<Rightarrow> adjacency" where
  "add_edge adjacency e =
     (let added = append_value (ed_source e) (ed_target e) adjacency
      in if map_of added (ed_target e) = None then AList.update (ed_target e) [] added else added)"

definition adjacencyFor :: "relationship_edge list \<Rightarrow> knowledge_record jsmap \<Rightarrow> relationship_type \<Rightarrow> bool \<Rightarrow> adjacency" where
  "adjacencyFor edges current t requiredOnly =
     map (\<lambda>(key, values). (key, sortUniqueCodePoints values))
       (sorted_entries (foldl add_edge [] (filter (adjacency_edge current t requiredOnly) edges)))"

record graph_result =
  gr_dependencyComponents :: "string list list"
  gr_complete :: bool

definition count_source :: "nat jsmap \<Rightarrow> relationship_edge \<Rightarrow> nat jsmap" where
  "count_source degrees e =
     AList.update (ed_source e) ((case map_of degrees (ed_source e) of None \<Rightarrow> 0 | Some n \<Rightarrow> n) + 1) degrees"

definition over_degree :: "nat \<Rightarrow> relationship_edge list \<Rightarrow> (string \<times> nat) list" where
  "over_degree maximum edges =
     sort_by (\<lambda>l r. code_point_le (fst l) (fst r)) (filter (\<lambda>(_, count). count > maximum) (foldl count_source [] edges))"

definition cycle_diagnostics ::
  "relationship_edge list \<Rightarrow> knowledge_record jsmap \<Rightarrow> collector \<Rightarrow> relationship_type \<Rightarrow> collector" where
  "cycle_diagnostics edges current collector t =
     foldl (\<lambda>c component. add_diagnostic ''relationships'' ''lifecycle.relationship.cycle'' SeverityError None component c)
       collector (cyclicComponents (adjacencyFor edges current t False))"

definition large_diagnostics :: "string list list \<Rightarrow> collector \<Rightarrow> collector" where
  "large_diagnostics components collector =
     foldl (\<lambda>c component. when_do (length component > 32)
       (add_diagnostic ''relationships'' ''lifecycle.relationship.dependency-large'' SeverityWarning None component) c)
       collector components"

definition incomplete_dependency :: "knowledge_record jsmap \<Rightarrow> relationship_edge \<Rightarrow> bool" where
  "incomplete_dependency current e \<longleftrightarrow>
     ed_type e = DependsOn \<and> ed_required e \<and> revision_of current (ed_source e) = Some (ed_sourceRevision e) \<and>
     (revision_of current (ed_target e) \<noteq> ed_targetRevision e \<or> revision_of current (ed_target e) = None)"

definition dependency_diagnostics :: "relationship_edge list \<Rightarrow> knowledge_record jsmap \<Rightarrow> collector \<Rightarrow> collector" where
  "dependency_diagnostics edges current collector =
     foldl (\<lambda>c e. when_do (incomplete_dependency current e)
       (add_diagnostic ''relationships'' ''lifecycle.relationship.dependency-incomplete'' SeverityError
         (Some (ed_sourcePath e)) [ed_target e]) c) collector edges"

definition current_edges :: "relationship_edge list \<Rightarrow> knowledge_record jsmap \<Rightarrow> relationship_edge list" where
  "current_edges edges current =
     filter (\<lambda>e. revision_of current (ed_source e) = Some (ed_sourceRevision e) \<and>
       ed_targetRevision e \<noteq> None \<and> revision_of current (ed_target e) = ed_targetRevision e) edges"

definition verified :: "relationship_edge list \<Rightarrow> knowledge_record jsmap \<Rightarrow> knowledge_record \<Rightarrow> bool" where
  "verified edges current r \<longleftrightarrow>
     list_ex (\<lambda>e. ed_source e = kr_id r \<and> ed_type e = VerifiedBy \<and> ed_required e \<and>
       map_option (\<lambda>t. kr_kind t) (map_of current (ed_target e)) = Some CheckKind) (current_edges edges current)"

definition check_diagnostics :: "relationship_edge list \<Rightarrow> knowledge_record jsmap \<Rightarrow> collector \<Rightarrow> collector" where
  "check_diagnostics edges current collector =
     foldl (\<lambda>c r. when_do ((kr_kind r = BehaviorKind \<or> kr_kind r = AssuranceKind) \<and> \<not> verified edges current r)
       (add_diagnostic ''relationships'' ''lifecycle.check.required-missing'' SeverityError (Some (kr_path r)) []) c)
       collector (sort_by (\<lambda>l r. code_point_le (kr_id l) (kr_id r)) (map snd current))"

definition validateRelationshipGraph ::
  "relationship_edge list \<Rightarrow> knowledge_record jsmap \<Rightarrow> knowledge_limits option \<Rightarrow> collector \<Rightarrow> collector \<times> graph_result" where
  "validateRelationshipGraph edges current limits collector =
     (let L = limits_or_default limits;
          priorLimit = list_ex (\<lambda>d. dg_stage d = ''relationships'' \<and> dg_code d = ''lifecycle.knowledge.limit-exceeded'') collector;
          incomplete = \<lparr>gr_dependencyComponents = [], gr_complete = False\<rparr>;
          over = over_degree (lm_maximumNodeDegree L) edges
      in if priorLimit \<or> length current > lm_maximumGraphNodes L \<or> length edges > lm_maximumGraphEdges L then
           (add_diagnostic ''relationships'' ''lifecycle.knowledge.limit-exceeded'' SeverityError None [] collector, incomplete)
         else if over \<noteq> [] then
           (foldl (\<lambda>c (identity, count). add_diagnostic ''relationships'' ''lifecycle.knowledge.limit-exceeded'' SeverityError None
              [identity] c) collector over, incomplete)
         else
           (let c1 = foldl (cycle_diagnostics edges current) collector [Refines, VerifiedBy];
                components = stronglyConnectedComponents (adjacencyFor edges current DependsOn True)
            in (check_diagnostics edges current (dependency_diagnostics edges current (large_diagnostics components c1)),
                \<lparr>gr_dependencyComponents = components, gr_complete = True\<rparr>)))"

definition relationship_order :: "relationship_edge \<Rightarrow> string" where
  "relationship_order e = nul_joined [relationship_name (ed_type e), ed_target e, padded (ed_sourceRevision e)]"

definition edge_index :: "(relationship_edge \<Rightarrow> string) \<Rightarrow> relationship_edge list \<Rightarrow> relationship_edge list jsmap" where
  "edge_index key edges =
     map (\<lambda>(k, es). (k, sort_by (\<lambda>l r. code_point_le (relationship_order l) (relationship_order r)) es))
       (sorted_entries (foldl (\<lambda>m e. append_value (key e) e m) [] edges))"

definition relationshipIndexes :: "relationship_edge list \<Rightarrow> relationship_edge list jsmap \<times> relationship_edge list jsmap" where
  "relationshipIndexes edges = (edge_index ed_source edges, edge_index ed_target edges)"

end
