(* ===== verification/Component_Correctness.thy ===== *)
theory Component_Correctness
  imports Component_Search Json_Order
begin

text \<open>
  The search is right: its components are the classes of mutual reachability, each once. The
  first traversal orders the nodes so that a node never outlasts the class of one it can be
  reached from (\<open>outlasted\<close>); the second collects, from the last of the order to the first,
  what still reaches a node.
\<close>

section \<open>Reachability\<close>

definition edge :: "adjacency \<Rightarrow> string \<Rightarrow> string \<Rightarrow> bool" where
  "edge adjacency v w \<longleftrightarrow> w \<in> set (neighbours adjacency v)"

abbreviation reach :: "adjacency \<Rightarrow> string \<Rightarrow> string \<Rightarrow> bool" where
  "reach adjacency \<equiv> (edge adjacency)\<^sup>*\<^sup>*"

definition mutual :: "adjacency \<Rightarrow> string \<Rightarrow> string \<Rightarrow> bool" where
  "mutual adjacency v w \<longleftrightarrow> reach adjacency v w \<and> reach adjacency w v"

lemma mutual_refl [simp]: "mutual adjacency v v"
  by (simp add: mutual_def)

lemma mutual_sym: "mutual adjacency v w \<Longrightarrow> mutual adjacency w v"
  by (simp add: mutual_def)

lemma mutual_trans: "mutual adjacency u v \<Longrightarrow> mutual adjacency v w \<Longrightarrow> mutual adjacency u w"
  by (auto simp: mutual_def)

section \<open>The first traversal\<close>

text \<open>\<open>s\<close> is at \<open>r\<close> or after it in the order.\<close>

definition lasts :: "string list \<Rightarrow> string \<Rightarrow> string \<Rightarrow> bool" where
  "lasts order r s \<longleftrightarrow> (\<exists>xs ys. order = xs @ r # ys \<and> s \<in> set (r # ys))"

lemma lasts_snoc: "lasts order r s \<Longrightarrow> lasts (order @ [u]) r s"
  by (fastforce simp: lasts_def)

lemma lasts_new: "r \<in> set order \<Longrightarrow> lasts (order @ [u]) r u"
  by (fastforce simp: lasts_def dest: split_list)

lemma lasts_last: "lasts (order @ [u]) u u"
  by (auto simp: lasts_def)

definition outlasted :: "adjacency \<Rightarrow> string list \<Rightarrow> string set \<Rightarrow> bool" where
  "outlasted adjacency order open \<longleftrightarrow>
     (\<forall>u \<in> set order. \<forall>r \<in> set order. reach adjacency u r \<longrightarrow>
        (\<exists>s. mutual adjacency u s \<and> (s \<in> open \<or> lasts order r s)))"

definition dfs_inv :: "adjacency \<Rightarrow> string set \<Rightarrow> string list \<Rightarrow> string list \<Rightarrow> bool" where
  "dfs_inv adjacency visited order open \<longleftrightarrow>
     visited = set order \<union> set open \<and> distinct (order @ open) \<and> visited \<subseteq> graph_nodes adjacency \<and>
     (\<forall>u \<in> set order. \<forall>v. edge adjacency u v \<longrightarrow> v \<in> visited) \<and>
     sorted_wrt (\<lambda>a b. reach adjacency b a) open \<and>
     (\<forall>u \<in> set order. \<forall>x \<in> set open. reach adjacency u x \<longrightarrow> (\<exists>s \<in> set open. mutual adjacency u s)) \<and>
     outlasted adjacency order (set open)"

lemma leaves_finished:
  assumes "dfs_inv adjacency visited order open" and "reach adjacency u w" and "u \<in> set order" and "w \<notin> set order"
  shows "\<exists>x \<in> set open. reach adjacency u x"
  using assms(2-4)
proof (induction rule: converse_rtranclp_induct)
  case (step u v)
  then have "v \<in> set order \<or> v \<in> set open" using assms(1) by (auto simp: dfs_inv_def)
  then show ?case
  proof
    assume "v \<in> set order"
    with step show ?thesis by (meson converse_rtranclp_into_rtranclp)
  next
    assume "v \<in> set open"
    with step show ?thesis by blast
  qed
qed simp

lemma dfs_push:
  assumes inv: "dfs_inv adjacency visited order open" and w: "w \<notin> visited" "w \<in> graph_nodes adjacency"
    and top: "open \<noteq> [] \<Longrightarrow> edge adjacency (hd open) w"
  shows "dfs_inv adjacency (insert w visited) order (w # open)"
proof -
  have fresh: "w \<notin> set order" "w \<notin> set open" using inv w by (auto simp: dfs_inv_def)
  have "reach adjacency x w" if "x \<in> set open" for x
  proof -
    have "reach adjacency x (hd open)"
      using that inv by (cases "open") (auto simp: dfs_inv_def)
    with top that show ?thesis by (cases "open") (auto intro: rtranclp.rtrancl_into_rtrancl)
  qed
  moreover have "\<exists>s \<in> set open. mutual adjacency u s" if "u \<in> set order" and "reach adjacency u w" for u
    using leaves_finished [OF inv that(2,1) fresh(1)] inv that(1) by (auto simp: dfs_inv_def)
  ultimately show ?thesis
    using inv w fresh unfolding dfs_inv_def outlasted_def by (auto; blast)
qed

lemma dfs_pop:
  assumes inv: "dfs_inv adjacency visited order (u # open)"
    and all: "\<And>v. edge adjacency u v \<Longrightarrow> v \<in> visited"
  shows "dfs_inv adjacency visited (order @ [u]) open"
proof -
  have chain: "reach adjacency x u" if "x \<in> set open" for x
    using inv that by (auto simp: dfs_inv_def)
  have settled: "\<exists>s \<in> set (u # open). mutual adjacency v s" if "v \<in> set order" "x \<in> set (u # open)" "reach adjacency v x" for v x
    using inv that by (auto simp: dfs_inv_def)
  have open': "\<exists>s \<in> set open. mutual adjacency v s"
    if v: "v \<in> set (order @ [u])" and x: "x \<in> set open" "reach adjacency v x" for v x
  proof (cases "mutual adjacency v u")
    case True
    then have "mutual adjacency v x" using x chain [OF x(1)] by (auto simp: mutual_def)
    with x show ?thesis by blast
  next
    case False
    with v have "v \<in> set order" by auto
    from settled [OF this _ x(2)] x(1) False show ?thesis by auto
  qed
  have "outlasted adjacency (order @ [u]) (set open)"
    unfolding outlasted_def
  proof (intro ballI impI)
    fix v r assume v: "v \<in> set (order @ [u])" and r: "r \<in> set (order @ [u])" and vr: "reach adjacency v r"
    show "\<exists>s. mutual adjacency v s \<and> (s \<in> set open \<or> lasts (order @ [u]) r s)"
    proof (cases "mutual adjacency v u")
      case True
      with r show ?thesis using lasts_new [of r order u] lasts_last [of order u] by auto
    next
      case False
      with v have v': "v \<in> set order" by auto
      show ?thesis
      proof (cases "r = u")
        case True
        with settled [OF v'] vr False show ?thesis by auto
      next
        case r': False
        with r have "r \<in> set order" by simp
        with v' vr inv obtain s where "mutual adjacency v s" "s \<in> set (u # open) \<or> lasts order r s"
          unfolding dfs_inv_def outlasted_def by blast
        with False show ?thesis by (auto intro: lasts_snoc)
      qed
    qed
  qed
  with inv all open' show ?thesis by (auto simp: dfs_inv_def)
qed

definition frames_ok :: "adjacency \<Rightarrow> string set \<Rightarrow> frame list \<Rightarrow> bool" where
  "frames_ok adjacency visited stack \<longleftrightarrow>
     (\<forall>f \<in> set stack. set (take (fr_next f) (neighbours adjacency (fr_node f))) \<subseteq> visited)"

lemma finish_from_inv:
  assumes "dfs_inv adjacency visited order (map fr_node stack)" and "frames_ok adjacency visited stack"
    and "finish_from adjacency visited order stack = (visited', order')"
  shows "dfs_inv adjacency visited' order' [] \<and> visited \<subseteq> visited'"
  using assms
proof (induction adjacency visited order stack arbitrary: visited' order' rule: finish_from.induct)
  case (1 adjacency visited order)
  then show ?case by simp
next
  case (2 adjacency visited order f stack)
  let ?ws = "neighbours adjacency (fr_node f)"
  note run = "2.prems"(3) [unfolded finish_from.simps(2) [of adjacency visited order f stack] Let_def]
  show ?case
  proof (cases "fr_next f < length ?ws")
    case room: True
    let ?w = "?ws ! fr_next f" and ?f = "f\<lparr>fr_next := Suc (fr_next f)\<rparr>"
    have w: "edge adjacency (fr_node f) ?w" using room by (simp add: edge_def)
    show ?thesis
    proof (cases "?w \<in> visited")
      case True
      with "2.prems"(2) room have "frames_ok adjacency visited (?f # stack)"
        by (auto simp: frames_ok_def take_Suc_conv_app_nth)
      with "2.IH"(2) [OF refl room refl refl] True "2.prems"(1) run room show ?thesis by simp
    next
      case False
      have "dfs_inv adjacency (insert ?w visited) order (map fr_node (\<lparr>fr_node = ?w, fr_next = 0\<rparr> # ?f # stack))"
        using dfs_push [OF "2.prems"(1) False neighbours_nodes] w by (simp add: edge_def)
      moreover have "frames_ok adjacency (insert ?w visited) (\<lparr>fr_node = ?w, fr_next = 0\<rparr> # ?f # stack)"
        using "2.prems"(2) room by (auto simp: frames_ok_def take_Suc_conv_app_nth)
      ultimately show ?thesis
        using "2.IH"(1) [OF refl room refl refl False, of visited' order'] False run room by simp
    qed
  next
    case False
    with "2.prems"(2) have "dfs_inv adjacency visited (order @ [fr_node f]) (map fr_node stack)"
      using dfs_pop [of adjacency visited order "fr_node f"] "2.prems"(1) by (auto simp: frames_ok_def edge_def)
    moreover have "frames_ok adjacency visited stack" using "2.prems"(2) by (simp add: frames_ok_def)
    ultimately show ?thesis using "2.IH"(3) [OF refl False, of visited' order'] run False by simp
  qed
qed

lemma finish_order_inv:
  assumes "set nodes \<subseteq> graph_nodes adjacency" and "finish_order adjacency nodes = (visited, order)"
  shows "dfs_inv adjacency visited order [] \<and> set nodes \<subseteq> visited"
proof -
  let ?step = "\<lambda>(visited, order) start. if start \<in> visited then (visited, order)
       else finish_from adjacency (insert start visited) order [\<lparr>fr_node = start, fr_next = 0\<rparr>]"
  have "dfs_inv adjacency v order [] \<and> s \<subseteq> v \<and> set nodes \<subseteq> v"
    if "set nodes \<subseteq> graph_nodes adjacency" "dfs_inv adjacency s o' []" "foldl ?step (s, o') nodes = (v, order)" for s o' v order
    using that
  proof (induction nodes arbitrary: s o')
    case (Cons start nodes)
    obtain s1 o1 where step: "?step (s, o') start = (s1, o1)" by fastforce
    have "dfs_inv adjacency s1 o1 [] \<and> insert start s \<subseteq> s1"
    proof (cases "start \<in> s")
      case True
      with step Cons.prems(2) show ?thesis by auto
    next
      case False
      with dfs_push [OF Cons.prems(2) False] Cons.prems(1)
      have "dfs_inv adjacency (insert start s) o' (map fr_node [\<lparr>fr_node = start, fr_next = 0\<rparr>])" by simp
      with finish_from_inv [of adjacency "insert start s" o' "[\<lparr>fr_node = start, fr_next = 0\<rparr>]" s1 o1] step False
      show ?thesis by (simp add: frames_ok_def)
    qed
    with Cons.IH [of s1 o1] Cons.prems step show ?case by auto
  qed simp
  moreover have "dfs_inv adjacency {} [] []" by (simp add: dfs_inv_def outlasted_def)
  ultimately show ?thesis using assms unfolding finish_order_def by blast
qed

section \<open>The reversed adjacency\<close>

lemma neighbours_update: "neighbours (AList.update k v m) w = (if w = k then v else neighbours m w)"
  by (simp add: neighbours_def update_conv')

lemma neighbours_add_reverse:
  "v \<in> set (neighbours (foldl (add_reverse source) reverse targets) w) \<longleftrightarrow>
     v \<in> set (neighbours reverse w) \<or> v = source \<and> w \<in> set targets"
  by (induction targets arbitrary: reverse) (auto simp: add_reverse_def neighbours_update)

lemma neighbours_reverse_all:
  "v \<in> set (neighbours (foldl (\<lambda>reverse (source, targets). foldl (add_reverse source) reverse targets) reverse adjacency) w) \<longleftrightarrow>
     v \<in> set (neighbours reverse w) \<or> (\<exists>targets. (v, targets) \<in> set adjacency \<and> w \<in> set targets)"
  by (induction adjacency arbitrary: reverse) (auto simp: neighbours_add_reverse)

lemma neighbours_empty: "neighbours (foldl (\<lambda>reverse node. AList.update node [] reverse) [] nodes) w = []"
proof -
  have "neighbours m w = [] \<Longrightarrow> neighbours (foldl (\<lambda>reverse node. AList.update node [] reverse) m nodes) w = []" for m
    by (induction nodes arbitrary: m) (auto simp: neighbours_update)
  then show ?thesis by (simp add: neighbours_def)
qed

lemma neighbours_map:
  assumes "\<And>values. set (f values) = set values"
  shows "set (neighbours (map (\<lambda>(node, values). (node, f values)) m) w) = set (neighbours m w)"
proof -
  have "map_of (map (\<lambda>(node, values). (node, f values)) m) w = map_option f (map_of m w)"
    by (induction m) auto
  then show ?thesis using assms by (simp add: neighbours_def split: option.splits)
qed

lemma edge_reverse:
  assumes "jsmap_wf adjacency"
  shows "edge (reverse_adjacency adjacency nodes) w v \<longleftrightarrow> edge adjacency v w"
proof -
  have "edge adjacency v w \<longleftrightarrow> (\<exists>targets. (v, targets) \<in> set adjacency \<and> w \<in> set targets)"
    using assms by (auto simp: edge_def neighbours_def jsmap_wf_def split: option.splits dest: map_of_SomeD)
  then show ?thesis
    by (simp add: edge_def reverse_adjacency_def neighbours_map neighbours_reverse_all neighbours_empty)
qed

section \<open>The second traversal\<close>

lemma push_unvisited_result:
  assumes "foldl push_unvisited (visited, stack) ws = (visited', stack')"
  shows "visited' = visited \<union> set ws" and "set stack' = set stack \<union> (set ws - visited)"
    and "distinct stack \<Longrightarrow> set stack \<subseteq> visited \<Longrightarrow> distinct stack'"
  using assms
proof (induction ws arbitrary: visited stack)
  case (Cons w ws)
  case 1
  with Cons show ?case by (auto simp: push_unvisited_def split: if_splits)
next
  case (Cons w ws)
  case 2
  with Cons show ?case by (auto simp: push_unvisited_def split: if_splits)
next
  case (Cons w ws)
  case 3
  with Cons.IH(3) [of "w # stack" "insert w visited"] Cons.IH(3) [of stack visited] show ?case
    by (auto simp: push_unvisited_def split: if_splits)
qed simp_all

text \<open>
  On top of \<open>old\<close>, closed under predecessors, the component and the stack hold nodes that
  reach the start, and what has an edge to the component is visited.
\<close>

definition collect_inv :: "adjacency \<Rightarrow> string set \<Rightarrow> string \<Rightarrow> string set \<Rightarrow> string list \<Rightarrow> string list \<Rightarrow> bool" where
  "collect_inv adjacency old start visited component stack \<longleftrightarrow>
     visited = old \<union> set component \<union> set stack \<and> old \<inter> (set component \<union> set stack) = {} \<and>
     distinct (component @ stack) \<and> start \<in> set component \<union> set stack \<and>
     (\<forall>v \<in> set component \<union> set stack. reach adjacency v start) \<and>
     (\<forall>v \<in> set component. \<forall>u. edge adjacency u v \<longrightarrow> u \<in> visited)"

lemma collect_from_inv:
  assumes "\<And>v w. edge reverse w v \<longleftrightarrow> edge adjacency v w"
    and "collect_inv adjacency old start visited component stack"
    and "collect_from reverse visited component stack = (visited', component')"
  shows "collect_inv adjacency old start visited' component' []"
  using assms
proof (induction reverse visited component stack arbitrary: visited' component' rule: collect_from.induct)
  case (1 reverse visited component)
  then show ?case by simp
next
  case (2 reverse visited component node stack)
  obtain visited1 stack1 where push: "foldl push_unvisited (visited, stack) (rev (neighbours reverse node)) = (visited1, stack1)"
    by fastforce
  note pushed = push_unvisited_result [OF push]
  have inv: "collect_inv adjacency old start visited component (node # stack)" by (rule "2.prems"(2))
  have preds: "set (rev (neighbours reverse node)) = {u. edge adjacency u node}"
    using "2.prems"(1) by (auto simp: edge_def)
  have "reach adjacency u start" if "edge adjacency u node" for u
    using that inv by (auto simp: collect_inv_def intro: converse_rtranclp_into_rtranclp)
  moreover have "distinct stack1" using pushed(3) inv by (auto simp: collect_inv_def)
  ultimately have "collect_inv adjacency old start visited1 (component @ [node]) stack1"
    using inv pushed(1,2) preds by (auto simp: collect_inv_def)
  moreover have "collect_from reverse visited1 (component @ [node]) stack1 = (visited', component')"
    using "2.prems"(3) push by (simp add: collect_from.simps(2) [of reverse visited component node stack])
  ultimately show ?case using "2.IH" [OF push [symmetric] refl "2.prems"(1)] by blast
qed

definition predecessor_closed :: "adjacency \<Rightarrow> string set \<Rightarrow> bool" where
  "predecessor_closed adjacency visited \<longleftrightarrow> (\<forall>v \<in> visited. \<forall>u. edge adjacency u v \<longrightarrow> u \<in> visited)"

lemma predecessor_closed_reach:
  assumes "predecessor_closed adjacency visited" and "reach adjacency u v" and "v \<in> visited"
  shows "u \<in> visited"
  using assms(2,3) by (induction rule: converse_rtranclp_induct) (use assms(1) in \<open>auto simp: predecessor_closed_def\<close>)

lemma collect_from_component:
  assumes "\<And>v w. edge reverse w v \<longleftrightarrow> edge adjacency v w" and closed: "predecessor_closed adjacency visited"
    and start: "start \<notin> visited"
    and "collect_from reverse (insert start visited) [] [start] = (visited', component)"
  shows "visited' = visited \<union> set component" and "set component = {u. u \<notin> visited \<and> reach adjacency u start}"
    and "distinct component" and "predecessor_closed adjacency visited'"
proof -
  have "collect_inv adjacency visited start (insert start visited) [] [start]"
    using start by (auto simp: collect_inv_def)
  from collect_from_inv [OF assms(1) this assms(4)]
  have inv: "collect_inv adjacency visited start visited' component []" .
  then show v: "visited' = visited \<union> set component" and "distinct component" by (auto simp: collect_inv_def)
  from inv closed show closed': "predecessor_closed adjacency visited'"
    by (auto simp: collect_inv_def predecessor_closed_def)
  have "start \<in> visited'" using inv v by (auto simp: collect_inv_def)
  then have "u \<in> visited'" if "reach adjacency u start" for u
    using predecessor_closed_reach [OF closed' that] by simp
  with v inv show "set component = {u. u \<notin> visited \<and> reach adjacency u start}"
    by (auto simp: collect_inv_def)
qed

lemma distinct_sort_by: "distinct (sort_by le xs) \<longleftrightarrow> distinct xs"
  by (metis card_distinct distinct_card length_sort_by set_sort_by)

lemma sorted_code_points: "sorted_wrt code_point_le (sort_by code_point_le xs)"
  using points.sorted_sort [of "\<lambda>x. x" xs] by (simp add: code_point_le_def [abs_def])

text \<open>What the second traversal has done with the nodes taken so far.\<close>

definition classes_inv :: "adjacency \<Rightarrow> string list \<Rightarrow> string set \<Rightarrow> string list list \<Rightarrow> bool" where
  "classes_inv adjacency taken visited components \<longleftrightarrow>
     predecessor_closed adjacency visited \<and> set taken \<subseteq> visited \<and> visited = \<Union> (set ` set components) \<and>
     distinct components \<and>
     (\<forall>c \<in> set components. distinct c \<and> sorted_wrt code_point_le c \<and>
        (\<exists>v \<in> set taken. set c = {u. mutual adjacency u v}))"

lemma class_of_start:
  assumes "outlasted adjacency order {}" and order: "order = xs @ r # rev taken" and closed: "predecessor_closed adjacency visited"
    and taken: "set taken \<subseteq> visited" and "r \<notin> visited" and "\<And>u. reach adjacency u r \<Longrightarrow> u \<in> set order"
    and "distinct order"
  shows "{u. u \<notin> visited \<and> reach adjacency u r} = {u. mutual adjacency u r}"
proof (intro set_eqI iffI; clarify)
  fix u assume u: "u \<notin> visited" "reach adjacency u r"
  then have "u \<in> set order" "r \<in> set order" using assms(6) order by auto
  with assms(1) u(2) obtain s where s: "mutual adjacency u s" "lasts order r s"
    by (auto simp: outlasted_def)
  from s(2) obtain ys zs where split: "order = ys @ r # zs" "s \<in> set (r # zs)" by (auto simp: lasts_def)
  have "r \<notin> set xs" "r \<notin> set (rev taken)" using order \<open>distinct order\<close> by auto
  with split order have "zs = rev taken" by (metis append_Cons_eq_iff)
  with split have "s = r \<or> s \<in> set taken" by auto
  moreover have "s \<notin> visited"
    using u(1) s(1) predecessor_closed_reach [OF closed] by (auto simp: mutual_def)
  ultimately have "s = r" using taken by blast
  with s(1) show "mutual adjacency u r" by simp
next
  fix u assume "mutual adjacency u r"
  then show "u \<notin> visited \<and> reach adjacency u r"
    using predecessor_closed_reach [OF closed] \<open>r \<notin> visited\<close> by (auto simp: mutual_def)
qed

lemma components_from_classes:
  assumes reversed: "\<And>v w. edge reverse w v \<longleftrightarrow> edge adjacency v w"
    and final: "outlasted adjacency order {}" "distinct order"
    and above: "\<And>u r. r \<in> set order \<Longrightarrow> reach adjacency u r \<Longrightarrow> u \<in> set order"
    and run: "components_from reverse order = (visited, components)"
  shows "classes_inv adjacency (rev order) visited components"
proof -
  let ?step = "\<lambda>(visited, components) start.
       if start \<in> visited then (visited, components)
       else (let (visited', component) = collect_from reverse (insert start visited) [] [start]
             in (visited', components @ [sort_by code_point_le component]))"
  have "classes_inv adjacency (taken @ rest) v cs"
    if "order = rev (taken @ rest)" "classes_inv adjacency taken v0 cs0" "foldl ?step (v0, cs0) rest = (v, cs)"
    for taken rest v0 cs0 v cs
    using that
  proof (induction rest arbitrary: taken v0 cs0)
    case (Cons r rest)
    obtain v1 cs1 where step: "?step (v0, cs0) r = (v1, cs1)" by fastforce
    have inv: "classes_inv adjacency taken v0 cs0" by (rule Cons.prems(2))
    have "classes_inv adjacency (taken @ [r]) v1 cs1"
    proof (cases "r \<in> v0")
      case True
      with step inv show ?thesis by (auto simp: classes_inv_def)
    next
      case False
      obtain component where collect: "collect_from reverse (insert r v0) [] [r] = (v1, component)"
        and cs1: "cs1 = cs0 @ [sort_by code_point_le component]"
        using step False by (auto simp: Let_def split: prod.splits)
      have closed: "predecessor_closed adjacency v0" and taken: "set taken \<subseteq> v0"
        using inv by (auto simp: classes_inv_def)
      note found = collect_from_component [OF reversed closed False collect]
      have "u \<in> set order" if "reach adjacency u r" for u
        using above [OF _ that] Cons.prems(1) by simp
      then have "set component = {u. mutual adjacency u r}"
        unfolding found(2)
        using class_of_start [OF final(1) _ closed taken False _ final(2), of "rev rest"] Cons.prems(1) by simp
      moreover from this have "r \<in> set component" by simp
      moreover from this False inv have "sort_by code_point_le component \<notin> set cs0"
        by (auto simp: classes_inv_def)
      ultimately show ?thesis
        using inv found cs1 by (auto simp: classes_inv_def distinct_sort_by sorted_code_points)
    qed
    from Cons.IH [OF _ this] Cons.prems(1,3) step show ?case by simp
  qed simp
  from this [of "[]" "rev order" "{}" "[]" visited components]
  have "classes_inv adjacency [] {} [] \<Longrightarrow> classes_inv adjacency (rev order) visited components"
    using run by (simp add: components_from_def)
  moreover have "classes_inv adjacency [] {} []" by (simp add: classes_inv_def predecessor_closed_def)
  ultimately show ?thesis .
qed

section \<open>The components\<close>

lemma reach_from_node:
  assumes "w \<in> graph_nodes adjacency" and "reach adjacency v w"
  shows "v \<in> graph_nodes adjacency"
  using assms(2,1)
proof (induction rule: converse_rtranclp_induct)
  case (step u v)
  then obtain vs where "map_of adjacency u = Some vs" by (cases "map_of adjacency u") (auto simp: edge_def neighbours_def)
  then have "(u, vs) \<in> set adjacency" by (rule map_of_SomeD)
  then show ?case by (force simp: graph_nodes_def)
qed simp

lemma order_complete:
  assumes "set (map fst adjacency) \<subseteq> visited" and "\<And>u v. u \<in> visited \<Longrightarrow> edge adjacency u v \<Longrightarrow> v \<in> visited"
    and "jsmap_wf adjacency"
  shows "graph_nodes adjacency \<subseteq> visited"
proof
  fix w assume "w \<in> graph_nodes adjacency"
  then consider "w \<in> set (map fst adjacency)" | v ws where "(v, ws) \<in> set adjacency" "w \<in> set ws"
    by (auto simp: graph_nodes_def)
  then show "w \<in> visited"
  proof cases
    case 2
    with assms(3) have "edge adjacency v w" by (simp add: edge_def neighbours_def jsmap_wf_def)
    with 2 assms(1,2) show ?thesis by force
  qed (use assms(1) in blast)
qed

lemma strong_components:
  assumes "jsmap_wf adjacency"
  shows "set ` set (stronglyConnectedComponents adjacency) =
      (\<lambda>v. {u. mutual adjacency u v}) ` graph_nodes adjacency"
    and "distinct (stronglyConnectedComponents adjacency)"
    and "\<forall>c \<in> set (stronglyConnectedComponents adjacency). distinct c \<and> sorted_wrt code_point_le c"
proof -
  let ?nodes = "sort_by code_point_le (map fst adjacency)"
  obtain visited order where order: "finish_order adjacency ?nodes = (visited, order)" by fastforce
  obtain visited' components where run: "components_from (reverse_adjacency adjacency ?nodes) order = (visited', components)"
    by fastforce
  have inv: "dfs_inv adjacency visited order []" and nodes: "set ?nodes \<subseteq> visited"
    using finish_order_inv [OF _ order] by (auto simp: graph_nodes_def)
  have all: "set order = graph_nodes adjacency"
    using inv nodes order_complete [of adjacency visited] assms by (auto simp: dfs_inv_def)
  have classes: "classes_inv adjacency (rev order) visited' components"
  proof (rule components_from_classes [OF edge_reverse [OF assms] _ _ _ run])
    show "outlasted adjacency order {}" "distinct order" using inv by (auto simp: dfs_inv_def)
    show "u \<in> set order" if "r \<in> set order" "reach adjacency u r" for u r
      using that all reach_from_node by blast
  qed
  have result: "stronglyConnectedComponents adjacency = sort_by (\<lambda>l r. code_point_le (joined l) (joined r)) components"
    using order run by (simp add: stronglyConnectedComponents_def)
  have "\<exists>c \<in> set components. set c = {u. mutual adjacency u v}" if "v \<in> set order" for v
  proof -
    from classes that obtain c where c: "c \<in> set components" "v \<in> set c" by (auto simp: classes_inv_def)
    then obtain w where "set c = {u. mutual adjacency u w}" using classes by (auto simp: classes_inv_def)
    moreover from this c(2) have "mutual adjacency v w" by simp
    ultimately have "set c = {u. mutual adjacency u v}" by (auto intro: mutual_trans mutual_sym)
    with c show ?thesis by blast
  qed
  then show "set ` set (stronglyConnectedComponents adjacency) = (\<lambda>v. {u. mutual adjacency u v}) ` graph_nodes adjacency"
    using classes all by (fastforce simp: result classes_inv_def)
  show "distinct (stronglyConnectedComponents adjacency)"
    "\<forall>c \<in> set (stronglyConnectedComponents adjacency). distinct c \<and> sorted_wrt code_point_le c"
    using classes by (auto simp: result classes_inv_def distinct_sort_by)
qed

text \<open>A component is cyclic exactly when its nodes lie on cycles.\<close>

lemma component_cyclic:
  assumes "jsmap_wf adjacency" and c: "c \<in> set (stronglyConnectedComponents adjacency)" and v: "v \<in> set c"
  shows "length c > 1 \<or> (length c = 1 \<and> hd c \<in> set (neighbours adjacency (hd c))) \<longleftrightarrow> (edge adjacency)\<^sup>+\<^sup>+ v v"
    (is "?cyclic \<longleftrightarrow> _")
proof -
  note components = strong_components [OF assms(1)]
  obtain w where "set c = {u. mutual adjacency u w}" using components(1) c by blast
  with v have members: "u \<in> set c \<longleftrightarrow> mutual adjacency u v" for u
    by (auto intro: mutual_trans mutual_sym)
  show ?thesis
  proof
    assume ?cyclic
    then show "(edge adjacency)\<^sup>+\<^sup>+ v v"
    proof
      assume "length c > 1"
      then obtain a b d where ab: "c = a # b # d" by (cases c rule: remdups_adj.cases) auto
      with components(3) c have "a \<noteq> b" by auto
      with ab obtain u where "u \<in> set c" "u \<noteq> v" by (cases "a = v") auto
      then have "(edge adjacency)\<^sup>+\<^sup>+ v u" "reach adjacency u v" by (auto simp: members mutual_def dest: rtranclpD)
      then show ?thesis by (rule tranclp_rtranclp_tranclp)
    next
      assume "length c = 1 \<and> hd c \<in> set (neighbours adjacency (hd c))"
      then have "edge adjacency v v" using v by (cases c) (auto simp: edge_def)
      then show ?thesis ..
    qed
  next
    assume "(edge adjacency)\<^sup>+\<^sup>+ v v"
    then obtain w where w: "edge adjacency v w" "reach adjacency w v" by (auto dest: tranclpD)
    then have "w \<in> set c" by (auto simp: members mutual_def)
    with v w(1) show ?cyclic by (cases c rule: remdups_adj.cases) (auto simp: edge_def)
  qed
qed

lemma cyclic_node:
  assumes "(edge adjacency)\<^sup>+\<^sup>+ v v"
  shows "v \<in> graph_nodes adjacency"
proof -
  obtain w where "edge adjacency v w" "reach adjacency w v" using assms by (auto dest: tranclpD)
  then show ?thesis
    using reach_from_node [of w adjacency v] neighbours_nodes by (simp add: edge_def r_into_rtranclp)
qed

text \<open>The cyclic components are the classes of the nodes on cycles.\<close>

lemma cyclic_classes:
  assumes "jsmap_wf adjacency"
  shows "set ` set (cyclicComponents adjacency) = (\<lambda>v. {u. mutual adjacency u v}) ` {v. (edge adjacency)\<^sup>+\<^sup>+ v v}"
proof -
  note components = strong_components [OF assms]
  have cyclic: "c \<in> set (cyclicComponents adjacency) \<longleftrightarrow>
      c \<in> set (stronglyConnectedComponents adjacency) \<and> (edge adjacency)\<^sup>+\<^sup>+ v v"
    if "set c = {u. mutual adjacency u v}" for c v
  proof -
    have "v \<in> set c" using that by simp
    then show ?thesis using component_cyclic [OF assms, of c v] by (auto simp: cyclicComponents_def)
  qed
  have "set c \<in> (\<lambda>v. {u. mutual adjacency u v}) ` {v. (edge adjacency)\<^sup>+\<^sup>+ v v}" if c: "c \<in> set (cyclicComponents adjacency)" for c
  proof -
    from c have "c \<in> set (stronglyConnectedComponents adjacency)" by (simp add: cyclicComponents_def)
    then obtain v where v: "set c = {u. mutual adjacency u v}" using components(1) by blast
    with cyclic [OF v] c show ?thesis by blast
  qed
  moreover have "{u. mutual adjacency u v} \<in> set ` set (cyclicComponents adjacency)" if v: "(edge adjacency)\<^sup>+\<^sup>+ v v" for v
  proof -
    from cyclic_node [OF v] components(1) obtain c
      where c: "c \<in> set (stronglyConnectedComponents adjacency)" "set c = {u. mutual adjacency u v}"
      by (metis (no_types, lifting) image_iff)
    with cyclic [OF c(2)] v have "c \<in> set (cyclicComponents adjacency)" by simp
    with c(2) show ?thesis by blast
  qed
  ultimately show ?thesis by blast
qed

lemma cyclic_components:
  assumes "jsmap_wf adjacency"
  shows "cyclicComponents adjacency = [] \<longleftrightarrow> (\<forall>v. \<not> (edge adjacency)\<^sup>+\<^sup>+ v v)"
  using cyclic_classes [OF assms] by (metis (mono_tags, lifting) empty_iff image_is_empty list.set(1) mem_Collect_eq set_empty ex_in_conv)

end
