(* ===== verification/Knowledge_Chains.thy ===== *)
theory Knowledge_Chains
  imports Knowledge_Revisions Component_Correctness
begin

text \<open>
  What the diagnostics on revisions say: nothing is added exactly when every identity's
  revisions form one chain with at most one current revision, and what the indexes hold.
\<close>

section \<open>Collectors\<close>

text \<open>A collector only grows.\<close>

definition extends :: "collector \<Rightarrow> collector \<Rightarrow> bool" where
  "extends c c' \<longleftrightarrow> (\<exists>ds. c' = c @ ds)"

lemma extends_refl [simp]: "extends c c"
  by (simp add: extends_def)

lemma extends_trans: "extends c c' \<Longrightarrow> extends c' c'' \<Longrightarrow> extends c c''"
  by (auto simp: extends_def)

lemma extends_antisym: "extends c c' \<Longrightarrow> extends c' c \<Longrightarrow> c' = c"
  by (auto simp: extends_def)

lemma extends_set: "extends c c' \<Longrightarrow> set c \<subseteq> set c'"
  by (auto simp: extends_def)

lemma extends_add [simp]: "extends c (add_diagnostic stage kind severity path others c)"
  by (simp add: extends_def add_diagnostic_def)

lemma add_diagnostic_changes [simp]: "add_diagnostic stage kind severity path others c \<noteq> c"
  by (simp add: add_diagnostic_def)

lemma extends_when: "(\<And>c. extends c (f c)) \<Longrightarrow> extends c (when_do condition f c)"
  by (simp add: when_do_def)

lemma extends_when_add [simp]: "extends c (when_do condition (add_diagnostic stage kind severity path others) c)"
  by (simp add: extends_when)

lemma when_add_same [simp]:
  "when_do condition (add_diagnostic stage kind severity path others) c = c \<longleftrightarrow> \<not> condition"
  by (simp add: when_do_def)

text \<open>A fold of growing steps leaves the collector alone exactly when every step does.\<close>

lemma extends_foldl: "(\<And>x c. extends c (f c x)) \<Longrightarrow> extends c (foldl f c xs)"
  by (induction xs arbitrary: c) (auto intro: extends_trans)

lemma foldl_same:
  assumes "\<And>x c. extends c (f c x)" and "\<And>x c. x \<in> set xs \<Longrightarrow> f c x = c \<longleftrightarrow> P x"
  shows "foldl f c xs = c \<longleftrightarrow> (\<forall>x \<in> set xs. P x)"
  using assms(2)
proof (induction xs)
  case (Cons x xs)
  have "f c x = c" if "foldl f (f c x) xs = c"
    using extends_antisym [of c "f c x"] assms(1) extends_foldl [of f "f c x" xs] that by metis
  moreover have "f c x = c \<longleftrightarrow> P x" "foldl f c xs = c \<longleftrightarrow> (\<forall>x \<in> set xs. P x)"
    using Cons by simp_all
  ultimately show ?case by (cases "f c x = c") auto
qed simp

section \<open>Chains\<close>

definition chain_ok :: "string \<Rightarrow> knowledge_record list \<Rightarrow> bool" where
  "chain_ok identity revisions \<longleftrightarrow>
     (\<forall>i < length revisions. kr_kind (revisions ! i) \<noteq> DisciplineKind \<longrightarrow>
        kr_revision (revisions ! i) = int i + 1 \<and>
        (i > 0 \<longrightarrow> supersedes_exactly identity (revisions ! i) (revisions ! (i - 1)) \<and>
          (kr_status (revisions ! i) = CurrentStatus \<longrightarrow> kr_status (revisions ! (i - 1)) = SupersededStatus)))"

definition currents_ok :: "knowledge_record list \<Rightarrow> bool" where
  "currents_ok revisions \<longleftrightarrow> length (currents_of revisions) \<le> 1 \<and>
     (\<forall>c \<in> set (currents_of revisions). \<forall>r \<in> set revisions. kr_revision r > kr_revision c \<longrightarrow>
        kr_kind r \<noteq> DisciplineKind \<and> kr_status r = DraftStatus)"

lemma check_revision_extends: "extends c (check_revision identity revisions c i)"
  by (simp add: check_revision_def Let_def) (blast intro: extends_trans extends_when_add)

lemma check_revision_same:
  "check_revision identity revisions c i = c \<longleftrightarrow> kr_kind (revisions ! i) = DisciplineKind \<or>
     kr_revision (revisions ! i) = int i + 1 \<and>
     (i > 0 \<longrightarrow> supersedes_exactly identity (revisions ! i) (revisions ! (i - 1)) \<and>
        (kr_status (revisions ! i) = CurrentStatus \<longrightarrow> kr_status (revisions ! (i - 1)) = SupersededStatus))"
  by (simp add: check_revision_def Let_def when_do_def add_diagnostic_def)

lemma check_revisions_same:
  "foldl (check_revision identity revisions) c [0..<length revisions] = c \<longleftrightarrow> chain_ok identity revisions"
  by (subst foldl_same [OF check_revision_extends check_revision_same]) (auto simp: chain_ok_def)

lemma check_currents_extends: "extends c (fst (check_currents identity revisions (c, m)))"
  by (auto simp: check_currents_def Let_def intro: extends_foldl)

lemma check_currents_same: "fst (check_currents identity revisions (c, m)) = c \<longleftrightarrow> currents_ok revisions"
proof -
  let ?currents = "currents_of revisions"
  consider "length ?currents > 1" | current where "?currents = [current]" | "?currents = []"
    by (cases ?currents rule: remdups_adj.cases) auto
  then show ?thesis
  proof cases
    case 1
    then have "fst (check_currents identity revisions (c, m)) \<noteq> c"
      by (simp add: check_currents_def Let_def) (subst foldl_same [where P = "\<lambda>_. False"], auto)
    with 1 show ?thesis by (simp add: currents_ok_def)
  next
    case 2
    then show ?thesis by (auto simp: check_currents_def currents_ok_def list_ex_iff)
  next
    case 3
    then show ?thesis by (simp add: check_currents_def currents_ok_def)
  qed
qed

lemma check_identity_extends: "extends c (fst (check_identity (c, m) entry))"
proof (cases entry)
  case (Pair identity revisions)
  have "extends c (foldl (check_revision identity revisions) c [0..<length revisions])"
    by (intro extends_foldl check_revision_extends)
  with Pair check_currents_extends show ?thesis
    by (auto simp: check_identity_def intro: extends_trans)
qed

lemma check_identity_same:
  "fst (check_identity (c, m) (identity, revisions)) = c \<longleftrightarrow> chain_ok identity revisions \<and> currents_ok revisions"
proof -
  let ?c = "foldl (check_revision identity revisions) c [0..<length revisions]"
  have "extends c ?c" "extends ?c (fst (check_currents identity revisions (?c, m)))"
    by (intro extends_foldl check_revision_extends) (rule check_currents_extends)
  then have "fst (check_currents identity revisions (?c, m)) = c \<longleftrightarrow> ?c = c \<and> fst (check_currents identity revisions (?c, m)) = ?c"
    by (metis extends_antisym)
  then show ?thesis by (simp add: check_identity_def check_revisions_same check_currents_same)
qed

lemma check_identities:
  "extends c (fst (foldl check_identity (c, m) entries))"
  "fst (foldl check_identity (c, m) entries) = c \<longleftrightarrow>
     (\<forall>(identity, revisions) \<in> set entries. chain_ok identity revisions \<and> currents_ok revisions)"
proof (induction entries arbitrary: c m)
  case (Cons entry entries)
  case 1
  obtain c' m' where step: "check_identity (c, m) entry = (c', m')" by fastforce
  with check_identity_extends [of c m entry] Cons(1) [of c' m'] show ?case by (auto intro: extends_trans)
next
  case (Cons entry entries)
  case 2
  obtain c' m' identity revisions where step: "check_identity (c, m) entry = (c', m')" and entry: "entry = (identity, revisions)"
    by fastforce
  have "extends c c'" using check_identity_extends [of c m entry] step by simp
  with Cons(1) [of c' m'] have "fst (foldl check_identity (c', m') entries) = c \<Longrightarrow> c' = c" by (metis extends_antisym)
  with Cons(2) [of c' m'] check_identity_same [of c m identity revisions] step entry show ?case by auto
qed simp_all

section \<open>The indexes\<close>

lemma map_of_append_value:
  "map_of (append_value k v m) = (map_of m)(k \<mapsto> (case map_of m k of None \<Rightarrow> [] | Some vs \<Rightarrow> vs) @ [v])"
  by (simp add: append_value_def update_conv')

lemma distinct_append_value: "distinct (map fst m) \<Longrightarrow> distinct (map fst (append_value k v m))"
  by (simp add: append_value_def distinct_update)

definition indexed :: "knowledge_record list \<Rightarrow> knowledge_record jsmap \<Rightarrow> knowledge_record list jsmap \<Rightarrow> bool" where
  "indexed records byIdentityRevision revisionsByIdentity \<longleftrightarrow>
     (\<forall>key r. map_of byIdentityRevision key = Some r \<longrightarrow> r \<in> set records \<and> recordIdentityRevision r = key) \<and>
     recordIdentityRevision ` set records \<subseteq> dom (map_of byIdentityRevision) \<and>
     distinct (map fst revisionsByIdentity) \<and>
     (\<forall>k vs. map_of revisionsByIdentity k = Some vs \<longrightarrow> set vs = {r \<in> ran (map_of byIdentityRevision). kr_id r = k}) \<and>
     (\<forall>r \<in> ran (map_of byIdentityRevision). kr_id r \<in> dom (map_of revisionsByIdentity))"

lemma indexedI:
  assumes "\<And>key r. map_of b key = Some r \<Longrightarrow> r \<in> set records \<and> recordIdentityRevision r = key"
    and "recordIdentityRevision ` set records \<subseteq> dom (map_of b)" and "distinct (map fst m)"
    and "\<And>k vs. map_of m k = Some vs \<Longrightarrow> set vs = {r \<in> ran (map_of b). kr_id r = k}"
    and "\<And>r. r \<in> ran (map_of b) \<Longrightarrow> kr_id r \<in> dom (map_of m)"
  shows "indexed records b m"
  using assms unfolding indexed_def by blast

lemma indexedD:
  assumes "indexed records b m"
  shows "map_of b key = Some r \<Longrightarrow> r \<in> set records \<and> recordIdentityRevision r = key"
    and "recordIdentityRevision ` set records \<subseteq> dom (map_of b)" and "distinct (map fst m)"
    and "map_of m k = Some vs \<Longrightarrow> set vs = {r \<in> ran (map_of b). kr_id r = k}"
    and "r \<in> ran (map_of b) \<Longrightarrow> kr_id r \<in> dom (map_of m)"
  using assms unfolding indexed_def by blast+

lemma indexed_snoc:
  assumes "indexed seen b m" and fresh: "map_of b (recordIdentityRevision r) = None"
  shows "indexed (seen @ [r]) (AList.update (recordIdentityRevision r) r b) (append_value (kr_id r) r m)"
proof -
  let ?key = "recordIdentityRevision r"
  note found = indexedD(1) [OF assms(1)] and keys = indexedD(2) [OF assms(1)] and vals = indexedD(4) [OF assms(1)]
    and ids = indexedD(5) [OF assms(1)]
  have ran: "ran (map_of (AList.update ?key r b)) = insert r (ran (map_of b))"
    using fresh by (simp add: update_conv' ran_map_upd)
  have vals': "set vs = {q \<in> insert r (ran (map_of b)). kr_id q = k}"
    if "((map_of m)(kr_id r \<mapsto> (case map_of m (kr_id r) of None \<Rightarrow> [] | Some vs \<Rightarrow> vs) @ [r])) k = Some vs" for k vs
  proof (cases "k = kr_id r")
    case True
    define old where "old = (case map_of m k of None \<Rightarrow> [] | Some vs \<Rightarrow> vs)"
    have "{q \<in> ran (map_of b). kr_id q = k} = set old"
    proof (cases "map_of m k")
      case None
      then have "k \<notin> dom (map_of m)" by (simp add: domIff)
      with ids have "{q \<in> ran (map_of b). kr_id q = k} = {}" by blast
      with None show ?thesis by (simp add: old_def)
    next
      case (Some vs)
      with vals have "set vs = {q \<in> ran (map_of b). kr_id q = k}" by blast
      with Some show ?thesis by (simp add: old_def)
    qed
    moreover have "set vs = insert r (set old)" using that True by (auto simp: old_def)
    ultimately show ?thesis using True by auto
  next
    case False
    with that have "map_of m k = Some vs" by simp
    with vals have "set vs = {q \<in> ran (map_of b). kr_id q = k}" by blast
    with False show ?thesis by auto
  qed
  show ?thesis
  proof (rule indexedI)
    show "q \<in> set (seen @ [r]) \<and> recordIdentityRevision q = key"
      if "map_of (AList.update ?key r b) key = Some q" for key q
    proof (cases "key = ?key")
      case True
      with that show ?thesis by (simp add: update_conv')
    next
      case False
      with that have "map_of b key = Some q" by (simp add: update_conv')
      then show ?thesis using found by fastforce
    qed
    show "recordIdentityRevision ` set (seen @ [r]) \<subseteq> dom (map_of (AList.update ?key r b))"
      using keys by (auto simp: update_conv')
    show "kr_id q \<in> dom (map_of (append_value (kr_id r) r m))" if "q \<in> ran (map_of (AList.update ?key r b))" for q
      using that ids unfolding ran by (auto simp: map_of_append_value)
    show "distinct (map fst (append_value (kr_id r) r m))"
      using indexedD(3) [OF assms(1)] by (rule distinct_append_value)
    show "set vs = {q \<in> ran (map_of (AList.update ?key r b)). kr_id q = k}"
      if "map_of (append_value (kr_id r) r m) k = Some vs" for k vs
      unfolding ran using vals' that by (simp add: map_of_append_value)
  qed
qed

lemma indexed_again:
  assumes "indexed seen b m" and "map_of b (recordIdentityRevision r) = Some prior"
  shows "indexed (seen @ [r]) b m"
proof (rule indexedI)
  show "q \<in> set (seen @ [r]) \<and> recordIdentityRevision q = key" if "map_of b key = Some q" for key q
    using indexedD(1) [OF assms(1) that] by simp
  show "recordIdentityRevision ` set (seen @ [r]) \<subseteq> dom (map_of b)"
    using indexedD(2) [OF assms(1)] assms(2) by auto
qed (rule indexedD [OF assms(1)]; assumption)+

lemma index_records:
  assumes "foldl index_record (c, [], []) records = (c', b, m)"
  shows "indexed records b m" and "extends c c'" and "c' = c \<longleftrightarrow> distinct (map recordIdentityRevision records)"
proof -
  have "indexed (seen @ records) b' m' \<and> extends c0 c1 \<and>
      (c1 = c0 \<longleftrightarrow> distinct (map recordIdentityRevision records) \<and>
        recordIdentityRevision ` set seen \<inter> recordIdentityRevision ` set records = {})"
    if "indexed seen b0 m0" and "foldl index_record (c0, b0, m0) records = (c1, b', m')" for seen b0 m0 c0 c1 b' m'
    using that
  proof (induction records arbitrary: seen b0 m0 c0)
    case (Cons r records)
    let ?key = "recordIdentityRevision r"
    have "?key \<in> dom (map_of b0) \<longleftrightarrow> ?key \<in> recordIdentityRevision ` set seen"
      using Cons.prems(1) unfolding indexed_def by (metis (no_types, lifting) domD image_eqI subsetD)
    then consider prior where "map_of b0 ?key = Some prior" "?key \<in> recordIdentityRevision ` set seen"
      | "map_of b0 ?key = None" "?key \<notin> recordIdentityRevision ` set seen" by (cases "map_of b0 ?key") auto
    then show ?case
    proof cases
      case 1
      let ?c = "add_diagnostic ''revision'' ''lifecycle.knowledge.id-duplicate'' SeverityError (Some (kr_path r)) [kr_path prior] c0"
      have "indexed (seen @ [r]) b0 m0" by (rule indexed_again [OF Cons.prems(1) 1(1)])
      moreover have "foldl index_record (?c, b0, m0) records = (c1, b', m')"
        using Cons.prems(2) 1(1) by (simp add: index_record_def)
      ultimately have "indexed ((seen @ [r]) @ records) b' m'" "extends ?c c1" using Cons.IH by blast+
      moreover from this(2) have "c1 \<noteq> c0" by (auto simp: extends_def add_diagnostic_def)
      ultimately show ?thesis using 1(2) by (auto intro: extends_trans [OF extends_add])
    next
      case 2
      let ?b = "AList.update ?key r b0" and ?m = "append_value (kr_id r) r m0"
      have "indexed (seen @ [r]) ?b ?m" by (rule indexed_snoc [OF Cons.prems(1) 2(1)])
      moreover have "foldl index_record (c0, ?b, ?m) records = (c1, b', m')"
        using Cons.prems(2) 2(1) by (simp add: index_record_def)
      ultimately have "indexed ((seen @ [r]) @ records) b' m' \<and> extends c0 c1 \<and>
          (c1 = c0 \<longleftrightarrow> distinct (map recordIdentityRevision records) \<and>
            recordIdentityRevision ` set (seen @ [r]) \<inter> recordIdentityRevision ` set records = {})"
        by (rule Cons.IH)
      with 2(2) show ?thesis by auto
    qed
  qed simp
  from this [of "[]" "[]" "[]" c c' b m] assms
  show "indexed records b m" "extends c c'" "c' = c \<longleftrightarrow> distinct (map recordIdentityRevision records)"
    by (simp_all add: indexed_def)
qed

lemma map_of_sorted_entries:
  assumes "distinct (map fst m)"
  shows "map_of (sorted_entries m) = map_of m"
proof (rule ext)
  fix k
  have "distinct (map fst (sorted_entries m))" using assms by (simp add: sorted_entries_def)
  then have "map_of (sorted_entries m) k = Some v \<longleftrightarrow> map_of m k = Some v" for v
    using assms by (simp add: sorted_entries_def)
  then show "map_of (sorted_entries m) k = map_of m k" by (metis not_Some_eq)
qed

lemma distinct_sorted_entries [simp]: "distinct (map fst (sorted_entries m)) \<longleftrightarrow> distinct (map fst m)"
  by (simp add: sorted_entries_def)

lemma map_of_map_values: "map_of (map (\<lambda>(k, vs). (k, f vs)) m) k = map_option f (map_of m k)"
  by (induction m) auto

lemma fst_map_values [simp]: "fst \<circ> (\<lambda>(k, vs). (k, f vs)) = fst"
  by auto

lemma check_identities_current:
  assumes "distinct (map fst entries)"
  shows "map_of (snd (foldl check_identity (c, m) entries)) k =
    (case map_of entries k of
       None \<Rightarrow> map_of m k
     | Some vs \<Rightarrow> if length (currents_of vs) = 1 then Some (hd (currents_of vs)) else map_of m k)"
  using assms
proof (induction entries arbitrary: c m)
  case (Cons entry entries)
  obtain identity vs where entry: "entry = (identity, vs)" by fastforce
  obtain c' m' where step: "check_identity (c, m) entry = (c', m')" by fastforce
  have "map_of m' k = (if k = identity \<and> length (currents_of vs) = 1 then Some (hd (currents_of vs)) else map_of m k)"
    using step entry by (auto simp: check_identity_def check_currents_def Let_def update_conv' split: if_splits)
  moreover have "k = identity \<Longrightarrow> map_of entries k = None"
    using Cons.prems entry by (simp add: map_of_eq_None_iff)
  ultimately show ?case
    using Cons.IH [of c' m'] Cons.prems step entry by (auto split: option.splits)
qed simp

lemma revision_indexes:
  assumes "buildRevisionIndexes records c = (c', ix)"
  shows "extends c c'" and "distinct (map fst (ri_revisionsByIdentity ix))"
    and "c' = c \<longleftrightarrow> distinct (map recordIdentityRevision records) \<and>
      (\<forall>(identity, revisions) \<in> set (ri_revisionsByIdentity ix). chain_ok identity revisions \<and> currents_ok revisions)"
    and "map_of (ri_revisionsByIdentity ix) k = Some vs \<Longrightarrow> set vs \<subseteq> {r \<in> set records. kr_id r = k}"
    and "distinct (map recordIdentityRevision records) \<Longrightarrow> r \<in> set records \<Longrightarrow>
      \<exists>vs. map_of (ri_revisionsByIdentity ix) (kr_id r) = Some vs \<and> r \<in> set vs"
    and "map_of (ri_currentByIdentity ix) k = (case map_of (ri_revisionsByIdentity ix) k of
       None \<Rightarrow> None | Some vs \<Rightarrow> if length (currents_of vs) = 1 then Some (hd (currents_of vs)) else None)"
proof -
  obtain c1 b m where first: "foldl index_record (c, [], []) records = (c1, b, m)"
    by (cases "foldl index_record (c, [], []) records")
  define entries where "entries = map (\<lambda>(k, vs). (k, sort_by revision_le vs)) (sorted_entries m)"
  note indexes = index_records [OF first] and ix = indexedD [OF index_records(1) [OF first]]
  have c': "c' = fst (foldl check_identity (c1, []) entries)"
    and revisions: "ri_revisionsByIdentity ix = entries"
    and current: "ri_currentByIdentity ix = snd (foldl check_identity (c1, []) entries)"
    using assms first by (auto simp: buildRevisionIndexes_def entries_def Let_def split: prod.splits)
  show keys: "distinct (map fst (ri_revisionsByIdentity ix))"
    using ix(3) by (simp add: revisions entries_def)
  have lookup: "map_of entries k = map_option (sort_by revision_le) (map_of m k)" for k
    by (simp add: entries_def map_of_map_values map_of_sorted_entries [OF ix(3)])
  have "extends c1 c'" using c' check_identities(1) by simp
  then show "extends c c'" using indexes(2) by (rule extends_trans [rotated])
  have "c' = c \<longleftrightarrow> c1 = c \<and> c' = c1"
    using \<open>extends c1 c'\<close> indexes(2) by (metis extends_antisym)
  then show "c' = c \<longleftrightarrow> distinct (map recordIdentityRevision records) \<and>
      (\<forall>(identity, revisions) \<in> set (ri_revisionsByIdentity ix). chain_ok identity revisions \<and> currents_ok revisions)"
    using indexes(3) check_identities(2) [of c1 "[]" entries] c' revisions by simp
  show "set vs \<subseteq> {r \<in> set records. kr_id r = k}" if "map_of (ri_revisionsByIdentity ix) k = Some vs"
  proof -
    from that obtain us where "map_of m k = Some us" "set vs = set us" by (auto simp: revisions lookup)
    then show ?thesis using ix(4) [of k us] ix(1) by (auto simp: ran_def)
  qed
  show "\<exists>vs. map_of (ri_revisionsByIdentity ix) (kr_id r) = Some vs \<and> r \<in> set vs"
    if unique: "distinct (map recordIdentityRevision records)" and r: "r \<in> set records"
  proof -
    from r ix(2) obtain q where q: "map_of b (recordIdentityRevision r) = Some q" by blast
    with ix(1) [OF this] unique r have "q = r" by (metis distinct_map inj_onD)
    with q have "r \<in> ran (map_of b)" by (auto simp: ran_def)
    moreover from ix(5) [OF this] obtain us where us: "map_of m (kr_id r) = Some us" by blast
    ultimately show ?thesis using ix(4) [OF us] by (auto simp: revisions lookup)
  qed
  show "map_of (ri_currentByIdentity ix) k = (case map_of (ri_revisionsByIdentity ix) k of
       None \<Rightarrow> None | Some vs \<Rightarrow> if length (currents_of vs) = 1 then Some (hd (currents_of vs)) else None)"
    using check_identities_current [of entries c1 "[]" k] keys by (simp add: revisions current split: option.splits)
qed

text \<open>What is current is a current revision of its identity; without diagnostics it is the only one.\<close>

lemma current_record:
  assumes "buildRevisionIndexes records c = (c', ix)" and "map_of (ri_currentByIdentity ix) k = Some r"
  shows "r \<in> set records" and "kr_id r = k" and "kr_status r = CurrentStatus"
proof -
  from assms(2) revision_indexes(6) [OF assms(1), of k] obtain vs
    where vs: "map_of (ri_revisionsByIdentity ix) k = Some vs" and one: "length (currents_of vs) = 1" "r = hd (currents_of vs)"
    by (auto split: option.splits if_splits)
  then have "r \<in> set (currents_of vs)" by (cases "currents_of vs") auto
  then have "r \<in> set vs" "kr_status r = CurrentStatus" by (auto simp: currents_of_def)
  with revision_indexes(4) [OF assms(1) vs] show "r \<in> set records" "kr_id r = k" "kr_status r = CurrentStatus" by auto
qed

lemma current_governs:
  assumes clean: "buildRevisionIndexes records c = (c, ix)"
  shows "map_of (ri_currentByIdentity ix) k = Some r \<longleftrightarrow> r \<in> set records \<and> kr_id r = k \<and> kr_status r = CurrentStatus"
    and "map_of (ri_currentByIdentity ix) k = Some r \<Longrightarrow> q \<in> set records \<Longrightarrow> kr_id q = k \<Longrightarrow>
      kr_revision q > kr_revision r \<Longrightarrow> kr_status q = DraftStatus \<and> kr_kind q \<noteq> DisciplineKind"
proof -
  note facts = revision_indexes [OF clean]
  have unique: "distinct (map recordIdentityRevision records)"
    and ok: "\<And>identity vs. (identity, vs) \<in> set (ri_revisionsByIdentity ix) \<Longrightarrow> currents_ok vs"
    using facts(3) by auto
  have only: "map_of (ri_currentByIdentity ix) (kr_id q) = Some q" if "q \<in> set records" "kr_status q = CurrentStatus" for q
  proof -
    from facts(5) [OF unique that(1)] obtain vs where vs: "map_of (ri_revisionsByIdentity ix) (kr_id q) = Some vs" "q \<in> set vs"
      by blast
    then have "currents_ok vs" using ok map_of_SomeD by fast
    moreover have "q \<in> set (currents_of vs)" using vs(2) that(2) by (simp add: currents_of_def)
    ultimately have "currents_of vs = [q]" by (cases "currents_of vs" rule: remdups_adj.cases) (auto simp: currents_ok_def)
    then show ?thesis using facts(6) [of "kr_id q"] vs(1) by simp
  qed
  show "map_of (ri_currentByIdentity ix) k = Some r \<longleftrightarrow> r \<in> set records \<and> kr_id r = k \<and> kr_status r = CurrentStatus"
    using only [of r] current_record [OF clean, of k r] by auto
  show "kr_status q = DraftStatus \<and> kr_kind q \<noteq> DisciplineKind"
    if r: "map_of (ri_currentByIdentity ix) k = Some r" and q: "q \<in> set records" "kr_id q = k" "kr_revision q > kr_revision r"
  proof -
    from facts(5) [OF unique q(1)] q(2) obtain vs where vs: "map_of (ri_revisionsByIdentity ix) k = Some vs" "q \<in> set vs" by auto
    then have ok': "currents_ok vs" using ok map_of_SomeD by fast
    have "r \<in> set (currents_of vs)"
      using r facts(6) [of k] vs(1) by (cases "currents_of vs") (auto split: if_splits)
    with ok' vs(2) q(3) show ?thesis by (auto simp: currents_ok_def)
  qed
qed

end
