(* ===== verification/Knowledge_Graph.thy ===== *)
theory Knowledge_Graph
  imports Knowledge_Relationships Knowledge_Chains
begin

text \<open>
  What the validation of the Knowledge graph establishes: the adjacency of a type is the
  relation of its edges between current records, a cycle is reported exactly when there is
  one, and a graph without an error diagnostic is the graph its records require.
\<close>

section \<open>Adjacency\<close>

lemma set_sort_unique [simp]: "set (sortUniqueCodePoints xs) = set xs"
  by (simp add: sortUniqueCodePoints_def)

lemma neighbours_nil [simp]: "neighbours [] v = []"
  by (simp add: neighbours_def)

lemma neighbours_append [simp]:
  "neighbours (append_value k v m) = (neighbours m)(k := neighbours m k @ [v])"
  by (rule ext) (simp add: neighbours_def map_of_append_value)

lemma neighbours_empty_key [simp]:
  assumes "map_of m k = None"
  shows "neighbours (AList.update k [] m) = neighbours m"
  using assms by (intro ext) (simp add: neighbours_def update_conv')

lemma neighbours_add_edge [simp]:
  "neighbours (add_edge m e) = (neighbours m)(ed_source e := neighbours m (ed_source e) @ [ed_target e])"
  by (simp add: add_edge_def Let_def)

lemma distinct_add_edge: "distinct (map fst m) \<Longrightarrow> distinct (map fst (add_edge m e))"
  by (simp add: add_edge_def Let_def distinct_append_value distinct_update)

lemma add_edges:
  "neighbours (foldl add_edge m es) v = neighbours m v @ map ed_target (filter (\<lambda>e. ed_source e = v) es)"
  by (induction es arbitrary: m) simp_all

lemma distinct_add_edges: "distinct (map fst m) \<Longrightarrow> distinct (map fst (foldl add_edge m es))"
  by (induction es arbitrary: m) (simp_all add: distinct_add_edge)

lemma adjacency_wf [simp]: "jsmap_wf (adjacencyFor edges current t req)"
  by (simp add: jsmap_wf_def adjacencyFor_def distinct_add_edges)

lemma neighbours_map_sorted:
  assumes "distinct (map fst m)"
  shows "set (neighbours (map (\<lambda>(key, values). (key, sortUniqueCodePoints values)) (sorted_entries m)) v) = set (neighbours m v)"
  by (simp add: neighbours_def map_of_map_values map_of_sorted_entries [OF assms] split: option.splits)

lemma adjacency_edges:
  "edge (adjacencyFor edges current t req) v w \<longleftrightarrow>
     (\<exists>e \<in> set edges. adjacency_edge current t req e \<and> ed_source e = v \<and> ed_target e = w)"
proof -
  have "set (neighbours (adjacencyFor edges current t req) v) =
      set (map ed_target (filter (\<lambda>e. ed_source e = v) (filter (adjacency_edge current t req) edges)))"
    unfolding adjacencyFor_def
    by (subst neighbours_map_sorted) (simp_all add: distinct_add_edges add_edges)
  then show ?thesis by (auto simp: edge_def)
qed

section \<open>Error diagnostics\<close>

definition error_free :: "collector \<Rightarrow> bool" where
  "error_free c \<longleftrightarrow> (\<forall>d \<in> set c. dg_severity d \<noteq> SeverityError)"

lemma error_free_add [simp]:
  "error_free (add_diagnostic stage kind severity path others c) \<longleftrightarrow> error_free c \<and> severity \<noteq> SeverityError"
  by (auto simp: error_free_def add_diagnostic_def)

lemma error_free_when [simp]:
  "error_free (when_do condition (add_diagnostic stage kind severity path others) c) \<longleftrightarrow>
     error_free c \<and> (condition \<longrightarrow> severity \<noteq> SeverityError)"
  by (simp add: when_do_def)

lemma error_free_foldl:
  assumes "\<And>c x. error_free (f c x) \<longleftrightarrow> error_free c \<and> P x"
  shows "error_free (foldl f c xs) \<longleftrightarrow> error_free c \<and> (\<forall>x \<in> set xs. P x)"
  by (induction xs arbitrary: c) (auto simp: assms)

lemma error_free_targets [simp]:
  "error_free (target_diagnostics source isCurrent l current historical c) \<longleftrightarrow>
     error_free c \<and> \<not> (isCurrent \<and> kl_required l \<and> current = None)"
  by (auto simp: target_diagnostics_def Let_def)

section \<open>Edges\<close>

text \<open>What a relationship points at, and what is asked of it, over the indexes.\<close>

definition target_of :: "knowledge_record list jsmap \<Rightarrow> knowledge_record jsmap \<Rightarrow> knowledge_relationship \<Rightarrow> knowledge_record option" where
  "target_of revisions current l =
     (case map_of current (kl_target l) of None \<Rightarrow> latestRevision revisions (kl_target l) | Some t \<Rightarrow> Some t)"

definition step_ok ::
  "knowledge_record list jsmap \<Rightarrow> knowledge_record jsmap \<Rightarrow> knowledge_record \<Rightarrow> knowledge_relationship \<Rightarrow> bool" where
  "step_ok revisions current source l \<longleftrightarrow>
     (map_of current (kr_id source) = Some source \<and> kl_required l \<longrightarrow> map_of current (kl_target l) \<noteq> None) \<and>
     (\<forall>t. target_of revisions current l = Some t \<longrightarrow> legalEdge source t (kl_type l)) \<and>
     (kl_target l = kr_id source \<longrightarrow> kl_type l = DependsOn \<or> kl_type l = RelatedTo)"

lemma relationship_step_result:
  assumes "relationship_step P revisions current source l c = Inr (c', e)"
  shows "error_free c' \<longleftrightarrow> error_free c \<and> step_ok revisions current source l"
    and "edge_of P source l (target_of revisions current l) = Inr e"
proof -
  let ?historical = "if map_of current (kl_target l) = None then latestRevision revisions (kl_target l) else None"
  have target: "(if map_of current (kl_target l) = None then ?historical else map_of current (kl_target l)) =
      target_of revisions current l"
    by (simp add: target_of_def split: option.splits)
  note step = assms [unfolded relationship_step_def Let_def target]
  then show "edge_of P source l (target_of revisions current l) = Inr e"
    by (auto simp: bindE_def split: sum.splits)
  from step show "error_free c' \<longleftrightarrow> error_free c \<and> step_ok revisions current source l"
    by (cases "target_of revisions current l") (auto simp: bindE_def step_ok_def split: sum.splits)
qed

abbreviation relationships_of :: "knowledge_record \<Rightarrow> knowledge_relationship list" where
  "relationships_of r \<equiv> fm_relationships (kr_frontMatter r)"

definition link_key :: "knowledge_relationship \<Rightarrow> relationship_type \<times> string" where
  "link_key l = (kl_type l, kl_target l)"

definition edges_for ::
  "platform \<Rightarrow> knowledge_record list jsmap \<Rightarrow> knowledge_record jsmap \<Rightarrow> (knowledge_record \<times> knowledge_relationship) list \<Rightarrow>
     relationship_edge list \<Rightarrow> bool" where
  "edges_for P revisions current =
     list_all2 (\<lambda>(r, l) e. edge_of P r l (target_of revisions current l) = Inr e)"

definition loop_result ::
  "platform \<Rightarrow> nat \<Rightarrow> knowledge_record list jsmap \<Rightarrow> knowledge_record jsmap \<Rightarrow>
     (knowledge_record \<times> knowledge_relationship) list \<Rightarrow> bool \<Rightarrow> edge_state \<Rightarrow> edge_state \<Rightarrow> bool" where
  "loop_result P maximum revisions current links new s s' \<longleftrightarrow>
     (error_free (gb_collector s') \<longleftrightarrow> error_free (gb_collector s) \<and> new \<and>
        (\<forall>(r, l) \<in> set links. step_ok revisions current r l) \<and>
        (links \<noteq> [] \<longrightarrow> length (gb_edges s) + length links \<le> maximum)) \<and>
     (error_free (gb_collector s') \<longrightarrow> gb_bounded s' = gb_bounded s \<and>
        (\<exists>es. gb_edges s' = gb_edges s @ es \<and> edges_for P revisions current links es))"

lemma relationship_loop_result:
  assumes "relationship_loop P maximum revisions current source seen ls s = Inr s'"
  shows "loop_result P maximum revisions current (map (Pair source) ls)
    (distinct (map link_key ls) \<and> set seen \<inter> link_key ` set ls = {}) s s'"
  using assms
proof (induction ls arbitrary: seen s)
  case (Cons l ls)
  consider (full) "length (gb_edges s) \<ge> maximum" | (again) "\<not> length (gb_edges s) \<ge> maximum" "link_key l \<in> set seen"
    | (fresh) "\<not> length (gb_edges s) \<ge> maximum" "link_key l \<notin> set seen" by blast
  then show ?case
  proof cases
    case full
    with Cons.prems show ?thesis by (auto simp: loop_result_def)
  next
    case again
    with Cons.prems have "relationship_loop P maximum revisions current source seen ls
        (s\<lparr>gb_collector := add_diagnostic ''relationships'' ''lifecycle.relationship.duplicate'' SeverityError
           (Some (kr_path source)) [] (gb_collector s)\<rparr>) = Inr s'" by (simp add: link_key_def)
    from Cons.IH [OF this] again(2) show ?thesis by (auto simp: loop_result_def)
  next
    case fresh
    then obtain c e where step: "relationship_step P revisions current source l (gb_collector s) = Inr (c, e)"
      and rest: "relationship_loop P maximum revisions current source (link_key l # seen) ls
        (s\<lparr>gb_collector := c, gb_edges := gb_edges s @ [e]\<rparr>) = Inr s'"
      using Cons.prems by (auto simp: link_key_def bindE_def split: sum.splits)
    from Cons.IH [OF rest] relationship_step_result [OF step] fresh show ?thesis
      by (auto simp: loop_result_def edges_for_def)
  qed
qed (auto simp: loop_result_def edges_for_def)

definition links :: "knowledge_record list \<Rightarrow> (knowledge_record \<times> knowledge_relationship) list" where
  "links records = concat (map (\<lambda>r. map (Pair r) (relationships_of r)) records)"

lemma loop_result_append:
  assumes one: "loop_result P maximum revisions current links1 new1 s s1"
    and two: "loop_result P maximum revisions current links2 new2 s1 s2"
  shows "loop_result P maximum revisions current (links1 @ links2) (new1 \<and> new2) s s2"
proof (cases "error_free (gb_collector s1)")
  case True
  then obtain es1 where es1: "gb_bounded s1 = gb_bounded s" "gb_edges s1 = gb_edges s @ es1" "edges_for P revisions current links1 es1"
    using one by (auto simp: loop_result_def)
  then have len: "length (gb_edges s1) = length (gb_edges s) + length links1"
    by (auto simp: edges_for_def dest: list_all2_lengthD)
  have "error_free (gb_collector s2) \<longleftrightarrow> error_free (gb_collector s) \<and> (new1 \<and> new2) \<and>
      (\<forall>(r, l) \<in> set (links1 @ links2). step_ok revisions current r l) \<and>
      (links1 @ links2 \<noteq> [] \<longrightarrow> length (gb_edges s) + length (links1 @ links2) \<le> maximum)"
    using one two True unfolding loop_result_def len by (cases "links2 = []") auto
  moreover have "gb_bounded s2 = gb_bounded s \<and>
      (\<exists>es. gb_edges s2 = gb_edges s @ es \<and> edges_for P revisions current (links1 @ links2) es)"
    if "error_free (gb_collector s2)"
  proof -
    from that two obtain es2 where "gb_bounded s2 = gb_bounded s1" "gb_edges s2 = gb_edges s1 @ es2"
      "edges_for P revisions current links2 es2" by (auto simp: loop_result_def)
    with es1 show ?thesis by (auto simp: edges_for_def intro: list_all2_appendI)
  qed
  ultimately show ?thesis by (simp add: loop_result_def)
next
  case False
  moreover from False two have "\<not> error_free (gb_collector s2)" by (simp add: loop_result_def)
  ultimately show ?thesis using one by (auto simp: loop_result_def)
qed

lemma records_loop_result:
  assumes "records_loop P maximum revisions current sources s = Inr s'" and "gb_bounded s"
  shows "loop_result P maximum revisions current (links sources)
    (\<forall>r \<in> set sources. distinct (map link_key (relationships_of r))) s s'"
  using assms
proof (induction sources arbitrary: s)
  case (Cons r sources)
  then obtain s1 where first: "relationship_loop P maximum revisions current r [] (relationships_of r) s = Inr s1"
    by (auto simp: bindE_def split: sum.splits)
  note one = relationship_loop_result [OF first]
  show ?case
  proof (cases "gb_bounded s1")
    case True
    with first Cons.prems(1) have "records_loop P maximum revisions current sources s1 = Inr s'" by (simp add: bindE_def)
    from loop_result_append [OF one Cons.IH [OF this True]] show ?thesis by (simp add: links_def)
  next
    case False
    with first Cons.prems(1) have "s' = s1" by (simp add: bindE_def)
    moreover from False one Cons.prems(2) have "\<not> error_free (gb_collector s1)" by (auto simp: loop_result_def)
    ultimately show ?thesis using one by (auto simp: loop_result_def links_def)
  qed
qed (simp add: loop_result_def links_def edges_for_def)

text \<open>The limit is only ever reported as an error.\<close>

definition limit_errors :: "collector \<Rightarrow> bool" where
  "limit_errors c \<longleftrightarrow> (\<forall>d \<in> set c. dg_stage d = ''relationships'' \<and> dg_code d = ''lifecycle.knowledge.limit-exceeded'' \<longrightarrow>
     dg_severity d = SeverityError)"

lemma limit_errors_add [simp]:
  "limit_errors (add_diagnostic stage kind severity path others c) \<longleftrightarrow>
     limit_errors c \<and> (stage = ''relationships'' \<and> kind = ''lifecycle.knowledge.limit-exceeded'' \<longrightarrow> severity = SeverityError)"
  by (auto simp: limit_errors_def add_diagnostic_def)

lemma limit_errors_when [intro]: "(limit_errors c \<Longrightarrow> limit_errors (f c)) \<Longrightarrow> limit_errors c \<Longrightarrow> limit_errors (when_do condition f c)"
  by (simp add: when_do_def)

lemma limit_errors_step:
  assumes "relationship_step P revisions current source l c = Inr (c', e)" and "limit_errors c"
  shows "limit_errors c'"
  using assms unfolding relationship_step_def Let_def target_diagnostics_def when_do_def
  by (auto simp: bindE_def split: sum.splits option.splits if_splits)

lemma limit_errors_loop:
  "relationship_loop P maximum revisions current source seen ls s = Inr s' \<Longrightarrow> limit_errors (gb_collector s) \<Longrightarrow>
    limit_errors (gb_collector s')"
proof (induction ls arbitrary: seen s)
  case (Cons l ls)
  then show ?case
    by (auto simp: bindE_def split: if_splits sum.splits dest!: limit_errors_step intro: Cons.IH)
qed simp

lemma limit_errors_records:
  "records_loop P maximum revisions current sources s = Inr s' \<Longrightarrow> limit_errors (gb_collector s) \<Longrightarrow>
    limit_errors (gb_collector s')"
proof (induction sources arbitrary: s)
  case (Cons r sources)
  then show ?case by (auto simp: bindE_def split: if_splits sum.splits dest: limit_errors_loop)
qed simp

lemma mset_links: "mset xs = mset ys \<Longrightarrow> mset (links xs) = mset (links ys)"
proof -
  have "mset (links xs) = \<Sum>\<^sub># (image_mset (\<lambda>r. mset (map (Pair r) (relationships_of r))) (mset xs))" for xs
    by (induction xs) (simp_all add: links_def)
  then show "mset xs = mset ys \<Longrightarrow> mset (links xs) = mset (links ys)" by simp
qed

text \<open>The edges of an error-free run are those of the relationships, in another order.\<close>

definition edges_of_links ::
  "platform \<Rightarrow> knowledge_record list jsmap \<Rightarrow> knowledge_record jsmap \<Rightarrow> knowledge_record list \<Rightarrow> relationship_edge list \<Rightarrow> bool" where
  "edges_of_links P revisions current records edges \<longleftrightarrow>
     (\<exists>ls es. mset ls = mset (links records) \<and> edges_for P revisions current ls es \<and> mset es = mset edges)"

lemma built_edges:
  assumes built: "buildRelationshipEdges P records revisions current limits c = Inr (c', edges)"
  shows "error_free c' \<longleftrightarrow> error_free c \<and> (\<forall>r \<in> set records. distinct (map link_key (relationships_of r))) \<and>
      (\<forall>(r, l) \<in> set (links records). step_ok revisions current r l) \<and>
      length (links records) \<le> lm_maximumGraphEdges (limits_or_default limits)"
    and "error_free c' \<Longrightarrow> edges_of_links P revisions current records edges"
    and "limit_errors c \<Longrightarrow> limit_errors c'"
proof -
  define sorted where "sorted = sort_by (\<lambda>l r. code_point_le (recordKey l) (recordKey r)) records"
  obtain s where run: "records_loop P (lm_maximumGraphEdges (limits_or_default limits)) revisions current sorted
      \<lparr>gb_collector = c, gb_edges = [], gb_bounded = True\<rparr> = Inr s"
    and c': "c' = gb_collector s" and edges: "mset edges = mset (gb_edges s)"
    using built by (auto simp: buildRelationshipEdges_def sorted_def bindE_def split: sum.splits)
  have same: "mset (links sorted) = mset (links records)" by (rule mset_links) (simp add: sorted_def)
  then have set: "set (links sorted) = set (links records)" and len: "length (links sorted) = length (links records)"
    by (metis set_mset_mset, metis size_mset)
  then have empty: "links sorted = [] \<longleftrightarrow> links records = []" by (metis length_0_conv)
  note result = records_loop_result [OF run, simplified]
  show "error_free c' \<longleftrightarrow> error_free c \<and> (\<forall>r \<in> set records. distinct (map link_key (relationships_of r))) \<and>
      (\<forall>(r, l) \<in> set (links records). step_ok revisions current r l) \<and>
      length (links records) \<le> lm_maximumGraphEdges (limits_or_default limits)"
    using result unfolding loop_result_def set len empty c' by (cases "links records = []") (auto simp: sorted_def)
  show "edges_of_links P revisions current records edges" if "error_free c'"
    using result that same edges unfolding loop_result_def c' edges_of_links_def by auto
  show "limit_errors c'" if "limit_errors c" using limit_errors_records [OF run] that c' by simp
qed

section \<open>Validation\<close>

lemma degrees:
  "(case map_of (foldl count_source m es) v of None \<Rightarrow> 0 | Some n \<Rightarrow> n) =
     (case map_of m v of None \<Rightarrow> 0 | Some n \<Rightarrow> n) + length (filter (\<lambda>e. ed_source e = v) es)"
  by (induction es arbitrary: m) (auto simp: count_source_def update_conv' split: option.splits)

lemma distinct_degrees: "distinct (map fst m) \<Longrightarrow> distinct (map fst (foldl count_source m es))"
  by (induction es arbitrary: m) (simp_all add: count_source_def distinct_update)

lemma over_degree_empty:
  "over_degree maximum edges = [] \<longleftrightarrow> (\<forall>v. length (filter (\<lambda>e. ed_source e = v) edges) \<le> maximum)"
proof -
  define counts where "counts = foldl count_source [] edges"
  have count: "length (filter (\<lambda>e. ed_source e = v) edges) = (case map_of counts v of None \<Rightarrow> 0 | Some n \<Rightarrow> n)" for v
    using degrees [of "[]" edges v] by (simp add: counts_def)
  have "over_degree maximum edges = [] \<longleftrightarrow> filter (\<lambda>(_, count). count > maximum) counts = []"
    by (metis counts_def length_0_conv length_sort_by over_degree_def)
  also have "\<dots> \<longleftrightarrow> (\<forall>v n. map_of counts v = Some n \<longrightarrow> n \<le> maximum)"
    using distinct_degrees [of "[]" edges] by (fastforce simp: filter_empty_conv not_less counts_def)
  also have "\<dots> \<longleftrightarrow> (\<forall>v. length (filter (\<lambda>e. ed_source e = v) edges) \<le> maximum)"
    unfolding count by (auto split: option.splits)
  finally show ?thesis .
qed

lemma error_free_cycles [simp]:
  "error_free (cycle_diagnostics edges current c t) \<longleftrightarrow>
     error_free c \<and> acyclicP (edge (adjacencyFor edges current t False))"
  unfolding cycle_diagnostics_def
  by (subst error_free_foldl [where P = "\<lambda>_. False"])
    (auto simp: acyclic_def tranclp_unfold [symmetric] cyclic_components [OF adjacency_wf, symmetric] all_not_in_conv)

lemma error_free_large [simp]: "error_free (large_diagnostics components c) \<longleftrightarrow> error_free c"
  unfolding large_diagnostics_def by (subst error_free_foldl [where P = "\<lambda>_. True"]) simp_all

lemma error_free_dependencies [simp]:
  "error_free (dependency_diagnostics edges current c) \<longleftrightarrow> error_free c \<and> (\<forall>e \<in> set edges. \<not> incomplete_dependency current e)"
  unfolding dependency_diagnostics_def by (rule error_free_foldl) simp

definition to_verify :: "knowledge_record \<Rightarrow> bool" where
  "to_verify r \<longleftrightarrow> kr_kind r = BehaviorKind \<or> kr_kind r = AssuranceKind"

lemma error_free_checks [simp]:
  "error_free (check_diagnostics edges current c) \<longleftrightarrow>
     error_free c \<and> (\<forall>r \<in> snd ` set current. to_verify r \<longrightarrow> verified edges current r)"
  unfolding check_diagnostics_def
  by (subst error_free_foldl [where P = "\<lambda>r. to_verify r \<longrightarrow> verified edges current r"]) (auto simp: to_verify_def)

lemma validated_graph:
  assumes run: "validateRelationshipGraph edges current limits c = (c', g)" and limit: "limit_errors c"
  defines "L \<equiv> limits_or_default limits"
  shows "error_free c' \<longleftrightarrow> error_free c \<and> length current \<le> lm_maximumGraphNodes L \<and>
      length edges \<le> lm_maximumGraphEdges L \<and>
      (\<forall>v. length (filter (\<lambda>e. ed_source e = v) edges) \<le> lm_maximumNodeDegree L) \<and>
      (\<forall>t \<in> {Refines, VerifiedBy}. acyclicP (edge (adjacencyFor edges current t False))) \<and>
      (\<forall>e \<in> set edges. \<not> incomplete_dependency current e) \<and>
      (\<forall>r \<in> snd ` set current. to_verify r \<longrightarrow> verified edges current r)"
    and "error_free c' \<Longrightarrow> gr_complete g"
    and "gr_complete g \<Longrightarrow> gr_dependencyComponents g = stronglyConnectedComponents (adjacencyFor edges current DependsOn True)"
proof -
  let ?prior = "list_ex (\<lambda>d. dg_stage d = ''relationships'' \<and> dg_code d = ''lifecycle.knowledge.limit-exceeded'') c"
  let ?bound = "?prior \<or> length current > lm_maximumGraphNodes L \<or> length edges > lm_maximumGraphEdges L"
  let ?over = "over_degree (lm_maximumNodeDegree L) edges"
  have prior: "\<not> error_free c" if ?prior
    using that limit by (auto simp: error_free_def limit_errors_def list_ex_iff)
  note run = run [unfolded validateRelationshipGraph_def Let_def, folded L_def]
  consider (bound) ?bound | (degree) "\<not> ?bound" "?over \<noteq> []" | (checked) "\<not> ?bound" "?over = []" by blast
  then have "(error_free c' \<longleftrightarrow> error_free c \<and> length current \<le> lm_maximumGraphNodes L \<and>
      length edges \<le> lm_maximumGraphEdges L \<and> ?over = [] \<and>
      (\<forall>t \<in> {Refines, VerifiedBy}. acyclicP (edge (adjacencyFor edges current t False))) \<and>
      (\<forall>e \<in> set edges. \<not> incomplete_dependency current e) \<and>
      (\<forall>r \<in> snd ` set current. to_verify r \<longrightarrow> verified edges current r)) \<and>
    (error_free c' \<longrightarrow> gr_complete g) \<and>
    (gr_complete g \<longrightarrow> gr_dependencyComponents g = stronglyConnectedComponents (adjacencyFor edges current DependsOn True))"
  proof cases
    case bound
    with run have "c' = add_diagnostic ''relationships'' ''lifecycle.knowledge.limit-exceeded'' SeverityError None [] c"
      "g = \<lparr>gr_dependencyComponents = [], gr_complete = False\<rparr>" by simp_all
    with bound prior show ?thesis by auto
  next
    case degree
    with run have c': "c' = foldl (\<lambda>c (identity, count).
        add_diagnostic ''relationships'' ''lifecycle.knowledge.limit-exceeded'' SeverityError None [identity] c) c ?over"
      "g = \<lparr>gr_dependencyComponents = [], gr_complete = False\<rparr>" by simp_all
    have "error_free c' \<longleftrightarrow> error_free c \<and> (\<forall>x \<in> set ?over. False)"
      unfolding c'(1) by (rule error_free_foldl) auto
    then have "\<not> error_free c'" using degree(2) by (simp del: split_paired_Ex)
    with degree(2) c'(2) show ?thesis by simp
  next
    case checked
    let ?components = "stronglyConnectedComponents (adjacencyFor edges current DependsOn True)"
    from checked run have "c' = check_diagnostics edges current (dependency_diagnostics edges current
        (large_diagnostics ?components (foldl (cycle_diagnostics edges current) c [Refines, VerifiedBy])))"
      "g = \<lparr>gr_dependencyComponents = ?components, gr_complete = True\<rparr>" by simp_all
    with checked show ?thesis by auto
  qed
  then show "error_free c' \<longleftrightarrow> error_free c \<and> length current \<le> lm_maximumGraphNodes L \<and>
      length edges \<le> lm_maximumGraphEdges L \<and>
      (\<forall>v. length (filter (\<lambda>e. ed_source e = v) edges) \<le> lm_maximumNodeDegree L) \<and>
      (\<forall>t \<in> {Refines, VerifiedBy}. acyclicP (edge (adjacencyFor edges current t False))) \<and>
      (\<forall>e \<in> set edges. \<not> incomplete_dependency current e) \<and>
      (\<forall>r \<in> snd ` set current. to_verify r \<longrightarrow> verified edges current r)"
    and "error_free c' \<Longrightarrow> gr_complete g"
    and "gr_complete g \<Longrightarrow> gr_dependencyComponents g = stronglyConnectedComponents (adjacencyFor edges current DependsOn True)"
    unfolding over_degree_empty by blast+
qed

section \<open>The specification over records\<close>

text \<open>The record a relationship to an identity is about: the current one, else the latest.\<close>

definition current_in :: "knowledge_record list \<Rightarrow> string \<Rightarrow> knowledge_record \<Rightarrow> bool" where
  "current_in records k r \<longleftrightarrow> r \<in> set records \<and> kr_id r = k \<and> kr_status r = CurrentStatus"

lemma current_in_record: "current_in records k r \<Longrightarrow> r \<in> set records"
  by (simp add: current_in_def)

definition about :: "knowledge_record list \<Rightarrow> string \<Rightarrow> knowledge_record \<Rightarrow> bool" where
  "about records k t \<longleftrightarrow> current_in records k t \<or>
     (\<not> list_ex (current_in records k) records \<and> t \<in> set records \<and> kr_id t = k \<and>
      (\<forall>q \<in> set records. kr_id q = k \<longrightarrow> kr_revision q \<le> kr_revision t))"

definition link_ok :: "knowledge_record list \<Rightarrow> knowledge_record \<Rightarrow> knowledge_relationship \<Rightarrow> bool" where
  "link_ok records r l \<longleftrightarrow>
     (kr_status r = CurrentStatus \<and> kl_required l \<longrightarrow> list_ex (current_in records (kl_target l)) records) \<and>
     (\<forall>t \<in> set records. about records (kl_target l) t \<longrightarrow> legalEdge r t (kl_type l)) \<and>
     (kl_target l = kr_id r \<longrightarrow> kl_type l = DependsOn \<or> kl_type l = RelatedTo)"

text \<open>One current record relates to another; between verifications only Checks count.\<close>

definition current_link :: "knowledge_record list \<Rightarrow> relationship_type \<Rightarrow> string \<Rightarrow> string \<Rightarrow> bool" where
  "current_link records t v w \<longleftrightarrow>
     (\<exists>r \<in> set records. \<exists>q \<in> set records. current_in records v r \<and> current_in records w q \<and>
        (\<exists>l \<in> set (relationships_of r). kl_type l = t \<and> kl_target l = w) \<and>
        (t = VerifiedBy \<longrightarrow> kr_kind r = CheckKind \<and> kr_kind q = CheckKind))"

definition checked :: "knowledge_record list \<Rightarrow> knowledge_record \<Rightarrow> bool" where
  "checked records r \<longleftrightarrow> (\<exists>l \<in> set (relationships_of r). kl_type l = VerifiedBy \<and> kl_required l \<and>
     list_ex (\<lambda>q. current_in records (kl_target l) q \<and> kr_kind q = CheckKind) records)"

definition knowledge_graph_ok :: "knowledge_limits \<Rightarrow> knowledge_record list \<Rightarrow> bool" where
  "knowledge_graph_ok L records \<longleftrightarrow>
     (\<forall>r \<in> set records. distinct (map link_key (relationships_of r))) \<and>
     (\<forall>r \<in> set records. \<forall>l \<in> set (relationships_of r). link_ok records r l) \<and>
     (\<forall>t \<in> {Refines, VerifiedBy}. acyclicP (current_link records t)) \<and>
     (\<forall>r \<in> set records. kr_status r = CurrentStatus \<and> to_verify r \<longrightarrow> checked records r) \<and>
     length (currents_of records) \<le> lm_maximumGraphNodes L \<and>
     length (links records) \<le> lm_maximumGraphEdges L \<and>
     (\<forall>v. length (filter (\<lambda>(r, l). kr_id r = v) (links records)) \<le> lm_maximumNodeDegree L)"

section \<open>Validation is the specification\<close>

text \<open>Revision indexes to which nothing was reported.\<close>

definition indexes_of :: "knowledge_record list \<Rightarrow> revision_indexes \<Rightarrow> bool" where
  "indexes_of records ix \<longleftrightarrow> (\<exists>c. buildRevisionIndexes records c = (c, ix))"

lemma indexes_current:
  "indexes_of records ix \<Longrightarrow> map_of (ri_currentByIdentity ix) k = Some r \<longleftrightarrow> current_in records k r"
  by (auto simp: indexes_of_def current_in_def current_governs(1))

lemma indexes_no_current:
  "indexes_of records ix \<Longrightarrow> map_of (ri_currentByIdentity ix) k = None \<longleftrightarrow> \<not> list_ex (current_in records k) records"
  using indexes_current [of records ix k] by (metis current_in_def list_ex_iff not_Some_eq)

lemma indexes_unique:
  assumes "indexes_of records ix" and "r \<in> set records" "q \<in> set records" "kr_id r = kr_id q" "kr_revision r = kr_revision q"
  shows "r = q"
proof -
  from assms(1) have "distinct (map recordIdentityRevision records)"
    using revision_indexes(3) by (auto simp: indexes_of_def)
  moreover have "recordIdentityRevision r = recordIdentityRevision q" using assms(4,5) by (simp add: recordIdentityRevision_def)
  ultimately show ?thesis using assms(2,3) by (auto simp: distinct_map dest: inj_onD)
qed

lemma head_of_latest:
  assumes "xs \<noteq> []"
  shows "\<forall>x \<in> set xs. kr_revision x \<le> kr_revision (hd (sort_by latest_le xs))"
  using assms
proof (induction xs)
  case (Cons x xs)
  let ?h = "hd (sort_by latest_le xs)"
  show ?case
  proof (cases "sort_by latest_le xs")
    case Nil
    then have "xs = []" by (metis length_0_conv length_sort_by)
    then show ?thesis by (simp add: sort_by_def)
  next
    case (Cons h ys)
    then have "xs \<noteq> []" by (auto simp: sort_by_def)
    with Cons.IH Cons have "\<forall>y \<in> set xs. kr_revision y \<le> kr_revision h" by simp
    moreover have "sort_by latest_le (x # xs) = (if latest_le x h then x # h # ys else h # insert_by latest_le x ys)"
      using Cons by (simp add: sort_by_def)
    moreover have "latest_le x h \<Longrightarrow> kr_revision h \<le> kr_revision x" "\<not> latest_le x h \<Longrightarrow> kr_revision x \<le> kr_revision h"
      by (auto simp: latest_le_def or_else_def split: if_splits)
    ultimately show ?thesis by force
  qed
qed simp

lemma indexes_latest:
  assumes ix: "indexes_of records ix" and none: "\<not> list_ex (current_in records k) records"
  shows "latestRevision (ri_revisionsByIdentity ix) k = Some t \<longleftrightarrow> about records k t"
proof -
  from ix obtain c where built: "buildRevisionIndexes records c = (c, ix)" by (auto simp: indexes_of_def)
  then have unique: "distinct (map recordIdentityRevision records)" using revision_indexes(3) by blast
  have about: "about records k t \<longleftrightarrow> t \<in> set records \<and> kr_id t = k \<and>
      (\<forall>q \<in> set records. kr_id q = k \<longrightarrow> kr_revision q \<le> kr_revision t)" for t
    using none by (auto simp: about_def current_in_def list_ex_iff)
  show ?thesis
  proof (cases "map_of (ri_revisionsByIdentity ix) k")
    case None
    with revision_indexes(5) [OF built unique] have "kr_id r \<noteq> k" if "r \<in> set records" for r using that by force
    with None about show ?thesis by (auto simp: latestRevision_def)
  next
    case (Some vs)
    then have vs: "set vs = {r \<in> set records. kr_id r = k}"
      using revision_indexes(4,5) [OF built] unique by fastforce
    show ?thesis
    proof (cases "vs = []")
      case True
      with Some vs about show ?thesis by (auto simp: latestRevision_def)
    next
      case False
      let ?h = "hd (sort_by latest_le vs)"
      have "sort_by latest_le vs \<noteq> []" using False by (metis length_0_conv length_sort_by)
      then have "?h \<in> set vs" by (metis hd_in_set set_sort_by)
      with vs head_of_latest [OF False] have "about records k ?h" unfolding about by auto
      moreover have "t = ?h" if "about records k t"
        using that \<open>about records k ?h\<close> unfolding about by (intro indexes_unique [OF ix]) (auto intro: order_antisym)
      ultimately show ?thesis using Some False by (auto simp: latestRevision_def)
    qed
  qed
qed

lemma indexes_target:
  assumes "indexes_of records ix"
  shows "target_of (ri_revisionsByIdentity ix) (ri_currentByIdentity ix) l = Some t \<longleftrightarrow> about records (kl_target l) t"
proof (cases "map_of (ri_currentByIdentity ix) (kl_target l)")
  case None
  then have "\<not> list_ex (current_in records (kl_target l)) records" using indexes_no_current [OF assms] by simp
  from indexes_latest [OF assms this] None show ?thesis by (simp add: target_of_def)
next
  case (Some q)
  then have "current_in records (kl_target l) q" and "list_ex (current_in records (kl_target l)) records"
    using indexes_current [OF assms] by (auto simp: list_ex_iff current_in_def)
  with Some indexes_current [OF assms, of "kl_target l" t] show ?thesis by (auto simp: target_of_def about_def)
qed

lemma indexes_step:
  assumes "indexes_of records ix" and "r \<in> set records"
  shows "step_ok (ri_revisionsByIdentity ix) (ri_currentByIdentity ix) r l \<longleftrightarrow> link_ok records r l"
proof -
  have is_current: "map_of (ri_currentByIdentity ix) (kr_id r) = Some r \<longleftrightarrow> kr_status r = CurrentStatus"
    using indexes_current [OF assms(1)] assms(2) by (simp add: current_in_def)
  have found: "map_of (ri_currentByIdentity ix) (kl_target l) \<noteq> None \<longleftrightarrow> list_ex (current_in records (kl_target l)) records"
    using indexes_no_current [OF assms(1)] by simp
  have "about records k t \<Longrightarrow> t \<in> set records" for k t by (auto simp: about_def current_in_def)
  then have "(\<forall>t. about records (kl_target l) t \<longrightarrow> legalEdge r t (kl_type l)) \<longleftrightarrow>
      (\<forall>t \<in> set records. about records (kl_target l) t \<longrightarrow> legalEdge r t (kl_type l))" by blast
  then show ?thesis unfolding step_ok_def link_ok_def indexes_target [OF assms(1)] is_current found by simp
qed

lemma edge_fields:
  assumes "edge_of P r l t = Inr e"
  shows "ed_source e = kr_id r" "ed_sourceRevision e = kr_revision r" "ed_type e = kl_type l" "ed_target e = kl_target l"
    "ed_required e = kl_required l" "ed_targetRevision e = map_option (\<lambda>t. kr_revision t) t"
  using assms by (auto simp: edge_of_def bindE_def split: sum.splits)

lemma edges_for_ex:
  assumes "edges_for P revisions current ls es"
  shows "(\<exists>e \<in> set es. Q e) \<longleftrightarrow> (\<exists>(r, l) \<in> set ls. \<exists>e. edge_of P r l (target_of revisions current l) = Inr e \<and> Q e)"
  using assms unfolding edges_for_def by (induction rule: list_all2_induct) auto

lemma edges_for_count:
  assumes "edges_for P revisions current ls es"
  shows "length (filter (\<lambda>e. ed_source e = v) es) = length (filter (\<lambda>(r, l). kr_id r = v) ls)"
  using assms unfolding edges_for_def by (induction rule: list_all2_induct) (auto dest: edge_fields(1))

lemma edges_of_links_facts:
  assumes "edges_of_links P revisions current records edges"
  shows "length edges = length (links records)"
    and "length (filter (\<lambda>e. ed_source e = v) edges) = length (filter (\<lambda>(r, l). kr_id r = v) (links records))"
    and "(\<exists>e \<in> set edges. Q e) \<longleftrightarrow>
      (\<exists>(r, l) \<in> set (links records). \<exists>e. edge_of P r l (target_of revisions current l) = Inr e \<and> Q e)"
proof -
  from assms obtain ls es where ls: "mset ls = mset (links records)" and es: "edges_for P revisions current ls es"
    and edges: "mset es = mset edges" by (auto simp: edges_of_links_def)
  have sets: "set ls = set (links records)" "set es = set edges" using ls edges by (metis set_mset_mset)+
  have "length ls = length es" using es by (auto simp: edges_for_def dest: list_all2_lengthD)
  then show "length edges = length (links records)" using ls edges by (metis size_mset)
  have "length (filter Q edges) = length (filter Q es)" "length (filter R ls) = length (filter R (links records))" for Q R
    using ls edges by (metis mset_filter size_mset)+
  then show "length (filter (\<lambda>e. ed_source e = v) edges) = length (filter (\<lambda>(r, l). kr_id r = v) (links records))"
    using edges_for_count [OF es] by simp
  show "(\<exists>e \<in> set edges. Q e) \<longleftrightarrow>
      (\<exists>(r, l) \<in> set (links records). \<exists>e. edge_of P r l (target_of revisions current l) = Inr e \<and> Q e)"
    using edges_for_ex [OF es, of Q] unfolding sets .
qed

lemma set_links: "(r, l) \<in> set (links records) \<longleftrightarrow> r \<in> set records \<and> l \<in> set (relationships_of r)"
  by (auto simp: links_def)

lemma ball_links:
  "(\<forall>(r, l) \<in> set (links records). Q r l) \<longleftrightarrow> (\<forall>r \<in> set records. \<forall>l \<in> set (relationships_of r). Q r l)"
  by (auto simp: links_def)

lemma edges_total:
  assumes "edges_of_links P revisions current records edges" and "r \<in> set records" "l \<in> set (relationships_of r)"
  obtains e where "edge_of P r l (target_of revisions current l) = Inr e" "e \<in> set edges"
proof -
  from assms(1) obtain ls es where ls: "mset ls = mset (links records)" and es: "edges_for P revisions current ls es"
    and edges: "mset es = mset edges" by (auto simp: edges_of_links_def)
  have "(r, l) \<in> set ls" using assms(2,3) ls by (metis set_links set_mset_mset)
  with es obtain i where "i < length ls" "ls ! i = (r, l)" "edge_of P r l (target_of revisions current l) = Inr (es ! i)"
    "es ! i \<in> set es"
    unfolding edges_for_def list_all2_conv_all_nth in_set_conv_nth by fastforce
  moreover have "set es = set edges" using edges by (metis set_mset_mset)
  ultimately show ?thesis using that by blast
qed

text \<open>The edges between current records are their relationships.\<close>

lemma current_edge:
  assumes ix: "indexes_of records ix"
    and edges: "edges_of_links P (ri_revisionsByIdentity ix) (ri_currentByIdentity ix) records edges"
    and v: "current_in records v r" and w: "current_in records w q"
  shows "(\<exists>e \<in> set edges. ed_source e = v \<and> ed_sourceRevision e = kr_revision r \<and> ed_target e = w \<and>
      ed_targetRevision e = Some (kr_revision q) \<and> ed_type e = t \<and> (req \<longrightarrow> ed_required e)) \<longleftrightarrow>
    (\<exists>l \<in> set (relationships_of r). kl_type l = t \<and> kl_target l = w \<and> (req \<longrightarrow> kl_required l))"
    (is "?edge \<longleftrightarrow> ?link")
proof
  assume ?edge
  then obtain r' l e where r': "r' \<in> set records" and l: "l \<in> set (relationships_of r')"
    and e: "edge_of P r' l (target_of (ri_revisionsByIdentity ix) (ri_currentByIdentity ix) l) = Inr e"
    and facts: "ed_source e = v" "ed_sourceRevision e = kr_revision r" "ed_target e = w" "ed_type e = t" "req \<longrightarrow> ed_required e"
    unfolding edges_of_links_facts(3) [OF edges] by (auto simp: set_links)
  note fields = edge_fields [OF e]
  have "r' = r"
    using facts fields v by (intro indexes_unique [OF ix r']) (auto simp: current_in_def)
  with l facts fields show ?link by auto
next
  assume ?link
  then obtain l where l: "l \<in> set (relationships_of r)" and facts: "kl_type l = t" "kl_target l = w" "req \<longrightarrow> kl_required l" by blast
  from v have "r \<in> set records" by (simp add: current_in_def)
  then obtain e where e: "edge_of P r l (target_of (ri_revisionsByIdentity ix) (ri_currentByIdentity ix) l) = Inr e"
    and "e \<in> set edges" using edges_total [OF edges _ l] by blast
  moreover have "target_of (ri_revisionsByIdentity ix) (ri_currentByIdentity ix) l = Some q"
    using w facts(2) by (simp add: indexes_target [OF ix] about_def)
  ultimately show ?edge using edge_fields [OF e] facts v by (intro bexI [of _ e]) (auto simp: current_in_def)
qed

lemma adjacency_edge_iff:
  "adjacency_edge current t req e \<longleftrightarrow>
     (\<exists>r q. map_of current (ed_source e) = Some r \<and> map_of current (ed_target e) = Some q \<and> ed_type e = t \<and>
        ed_sourceRevision e = kr_revision r \<and> ed_targetRevision e = Some (kr_revision q) \<and> (req \<longrightarrow> ed_required e) \<and>
        (t = VerifiedBy \<longrightarrow> kr_kind r = CheckKind \<and> kr_kind q = CheckKind))"
  by (auto simp: adjacency_edge_def split: option.splits)

lemma current_adjacency:
  assumes ix: "indexes_of records ix"
    and edges: "edges_of_links P (ri_revisionsByIdentity ix) (ri_currentByIdentity ix) records edges"
  shows "edge (adjacencyFor edges (ri_currentByIdentity ix) t False) = current_link records t"
proof (intro ext)
  fix v w
  have "edge (adjacencyFor edges (ri_currentByIdentity ix) t False) v w \<longleftrightarrow>
      (\<exists>r q. current_in records v r \<and> current_in records w q \<and> (t = VerifiedBy \<longrightarrow> kr_kind r = CheckKind \<and> kr_kind q = CheckKind) \<and>
        (\<exists>e \<in> set edges. ed_source e = v \<and> ed_sourceRevision e = kr_revision r \<and> ed_target e = w \<and>
          ed_targetRevision e = Some (kr_revision q) \<and> ed_type e = t \<and> (False \<longrightarrow> ed_required e)))"
    unfolding adjacency_edges adjacency_edge_iff indexes_current [OF ix] by blast
  also have "\<dots> \<longleftrightarrow> current_link records t v w"
    using current_edge [OF ix edges, of v _ w _ t False] unfolding current_link_def current_in_def by blast
  finally show "edge (adjacencyFor edges (ri_currentByIdentity ix) t False) v w \<longleftrightarrow> current_link records t v w" .
qed

lemma verified_iff:
  "verified edges current r \<longleftrightarrow>
     (\<exists>e \<in> set edges. \<exists>s q. ed_source e = kr_id r \<and> map_of current (kr_id r) = Some s \<and> ed_sourceRevision e = kr_revision s \<and>
        map_of current (ed_target e) = Some q \<and> ed_targetRevision e = Some (kr_revision q) \<and> kr_kind q = CheckKind \<and>
        ed_type e = VerifiedBy \<and> ed_required e)"
  by (auto simp: verified_def current_edges_def revision_of_def list_ex_iff)

lemma current_verified:
  assumes ix: "indexes_of records ix"
    and edges: "edges_of_links P (ri_revisionsByIdentity ix) (ri_currentByIdentity ix) records edges"
    and r: "current_in records (kr_id r) r"
  shows "verified edges (ri_currentByIdentity ix) r \<longleftrightarrow> checked records r"
proof -
  have "verified edges (ri_currentByIdentity ix) r \<longleftrightarrow>
      (\<exists>w q. current_in records w q \<and> kr_kind q = CheckKind \<and>
        (\<exists>e \<in> set edges. ed_source e = kr_id r \<and> ed_sourceRevision e = kr_revision r \<and> ed_target e = w \<and>
          ed_targetRevision e = Some (kr_revision q) \<and> ed_type e = VerifiedBy \<and> (True \<longrightarrow> ed_required e)))"
    (is "_ \<longleftrightarrow> ?found")
  proof
    assume "verified edges (ri_currentByIdentity ix) r"
    then obtain e s q where e: "e \<in> set edges" and s: "current_in records (kr_id r) s"
      and q: "current_in records (ed_target e) q" "kr_kind q = CheckKind"
      and facts: "ed_source e = kr_id r" "ed_sourceRevision e = kr_revision s" "ed_targetRevision e = Some (kr_revision q)"
        "ed_type e = VerifiedBy" "ed_required e"
      unfolding verified_iff indexes_current [OF ix] by blast
    from s r indexes_current [OF ix, of "kr_id r"] have "s = r" by (metis option.inject)
    with e q facts show ?found by blast
  next
    assume ?found
    then obtain q e where q: "current_in records (ed_target e) q" "kr_kind q = CheckKind" and e: "e \<in> set edges"
      and facts: "ed_source e = kr_id r" "ed_sourceRevision e = kr_revision r" "ed_targetRevision e = Some (kr_revision q)"
        "ed_type e = VerifiedBy" "ed_required e" by blast
    show "verified edges (ri_currentByIdentity ix) r"
      unfolding verified_iff indexes_current [OF ix]
      by (rule bexI [OF _ e], rule exI [of _ r], rule exI [of _ q]) (simp add: q facts r)
  qed
  also have "?found \<longleftrightarrow> (\<exists>w q. current_in records w q \<and> kr_kind q = CheckKind \<and>
      (\<exists>l \<in> set (relationships_of r). kl_type l = VerifiedBy \<and> kl_target l = w \<and> (True \<longrightarrow> kl_required l)))"
    by (intro ex_cong1 conj_cong refl current_edge [OF ix edges r])
  also have "\<dots> \<longleftrightarrow> checked records r"
    unfolding checked_def list_ex_iff using current_in_record [of records] by blast
  finally show ?thesis .
qed

text \<open>A required dependency is incomplete only where its target is missing already.\<close>

lemma complete_dependencies:
  assumes ix: "indexes_of records ix"
    and edges: "edges_of_links P (ri_revisionsByIdentity ix) (ri_currentByIdentity ix) records edges"
    and ok: "\<forall>(r, l) \<in> set (links records). step_ok (ri_revisionsByIdentity ix) (ri_currentByIdentity ix) r l"
  shows "\<forall>e \<in> set edges. \<not> incomplete_dependency (ri_currentByIdentity ix) e"
proof (rule ccontr)
  let ?current = "ri_currentByIdentity ix"
  assume "\<not> ?thesis"
  then have "\<exists>e \<in> set edges. incomplete_dependency ?current e" by blast
  then obtain r l e where r: "r \<in> set records" and l: "l \<in> set (relationships_of r)"
    and e: "edge_of P r l (target_of (ri_revisionsByIdentity ix) ?current l) = Inr e" and bad: "incomplete_dependency ?current e"
    unfolding edges_of_links_facts(3) [OF edges] by (auto simp: set_links)
  note fields = edge_fields [OF e]
  from bad fields obtain r' where r': "map_of ?current (kr_id r) = Some r'" "kr_revision r' = kr_revision r" and required: "kl_required l"
    by (auto simp: incomplete_dependency_def revision_of_def)
  then have "r' = r"
    using indexes_current [OF ix] r by (intro indexes_unique [OF ix]) (auto simp: current_in_def)
  moreover have "step_ok (ri_revisionsByIdentity ix) ?current r l" using ok r l unfolding ball_links by blast
  ultimately obtain q where "map_of ?current (kl_target l) = Some q" using r' required by (auto simp: step_ok_def)
  with bad fields show False by (auto simp: incomplete_dependency_def revision_of_def target_of_def)
qed

lemma distinct_currents: "distinct (map fst m) \<Longrightarrow> distinct (map fst (snd (foldl check_identity (c, m) entries)))"
proof (induction entries arbitrary: c m)
  case (Cons entry entries)
  obtain c' m' where step: "check_identity (c, m) entry = (c', m')" by fastforce
  have "distinct (map fst m')"
    using step Cons.prems by (auto simp: check_identity_def check_currents_def Let_def distinct_update split: if_splits prod.splits)
  with Cons.IH step show ?case by simp
qed simp

lemma indexes_currents:
  assumes "indexes_of records ix"
  shows "snd ` set (ri_currentByIdentity ix) = {r \<in> set records. kr_status r = CurrentStatus}"
    and "length (ri_currentByIdentity ix) = length (currents_of records)"
proof -
  from assms obtain c where built: "buildRevisionIndexes records c = (c, ix)" by (auto simp: indexes_of_def)
  obtain c1 b m where first: "foldl index_record (c, [], []) records = (c1, b, m)"
    by (cases "foldl index_record (c, [], []) records")
  have "ri_currentByIdentity ix = snd (foldl check_identity (c1, [])
      (map (\<lambda>(k, vs). (k, sort_by revision_le vs)) (sorted_entries m)))"
    using built first by (auto simp: buildRevisionIndexes_def Let_def split: prod.splits)
  then have keys: "distinct (map fst (ri_currentByIdentity ix))" by (auto intro: distinct_currents)
  have entry: "(k, r) \<in> set (ri_currentByIdentity ix) \<longleftrightarrow> current_in records k r" for k r
    using indexes_current [OF assms, of k r] keys by simp
  have "snd ` set (ri_currentByIdentity ix) = {r. \<exists>k. (k, r) \<in> set (ri_currentByIdentity ix)}" by force
  then show all: "snd ` set (ri_currentByIdentity ix) = {r \<in> set records. kr_status r = CurrentStatus}"
    unfolding entry by (simp add: current_in_def)
  have "distinct (map snd (ri_currentByIdentity ix))"
    unfolding distinct_map inj_on_def using keys entry by (auto simp: distinct_map current_in_def)
  moreover have "distinct (currents_of records)"
    using revision_indexes(3) [OF built] by (auto simp: currents_of_def distinct_map)
  ultimately have "mset (map snd (ri_currentByIdentity ix)) = mset (currents_of records)"
    using all by (intro set_eq_iff_mset_eq_distinct [THEN iffD1]) (auto simp: currents_of_def)
  then show "length (ri_currentByIdentity ix) = length (currents_of records)" by (metis length_map size_mset)
qed

lemma validation_is_specification:
  assumes ix: "indexes_of records ix" and limit: "limit_errors c"
    and built: "buildRelationshipEdges P records (ri_revisionsByIdentity ix) (ri_currentByIdentity ix) limits c = Inr (c1, edges)"
    and run: "validateRelationshipGraph edges (ri_currentByIdentity ix) limits c1 = (c2, g)"
  shows "error_free c2 \<longleftrightarrow> error_free c \<and> knowledge_graph_ok (limits_or_default limits) records"
proof -
  let ?current = "ri_currentByIdentity ix"
  note edges = built_edges [OF built] and graph = validated_graph [OF run built_edges(3) [OF built limit]]
  have steps: "(\<forall>(r, l) \<in> set (links records). step_ok (ri_revisionsByIdentity ix) ?current r l) \<longleftrightarrow>
      (\<forall>r \<in> set records. \<forall>l \<in> set (relationships_of r). link_ok records r l)"
    using indexes_step [OF ix] unfolding ball_links by blast
  show ?thesis
  proof (cases "error_free c1")
    case True
    note links = edges(2) [OF True]
    have "\<forall>e \<in> set edges. \<not> incomplete_dependency ?current e"
      using edges(1) True by (intro complete_dependencies [OF ix links]) blast
    moreover have "(\<forall>r \<in> snd ` set ?current. to_verify r \<longrightarrow> verified edges ?current r) \<longleftrightarrow>
        (\<forall>r \<in> set records. kr_status r = CurrentStatus \<and> to_verify r \<longrightarrow> checked records r)"
      using current_verified [OF ix links] by (auto simp: indexes_currents(1) [OF ix] current_in_def)
    ultimately show ?thesis
      using graph(1) edges(1) True
      by (simp add: knowledge_graph_ok_def steps current_adjacency [OF ix links] indexes_currents(2) [OF ix]
          edges_of_links_facts(1,2) [OF links]) blast
  next
    case False
    with graph(1) edges(1) show ?thesis unfolding knowledge_graph_ok_def steps by blast
  qed
qed

end
