(* ===== verification/Knowledge_Coverage.thy ===== *)
theory Knowledge_Coverage
  imports Knowledge_Facts
begin

text \<open>
  The Description coverage of implementation files
  (\<open>runtime/src/foundation/knowledge/coverage.ts\<close>): which tree entries are governed, and the one
  current Description each of them has. Of the repository contract only what is read here is kept.
\<close>

section \<open>Paths\<close>

record coverage_exemption =
  ce_path :: string
  ce_reason :: string

record repository_contract =
  rc_behaviorRoot :: string
  rc_assuranceRoot :: string
  rc_blueprintRoot :: string
  rc_checkRoot :: string
  rc_disciplineRoot :: string
  rc_atlasRoot :: string
  rc_governedImplementationRoots :: "string list"
  rc_coverageExemptions :: "coverage_exemption list"

record tree_entry =
  te_path :: string
  te_mode :: string
  te_type :: string
  te_objectId :: string

definition startsWith :: "string \<Rightarrow> string \<Rightarrow> bool" where
  "startsWith s p \<longleftrightarrow> take (length p) s = p"

definition endsWith :: "string \<Rightarrow> string \<Rightarrow> bool" where
  "endsWith s p \<longleftrightarrow> startsWith (rev s) (rev p)"

text \<open>\<open>basename\<close> of \<open>node:path\<close> (POSIX): trailing slashes are ignored.\<close>

definition basename :: "string \<Rightarrow> string" where
  "basename path = rev (takeWhile (\<lambda>c. c \<noteq> CHR ''/'') (dropWhile (\<lambda>c. c = CHR ''/'') (rev path)))"

definition atOrBelow :: "string \<Rightarrow> string \<Rightarrow> bool" where
  "atOrBelow path root \<longleftrightarrow> path = root \<or> startsWith path (root @ ''/'')"

definition matchesSelector :: "string \<Rightarrow> coverage_selector \<Rightarrow> bool" where
  "matchesSelector path selector =
     (if cs_mode selector = FileMode then path = cs_path selector
      else if \<not> atOrBelow path (cs_path selector) \<or> path = cs_path selector then False
      else \<not> list_ex (\<lambda>excluded. atOrBelow path excluded) (cs_exclude selector))"

definition isDescriptionRecord :: "string \<Rightarrow> bool" where
  "isDescriptionRecord path \<longleftrightarrow> startsWith (basename path) ''_'' \<and> endsWith (basename path) ''.desc.md''"

definition knowledgeOrControlPath :: "string \<Rightarrow> repository_contract \<Rightarrow> bool" where
  "knowledgeOrControlPath path contract \<longleftrightarrow>
     atOrBelow path (rc_behaviorRoot contract) \<or> atOrBelow path (rc_assuranceRoot contract) \<or>
     atOrBelow path (rc_blueprintRoot contract) \<or> atOrBelow path (rc_checkRoot contract) \<or>
     atOrBelow path (rc_disciplineRoot contract) \<or> atOrBelow path (rc_atlasRoot contract) \<or>
     atOrBelow path ''records/control'' \<or> atOrBelow path ''.lifecycle'' \<or> isDescriptionRecord path"

definition governedImplementationPath :: "repository_contract \<Rightarrow> string \<Rightarrow> bool" where
  "governedImplementationPath contract path \<longleftrightarrow>
     list_ex (\<lambda>root. atOrBelow path root) (rc_governedImplementationRoots contract) \<and> \<not> knowledgeOrControlPath path contract"

section \<open>Governed entries\<close>

definition regular_blob :: "tree_entry \<Rightarrow> bool" where
  "regular_blob e \<longleftrightarrow> \<not> (te_type e \<noteq> ''blob'' \<or> (te_mode e \<noteq> ''100644'' \<and> te_mode e \<noteq> ''100755''))"

definition governed_step :: "repository_contract \<Rightarrow> collector \<times> tree_entry list \<Rightarrow> tree_entry \<Rightarrow> collector \<times> tree_entry list" where
  "governed_step contract = (\<lambda>(collector, entries) e.
     if \<not> governedImplementationPath contract (te_path e) then (collector, entries)
     else if \<not> regular_blob e then
       (add_diagnostic ''coverage'' ''lifecycle.description.coverage-file-kind'' SeverityError (Some (te_path e)) [] collector, entries)
     else (collector, entries @ [e]))"

definition governedImplementationEntries ::
  "repository_contract \<Rightarrow> tree_entry list \<Rightarrow> collector \<Rightarrow> collector \<times> tree_entry list" where
  "governedImplementationEntries contract treeEntries collector =
     (let (c, entries) = foldl (governed_step contract) (collector, []) treeEntries
      in (c, sort_by (\<lambda>l r. code_point_le (te_path l) (te_path r)) entries))"

section \<open>Coverage\<close>

record exemption_result =
  xr_path :: string
  xr_reason :: string
  xr_matched :: bool

record coverage_entry =
  ve_path :: string
  ve_mode :: string
  ve_objectId :: string
  ve_descriptionId :: string
  ve_descriptionRevision :: int
  ve_selectorPath :: string
  ve_selectorMode :: selector_mode

text \<open>The exemptions, with the paths they exempt.\<close>

definition exemption_step ::
  "tree_entry list \<Rightarrow> collector \<times> exemption_result list \<times> string list \<Rightarrow> coverage_exemption \<Rightarrow>
     collector \<times> exemption_result list \<times> string list" where
  "exemption_step governed = (\<lambda>(collector, results, exempted) x.
     let matches = filter (\<lambda>e. atOrBelow (te_path e) (ce_path x)) governed
     in (when_do (matches = [])
           (add_diagnostic ''coverage'' ''lifecycle.description.exemption-empty'' SeverityWarning (Some (ce_path x)) []) collector,
         results @ [\<lparr>xr_path = ce_path x, xr_reason = ce_reason x, xr_matched = (matches \<noteq> [])\<rparr>],
         map te_path matches @ exempted))"

type_synonym owned_selector = "knowledge_record \<times> coverage_selector"

text \<open>\<open>(record.frontMatter.spec as FoundationDescriptionSpec).coverage\<close>\<close>

definition description_selectors :: "knowledge_record \<Rightarrow> coverage_selector list" where
  "description_selectors r = (case fm_spec (kr_frontMatter r) of DescriptionSpec spec \<Rightarrow> ds_coverage spec | _ \<Rightarrow> [])"

definition selector_key :: "owned_selector \<Rightarrow> string" where
  "selector_key = (\<lambda>(r, s). nul_joined [kr_id r, cs_path s, mode_name (cs_mode s)])"

definition selectors_of :: "knowledge_record list \<Rightarrow> owned_selector list" where
  "selectors_of descriptions =
     sort_by (\<lambda>l r. code_point_le (selector_key l) (selector_key r))
       (concat (map (\<lambda>r. map (Pair r) (description_selectors r)) descriptions))"

definition selector_step :: "tree_entry list \<Rightarrow> collector \<Rightarrow> owned_selector \<Rightarrow> collector" where
  "selector_step governed collector = (\<lambda>(r, s).
     let c1 = when_do (filter (\<lambda>e. matchesSelector (te_path e) s) governed = [])
           (add_diagnostic ''coverage'' ''lifecycle.description.coverage-empty'' SeverityWarning (Some (kr_path r)) []) collector
     in when_do (cs_mode s = FileMode \<and> cs_path s \<notin> set (map te_path governed))
          (add_diagnostic ''coverage'' ''lifecycle.description.coverage-target-missing'' SeverityError (Some (kr_path r)) []) c1)"

definition owners_of :: "owned_selector list \<Rightarrow> string \<Rightarrow> owned_selector list" where
  "owners_of selectors path = filter (\<lambda>(_, s). matchesSelector path s) selectors"

definition covered_by :: "tree_entry \<Rightarrow> owned_selector \<Rightarrow> coverage_entry" where
  "covered_by e = (\<lambda>(r, s). \<lparr>ve_path = te_path e, ve_mode = te_mode e, ve_objectId = te_objectId e,
     ve_descriptionId = kr_id r, ve_descriptionRevision = kr_revision r, ve_selectorPath = cs_path s,
     ve_selectorMode = cs_mode s\<rparr>)"

definition coverage_step ::
  "owned_selector list \<Rightarrow> string list \<Rightarrow> collector \<times> coverage_entry list \<Rightarrow> tree_entry \<Rightarrow> collector \<times> coverage_entry list" where
  "coverage_step selectors exempted = (\<lambda>(collector, coverage) e.
     let owners = owners_of selectors (te_path e) in
     if te_path e \<in> set exempted then (collector, coverage)
     else if owners = [] then
       (add_diagnostic ''coverage'' ''lifecycle.description.coverage-missing'' SeverityError (Some (te_path e)) [] collector, coverage)
     else if length owners > 1 then
       (add_diagnostic ''coverage'' ''lifecycle.description.coverage-ambiguous'' SeverityError (Some (te_path e))
          (map (\<lambda>(r, _). kr_path r) owners) collector, coverage)
     else (collector, coverage @ [covered_by e (hd owners)]))"

definition buildDescriptionCoverage ::
  "repository_contract \<Rightarrow> tree_entry list \<Rightarrow> knowledge_record list \<Rightarrow> collector \<Rightarrow>
     collector \<times> coverage_entry list \<times> exemption_result list" where
  "buildDescriptionCoverage contract treeEntries currentDescriptions collector =
     (let (c1, governed) = governedImplementationEntries contract treeEntries collector;
          (c2, results, exempted) = foldl (exemption_step governed) (c1, [], []) (rc_coverageExemptions contract);
          selectors = selectors_of currentDescriptions;
          c3 = foldl (selector_step governed) c2 selectors;
          (c4, coverage) = foldl (coverage_step selectors exempted) (c3, []) governed
      in (c4, sort_by (\<lambda>l r. code_point_le (ve_path l) (ve_path r)) coverage,
          sort_by (\<lambda>l r. code_point_le (xr_path l) (xr_path r)) results))"

end
