(* ===== verification/Knowledge_Conflicts.thy ===== *)
theory Knowledge_Conflicts
  imports Knowledge_Facts
begin

text \<open>
  The conflicts of current Knowledge (\<open>runtime/src/foundation/knowledge/conflicts.ts\<close>): facts one
  Behavior includes and another excludes, and the conflicts Assurances and Blueprints declare.
\<close>

section \<open>Results\<close>

record conflict_result =
  kc_type :: conflict_type
  kc_leftId :: string
  kc_leftRevision :: int
  kc_leftFact :: string
  kc_rightId :: string
  kc_rightRevision :: int
  kc_rightFact :: string
  kc_digest :: string

definition conflictKey :: "conflict_result \<Rightarrow> string" where
  "conflictKey v = nul_joined [conflict_name (kc_type v), kc_leftId v, padded (kc_leftRevision v), kc_leftFact v,
     kc_rightId v, padded (kc_rightRevision v), kc_rightFact v]"

definition conflict_subject ::
  "conflict_type \<Rightarrow> knowledge_record \<Rightarrow> string \<Rightarrow> knowledge_record \<Rightarrow> string \<Rightarrow> json" where
  "conflict_subject t left leftFact right rightFact = JObj
     [(''type'', JStr (conflict_name t)), (''leftId'', JStr (kr_id left)), (''leftRevision'', JInt (kr_revision left)),
      (''leftFact'', JStr leftFact), (''rightId'', JStr (kr_id right)), (''rightRevision'', JInt (kr_revision right)),
      (''rightFact'', JStr rightFact)]"

definition swapped :: "knowledge_record \<Rightarrow> string \<Rightarrow> knowledge_record \<Rightarrow> string \<Rightarrow> bool" where
  "swapped left leftFact right rightFact \<longleftrightarrow>
     compareCodePoints (kr_id left) (kr_id right) > 0 \<or>
     (kr_id left = kr_id right \<and> compareCodePoints leftFact rightFact > 0)"

definition ordered_result ::
  "platform \<Rightarrow> conflict_type \<Rightarrow> knowledge_record \<Rightarrow> string \<Rightarrow> knowledge_record \<Rightarrow> string \<Rightarrow> conflict_result res" where
  "ordered_result P t left leftFact right rightFact =
     bindE (digestCanonical P (conflict_subject t left leftFact right rightFact)) (\<lambda>d.
     Inr \<lparr>kc_type = t, kc_leftId = kr_id left, kc_leftRevision = kr_revision left, kc_leftFact = leftFact,
       kc_rightId = kr_id right, kc_rightRevision = kr_revision right, kc_rightFact = rightFact, kc_digest = d\<rparr>)"

text \<open>\<open>result\<close>: the two sides in the order of their identities, then of their facts.\<close>

definition conflict_result_of ::
  "platform \<Rightarrow> conflict_type \<Rightarrow> knowledge_record \<Rightarrow> string \<Rightarrow> knowledge_record \<Rightarrow> string \<Rightarrow> conflict_result res" where
  "conflict_result_of P t left leftFact right rightFact =
     (if swapped left leftFact right rightFact then ordered_result P t right rightFact left leftFact
      else ordered_result P t left leftFact right rightFact)"

definition addAuthorityConflict :: "knowledge_record \<Rightarrow> knowledge_record \<Rightarrow> collector \<Rightarrow> collector" where
  "addAuthorityConflict left right =
     add_diagnostic ''conflicts'' ''lifecycle.knowledge.authority-conflict'' SeverityError (Some (kr_path left))
       (if kr_path left = kr_path right then [] else [kr_path right])"

text \<open>A result found and reported.\<close>

type_synonym conflict_state = "collector \<times> conflict_result list"

definition report ::
  "platform \<Rightarrow> conflict_type \<Rightarrow> knowledge_record \<Rightarrow> knowledge_record \<Rightarrow> conflict_state \<Rightarrow> string \<times> string \<Rightarrow>
     conflict_state res" where
  "report P t left right = (\<lambda>(collector, results) (leftFact, rightFact).
     bindE (conflict_result_of P t left leftFact right rightFact) (\<lambda>conflict.
     Inr (addAuthorityConflict left right collector, results @ [conflict])))"

section \<open>Behaviors\<close>

definition behavior_included :: "knowledge_record \<Rightarrow> string list" where
  "behavior_included r = (case fm_spec (kr_frontMatter r) of BehaviorSpec spec \<Rightarrow> bs_included spec | _ \<Rightarrow> [])"

definition behavior_excluded :: "knowledge_record \<Rightarrow> string list" where
  "behavior_excluded r = (case fm_spec (kr_frontMatter r) of BehaviorSpec spec \<Rightarrow> bs_excluded spec | _ \<Rightarrow> [])"

definition own_facts :: "knowledge_record \<Rightarrow> (string \<times> string) list" where
  "own_facts left = map (\<lambda>fact. (fact, fact))
     (sort_by code_point_le (filter (\<lambda>fact. fact \<in> set (behavior_excluded left)) (behavior_included left)))"

definition shared_facts :: "knowledge_record \<Rightarrow> knowledge_record \<Rightarrow> (string \<times> string) list" where
  "shared_facts left right = sort_by (\<lambda>a b. code_point_le (nul_joined [fst a, snd a]) (nul_joined [fst b, snd b]))
     (map (\<lambda>fact. (fact, fact)) (filter (\<lambda>fact. fact \<in> set (behavior_excluded right)) (behavior_included left)) @
      map (\<lambda>fact. (fact, fact)) (filter (\<lambda>fact. fact \<in> set (behavior_included right)) (behavior_excluded left)))"

fun behavior_loop :: "platform \<Rightarrow> knowledge_record list \<Rightarrow> conflict_state \<Rightarrow> conflict_state res" where
  "behavior_loop P [] s = Inr s"
| "behavior_loop P (left # behaviors) s =
     bindE (foldE (report P BehaviorInclusionExclusion left left) s (own_facts left)) (\<lambda>s1.
     bindE (foldE (\<lambda>s right. foldE (report P BehaviorInclusionExclusion left right) s (shared_facts left right)) s1 behaviors)
       (behavior_loop P behaviors))"

definition identity_le :: "knowledge_record \<Rightarrow> knowledge_record \<Rightarrow> bool" where
  "identity_le l r \<longleftrightarrow> code_point_le (kr_id l) (kr_id r)"

definition behaviorConflicts :: "platform \<Rightarrow> knowledge_record list \<Rightarrow> collector \<Rightarrow> conflict_state res" where
  "behaviorConflicts P currentRecords collector =
     behavior_loop P (sort_by identity_le (filter (\<lambda>r. kr_kind r = BehaviorKind) currentRecords)) (collector, [])"

section \<open>Declared conflicts\<close>

definition declarationFacts :: "knowledge_record \<Rightarrow> string list" where
  "declarationFacts r = (case fm_spec (kr_frontMatter r) of
       AssuranceSpec spec \<Rightarrow> as_limits spec | BlueprintSpec spec \<Rightarrow> bl_constraints spec | _ \<Rightarrow> [])"

definition mirrorOf :: "declared_conflict \<Rightarrow> string \<Rightarrow> declared_conflict \<Rightarrow> bool" where
  "mirrorOf candidate sourceId d \<longleftrightarrow>
     dc_type candidate = dc_type d \<and> dc_target candidate = sourceId \<and> dc_localFact candidate = dc_targetFact d \<and>
     dc_targetFact candidate = dc_localFact d"

definition conflict_kind :: "conflict_type \<Rightarrow> knowledge_kind" where
  "conflict_kind t = (if t = AssuranceLimit then AssuranceKind else BlueprintKind)"

definition wrong_kind :: "knowledge_record \<Rightarrow> knowledge_record \<Rightarrow> declared_conflict \<Rightarrow> bool" where
  "wrong_kind source target d \<longleftrightarrow>
     kr_kind source \<noteq> conflict_kind (dc_type d) \<or> kr_kind target \<noteq> conflict_kind (dc_type d)"

definition mirrored :: "knowledge_record \<Rightarrow> knowledge_record \<Rightarrow> declared_conflict \<Rightarrow> bool" where
  "mirrored source target d \<longleftrightarrow>
     list_ex (\<lambda>candidate. mirrorOf candidate (kr_id source) d) (fm_conflicts (kr_frontMatter target))"

definition conflict_diagnostic ::
  "string \<Rightarrow> knowledge_record \<Rightarrow> string list \<Rightarrow> collector \<Rightarrow> collector" where
  "conflict_diagnostic kind source others = add_diagnostic ''conflicts'' kind SeverityError (Some (kr_path source)) others"

definition declaration_step ::
  "platform \<Rightarrow> knowledge_record jsmap \<Rightarrow> knowledge_record \<Rightarrow> conflict_state \<Rightarrow> declared_conflict \<Rightarrow> conflict_state res" where
  "declaration_step P currentByIdentity source = (\<lambda>(collector, results) d.
     let strange = (dc_localFact d \<notin> set (declarationFacts source));
         c1 = when_do strange (conflict_diagnostic ''lifecycle.knowledge.conflict-fact'' source []) collector
     in case map_of currentByIdentity (dc_target d) of
          None \<Rightarrow> Inr (conflict_diagnostic ''lifecycle.knowledge.conflict-target-missing'' source [dc_target d] c1, results)
        | Some target \<Rightarrow>
            (let misplaced = wrong_kind source target d;
                 c2 = when_do misplaced (conflict_diagnostic ''lifecycle.knowledge.conflict-kind'' source [kr_path target]) c1;
                 foreign = (dc_targetFact d \<notin> set (declarationFacts target));
                 c3 = when_do foreign (conflict_diagnostic ''lifecycle.knowledge.conflict-fact'' source [kr_path target]) c2;
                 single = (\<not> mirrored source target d);
                 c4 = when_do single (conflict_diagnostic ''lifecycle.knowledge.conflict-unilateral'' source [kr_path target]) c3
             in if strange \<or> misplaced \<or> foreign \<or> single then Inr (c4, results)
                else bindE (conflict_result_of P (dc_type d) source (dc_localFact d) target (dc_targetFact d)) (\<lambda>conflict.
                  if conflictKey conflict \<in> set (map conflictKey results) then Inr (c4, results)
                  else Inr (addAuthorityConflict source target c4, results @ [conflict]))))"

definition key_le :: "conflict_result \<Rightarrow> conflict_result \<Rightarrow> bool" where
  "key_le l r \<longleftrightarrow> code_point_le (conflictKey l) (conflictKey r)"

definition declaredConflicts ::
  "platform \<Rightarrow> knowledge_record list \<Rightarrow> knowledge_record jsmap \<Rightarrow> collector \<Rightarrow> conflict_state res" where
  "declaredConflicts P currentRecords currentByIdentity collector =
     bindE (foldE (\<lambda>s source. foldE (declaration_step P currentByIdentity source) s (fm_conflicts (kr_frontMatter source)))
        (collector, []) (sort_by identity_le (filter (\<lambda>r. fm_conflicts (kr_frontMatter r) \<noteq> []) currentRecords))) (\<lambda>(c, results).
     Inr (c, sort_by key_le results))"

definition detectKnowledgeConflicts ::
  "platform \<Rightarrow> knowledge_record list \<Rightarrow> knowledge_record jsmap \<Rightarrow> collector \<Rightarrow> conflict_state res" where
  "detectKnowledgeConflicts P currentRecords currentByIdentity collector =
     bindE (behaviorConflicts P currentRecords collector) (\<lambda>(c1, behaviors).
     bindE (declaredConflicts P currentRecords currentByIdentity c1) (\<lambda>(c2, declared).
     Inr (c2, sort_by key_le (behaviors @ declared))))"

end
