(* ===== verification/Knowledge_Validity.thy ===== *)
theory Knowledge_Validity
  imports Knowledge_Graph Knowledge_Coverage Knowledge_Conflicts
begin

text \<open>
  What coverage and conflicts add to the diagnostics: coverage is free of errors exactly when
  every governed file has one primary Description, and conflicts are exactly when there is
  nothing that could conflict.
\<close>

section \<open>Coverage\<close>

text \<open>The files coverage is about, the exempt ones among them and their owners.\<close>

definition governed_file :: "repository_contract \<Rightarrow> tree_entry list \<Rightarrow> tree_entry \<Rightarrow> bool" where
  "governed_file contract tree e \<longleftrightarrow> e \<in> set tree \<and> governedImplementationPath contract (te_path e) \<and> regular_blob e"

definition exempt :: "repository_contract \<Rightarrow> tree_entry \<Rightarrow> bool" where
  "exempt contract e \<longleftrightarrow> list_ex (\<lambda>x. atOrBelow (te_path e) (ce_path x)) (rc_coverageExemptions contract)"

definition owners :: "knowledge_record list \<Rightarrow> tree_entry \<Rightarrow> owned_selector list" where
  "owners descriptions e = filter (\<lambda>(r, s). matchesSelector (te_path e) s)
     (concat (map (\<lambda>r. map (Pair r) (description_selectors r)) descriptions))"

lemma governed_result:
  assumes "governedImplementationEntries contract tree c = (c', governed)"
  shows "error_free c' \<longleftrightarrow> error_free c \<and>
      (\<forall>e \<in> set tree. governedImplementationPath contract (te_path e) \<longrightarrow> regular_blob e)"
    and "e \<in> set governed \<longleftrightarrow> governed_file contract tree e"
proof -
  have loop: "error_free (fst (foldl (governed_step contract) (c, es) tree)) \<longleftrightarrow> error_free c \<and>
        (\<forall>e \<in> set tree. governedImplementationPath contract (te_path e) \<longrightarrow> regular_blob e)"
      "set (snd (foldl (governed_step contract) (c, es) tree)) = set es \<union> {e. governed_file contract tree e}" for c es
    by (induction tree arbitrary: c es) (auto simp: governed_step_def governed_file_def)
  obtain c1 es where run: "foldl (governed_step contract) (c, []) tree = (c1, es)" by fastforce
  with assms have "c' = c1" "set governed = set es" by (auto simp: governedImplementationEntries_def)
  with loop [of c "[]"] run show "error_free c' \<longleftrightarrow> error_free c \<and>
      (\<forall>e \<in> set tree. governedImplementationPath contract (te_path e) \<longrightarrow> regular_blob e)"
    and "e \<in> set governed \<longleftrightarrow> governed_file contract tree e" by auto
qed

lemma exemption_result:
  assumes "foldl (exemption_step governed) (c, rs, ps) xs = (c', rs', ps')"
  shows "(error_free c' \<longleftrightarrow> error_free c) \<and>
    set ps' = set ps \<union> {te_path e | e. e \<in> set governed \<and> list_ex (\<lambda>x. atOrBelow (te_path e) (ce_path x)) xs}"
  using assms
proof (induction xs arbitrary: c rs ps)
  case (Cons x xs)
  obtain c1 rs1 ps1 where step: "exemption_step governed (c, rs, ps) x = (c1, rs1, ps1)" by (cases "exemption_step governed (c, rs, ps) x")
  then have c1: "error_free c1 \<longleftrightarrow> error_free c"
    and ps1: "set ps1 = set ps \<union> {te_path e | e. e \<in> set governed \<and> atOrBelow (te_path e) (ce_path x)}"
    by (auto simp: exemption_step_def Let_def)
  from Cons.prems have "foldl (exemption_step governed) (c1, rs1, ps1) xs = (c', rs', ps')" unfolding foldl_Cons step .
  from Cons.IH [OF this] c1 ps1 show ?case by auto
qed simp

lemma selector_errors:
  "error_free (foldl (selector_step governed) c selectors) \<longleftrightarrow> error_free c \<and>
     (\<forall>(r, s) \<in> set selectors. cs_mode s = FileMode \<longrightarrow> (\<exists>e \<in> set governed. te_path e = cs_path s))"
proof -
  have "error_free (foldl (selector_step governed) c selectors) \<longleftrightarrow> error_free c \<and>
      (\<forall>x \<in> set selectors. case x of (r, s) \<Rightarrow> cs_mode s = FileMode \<longrightarrow> cs_path s \<in> te_path ` set governed)"
    by (rule error_free_foldl) (auto simp: selector_step_def Let_def)
  also have "\<dots> \<longleftrightarrow> error_free c \<and>
      (\<forall>(r, s) \<in> set selectors. cs_mode s = FileMode \<longrightarrow> (\<exists>e \<in> set governed. te_path e = cs_path s))"
    by (simp add: image_iff eq_commute)
  finally show ?thesis .
qed

lemma coverage_result:
  assumes "foldl (coverage_step selectors exempted) (c, vs) governed = (c', vs')"
  shows "(error_free c' \<longleftrightarrow> error_free c \<and>
      (\<forall>e \<in> set governed. te_path e \<notin> set exempted \<longrightarrow> length (owners_of selectors (te_path e)) = 1)) \<and>
    set vs' = set vs \<union> {covered_by e (hd (owners_of selectors (te_path e))) | e.
      e \<in> set governed \<and> te_path e \<notin> set exempted \<and> length (owners_of selectors (te_path e)) = 1}"
  using assms
proof (induction governed arbitrary: c vs)
  case (Cons e governed)
  let ?os = "owners_of selectors (te_path e)"
  obtain c1 vs1 where step: "coverage_step selectors exempted (c, vs) e = (c1, vs1)" by fastforce
  then have c1: "error_free c1 \<longleftrightarrow> error_free c \<and> (te_path e \<notin> set exempted \<longrightarrow> length ?os = 1)"
    and vs1: "set vs1 = set vs \<union> (if te_path e \<notin> set exempted \<and> length ?os = 1 then {covered_by e (hd ?os)} else {})"
    by (auto simp: coverage_step_def Let_def le_Suc_eq not_less split: if_splits)
  from Cons.prems have "foldl (coverage_step selectors exempted) (c1, vs1) governed = (c', vs')" unfolding foldl_Cons step .
  from Cons.IH [OF this] c1 vs1 show ?case by (auto split: if_splits)
qed simp

lemma owners_sorted:
  "length (owners_of (selectors_of descriptions) (te_path e)) = length (owners descriptions e)"
  "length (owners descriptions e) = 1 \<Longrightarrow>
     hd (owners_of (selectors_of descriptions) (te_path e)) = hd (owners descriptions e)"
proof -
  have same: "mset (owners_of (selectors_of descriptions) (te_path e)) = mset (owners descriptions e)"
    by (simp add: owners_of_def selectors_of_def owners_def mset_filter split_beta)
  then show len: "length (owners_of (selectors_of descriptions) (te_path e)) = length (owners descriptions e)"
    by (metis size_mset)
  assume "length (owners descriptions e) = 1"
  moreover from this obtain p where "owners descriptions e = [p]" by (auto simp: length_Suc_conv)
  ultimately show "hd (owners_of (selectors_of descriptions) (te_path e)) = hd (owners descriptions e)"
    using same by simp
qed

lemma description_coverage:
  assumes "buildDescriptionCoverage contract tree descriptions c = (c', coverage, exemptions)"
  shows "error_free c' \<longleftrightarrow> error_free c \<and>
      (\<forall>e \<in> set tree. governedImplementationPath contract (te_path e) \<longrightarrow> regular_blob e) \<and>
      (\<forall>e. governed_file contract tree e \<and> \<not> exempt contract e \<longrightarrow> length (owners descriptions e) = 1) \<and>
      (\<forall>r \<in> set descriptions. \<forall>s \<in> set (description_selectors r). cs_mode s = FileMode \<longrightarrow>
        (\<exists>e. governed_file contract tree e \<and> te_path e = cs_path s))"
    and "set coverage = {covered_by e (hd (owners descriptions e)) | e.
      governed_file contract tree e \<and> \<not> exempt contract e \<and> length (owners descriptions e) = 1}"
proof -
  define selectors where "selectors = selectors_of descriptions"
  obtain c1 governed where one: "governedImplementationEntries contract tree c = (c1, governed)" by fastforce
  obtain c2 rs exempted where two: "foldl (exemption_step governed) (c1, [], []) (rc_coverageExemptions contract) = (c2, rs, exempted)"
    by (cases "foldl (exemption_step governed) (c1, [], []) (rc_coverageExemptions contract)")
  obtain vs where three: "foldl (coverage_step selectors exempted) (foldl (selector_step governed) c2 selectors, []) governed = (c', vs)"
    and coverage: "set coverage = set vs"
    using assms one two by (auto simp: buildDescriptionCoverage_def Let_def selectors_def split: prod.splits)
  note governed = governed_result(2) [OF one]
  have exempted: "te_path e \<in> set exempted \<longleftrightarrow> exempt contract e" if "e \<in> set governed" for e
    using that exemption_result [OF two] by (auto simp: exempt_def)
  have selectors: "(\<forall>(r, s) \<in> set selectors. Q s) \<longleftrightarrow> (\<forall>r \<in> set descriptions. \<forall>s \<in> set (description_selectors r). Q s)" for Q
    by (auto simp: selectors_def selectors_of_def)
  note owned = owners_sorted [of descriptions, folded selectors_def]
  have once: "(\<forall>e \<in> set governed. te_path e \<notin> set exempted \<longrightarrow> length (owners_of selectors (te_path e)) = 1) \<longleftrightarrow>
      (\<forall>e. governed_file contract tree e \<and> \<not> exempt contract e \<longrightarrow> length (owners descriptions e) = 1)"
    unfolding owned(1) using exempted governed by blast
  have files: "(\<exists>e \<in> set governed. te_path e = p) \<longleftrightarrow> (\<exists>e. governed_file contract tree e \<and> te_path e = p)" for p
    using governed by blast
  show "error_free c' \<longleftrightarrow> error_free c \<and>
      (\<forall>e \<in> set tree. governedImplementationPath contract (te_path e) \<longrightarrow> regular_blob e) \<and>
      (\<forall>e. governed_file contract tree e \<and> \<not> exempt contract e \<longrightarrow> length (owners descriptions e) = 1) \<and>
      (\<forall>r \<in> set descriptions. \<forall>s \<in> set (description_selectors r). cs_mode s = FileMode \<longrightarrow>
        (\<exists>e. governed_file contract tree e \<and> te_path e = cs_path s))"
    unfolding conjunct1 [OF coverage_result [OF three]] selector_errors conjunct1 [OF exemption_result [OF two]] governed_result(1) [OF one]
      once files selectors by blast
  show "set coverage = {covered_by e (hd (owners descriptions e)) | e.
      governed_file contract tree e \<and> \<not> exempt contract e \<and> length (owners descriptions e) = 1}"
  proof -
    have "set vs = {covered_by e (hd (owners_of selectors (te_path e))) | e.
        e \<in> set governed \<and> te_path e \<notin> set exempted \<and> length (owners_of selectors (te_path e)) = 1}"
      using coverage_result [OF three] by simp
    also have "\<dots> = {covered_by e (hd (owners descriptions e)) | e.
        governed_file contract tree e \<and> \<not> exempt contract e \<and> length (owners descriptions e) = 1}"
      unfolding owned(1) using exempted governed owned(2) by (intro Collect_cong) metis
    finally show ?thesis unfolding coverage .
  qed
qed

section \<open>Conflicts\<close>

lemma error_free_authority [simp]: "\<not> error_free (addAuthorityConflict left right c)"
  by (simp add: addAuthorityConflict_def)

lemma error_free_conflict [simp]: "\<not> error_free (conflict_diagnostic kind source others c)"
  by (simp add: conflict_diagnostic_def)

lemma error_free_when_conflict [simp]:
  "error_free (when_do condition (conflict_diagnostic kind source others) c) \<longleftrightarrow> error_free c \<and> \<not> condition"
  by (simp add: when_do_def)

text \<open>A conflict state reports what it holds.\<close>

definition reported :: "conflict_state \<Rightarrow> bool" where
  "reported s \<longleftrightarrow> (snd s \<noteq> [] \<longrightarrow> \<not> error_free (fst s))"

definition conflict_step :: "conflict_state \<Rightarrow> bool \<Rightarrow> conflict_state \<Rightarrow> bool" where
  "conflict_step s ok s' \<longleftrightarrow> (reported s \<longrightarrow> reported s' \<and> (error_free (fst s') \<longleftrightarrow> error_free (fst s) \<and> ok))"

lemma conflict_fold:
  assumes "\<And>x s s'. x \<in> set xs \<Longrightarrow> f s x = Inr s' \<Longrightarrow> conflict_step s (P x) s'" and "foldE f s xs = Inr s'"
  shows "conflict_step s (\<forall>x \<in> set xs. P x) s'"
  using assms
proof (induction xs arbitrary: s)
  case (Cons x xs)
  then obtain s1 where s1: "f s x = Inr s1" and rest: "foldE f s1 xs = Inr s'" by (auto simp: bindE_def split: sum.splits)
  have "conflict_step s1 (\<forall>x \<in> set xs. P x) s'" using Cons.IH [OF _ rest] Cons.prems(1) by simp
  moreover have "conflict_step s (P x) s1" using Cons.prems(1) s1 by simp
  ultimately show ?case by (auto simp: conflict_step_def)
qed (simp add: conflict_step_def)

lemma report_step: "report P t left right s facts = Inr s' \<Longrightarrow> conflict_step s False s'"
  by (cases facts; cases s) (auto simp: report_def bindE_def conflict_step_def reported_def split: sum.splits)

lemma report_fold: "foldE (report P t left right) s facts = Inr s' \<Longrightarrow> conflict_step s (facts = []) s'"
  using conflict_fold [of facts "report P t left right" "\<lambda>_. False" s s'] report_step
  by (cases facts) (auto simp: conflict_step_def)

definition disjoint_behaviors :: "knowledge_record \<Rightarrow> knowledge_record \<Rightarrow> bool" where
  "disjoint_behaviors a b \<longleftrightarrow> set (behavior_included a) \<inter> set (behavior_excluded b) = {}"

lemma sort_by_empty [simp]: "sort_by le xs = [] \<longleftrightarrow> xs = []"
  by (metis length_0_conv length_sort_by)

lemma own_facts_empty: "own_facts a = [] \<longleftrightarrow> disjoint_behaviors a a"
  by (auto simp: own_facts_def disjoint_behaviors_def filter_empty_conv)

lemma shared_facts_empty: "shared_facts a b = [] \<longleftrightarrow> disjoint_behaviors a b \<and> disjoint_behaviors b a"
  by (auto simp: shared_facts_def disjoint_behaviors_def filter_empty_conv)

lemma behavior_loop_step:
  "behavior_loop P bs s = Inr s' \<Longrightarrow> conflict_step s (\<forall>a \<in> set bs. \<forall>b \<in> set bs. disjoint_behaviors a b) s'"
proof (induction bs arbitrary: s)
  case (Cons a bs)
  then obtain s1 s2 where own: "foldE (report P BehaviorInclusionExclusion a a) s (own_facts a) = Inr s1"
    and others: "foldE (\<lambda>s b. foldE (report P BehaviorInclusionExclusion a b) s (shared_facts a b)) s1 bs = Inr s2"
    and rest: "behavior_loop P bs s2 = Inr s'"
    by (auto simp: bindE_def split: sum.splits)
  have "conflict_step s1 (\<forall>b \<in> set bs. shared_facts a b = []) s2"
    by (rule conflict_fold [OF report_fold others])
  with report_fold [OF own] Cons.IH [OF rest] show ?case
    by (auto simp: conflict_step_def own_facts_empty shared_facts_empty)
qed (simp add: conflict_step_def)

lemma declaration_step_result: "declaration_step P current source s d = Inr s' \<Longrightarrow> conflict_step s False s'"
  by (cases s) (auto simp: declaration_step_def Let_def conflict_step_def reported_def bindE_def
    split: option.splits sum.splits if_splits)

lemma knowledge_conflicts:
  assumes "detectKnowledgeConflicts P records current c = Inr (c', results)"
  shows "error_free c' \<longleftrightarrow> error_free c \<and> (\<forall>a \<in> set records. \<forall>b \<in> set records. disjoint_behaviors a b) \<and>
      (\<forall>r \<in> set records. fm_conflicts (kr_frontMatter r) = [])"
    and "error_free c' \<Longrightarrow> results = []"
proof -
  let ?bs = "filter (\<lambda>r. kr_kind r = BehaviorKind) records"
  let ?ds = "filter (\<lambda>r. fm_conflicts (kr_frontMatter r) \<noteq> []) records"
  obtain c1 rs1 rs2 where one: "behavior_loop P (sort_by identity_le ?bs) (c, []) = Inr (c1, rs1)"
    and two: "foldE (\<lambda>s source. foldE (declaration_step P current source) s (fm_conflicts (kr_frontMatter source)))
      (c1, []) (sort_by identity_le ?ds) = Inr (c', rs2)" and results: "results = sort_by key_le (rs1 @ sort_by key_le rs2)"
    using assms by (auto simp: detectKnowledgeConflicts_def behaviorConflicts_def declaredConflicts_def bindE_def
      split: sum.splits)
  have behaviors: "conflict_step (c, []) (\<forall>a \<in> set ?bs. \<forall>b \<in> set ?bs. disjoint_behaviors a b) (c1, rs1)"
    using behavior_loop_step [OF one] by simp
  have "conflict_step s (fm_conflicts (kr_frontMatter r) = []) s'"
    if "foldE (declaration_step P current r) s (fm_conflicts (kr_frontMatter r)) = Inr s'" for r s s'
    using conflict_fold [OF declaration_step_result that] by (auto simp: conflict_step_def ex_in_conv)
  from conflict_fold [OF this two] have declared: "conflict_step (c1, []) (?ds = []) (c', rs2)"
    by (auto simp: conflict_step_def filter_empty_conv)
  have "disjoint_behaviors a b" if "kr_kind a \<noteq> BehaviorKind \<or> kr_kind b \<noteq> BehaviorKind" for a b
    using that by (auto simp: disjoint_behaviors_def behavior_included_def behavior_excluded_def fm_kind_def
      split: knowledge_spec.splits)
  then have "(\<forall>a \<in> set ?bs. \<forall>b \<in> set ?bs. disjoint_behaviors a b) \<longleftrightarrow>
      (\<forall>a \<in> set records. \<forall>b \<in> set records. disjoint_behaviors a b)" by auto
  moreover have "?ds = [] \<longleftrightarrow> (\<forall>r \<in> set records. fm_conflicts (kr_frontMatter r) = [])" by (simp add: filter_empty_conv)
  ultimately show "error_free c' \<longleftrightarrow> error_free c \<and> (\<forall>a \<in> set records. \<forall>b \<in> set records. disjoint_behaviors a b) \<and>
      (\<forall>r \<in> set records. fm_conflicts (kr_frontMatter r) = [])"
    using behaviors declared by (simp add: conflict_step_def reported_def)
  show "results = []" if "error_free c'"
    using that behaviors declared by (auto simp: conflict_step_def reported_def results)
qed

end
