(* ===== verification/Knowledge_Scenario.thy ===== *)
theory Knowledge_Scenario
  imports Knowledge_Validity Scenario_States
begin

text \<open>
  A small Knowledge Set, evaluated in the kernel: a Behavior verified by a Check of two
  revisions, the first superseded.
\<close>

definition know_front ::
  "string \<Rightarrow> int \<Rightarrow> knowledge_status \<Rightarrow> revision_identity option \<Rightarrow> knowledge_relationship list \<Rightarrow> knowledge_spec \<Rightarrow> front_matter" where
  "know_front identity revision status supersedes ls spec = \<lparr>fm_id = identity, fm_title = ''t'', fm_status = status,
     fm_revision = revision, fm_supersedes = supersedes, fm_summary = ''s'', fm_owners = [], fm_relationships = ls,
     fm_conflicts = [], fm_tags = [], fm_spec = spec\<rparr>"

definition know_record :: "string \<Rightarrow> front_matter \<Rightarrow> knowledge_record" where
  "know_record path fm = \<lparr>kr_path = path, kr_objectId = ''o'', kr_frontMatter = fm, kr_sourceDigest = demo_digest,
     kr_semanticDigest = demo_digest\<rparr>"

definition know_check :: "int \<Rightarrow> string \<Rightarrow> knowledge_status \<Rightarrow> revision_identity option \<Rightarrow> knowledge_record" where
  "know_check revision path status supersedes = know_record path (know_front ''check.c'' revision status supersedes [] CheckSpec)"

definition know_old :: knowledge_record where
  "know_old = know_check 1 ''c/1'' SupersededStatus None"

definition know_new :: knowledge_record where
  "know_new = know_check 2 ''c/2'' CurrentStatus
     (Some \<lparr>rvi_id = ''check.c'', rvi_revision = 1, rvi_sourceDigest = demo_digest, rvi_semanticDigest = demo_digest\<rparr>)"

definition know_behavior :: "bool \<Rightarrow> knowledge_record" where
  "know_behavior required = know_record ''b'' (know_front ''behavior.b'' 1 CurrentStatus None
     [\<lparr>kl_type = VerifiedBy, kl_target = ''check.c'', kl_required = required, kl_scope = None, kl_rationale = None\<rparr>]
     (BehaviorSpec \<lparr>bs_outcome = ''o'', bs_actors = [], bs_conditions = [], bs_included = [], bs_excluded = [],
        bs_examples = [], bs_falsifiers = []\<rparr>))"

definition know_records :: "bool \<Rightarrow> knowledge_record list" where
  "know_records required = [know_behavior required, know_old, know_new]"

lemmas know_defs = know_front_def know_record_def know_check_def know_old_def know_new_def know_behavior_def know_records_def

lemma know_digits: "show_nat (Suc 0) = ''1''" "show_nat 2 = ''2''"
  by code_simp+

lemmas know_evaluation = Let_def index_record_def recordIdentityRevision_def append_value_def sorted_entries_def sort_by_def
  check_identity_def check_revision_def check_currents_def currents_of_def supersedes_exactly_def when_do_def revision_le_def
  or_else_def code_point_le_def fm_kind_def compareKnowledgeRecords_def show_int_def know_digits

definition know_indexes :: "bool \<Rightarrow> revision_indexes" where
  "know_indexes required = \<lparr>
     ri_byIdentityRevision = [(''behavior.b@1'', know_behavior required), (''check.c@1'', know_old), (''check.c@2'', know_new)],
     ri_revisionsByIdentity = [(''behavior.b'', [know_behavior required]), (''check.c'', [know_old, know_new])],
     ri_currentByIdentity = [(''behavior.b'', know_behavior required), (''check.c'', know_new)],
     ri_currentRecords = [know_behavior required, know_new], ri_historicalRecords = [know_old]\<rparr>"

lemma know_indexed: "buildRevisionIndexes (know_records required) [] = ([], know_indexes required)"
  by (simp add: buildRevisionIndexes_def know_indexes_def know_defs know_evaluation)

text \<open>The edge, where its Check has to be current or not.\<close>

definition know_edge :: "bool \<Rightarrow> relationship_edge" where
  "know_edge required = \<lparr>ed_source = ''behavior.b'', ed_sourceRevision = 1, ed_sourcePath = ''b'',
     ed_sourceSemanticDigest = demo_digest, ed_type = VerifiedBy, ed_target = ''check.c'', ed_targetRevision = Some 2,
     ed_targetStatus = Some CurrentStatus, ed_targetSemanticDigest = Some demo_digest, ed_required = required,
     ed_scope = None, ed_digest = demo_digest\<rparr>"

lemmas know_edge_evaluation = buildRelationshipEdges_def recordKey_def nul_joined_def joined_def padded_def enumerate_eq_zip
  limits_or_default_def FOUNDATION_REPOSITORY_KNOWLEDGE_LIMITS_def relationship_step_def latestRevision_def target_diagnostics_def
  legalEdge_def ALLOWED_sources_def ALLOWED_targets_def ALLOWED_sameKind_def edge_of_def edge_subject_def nullable_def
  demo_digestCanonical safe_integer_def bindE_def failIf_def

lemma know_edges:
  "buildRelationshipEdges demo_platform (know_records required) (ri_revisionsByIdentity (know_indexes required))
     (ri_currentByIdentity (know_indexes required)) None [] = Inr ([], [know_edge required])"
  by (simp add: know_edge_evaluation know_edge_def know_indexes_def know_defs know_evaluation)

definition know_graph :: graph_result where
  "know_graph = \<lparr>gr_dependencyComponents = [], gr_complete = True\<rparr>"

lemma know_validated:
  "validateRelationshipGraph [know_edge True] (ri_currentByIdentity (know_indexes True)) None [] = ([], know_graph)"
  by (simp add: validateRelationshipGraph_def limits_or_default_def FOUNDATION_REPOSITORY_KNOWLEDGE_LIMITS_def
      over_degree_def count_source_def cycle_diagnostics_def cyclicComponents_def stronglyConnectedComponents_def
      adjacencyFor_def adjacency_edge_def finish_order_def components_from_def large_diagnostics_def
      dependency_diagnostics_def incomplete_dependency_def check_diagnostics_def verified_def current_edges_def
      revision_of_def know_graph_def know_edge_def know_indexes_def know_defs know_evaluation)

text \<open>Two nodes on a cycle and one that leads to it.\<close>

definition know_adjacency :: adjacency where
  "know_adjacency = [(''a'', [''b'']), (''b'', [''a'']), (''c'', [''a''])]"

lemma know_adjacency_wf: "jsmap_wf know_adjacency"
  by (simp add: jsmap_wf_def know_adjacency_def)

lemma know_components: "stronglyConnectedComponents know_adjacency = [[''a'', ''b''], [''c'']]"
  by code_simp

lemma know_cyclic: "cyclicComponents know_adjacency = [[''a'', ''b'']]"
  by code_simp

text \<open>A repository of two governed files, one of them exempt, under one Description.\<close>

definition know_contract :: repository_contract where
  "know_contract = \<lparr>rc_behaviorRoot = ''records/behavior'', rc_assuranceRoot = ''records/assurance'',
     rc_blueprintRoot = ''records/blueprint'', rc_checkRoot = ''records/checks'', rc_disciplineRoot = ''records/disciplines'',
     rc_atlasRoot = ''atlas'', rc_governedImplementationRoots = [''src''],
     rc_coverageExemptions = [\<lparr>ce_path = ''src/g'', ce_reason = ''generated''\<rparr>]\<rparr>"

definition know_file :: "string \<Rightarrow> tree_entry" where
  "know_file path = \<lparr>te_path = path, te_mode = ''100644'', te_type = ''blob'', te_objectId = ''o''\<rparr>"

definition know_tree :: "tree_entry list" where
  "know_tree = [know_file ''src/g/x'', know_file ''src/a'', know_file ''README'']"

definition know_selector :: coverage_selector where
  "know_selector = \<lparr>cs_path = ''src'', cs_mode = TreeMode, cs_exclude = [''src/g'']\<rparr>"

definition know_description :: knowledge_record where
  "know_description = know_record ''src/_a.desc.md'' (know_front ''description.a'' 1 CurrentStatus None []
     (DescriptionSpec \<lparr>ds_responsibility = ''r'', ds_coverage = [know_selector], ds_behavior = [], ds_boundaries = [],
        ds_invariants = [], ds_dependencies = [], ds_failure = [], ds_rationale = []\<rparr>))"

definition know_covered :: coverage_entry where
  "know_covered = \<lparr>ve_path = ''src/a'', ve_mode = ''100644'', ve_objectId = ''o'', ve_descriptionId = ''description.a'',
     ve_descriptionRevision = 1, ve_selectorPath = ''src'', ve_selectorMode = TreeMode\<rparr>"

lemma know_coverage: "buildDescriptionCoverage know_contract know_tree [know_description] [] =
    ([], [know_covered], [\<lparr>xr_path = ''src/g'', xr_reason = ''generated'', xr_matched = True\<rparr>])"
  by code_simp

text \<open>What one Behavior includes another excludes.\<close>

definition know_behaves :: "string \<Rightarrow> string list \<Rightarrow> string list \<Rightarrow> knowledge_record" where
  "know_behaves identity included excluded = know_record identity (know_front identity 1 CurrentStatus None []
     (BehaviorSpec \<lparr>bs_outcome = ''o'', bs_actors = [], bs_conditions = [], bs_included = included,
        bs_excluded = excluded, bs_examples = [], bs_falsifiers = []\<rparr>))"

lemma know_no_conflict:
  "detectKnowledgeConflicts demo_platform [know_behaves ''b'' [''f''] [''g''], know_behaves ''a'' [''h''] [''g'']] [] [] = Inr ([], [])"
  by (simp add: detectKnowledgeConflicts_def behaviorConflicts_def declaredConflicts_def know_behaves_def know_defs
      know_evaluation identity_le_def own_facts_def shared_facts_def behavior_included_def behavior_excluded_def bindE_def)

end
