(* ===== verification/Spec2Isabelle.thy ===== *)
theory Spec2Isabelle
  imports Scenario_States Delegation_Execution Evidence_Scenario Evidence_Order Evidence_Paths Json_Scenario Knowledge_Scenario
begin

text \<open>
  A verification library for the Delivery Process of the Lifecycle Runtime
  (\<open>runtime/src/foundation\<close>). A Delivery is a journal of Control record events. Every reader of
  a store derives the state of the Delivery by reducing its journal, and every writer appends
  an event only after the reducer has accepted it on a fork of the current replay; so what the
  reducer accepts is what the process guarantees.

  The parts, in the order of the imports, with the source files they model:

  \<^item> \<open>Lifecycle_Prelude\<close>: errors as values (\<open>res\<close>, \<open>bindE\<close>, \<open>failIf\<close>), JavaScript's
    insertion-ordered \<open>Map\<close> (locale \<open>js_map\<close>, interpreted on association lists), and the locales
    of a replay that keeps an invariant (\<open>event_replay\<close>) or only grows (\<open>monotone_replay\<close>).
  \<^item> \<open>Js_Values\<close>, \<open>Canonical_Json\<close> (\<open>validation/canonical.ts\<close>, \<open>ordering.ts\<close>, \<open>value.ts\<close>,
    \<open>schema-engine.ts\<close>): JSON values, patterns and dates, canonical text and digests. Strings are
    UTF-8 bytes. SHA-256 and the Ajv validators are the fields of the parameter \<open>platform\<close>;
    nothing is assumed of them.
  \<^item> \<open>Control_Model\<close> (\<open>control/model.ts\<close>, \<open>control/types.ts\<close>), \<open>Kind_Registry\<close>
    (\<open>control/kind-registry.ts\<close>, \<open>payload-registry.ts\<close>): the compilation of record revisions and
    events, bounded JSON, relationships, and the policy of each record kind.
  \<^item> \<open>Delivery_Types\<close>, \<open>Operation_Registry\<close> (\<open>process/delivery-state.ts\<close>,
    \<open>operation-registry.ts\<close>, \<open>recovery-registry.ts\<close>), \<open>Delivery_Events\<close>
    (\<open>process/delivery-event-registry.ts\<close>), \<open>Transaction_Facts\<close>
    (\<open>process/transaction-observation-facts-v7.ts\<close>): the vocabularies, registries and payload
    grammars.
  \<^item> \<open>Work_Delegation\<close>, \<open>Delegation_Execution\<close> (\<open>control/work-delegation*.ts\<close>): grants,
    reservations, charges, allowances, stop requests and the joins with what executes.
  \<^item> \<open>Integration_Assessment\<close> (\<open>control/integration-assessment.ts\<close>,
    \<open>projection-condition-facts.ts\<close>): the payload and digests the reducer reproduces.
  \<^item> \<open>Delivery_Replay\<close>, \<open>Opening_Handlers\<close>, \<open>Agent_Handlers\<close>, \<open>Candidate_Handlers\<close>,
    \<open>Transaction_Handlers\<close>, \<open>Delivery_Reducer\<close> (\<open>process/delivery-reducer.ts\<close>): the replay, one
    handler for each of the 25 event kinds, append, reduction, seal assertion and the overlay of
    the store's disposition. A record field \<open>re_x\<close>, \<open>ac_x\<close> is the field \<open>x\<close> of \<open>Replay\<close> and
    \<open>ReplayActivity\<close>; a function has the name of the source's, and the blocks of a long handler
    are definitions of their own. A replay is a value, so \<open>fork()\<close> is the identity.

  \<^item> \<open>Strict_Json\<close> (\<open>validation/strict-json.ts\<close>): the strict reader of JSON, its limits and its
    rejections.
  \<^item> \<open>Evidence_Facts\<close>, \<open>Evidence_Assessment\<close> (\<open>evidence/assessment-v1.ts\<close>): the assessment of
    Evidence: Receipts, judged propositions, artifacts, descriptions, obligations, uncertainty.
  \<^item> \<open>Component_Search\<close>, \<open>Knowledge_Facts\<close>, \<open>Knowledge_Revisions\<close>, \<open>Knowledge_Relationships\<close>
    (\<open>knowledge/relationships.ts\<close>, \<open>revisions.ts\<close>, \<open>types.ts\<close>, \<open>DiagnosticCollector.add\<close> of
    \<open>validation/result.ts\<close>): the indexes of Knowledge revisions, the edges records declare,
    strongly connected components and the validation of the graph. The message and the facts of
    a diagnostic are left out.
  \<^item> \<open>Knowledge_Coverage\<close> (\<open>knowledge/coverage.ts\<close>), \<open>Knowledge_Conflicts\<close>
    (\<open>knowledge/conflicts.ts\<close>): the Description each governed file has, and the conflicts of
    current records.

  What the lemmas show:

  \<^item> \<open>Lifecycle_Spec\<close> states what the reducer promises as a step relation on activities and
    current subjects; \<open>Lifecycle_Refinement\<close> proves that every accepted event is such a step.
  \<^item> \<open>Lifecycle_Invariants\<close>, \<open>Lifecycle_Provenance\<close> prove invariants of the steps: one activity
    under way, the order of an activity's facts and its obligation, write-once facts, and the
    source of every current subject. \<open>Delivery_Journal\<close> carries them to whole journals by
    interpreting the replay locales, with the chain, the registers and the charges;
    \<open>Delivery_Assurance\<close> and \<open>Delivery_Obligations\<close> read them back over the replay.
  \<^item> \<open>Delegation_Roundtrip\<close> and \<open>Bounded_Json\<close> show the stability of parsing and what bounded
    JSON accepts.
  \<^item> \<open>Strict_Reader\<close>, \<open>Strict_Roundtrip\<close>, \<open>Json_Order\<close> show what the strict reader returns, that
    it reads canonical text back, and that canonical text decides equality.
  \<^item> \<open>Evidence_Support\<close>, \<open>Evidence_Order\<close>, \<open>Evidence_Paths\<close> show that support is earned exactly
    as specified, whatever the order of the Receipts, and what the path pattern accepts.
  \<^item> \<open>Component_Correctness\<close> proves Kosaraju's search by invariants of its two stacks;
    \<open>Knowledge_Chains\<close> shows what the revision indexes hold, and \<open>Knowledge_Graph\<close> that the
    validation of the graph is its specification over the records (\<open>knowledge_graph_ok\<close>).
    \<open>Knowledge_Validity\<close> does the same for coverage and conflicts.
  \<^item> \<open>Json_Scenario\<close>, \<open>Evidence_Scenario\<close> and \<open>Knowledge_Scenario\<close> hold further inputs of
    witnesses. \<open>Lifecycle_Scenario\<close> and \<open>Scenario_States\<close> evaluate a complete Delivery of 39 events, and the
    journal of one that is stranded, in the kernel: the inputs of the witnesses below.

  Termination: the work list of bounded JSON is measured by the values left, the paged reader
  of \<open>Delegation_Execution\<close> by the events left, the strict reader by the text left, the search
  for components by the nodes not yet visited and the stack; every other definition is
  structural. No fuel is
  used.

  Not modelled: the stores, Git, containers and providers, whose effects the events only
  report; the compilers of single record payloads, beyond the members the reducer reads; of
  Knowledge the parsing of records, their sources and bindings; the read
  models, projections and command line; and the schemas handed to Ajv.
\<close>

section \<open>Closure\<close>



section \<open>The lifecycle\<close>

text \<open>
  C2. Every event the reducer accepts is a step of the abstract lifecycle of its kind, taken
  from an open Delivery, and the first step creates the Delivery.
\<close>

theorem accepted_event_is_lifecycle_step:
  assumes "append_event P r e = Inr r'"
  shows "\<exists>kind. ev_eventKind e = event_kind_name kind \<and> su_closure (re_subjects r) = None \<and>
    (re_created r \<or> kind = DeliveryCreated) \<and> lifecycle kind (core r) (core r')"
  using append_refines [OF assms] .

theorem accepted_event_is_lifecycle_step_witness:
  "\<exists>kind. ev_eventKind stranded_event = event_kind_name kind \<and>
    lifecycle kind (core reviewed_state) (core stranded_state)"
  using accepted_event_is_lifecycle_step [OF single_phase [OF strand_phase]] by blast

text \<open>
  C5. A Delivery never has two activities under way: whenever two activities of a replayed
  journal are incomplete they are the same activity.
\<close>

theorem one_activity_under_way:
  assumes "replay_events P f es = Inr r" and "a \<in> set (activities r)" and "b \<in> set (activities r)"
    and "ac_stage a \<noteq> Completed" and "ac_stage b \<noteq> Completed"
  shows "a = b"
  using journal_one_incomplete [OF assms(1-3)] assms(4,5) by (simp add: incomplete_def)

theorem one_activity_under_way_witness:
  "last (activities reviewed_state) = activities reviewed_state ! 3 \<and>
   ac_stage (activities reviewed_state ! 3) = Finalizing"
proof -
  have m: "last (activities reviewed_state) \<in> set (activities reviewed_state)"
    "activities reviewed_state ! 3 \<in> set (activities reviewed_state)"
    and s: "ac_stage (last (activities reviewed_state)) \<noteq> Completed"
    "ac_stage (activities reviewed_state ! 3) = Finalizing"
    by (simp_all add: reviewed_activities scenario_stages)
  from one_activity_under_way [OF reviewed_journal m s(1)] s(2) show ?thesis by simp
qed

text \<open>
  C6. Every activity of a replayed journal either is completed, with an outcome and no
  obligation, or carries exactly one obligation: the step it resumes at is one its retained
  facts call for, the recovery registry knows that step under the obligation's kind, and the
  obligation carries the digest of exactly the effect it waits for.
\<close>

theorem recovery_obligation_exact:
  assumes "replay_events P f es = Inr r" and "a \<in> set (activities r)"
  shows "if ac_stage a = Completed then ac_recovery a = None \<and> ac_completionOutcome a \<noteq> None
    else ac_completionOutcome a = None \<and> (\<exists>ob d. ac_recovery a = Some ob \<and>
      ro_resumesAt ob \<in> phase_steps a \<and>
      deliveryRecoveryDescriptor (ro_kind ob) (step_name (ro_resumesAt ob)) = Inr d \<and>
      ro_exactEffectDigest ob = carried a (ro_resumesAt ob))"
  using journal_obligation [OF assms] .

theorem recovery_obligation_exact_witness:
  "\<exists>ob d. ac_recovery stranded_activity = Some ob \<and> ro_resumesAt ob \<in> phase_steps stranded_activity \<and>
     deliveryRecoveryDescriptor (ro_kind ob) (step_name (ro_resumesAt ob)) = Inr d"
  using recovery_obligation_exact [OF stranded_journal, of stranded_activity]
  by (auto simp: stranded_activities scenario_stages split: if_splits)

section \<open>What may come next\<close>

text \<open>
  C7. A Delivery is never stuck for want of a legal operation. At a closed standing no
  Delivery operation is eligible; while an activity is incomplete exactly the recovery is;
  and otherwise abandonment (\<open>delivery.no-ship\<close>) is eligible, or the Delivery is still being
  framed and its preparation is.
\<close>

theorem some_operation_eligible:
  assumes "reduceDeliveryEvents P es f = Inr s"
  shows "if st_standing s = Closed then st_eligibleOperations s = []
    else if \<exists>a \<in> set (st_activities s). da_stage a \<noteq> Completed then st_eligibleOperations s = [Recover]
    else NoShip \<in> set (st_eligibleOperations s) \<or>
      st_standing s = Framing \<and> Prepare \<in> set (st_eligibleOperations s)"
  using reduced_operations [OF assms] .

theorem some_operation_eligible_witness:
  "reduceDeliveryEvents demo_platform [] demo_resolver = Inr (reducedState (freshReplay demo_resolver)) \<and>
   (NoShip \<in> set (st_eligibleOperations (reducedState (freshReplay demo_resolver))) \<or>
    Prepare \<in> set (st_eligibleOperations (reducedState (freshReplay demo_resolver))))"
proof -
  have r: "reduceDeliveryEvents demo_platform [] demo_resolver = Inr (reducedState (freshReplay demo_resolver))"
    by (simp add: reduceDeliveryEvents_def replay_events_def)
  from some_operation_eligible [OF r] r show ?thesis
    by (auto simp: activities_def freshReplay_def currentStanding_def no_subjects_def split: if_splits)
qed

text \<open>
  C8. A Closure is terminal: no event whatever is accepted after it.
\<close>

theorem closure_is_terminal:
  assumes "su_closure (re_subjects r) \<noteq> None"
  shows "\<exists>err. append_event P r e = Inl err"
proof (cases "append_event P r e")
  case (Inr r')
  from append_refines [OF this] assms show ?thesis by blast
qed blast

theorem closure_is_terminal_witness:
  "\<exists>err. append_event demo_platform accepted_state stranded_event = Inl err"
  by (rule closure_is_terminal) (simp add: accepted_subjects)

text \<open>
  C9. A store may be sealed exactly when its journal replays to a closed Delivery: the
  assertion before the seal, which also demands that the journal ends with the event that
  recorded the current Closure and that no activity is open, refuses nothing else.
\<close>

theorem sealable_exactly_when_closed:
  "assertDeliveryReplaySealable P es f = Inr s \<longleftrightarrow>
     reduceDeliveryEvents P es f = Inr s \<and> st_standing s = Closed"
proof (cases "replay_events P f es")
  case (Inr r)
  from sealable_iff [OF this] Inr show ?thesis by (auto simp: reduceDeliveryEvents_def)
qed (simp add: assertDeliveryReplaySealable_def reduceDeliveryEvents_def)

section \<open>The journal\<close>

text \<open>
  C10. The journal a replay accepts is one chain: the sequence numbers count from 1, every
  event names the digest of its predecessor and has the digest its own fields compile to,
  all events belong to one store and one process, no event identity occurs twice and time
  never runs backwards; and the replay ends with the journal's last event.
\<close>

theorem journal_is_one_chain:
  assumes "replay_events P f es = Inr r"
  shows "(\<forall>i < length es. ev_sequence (es ! i) = int i + 1 \<and>
      ev_predecessorDigest (es ! i) = (if i = 0 then None else Some (ev_digest (es ! (i - 1))))) \<and>
    (\<forall>e \<in> set es. \<exists>x. compileControlRecordEvent P (ev_storeId e) (ev_processId e) (ev_sequence e)
      (ev_predecessorDigest e) (event_input_of e) = Inr x \<and> ev_digest x = ev_digest e) \<and>
    (\<exists>s p. \<forall>e \<in> set es. ev_storeId e = s \<and> ev_processId e = p) \<and>
    distinct (map ev_eventId es) \<and> sorted (map (\<lambda>e. the (date_parse (ev_occurredAt e))) es) \<and>
    re_lastEvent r = (if es = [] then None else Some (last es))"
  using journal_chain [OF assms] by (simp add: chained_def chain_end_def reproduced_def)

theorem journal_is_one_chain_witness:
  "distinct (map ev_eventId demo_journal) \<and> re_lastEvent accepted_state = Some (last demo_journal)"
  using journal_is_one_chain [OF accepted_journal] by (simp add: demo_journal_def prepared_events_def)




text \<open>
  C13. The registers of finalized subjects are sound and only grow: in every continuation
  of a journal a record identity keeps its kind and a revision its digest, and every
  finalized subject is the one the store resolves, of the registered kind.
\<close>

theorem finalized_subjects_are_bound:
  assumes "replay_events P f es = Inr r" and "replay_events P f (es @ fs) = Inr s"
  shows "re_recordKinds r \<subseteq>\<^sub>m re_recordKinds s \<and> re_recordRevisions r \<subseteq>\<^sub>m re_recordRevisions s \<and>
    re_finalizedSubjects r \<subseteq> re_finalizedSubjects s \<and>
    (\<forall>(kind, x) \<in> re_finalizedSubjects s. re_recordKinds s (ref_id x) = Some kind \<and>
       re_recordRevisions s (ref_id x, ref_revision x) = Some (ref_digest x) \<and>
       (\<exists>rv. f (reference_subject x) = Some rv \<and> rv_recordKind rv = kind \<and> retainedReference rv = x))"
  using journal_registers [OF assms] .

theorem finalized_subjects_are_bound_witness:
  "re_recordKinds prepared_state \<subseteq>\<^sub>m re_recordKinds admitted_state \<and>
   re_finalizedSubjects prepared_state \<subseteq> re_finalizedSubjects admitted_state"
  using finalized_subjects_are_bound [OF prepare_phase admitted_journal] by blast

section \<open>The current subjects\<close>

text \<open>
  C14. There is one Candidate lineage. A current Candidate exists only under an active
  Boundary; every revision any activity observed has the current one's identity and a
  revision between 1 and the current one; and no two activities observed the same revision.
\<close>

theorem one_candidate_lineage:
  assumes "replay_events P f es = Inr r"
  shows "(su_candidate (re_subjects r) \<noteq> None \<longrightarrow> su_activeBoundary (re_subjects r) \<noteq> None) \<and>
    (\<forall>a \<in> set (activities r). \<forall>x. ac_candidate a = Some x \<longrightarrow>
       (\<exists>p. su_candidate (re_subjects r) = Some p \<and> ref_id x = ref_id p \<and>
          1 \<le> ref_revision x \<and> ref_revision x \<le> ref_revision p)) \<and>
    (\<forall>a \<in> set (activities r). \<forall>b \<in> set (activities r). \<forall>x y. ac_candidate a = Some x \<longrightarrow>
       ac_candidate b = Some y \<longrightarrow> ref_revision x = ref_revision y \<longrightarrow> a = b)"
  using journal_facts(6) [OF assms] by (simp add: candidate_facts_def acts_core)

theorem one_candidate_lineage_witness:
  "\<exists>p. su_candidate (re_subjects accepted_state) = Some p \<and> ref_id (retainedReference first_candidate) = ref_id p \<and>
    1 \<le> ref_revision p"
proof -
  have m: "admit_done \<in> set (activities accepted_state)" by (simp add: scenario_activities)
  have c: "ac_candidate admit_done = Some (retainedReference first_candidate)" by (simp add: scenario_activity_defs)
  from one_candidate_lineage [OF accepted_journal] m c show ?thesis by (meson order_trans)
qed

text \<open>
  C15. Every current subject has a source. The proposed or active Boundary was finalized by
  a preparation, revision or reaffirmation that completed with legal baseline Checks; an
  active Boundary stands on an admission that was applied; the Material Condition was frozen
  by an activity while a Candidate existed; the Seal was made by an evaluation of a Candidate;
  and the Evidence, with the readiness it gives, by an evaluation of the current Seal that
  ran its Agent to the end and received its Checks.
\<close>

theorem current_subjects_have_sources:
  assumes "replay_events P f es = Inr r"
  shows "(\<forall>b. su_proposedBoundary (re_subjects r) = Some b \<or> su_activeBoundary (re_subjects r) = Some b \<longrightarrow>
      (\<exists>a \<in> set (activities r). certified a b)) \<and>
    (su_activeBoundary (re_subjects r) \<noteq> None \<longrightarrow> (\<exists>d. re_activeAdmission r = Some d \<and>
      (\<exists>a \<in> set (activities r). admitted_by a d))) \<and>
    (\<forall>m. su_materialCondition (re_subjects r) = Some m \<longrightarrow> su_candidate (re_subjects r) \<noteq> None \<and>
      (\<exists>a \<in> set (activities r). ac_materialCondition a = Some m)) \<and>
    (\<forall>s. su_seal (re_subjects r) = Some s \<longrightarrow> su_candidate (re_subjects r) \<noteq> None \<and>
      (\<exists>a \<in> set (activities r). ac_operation a = Evaluate \<and> ac_seal a = Some s)) \<and>
    (\<forall>x. su_evidence (re_subjects r) = Some x \<longrightarrow> (\<exists>rd. re_evidenceReadiness r = Some rd \<and>
      (\<exists>a \<in> set (activities r). evaluated a (su_seal (re_subjects r)) x rd)))"
  using journal_sources [OF assms] .

theorem current_subjects_have_sources_witness:
  "\<exists>a \<in> set (activities stranded_state). ac_materialCondition a = Some (retainedReference late_condition)"
proof -
  have "su_materialCondition (re_subjects stranded_state) = Some (retainedReference late_condition)"
    by (simp add: stranded_state_def journalled_def under_stopped_grant_def)
  with current_subjects_have_sources [OF stranded_journal] show ?thesis by blast
qed

section \<open>Obligations and what resolves them\<close>



text \<open>
  C17. A Material Condition frozen after the Evidence of an evaluation strands the Delivery:
  once the evaluation resumes at its finalization with Evidence retained, every continuation
  of the journal that reduces at all still has that evaluation incomplete, is not closed and
  offers nothing but recovery.
\<close>

theorem late_condition_strands_delivery:
  assumes "replay_events P f es = Inr r" and "x \<in> set (activities r)" and "stranded x"
    and "su_closure (re_subjects r) = None" and "reduceDeliveryEvents P (es @ fs) f = Inr s"
  shows "st_standing s \<noteq> Closed \<and> publicActivity x \<in> set (st_activities s) \<and> st_eligibleOperations s = [Recover]"
  using stranded_reduction [OF assms] .

theorem late_condition_strands_delivery_witness:
  "st_eligibleOperations (reducedState stranded_state) = [Recover] \<and> st_standing (reducedState stranded_state) \<noteq> Closed"
proof -
  have m: "stranded_activity \<in> set (activities stranded_state)" by (simp add: stranded_activities)
  have "reduceDeliveryEvents demo_platform (((prepared_events @ admitted_events @ integrated_events) @
      reviewed_events @ [stranded_event]) @ []) demo_resolver = Inr (reducedState stranded_state)"
    using stranded_journal by (simp add: reduceDeliveryEvents_def)
  from late_condition_strands_delivery [OF _ m stranded_scenario(1,2) this] stranded_journal
  show ?thesis by simp
qed


section \<open>Delegated work\<close>

text \<open>
  C29. The charges of delegated work are exact: in a replayed journal they are the sum of the
  charges of the reservations its activities opened under, no reservation is used twice, and
  they are within the ceilings of the current grant.
\<close>

theorem delegated_charges_are_exact:
  assumes "replay_events P f es = Inr r"
  shows "re_delegatedCharges r = total_charges (map ac_reservation (activities r)) \<and>
    distinct (reservation_ids (map ac_reservation (activities r))) \<and>
    (\<forall>d. re_delegation r = Some d \<longrightarrow> within (re_delegatedCharges r) (dp_ceilings (dl_payload d)))"
  using journal_accounted [OF assms]
  by (auto simp: accounted_def delegation_ok_def reservations_def acts_core)

theorem delegated_charges_are_exact_witness:
  "re_delegatedCharges accepted_state = total_charges (map ac_reservation (activities accepted_state)) \<and>
   within (re_delegatedCharges accepted_state) (dp_ceilings demo_grant)"
proof -
  have "re_delegation accepted_state = Some \<lparr>dl_reference = retainedReference grant_record,
      dl_payload = demo_grant, dl_stopped = True\<rparr>"
    by (simp add: accepted_state_def journalled_def under_stopped_grant_def)
  with delegated_charges_are_exact [OF accepted_journal] show ?thesis by fastforce
qed



text \<open>
  C31. Parsing a grant is stable: the value the parser freezes parses again, to itself.
\<close>

theorem grant_round_trip:
  assumes "parseWorkDelegationPayload P v = Inr g"
  shows "parseWorkDelegationPayload P (delegation_json P g) = Inr g"
  by (rule grant_again [OF assms])

theorem grant_round_trip_witness:
  "parseWorkDelegationPayload demo_platform (delegation_json demo_platform demo_grant) = Inr demo_grant"
  by (rule grant_round_trip [OF demo_grant_parsed])

text \<open>
  C32. Parsing a reservation is stable, and its charges are not the writer's to choose: the
  value the parser freezes parses to itself, and compiling the reservation's parts alone
  computes the very same charges.
\<close>

theorem reservation_round_trip:
  assumes "parseWorkDelegationReservation P v = Inr r"
  shows "parseWorkDelegationReservation P (reservation_json r) = Inr r \<and>
    compileWorkDelegationReservation (JObj (reservation_parts_members r)) = Inr r"
  using reservation_again [OF assms] reservation_compiles [OF assms] by simp

theorem reservation_round_trip_witness:
  "compileWorkDelegationReservation (JObj (reservation_parts_members demo_reservation)) = Inr demo_reservation"
  using reservation_round_trip [OF demo_reservation_parsed] by simp

section \<open>Evidence\<close>

text \<open>
  C3. Support is earned and nothing else. An assessment that returns is supported exactly when
  the review finds the mandate and every required baseline applicable, without excess, missing
  obligation, material or unknown overall uncertainty; every judgment accepts its proposition
  with visible limits or is a permitted non-applicability; every Check has a legal, finished
  Receipt where one is required; every artifact and description is in order; every obligation
  has its artifacts and propositions and some route to evidence; the review was independent;
  and there is no diagnostic.
\<close>

theorem supported_exactly_when_earned:
  assumes "assessFoundationEvidenceV1 P input = Inr a"
  shows "as_disposition a = ''supported'' \<longleftrightarrow> evidence_earned input"
  using supported_iff_earned [OF assms] .

theorem supported_exactly_when_earned_witness: "evidence_earned (demo_evidence ''accepted'' ''none'')"
proof -
  have "assessFoundationEvidenceV1 demo_platform (demo_evidence ''accepted'' ''none'') =
      Inr (demo_assessment ''accepted'' ''none'' ''none'' [])"
    by (rule demo_assessed) simp
  from supported_exactly_when_earned [OF this] show ?thesis by (simp add: demo_assessment_def)
qed

text \<open>
  C28. The order of the Check Receipts does not matter: Receipts of distinct identities lead to
  the very same assessment, ledgers and identities included, in whatever order they are given.
\<close>

theorem assessment_ignores_receipt_order:
  assumes "assessFoundationEvidenceV1 P input = Inr a" and "mset (in_checks input) = mset checks"
    and "distinct (map (\<lambda>c. tgt_id (rc_reference c)) (in_checks input))"
  shows "assessFoundationEvidenceV1 P (input\<lparr>in_checks := checks\<rparr>) = Inr a"
  using assessment_permutation [OF assms] .

theorem assessment_ignores_receipt_order_witness:
  "assessFoundationEvidenceV1 demo_platform (demo_evidence ''accepted'' ''none''\<lparr>in_checks := [demo_check, demo_lint]\<rparr>) =
    Inr (demo_assessment ''accepted'' ''none'' ''none'' [])"
proof (rule assessment_ignores_receipt_order)
  show "assessFoundationEvidenceV1 demo_platform (demo_evidence ''accepted'' ''none'') =
      Inr (demo_assessment ''accepted'' ''none'' ''none'' [])"
    by (rule demo_assessed) simp
qed (simp_all add: demo_evidence_def demo_lint_def demo_check_def demo_target_def)

text \<open>
  C35. The uncertainty of supported Evidence is the review's: unknown when some judgment is
  unknown (a permitted non-applicability may be), else bounded when the review or some judgment
  is bounded, else none. So Evidence may be supported with unknown uncertainty.
\<close>

theorem supported_uncertainty_level:
  assumes "assessFoundationEvidenceV1 P input = Inr a" and "as_disposition a = ''supported''"
  shows "un_level (as_uncertainty a) =
    (if \<exists>j \<in> set (rf_judgments (in_review input)). rj_uncertainty j = ''unknown'' then ''unknown''
     else if rf_overallUncertainty (in_review input) = ''bounded'' \<or>
       (\<exists>j \<in> set (rf_judgments (in_review input)). rj_uncertainty j = ''bounded'') then ''bounded''
     else ''none'')"
  using supported_uncertainty [OF assms] .

theorem supported_uncertainty_level_witness:
  "\<exists>a. assessFoundationEvidenceV1 demo_platform (demo_evidence ''not-applicable'' ''unknown'') = Inr a \<and>
    as_disposition a = ''supported'' \<and> un_level (as_uncertainty a) = ''unknown''"
proof -
  let ?a = "demo_assessment ''not-applicable'' ''unknown'' ''unknown'' [''j'']"
  have run: "assessFoundationEvidenceV1 demo_platform (demo_evidence ''not-applicable'' ''unknown'') = Inr ?a"
    by (rule demo_assessed) simp
  have supported: "as_disposition ?a = ''supported''" by (simp add: demo_assessment_def)
  have "\<exists>j \<in> set (rf_judgments (in_review (demo_evidence ''not-applicable'' ''unknown''))). rj_uncertainty j = ''unknown''"
    by (simp add: demo_evidence_def demo_review_def demo_judgment_def)
  with supported_uncertainty_level [OF run supported] run supported show ?thesis by simp
qed

text \<open>
  C36. The paths of description observations: on text without the line separators U+2028 and
  U+2029, a path is accepted exactly when it is not empty, no segment between slashes is empty
  (a last one may be), none is a parent, and it has no control character.
\<close>

theorem description_paths_are_relative:
  assumes "\<not> separators (map of_char path)"
  shows "path_pattern path \<longleftrightarrow> path \<noteq> [] \<and> [] \<notin> set (butlast (segments (map of_char path))) \<and>
    [46, 46] \<notin> set (segments (map of_char path)) \<and> printable (map of_char path)"
  using path_pattern_segments [OF assms] .

theorem description_paths_are_relative_witness: "path_pattern ''src/a.ts'' \<and> \<not> path_pattern ''src/../a.ts''"
  using description_paths_are_relative [of "''src/a.ts''"] description_paths_are_relative [of "''src/../a.ts''"]
  by (simp add: printable_def)



section \<open>JSON\<close>


text \<open>
  C19. What the strict reader returns is sound: a JSON value without duplicate members, with
  safe integers only, and within the caller's limits on depth, members, items and values.
\<close>

theorem strict_reader_is_sound:
  assumes "parseStrictJson t options = Inr v"
  shows "wf_json v \<and> safe_numbers v \<and> fits (json_limits_of options) 1 v \<and>
    int (json_nodes v) \<le> jl_maximumNodes (json_limits_of options)"
  using strict_value_is_sound [OF assms] by blast

theorem strict_reader_is_sound_witness:
  "fits (json_limits_of default_options) 1 (canonical_form demo_value) \<and> json_nodes (canonical_form demo_value) = 5"
  using strict_reader_is_sound [OF demo_read] by (simp add: demo_value_def)

text \<open>
  C34. The strict reader comes to an end and moves on: from every position it returns a value
  or an error (it is total), and each value it returns has been taken from the text, at least
  one character for each value in it.
\<close>

theorem strict_reader_progresses:
  assumes "read_value L depth t n = Inr (v, r, n')"
  shows "json_nodes v + length r \<le> length t"
  using read_progress(1) [OF assms] .

theorem strict_reader_progresses_witness: "json_nodes (JBool True) + length ''e'' \<le> length '' truee''"
proof -
  have "read_value (json_limits_of default_options) 1 '' truee'' 0 = Inr (JBool True, ''e'', 1)"
    by (simp add: read_value.simps [of _ "Suc 0" "'' truee''"] whitespace_def is_space_def literal_def default_limits)
  from strict_reader_progresses [OF this] show ?thesis .
qed

text \<open>
  C20. The strict reader reads canonical text back: under limits the value keeps, the canonical
  text of a value parses to the value with its members in canonical order.
\<close>

theorem strict_reads_canonical_text:
  assumes "wf_json v" and "canonical_numbers v"
    and "limits_ok (json_limits_of options)" and "fits (json_limits_of options) 1 v"
    and "int (json_nodes v) \<le> jl_maximumNodes (json_limits_of options)"
    and "int (length (canonicalize v)) \<le> jl_maximumBytes (json_limits_of options)"
  shows "parseStrictJson (canonicalize v) options = Inr (canonical_form v)"
  using strict_reads_canonical [OF assms] .

theorem strict_reads_canonical_text_witness:
  "parseStrictJson demo_text default_options = Inr (JObj [(''a'', JStr ''x''), (''b'', JArr [JInt 1, JNull])])"
  using strict_reads_canonical_text [of demo_value default_options] demo_value_facts by (simp add: demo_canonical demo_form)

text \<open>
  C21. Canonical text decides equality: two values, with safe integers and fractions in
  ECMAScript's own text, have the same canonical text exactly when they are the same value up
  to the order of members.
\<close>

theorem canonical_text_decides_equality:
  assumes "wf_json v" and "canonical_numbers v" and "wf_json w" and "canonical_numbers w"
  shows "canonicalize v = canonicalize w \<longleftrightarrow> json_same v w"
  using canonicalize_same [OF assms] .

theorem canonical_text_decides_equality_witness: "canonicalize demo_value = canonicalize (canonical_form demo_value)"
proof -
  have "wf_json (canonical_form demo_value)" "canonical_numbers (canonical_form demo_value)"
    by (simp_all add: demo_form safe_integer_def)
  with canonical_text_decides_equality [OF demo_value_facts(1,2)] demo_same show ?thesis by blast
qed

text \<open>
  C4. Knowledge validates exactly when it is well formed: for records whose revisions index
  without a report, the edges and the graph add no error exactly when the records are what the
  specification asks. No record repeats a relationship; every required relationship of a
  current record has a current target; every relationship is legal for the kinds of its source
  and of the record it is about; refinement, and verification between Checks, have no cycle
  among current records; every current Behavior or Assurance requires a current Check; and the
  graph is within its limits.
\<close>

theorem knowledge_graph_validates:
  assumes "buildRevisionIndexes records c = (c, ix)" and "\<forall>d \<in> set c1. dg_stage d \<noteq> ''relationships''"
    and "buildRelationshipEdges P records (ri_revisionsByIdentity ix) (ri_currentByIdentity ix) limits c1 = Inr (c2, edges)"
    and "validateRelationshipGraph edges (ri_currentByIdentity ix) limits c2 = (c3, g)"
  shows "error_free c3 \<longleftrightarrow> error_free c1 \<and> knowledge_graph_ok (limits_or_default limits) records"
proof -
  have "indexes_of records ix" using assms(1) by (auto simp: indexes_of_def)
  moreover have "limit_errors c1" using assms(2) by (auto simp: limit_errors_def)
  ultimately show ?thesis using assms(3,4) by (rule validation_is_specification)
qed

theorem knowledge_graph_validates_witness:
  "knowledge_graph_ok FOUNDATION_REPOSITORY_KNOWLEDGE_LIMITS (know_records True)"
  using knowledge_graph_validates [OF know_indexed _ know_edges know_validated]
  by (simp add: error_free_def limits_or_default_def)

text \<open>
  C22. The two traversals find the strongly connected components: each one is the class of the
  nodes that reach each other, without repetition and in code-point order, and every node of
  the graph is in one.
\<close>

theorem components_are_classes:
  assumes "jsmap_wf adjacency"
  shows "set ` set (stronglyConnectedComponents adjacency) = (\<lambda>v. {u. mutual adjacency u v}) ` graph_nodes adjacency \<and>
    distinct (stronglyConnectedComponents adjacency) \<and>
    (\<forall>c \<in> set (stronglyConnectedComponents adjacency). distinct c \<and> sorted_wrt code_point_le c)"
  using strong_components [OF assms] by blast

theorem components_are_classes_witness:
  "{{''a'', ''b''}, {''c''}} = (\<lambda>v. {u. mutual know_adjacency u v}) ` {''a'', ''b'', ''c''}"
proof -
  have "graph_nodes know_adjacency = {''a'', ''b'', ''c''}" by (auto simp: graph_nodes_def know_adjacency_def)
  with components_are_classes [OF know_adjacency_wf] show ?thesis by (simp add: know_components)
qed

text \<open>
  C24. The cyclic components are the classes of the nodes that lie on a cycle, a single node
  with an edge to itself included: a relation with no cycle has none.
\<close>

theorem cycles_are_found:
  assumes "jsmap_wf adjacency"
  shows "set ` set (cyclicComponents adjacency) = (\<lambda>v. {u. mutual adjacency u v}) ` {v. (edge adjacency)\<^sup>+\<^sup>+ v v}"
  using cyclic_classes [OF assms] .

theorem cycles_are_found_witness:
  "{{''a'', ''b''}} = (\<lambda>v. {u. mutual know_adjacency u v}) ` {v. (edge know_adjacency)\<^sup>+\<^sup>+ v v}"
  using cycles_are_found [OF know_adjacency_wf] by (simp add: know_cyclic)



text \<open>
  C27. In indexes without a report the current record of an identity is its one record of
  current status, and every later revision is a draft.
\<close>

theorem current_revision_governs:
  assumes "buildRevisionIndexes records c = (c, ix)"
  shows "(map_of (ri_currentByIdentity ix) k = Some r \<longleftrightarrow> r \<in> set records \<and> kr_id r = k \<and> kr_status r = CurrentStatus) \<and>
    (map_of (ri_currentByIdentity ix) k = Some r \<longrightarrow>
      (\<forall>q \<in> set records. kr_id q = k \<and> kr_revision q > kr_revision r \<longrightarrow> kr_status q = DraftStatus))"
  using current_governs [OF assms, of k r] by blast

theorem current_revision_governs_witness:
  "map_of (ri_currentByIdentity (know_indexes True)) ''check.c'' = Some know_new \<and> kr_status know_new = CurrentStatus"
proof -
  have "know_new \<in> set (know_records True) \<and> kr_id know_new = ''check.c'' \<and> kr_status know_new = CurrentStatus"
    by (simp add: know_defs)
  with current_revision_governs [OF know_indexed [of True], of "''check.c''" know_new] show ?thesis by blast
qed

text \<open>
  C25. Description coverage is exact: it adds no error exactly when every governed file is a
  regular blob, every governed file no exemption covers is selected once by the current
  Descriptions, and every file selector names a governed file. Its entries are the governed
  files that have one owner, each with that owner.
\<close>

theorem coverage_is_exact:
  assumes "buildDescriptionCoverage contract tree descriptions c = (c', coverage, exemptions)"
  shows "(error_free c' \<longleftrightarrow> error_free c \<and>
      (\<forall>e \<in> set tree. governedImplementationPath contract (te_path e) \<longrightarrow> regular_blob e) \<and>
      (\<forall>e. governed_file contract tree e \<and> \<not> exempt contract e \<longrightarrow> length (owners descriptions e) = 1) \<and>
      (\<forall>r \<in> set descriptions. \<forall>s \<in> set (description_selectors r). cs_mode s = FileMode \<longrightarrow>
        (\<exists>e. governed_file contract tree e \<and> te_path e = cs_path s))) \<and>
    set coverage = {covered_by e (hd (owners descriptions e)) | e.
      governed_file contract tree e \<and> \<not> exempt contract e \<and> length (owners descriptions e) = 1}"
  using description_coverage [OF assms] by blast

theorem coverage_is_exact_witness:
  "{know_covered} = {covered_by e (hd (owners [know_description] e)) | e.
     governed_file know_contract know_tree e \<and> \<not> exempt know_contract e \<and> length (owners [know_description] e) = 1}"
  using coverage_is_exact [OF know_coverage] by simp

text \<open>
  C26. The detection of conflicts is exact: it adds no error exactly when no current Behavior
  includes a fact that a current Behavior (itself or another) excludes and no current record
  declares a conflict, since a declaration is either malformed or a conflict; and then it
  returns none.
\<close>

theorem conflicts_are_exact:
  assumes "detectKnowledgeConflicts P records current c = Inr (c', results)"
  shows "(error_free c' \<longleftrightarrow> error_free c \<and>
      (\<forall>a \<in> set records. \<forall>b \<in> set records. set (behavior_included a) \<inter> set (behavior_excluded b) = {}) \<and>
      (\<forall>r \<in> set records. fm_conflicts (kr_frontMatter r) = [])) \<and>
    (error_free c' \<longrightarrow> results = [])"
  using knowledge_conflicts [OF assms] unfolding disjoint_behaviors_def by blast

theorem conflicts_are_exact_witness:
  "set (behavior_included (know_behaves ''b'' [''f''] [''g''])) \<inter> set (behavior_excluded (know_behaves ''a'' [''h''] [''g''])) = {}"
  using conflicts_are_exact [OF know_no_conflict] by (simp add: error_free_def)

end
